(* ===== verification/Prelude.thy ===== *)
theory Prelude
  imports Main "HOL-Library.Word"
begin

text \<open>
  Shared vocabulary of the development: the result type of fallible operations, the
  dynamic values the code carries in \<^verbatim>\<open>map[string]any\<close>, the application errors
  of \<^verbatim>\<open>internal/shared_kernel/errors/app_error.go\<close>, instants and durations, and the
  generic list and map lemmas the components use.
\<close>

named_theorems err_simps "error constructors, unfolded"
named_theorems laws "characteristic equations of the components' operations"

subsection \<open>Dynamic values and association maps\<close>

text \<open>
  A Go value of type \<^verbatim>\<open>any\<close>, as far as the code builds or inspects one. A
  \<^verbatim>\<open>float64\<close> is a mantissa and a binary exponent, a \<^verbatim>\<open>json.Number\<close> is its text,
  and a JSON string that holds an RFC 3339 timestamp is kept as the instant it denotes
  (\<open>GTime\<close>); every other string is \<open>GStr\<close>.
\<close>

datatype gval =
    GNil
  | GBool bool
  | GStr string
  | GTime int
  | GNum string
  | GFloat int int
  | GInt int
  | GArr "gval list"
  | GMap "(string \<times> gval) list"

type_synonym details = "(string \<times> gval) list"

subsection \<open>Application errors\<close>

datatype err_type = TypeValidation | TypeNotFound | TypeConflict | TypeInternal

record app_error =
  ErrType :: err_type
  Code :: string
  Message :: string
  Details :: details

type_synonym 'a res = "app_error + 'a"

definition NewInternal :: "string \<Rightarrow> string \<Rightarrow> details \<Rightarrow> app_error" where
  "NewInternal code message ds =
     \<lparr>ErrType = TypeInternal, Code = code, Message = message, Details = ds\<rparr>"

definition NewValidation :: "string \<Rightarrow> string \<Rightarrow> details \<Rightarrow> app_error" where
  "NewValidation code message ds =
     \<lparr>ErrType = TypeValidation, Code = code, Message = message, Details = ds\<rparr>"

definition NewNotFound :: "string \<Rightarrow> string \<Rightarrow> details \<Rightarrow> app_error" where
  "NewNotFound code message ds =
     \<lparr>ErrType = TypeNotFound, Code = code, Message = message, Details = ds\<rparr>"

definition NewConflict :: "string \<Rightarrow> string \<Rightarrow> details \<Rightarrow> app_error" where
  "NewConflict code message ds =
     \<lparr>ErrType = TypeConflict, Code = code, Message = message, Details = ds\<rparr>"

lemmas new_error_defs [err_simps] =
  NewInternal_def NewValidation_def NewNotFound_def NewConflict_def

definition is_ok :: "'e + 'a \<Rightarrow> bool" where
  "is_ok r = (case r of Inl _ \<Rightarrow> False | Inr _ \<Rightarrow> True)"

lemma is_ok_simps [simp]: "is_ok (Inr x)" "\<not> is_ok (Inl e)"
  by (simp_all add: is_ok_def)

lemma is_ok_iff: "is_ok r \<longleftrightarrow> (\<exists>x. r = Inr x)"
  by (cases r) simp_all

subsection \<open>Instants and durations\<close>

text \<open>
  A \<^verbatim>\<open>time.Time\<close> is the number of nanoseconds since the Unix epoch, always in UTC; the
  zero value of the type is the first instant of year 1. A \<^verbatim>\<open>time.Duration\<close> is a number of
  nanoseconds; where its 64-bit arithmetic can overflow a component uses words instead.
\<close>

type_synonym time = int
type_synonym duration = int

definition second :: duration where "second = 1000000000"
definition millisecond :: duration where "millisecond = 1000000"
definition hour :: duration where "hour = 3600 * second"

definition zero_time :: time where "zero_time = - 62135596800 * second"

definition IsZero :: "time \<Rightarrow> bool" where
  "IsZero t = (t = zero_time)"

subsection \<open>Go integer division and maps from association lists\<close>

text \<open>Go's \<^verbatim>\<open>/\<close> and \<^verbatim>\<open>%\<close> on signed integers truncate towards zero.\<close>

definition quot :: "int \<Rightarrow> int \<Rightarrow> int" where
  "quot a b = sgn a * sgn b * (\<bar>a\<bar> div \<bar>b\<bar>)"

lemma quot_nonneg: "0 \<le> a \<Longrightarrow> 0 < b \<Longrightarrow> quot a b = a div b"
  by (cases "a = 0") (simp_all add: quot_def)

lemma quot_nonpos_le: "a \<le> 0 \<Longrightarrow> 0 < b \<Longrightarrow> quot a b \<le> 0"
  by (cases "a = 0") (simp_all add: quot_def pos_imp_zdiv_nonneg_iff)

text \<open>The signed 64-bit integer an integer wraps around to.\<close>

definition wrap64 :: "int \<Rightarrow> int" where
  "wrap64 i = (i + 2 ^ 63) mod 2 ^ 64 - 2 ^ 63"

fun lookup :: "(string \<times> 'v) list \<Rightarrow> string \<Rightarrow> 'v option" where
  "lookup [] k = None"
| "lookup ((k', v) # m) k = (if k' = k then Some v else lookup m k)"

lemma lookup_map_of: "lookup m k = map_of m k"
  by (induction m k rule: lookup.induct) auto

lemma lookup_append: "lookup (m @ n) k = (case lookup m k of Some v \<Rightarrow> Some v | None \<Rightarrow> lookup n k)"
  by (induction m k rule: lookup.induct) auto

text \<open>Replacing an entry of an association list in place, or adding it at the end.\<close>

fun assoc_put :: "string \<Rightarrow> 'v \<Rightarrow> (string \<times> 'v) list \<Rightarrow> (string \<times> 'v) list" where
  "assoc_put k v [] = [(k, v)]"
| "assoc_put k v ((k', v') # m) = (if k' = k then (k, v) # m else (k', v') # assoc_put k v m)"

lemma lookup_assoc_put [simp]:
  "lookup (assoc_put k v m) k' = (if k' = k then Some v else lookup m k')"
  by (induction k v m rule: assoc_put.induct) auto

lemma keys_assoc_put:
  "set (map fst (assoc_put k v m)) = insert k (set (map fst m))"
  by (induction k v m rule: assoc_put.induct) auto

subsection \<open>Lists\<close>

lemma filter_map_count:
  assumes "\<And>x. x \<in> set xs \<Longrightarrow> P (f x) \<longleftrightarrow> Q x"
  shows "length (filter P (map f xs)) = length (filter Q xs)"
  using assms by (induction xs) auto

lemma length_filter_partition:
  "length (filter P xs) + length (filter (\<lambda>x. \<not> P x) xs) = length xs"
  by (induction xs) auto

lemma option_None_or_Some: "P None \<Longrightarrow> (\<And>x. P (Some x)) \<Longrightarrow> P opt"
  by (cases opt) auto

end
