(* ===== verification/GoStrings.thy ===== *)
theory GoStrings
  imports Prelude "HOL-Library.Sublist"
begin

text \<open>
  The functions of Go's \<^verbatim>\<open>strings\<close> package the code uses, on strings as lists of bytes
  (UTF-8). \<^verbatim>\<open>TrimSpace\<close> removes exactly the white-space characters of Unicode, written as
  their UTF-8 byte sequences. Case mapping acts on the ASCII letters and leaves every other
  byte as it is, which is what \<^verbatim>\<open>ToLower\<close> and \<^verbatim>\<open>ToUpper\<close> do on ASCII text; the callers reject
  what is left of other text. Outside the model are the four characters beyond ASCII whose
  mapping lands in ASCII: U+0130 and U+212A lower to i and k, U+0131 and U+017F upper to I and S.
\<close>

type_synonym byte = "8 word"

subsection \<open>Bytes of a string\<close>

definition byte_of :: "char \<Rightarrow> nat" where
  "byte_of c = of_char c"

definition is_digit :: "char \<Rightarrow> bool" where
  "is_digit c = (48 \<le> byte_of c \<and> byte_of c \<le> 57)"

definition is_lower :: "char \<Rightarrow> bool" where
  "is_lower c = (97 \<le> byte_of c \<and> byte_of c \<le> 122)"

definition is_upper :: "char \<Rightarrow> bool" where
  "is_upper c = (65 \<le> byte_of c \<and> byte_of c \<le> 90)"

lemma byte_of_less [simp]: "byte_of c < 256"
  using nat_of_char_less_256 [of c] by (simp add: byte_of_def)

lemma char_of_byte_of [simp]: "char_of (byte_of c) = c"
  by (simp add: byte_of_def)

lemma byte_of_char_of: "n < 256 \<Longrightarrow> byte_of (char_of n) = n"
  by (simp add: byte_of_def)

lemma byte_of_eq_iff [simp]: "byte_of c = byte_of d \<longleftrightarrow> c = d"
  by (metis char_of_byte_of)

subsection \<open>ToLower and ToUpper\<close>

definition lower_char :: "char \<Rightarrow> char" where
  "lower_char c = (if is_upper c then char_of (byte_of c + 32) else c)"

definition upper_char :: "char \<Rightarrow> char" where
  "upper_char c = (if is_lower c then char_of (byte_of c - 32) else c)"

definition ToLower :: "string \<Rightarrow> string" where
  "ToLower s = map lower_char s"

definition ToUpper :: "string \<Rightarrow> string" where
  "ToUpper s = map upper_char s"

definition EqualFold :: "string \<Rightarrow> string \<Rightarrow> bool" where
  "EqualFold s t = (ToLower s = ToLower t)"

lemma byte_of_lower_char:
  "byte_of (lower_char c) = (if is_upper c then byte_of c + 32 else byte_of c)"
  by (auto simp: lower_char_def is_upper_def byte_of_char_of)

lemma byte_of_upper_char:
  "byte_of (upper_char c) = (if is_lower c then byte_of c - 32 else byte_of c)"
  by (auto simp: upper_char_def is_lower_def byte_of_char_of)

lemma not_upper_lower_char [simp]: "\<not> is_upper (lower_char c)"
  by (auto simp: is_upper_def byte_of_lower_char split: if_splits)

lemma not_lower_upper_char [simp]: "\<not> is_lower (upper_char c)"
  by (auto simp: is_lower_def byte_of_upper_char split: if_splits)

lemma lower_char_id: "\<not> is_upper c \<Longrightarrow> lower_char c = c"
  by (simp add: lower_char_def)

lemma upper_char_id: "\<not> is_lower c \<Longrightarrow> upper_char c = c"
  by (simp add: upper_char_def)

lemma lower_lower_char [simp]: "lower_char (lower_char c) = lower_char c"
  by (simp add: lower_char_id)

lemma upper_upper_char [simp]: "upper_char (upper_char c) = upper_char c"
  by (simp add: upper_char_id)

lemma lower_upper_char [simp]: "lower_char (upper_char c) = lower_char c"
  unfolding byte_of_eq_iff [symmetric]
  by (auto simp: byte_of_lower_char byte_of_upper_char is_upper_def is_lower_def)

lemma upper_lower_char [simp]: "upper_char (lower_char c) = upper_char c"
  unfolding byte_of_eq_iff [symmetric]
  by (auto simp: byte_of_lower_char byte_of_upper_char is_upper_def is_lower_def)

lemma ToLower_simps [simp]:
  "ToLower [] = []" "ToLower (c # s) = lower_char c # ToLower s"
  "ToLower (s @ t) = ToLower s @ ToLower t" "length (ToLower s) = length s"
  "ToLower (ToLower s) = ToLower s" "ToLower s = [] \<longleftrightarrow> s = []"
  "ToLower (ToUpper s) = ToLower s"
  by (simp_all add: ToLower_def ToUpper_def)

lemma ToUpper_simps [simp]:
  "ToUpper [] = []" "ToUpper (c # s) = upper_char c # ToUpper s"
  "ToUpper (s @ t) = ToUpper s @ ToUpper t" "length (ToUpper s) = length s"
  "ToUpper (ToUpper s) = ToUpper s" "ToUpper s = [] \<longleftrightarrow> s = []"
  "ToUpper (ToLower s) = ToUpper s"
  by (simp_all add: ToUpper_def ToLower_def)

lemma ToLower_id: "\<forall>c \<in> set s. \<not> is_upper c \<Longrightarrow> ToLower s = s"
  by (simp add: ToLower_def lower_char_id map_idI)

lemma ToUpper_id: "\<forall>c \<in> set s. \<not> is_lower c \<Longrightarrow> ToUpper s = s"
  by (simp add: ToUpper_def upper_char_id map_idI)

lemma EqualFold_refl [simp]: "EqualFold s s"
  by (simp add: EqualFold_def)

subsection \<open>TrimSpace\<close>

text \<open>
  The white-space characters, by the number of bytes of their encoding: the six ASCII ones;
  U+0085 and U+00A0; U+1680, U+2000 to U+200A, U+2028, U+2029, U+202F, U+205F and U+3000.
\<close>

definition space1 :: "char \<Rightarrow> bool" where
  "space1 c = (9 \<le> byte_of c \<and> byte_of c \<le> 13 \<or> byte_of c = 32)"

definition space2 :: "char \<Rightarrow> char \<Rightarrow> bool" where
  "space2 c d = (byte_of c = 0xC2 \<and> (byte_of d = 0x85 \<or> byte_of d = 0xA0))"

definition space3 :: "char \<Rightarrow> char \<Rightarrow> char \<Rightarrow> bool" where
  "space3 c d e =
     (byte_of c = 0xE1 \<and> byte_of d = 0x9A \<and> byte_of e = 0x80 \<or>
      byte_of c = 0xE2 \<and> byte_of d = 0x80 \<and>
        (0x80 \<le> byte_of e \<and> byte_of e \<le> 0x8A \<or> byte_of e = 0xA8 \<or> byte_of e = 0xA9 \<or>
         byte_of e = 0xAF) \<or>
      byte_of c = 0xE2 \<and> byte_of d = 0x81 \<and> byte_of e = 0x9F \<or>
      byte_of c = 0xE3 \<and> byte_of d = 0x80 \<and> byte_of e = 0x80)"

fun trim_with :: "(char \<Rightarrow> char \<Rightarrow> bool) \<Rightarrow> (char \<Rightarrow> char \<Rightarrow> char \<Rightarrow> bool) \<Rightarrow> string \<Rightarrow> string" where
  "trim_with p q (c # d # e # s) =
     (if space1 c then trim_with p q (d # e # s)
      else if p c d then trim_with p q (e # s)
      else if q c d e then trim_with p q s
      else c # d # e # s)"
| "trim_with p q [c, d] =
     (if space1 c then trim_with p q [d] else if p c d then [] else [c, d])"
| "trim_with p q [c] = (if space1 c then [] else [c])"
| "trim_with p q [] = []"

definition TrimLeftSpace :: "string \<Rightarrow> string" where
  "TrimLeftSpace s = trim_with space2 space3 s"

definition TrimRightSpace :: "string \<Rightarrow> string" where
  "TrimRightSpace s = rev (trim_with (\<lambda>d c. space2 c d) (\<lambda>e d c. space3 c d e) (rev s))"

definition TrimSpace :: "string \<Rightarrow> string" where
  "TrimSpace s = TrimRightSpace (TrimLeftSpace s)"

text \<open>A string that starts with no white space is one the scan leaves alone.\<close>

lemma suffix_trim_with: "suffix (trim_with p q s) s"
  by (induction p q s rule: trim_with.induct) (auto intro: suffix_ConsI)

lemma trim_with_suffix: "\<exists>pre. s = pre @ trim_with p q s"
  using suffix_trim_with by (auto simp: suffix_def)

fun head_free :: "(char \<Rightarrow> char \<Rightarrow> bool) \<Rightarrow> (char \<Rightarrow> char \<Rightarrow> char \<Rightarrow> bool) \<Rightarrow> string \<Rightarrow> bool" where
  "head_free p q [] = True"
| "head_free p q [c] = (\<not> space1 c)"
| "head_free p q [c, d] = (\<not> space1 c \<and> \<not> p c d)"
| "head_free p q (c # d # e # s) = (\<not> space1 c \<and> \<not> p c d \<and> \<not> q c d e)"

lemma trim_with_head_free: "head_free p q (trim_with p q s)"
  by (induction p q s rule: trim_with.induct) auto

lemma head_free_trim_with: "head_free p q s \<Longrightarrow> trim_with p q s = s"
  by (induction p q s rule: head_free.induct) auto

lemma trim_with_idem [simp]: "trim_with p q (trim_with p q s) = trim_with p q s"
  by (simp add: head_free_trim_with trim_with_head_free)

lemma head_free_Cons2: "head_free p q (c # d # s) \<Longrightarrow> \<not> space1 c \<and> \<not> p c d"
  by (cases s) simp_all

lemma head_free_Cons1: "head_free p q (c # s) \<Longrightarrow> \<not> space1 c"
  by (cases s) (simp_all add: head_free_Cons2)

lemma head_free_append: "head_free p q (s @ t) \<Longrightarrow> head_free p q s"
  by (cases "(p, q, s)" rule: head_free.cases) (simp_all add: head_free_Cons1 head_free_Cons2)

lemma TrimRightSpace_prefix: "\<exists>suf. s = TrimRightSpace s @ suf"
proof -
  obtain pre where
    "rev s = pre @ trim_with (\<lambda>d c. space2 c d) (\<lambda>e d c. space3 c d e) (rev s)"
    using trim_with_suffix by blast
  then have "rev (rev s) = TrimRightSpace s @ rev pre"
    unfolding TrimRightSpace_def by (metis rev_append)
  then show ?thesis by auto
qed

lemma TrimRightSpace_idem [simp]: "TrimRightSpace (TrimRightSpace s) = TrimRightSpace s"
  by (simp add: TrimRightSpace_def)

lemma TrimSpace_left_fixed: "TrimLeftSpace (TrimSpace s) = TrimSpace s"
proof -
  obtain suf where suf: "TrimLeftSpace s = TrimSpace s @ suf"
    using TrimRightSpace_prefix [of "TrimLeftSpace s"] by (auto simp: TrimSpace_def)
  have "head_free space2 space3 (TrimLeftSpace s)"
    by (simp add: TrimLeftSpace_def trim_with_head_free)
  then have "head_free space2 space3 (TrimSpace s)"
    unfolding suf by (rule head_free_append)
  then show ?thesis
    by (simp add: TrimLeftSpace_def head_free_trim_with)
qed

lemma TrimSpace_idem [simp]: "TrimSpace (TrimSpace s) = TrimSpace s"
  by (metis TrimSpace_def TrimSpace_left_fixed TrimRightSpace_idem)

lemma TrimSpace_Nil [simp]: "TrimSpace [] = []"
  by (simp add: TrimSpace_def TrimLeftSpace_def TrimRightSpace_def)

lemma TrimSpace_infix: "\<exists>pre suf. s = pre @ TrimSpace s @ suf"
proof -
  obtain pre where "s = pre @ TrimLeftSpace s"
    unfolding TrimLeftSpace_def using trim_with_suffix by blast
  moreover obtain suf where "TrimLeftSpace s = TrimSpace s @ suf"
    using TrimRightSpace_prefix [of "TrimLeftSpace s"] by (auto simp: TrimSpace_def)
  ultimately have "s = pre @ TrimSpace s @ suf" by simp
  then show ?thesis by blast
qed

lemma set_TrimSpace: "set (TrimSpace s) \<subseteq> set s"
proof -
  obtain pre suf where "s = pre @ TrimSpace s @ suf" using TrimSpace_infix by blast
  then have "set s = set (pre @ TrimSpace s @ suf)" by (rule arg_cong)
  then show ?thesis by auto
qed

lemma length_TrimSpace: "length (TrimSpace s) \<le> length s"
proof -
  obtain pre suf where "s = pre @ TrimSpace s @ suf" using TrimSpace_infix by blast
  then have "length s = length (pre @ TrimSpace s @ suf)" by (rule arg_cong)
  then show ?thesis by simp
qed

text \<open>Visible ASCII text is never trimmed.\<close>

definition visible :: "char \<Rightarrow> bool" where
  "visible c = (32 < byte_of c \<and> byte_of c < 127)"

lemma visible_no_space:
  "visible c \<Longrightarrow> \<not> space1 c" "visible c \<Longrightarrow> \<not> space2 c d" "visible d \<Longrightarrow> \<not> space2 c d"
  "visible c \<Longrightarrow> \<not> space3 c d e" "visible e \<Longrightarrow> \<not> space3 c d e"
  by (auto simp: visible_def space1_def space2_def space3_def)

lemma trim_with_visible:
  assumes "\<And>c d. visible c \<Longrightarrow> \<not> p c d" and "\<And>c d e. visible c \<Longrightarrow> \<not> q c d e"
    and "\<forall>c \<in> set s. visible c"
  shows "trim_with p q s = s"
  using assms(3) by (cases "(p, q, s)" rule: trim_with.cases) (auto simp: assms(1,2) visible_no_space)

lemma TrimSpace_visible: "\<forall>c \<in> set s. visible c \<Longrightarrow> TrimSpace s = s"
  unfolding TrimSpace_def TrimRightSpace_def TrimLeftSpace_def
  by (simp add: trim_with_visible visible_no_space)

text \<open>Case mapping touches no byte of a white-space character.\<close>

lemma space_lower_char:
  "space1 (lower_char c) = space1 c"
  "space2 (lower_char c) (lower_char d) = space2 c d"
  "space3 (lower_char c) (lower_char d) (lower_char e) = space3 c d e"
  unfolding space1_def space2_def space3_def byte_of_lower_char is_upper_def by auto

lemma space_upper_char:
  "space1 (upper_char c) = space1 c"
  "space2 (upper_char c) (upper_char d) = space2 c d"
  "space3 (upper_char c) (upper_char d) (upper_char e) = space3 c d e"
  unfolding space1_def space2_def space3_def byte_of_upper_char is_lower_def by auto

lemma trim_with_map:
  assumes "\<And>c. space1 (f c) = space1 c" and "\<And>c d. p (f c) (f d) = p c d"
    and "\<And>c d e. q (f c) (f d) (f e) = q c d e"
  shows "trim_with p q (map f s) = map f (trim_with p q s)"
  using assms by (induction p q s rule: trim_with.induct) simp_all

lemma TrimSpace_map:
  assumes "\<And>c. space1 (f c) = space1 c" and "\<And>c d. space2 (f c) (f d) = space2 c d"
    and "\<And>c d e. space3 (f c) (f d) (f e) = space3 c d e"
  shows "TrimSpace (map f s) = map f (TrimSpace s)"
  unfolding TrimSpace_def TrimRightSpace_def TrimLeftSpace_def
  by (simp add: trim_with_map assms rev_map)

lemma TrimSpace_ToLower [simp]: "TrimSpace (ToLower s) = ToLower (TrimSpace s)"
  by (simp add: ToLower_def TrimSpace_map space_lower_char)

lemma TrimSpace_ToUpper [simp]: "TrimSpace (ToUpper s) = ToUpper (TrimSpace s)"
  by (simp add: ToUpper_def TrimSpace_map space_upper_char)

subsection \<open>Prefixes, suffixes and searches\<close>

definition HasPrefix :: "string \<Rightarrow> string \<Rightarrow> bool" where
  "HasPrefix s p = (take (length p) s = p)"

definition TrimPrefix :: "string \<Rightarrow> string \<Rightarrow> string" where
  "TrimPrefix s p = (if HasPrefix s p then drop (length p) s else s)"

definition HasSuffix :: "string \<Rightarrow> string \<Rightarrow> bool" where
  "HasSuffix s p = (length p \<le> length s \<and> drop (length s - length p) s = p)"

definition TrimSuffix :: "string \<Rightarrow> string \<Rightarrow> string" where
  "TrimSuffix s p = (if HasSuffix s p then take (length s - length p) s else s)"

fun Contains :: "string \<Rightarrow> string \<Rightarrow> bool" where
  "Contains [] t = (t = [])"
| "Contains (c # s) t = (HasPrefix (c # s) t \<or> Contains s t)"

definition ContainsAny :: "string \<Rightarrow> string \<Rightarrow> bool" where
  "ContainsAny s cs = list_ex (\<lambda>c. c \<in> set cs) s"

text \<open>\<^verbatim>\<open>TrimRight\<close> and \<^verbatim>\<open>TrimLeft\<close> with a cut set.\<close>

definition TrimRightSet :: "string \<Rightarrow> string \<Rightarrow> string" where
  "TrimRightSet s cs = rev (dropWhile (\<lambda>c. c \<in> set cs) (rev s))"

definition TrimLeftSet :: "string \<Rightarrow> string \<Rightarrow> string" where
  "TrimLeftSet s cs = dropWhile (\<lambda>c. c \<in> set cs) s"

lemma HasPrefix_append [simp]: "HasPrefix (p @ s) p"
  by (simp add: HasPrefix_def)

lemma HasPrefix_iff: "HasPrefix s p \<longleftrightarrow> (\<exists>t. s = p @ t)"
  by (metis HasPrefix_def HasPrefix_append append_take_drop_id)

lemma TrimPrefix_append [simp]: "TrimPrefix (p @ s) p = s"
  by (simp add: TrimPrefix_def)

lemma TrimPrefix_no: "\<not> HasPrefix s p \<Longrightarrow> TrimPrefix s p = s"
  by (simp add: TrimPrefix_def)

lemma HasPrefix_split: "HasPrefix s p \<Longrightarrow> s = p @ TrimPrefix s p"
  by (auto simp: HasPrefix_iff)

lemma HasSuffix_append [simp]: "HasSuffix (s @ p) p"
  by (simp add: HasSuffix_def)

lemma HasSuffix_iff: "HasSuffix s p \<longleftrightarrow> (\<exists>t. s = t @ p)"
proof
  assume "HasSuffix s p"
  then have "s = take (length s - length p) s @ p"
    unfolding HasSuffix_def by (metis append_take_drop_id)
  then show "\<exists>t. s = t @ p" ..
qed auto

lemma TrimSuffix_append [simp]: "TrimSuffix (s @ p) p = s"
  by (simp add: TrimSuffix_def)

lemma TrimSuffix_no: "\<not> HasSuffix s p \<Longrightarrow> TrimSuffix s p = s"
  by (simp add: TrimSuffix_def)

lemma set_TrimSuffix: "set (TrimSuffix s p) \<subseteq> set s"
  by (simp add: TrimSuffix_def set_take_subset)

lemma Contains_iff: "Contains s t \<longleftrightarrow> (\<exists>u v. s = u @ t @ v)"
proof (induction s)
  case (Cons c s)
  show ?case
  proof
    assume "Contains (c # s) t"
    with Cons show "\<exists>u v. c # s = u @ t @ v"
      by (auto simp: HasPrefix_iff) (metis append_Cons append_Nil)+
  next
    assume "\<exists>u v. c # s = u @ t @ v"
    then obtain u v where uv: "c # s = u @ t @ v" by blast
    show "Contains (c # s) t"
    proof (cases u)
      case Nil
      with uv have "HasPrefix (c # s) t" by (simp add: HasPrefix_iff)
      then show ?thesis by simp
    next
      case (Cons x xs)
      with uv \<open>Contains s t \<longleftrightarrow> (\<exists>u v. s = u @ t @ v)\<close> show ?thesis by auto
    qed
  qed
qed simp

lemma Contains_single: "Contains s [c] \<longleftrightarrow> c \<in> set s"
  by (simp add: Contains_iff) (metis in_set_conv_decomp append_Cons append_Nil)

subsection \<open>Decimal numerals: strconv\<close>

definition digit_char :: "nat \<Rightarrow> char" where
  "digit_char d = char_of (48 + d)"

definition digit_val :: "char \<Rightarrow> nat" where
  "digit_val c = byte_of c - 48"

fun nat_digits :: "nat \<Rightarrow> string" where
  "nat_digits n = (if n < 10 then [digit_char n] else nat_digits (n div 10) @ [digit_char (n mod 10)])"

declare nat_digits.simps [simp del]

text \<open>\<^verbatim>\<open>strconv.Itoa\<close>, \<^verbatim>\<open>FormatInt(x, 10)\<close> and \<^verbatim>\<open>big.Int.String\<close>.\<close>

definition FormatInt :: "int \<Rightarrow> string" where
  "FormatInt i = (if i < 0 then CHR ''-'' # nat_digits (nat (- i)) else nat_digits (nat i))"

definition digits_val :: "string \<Rightarrow> nat" where
  "digits_val s = foldl (\<lambda>n c. 10 * n + digit_val c) 0 s"

definition all_digits :: "string \<Rightarrow> bool" where
  "all_digits s = (s \<noteq> [] \<and> list_all is_digit s)"

text \<open>
  The integer a signed decimal numeral denotes: \<^verbatim>\<open>big.Int.SetString(s, 10)\<close>. An optional
  sign is followed by at least one digit and nothing else.
\<close>

definition parse_big :: "string \<Rightarrow> int option" where
  "parse_big s =
     (case s of
        [] \<Rightarrow> None
      | c # r \<Rightarrow>
          if c = CHR ''-'' then (if all_digits r then Some (- int (digits_val r)) else None)
          else if c = CHR ''+'' then (if all_digits r then Some (int (digits_val r)) else None)
          else if all_digits s then Some (int (digits_val s)) else None)"

definition max_int64 :: int where "max_int64 = 9223372036854775807"
definition min_int64 :: int where "min_int64 = - 9223372036854775808"

definition is_int64 :: "int \<Rightarrow> bool" where
  "is_int64 i = (min_int64 \<le> i \<and> i \<le> max_int64)"

text \<open>
  \<^verbatim>\<open>strconv.Atoi\<close> and \<^verbatim>\<open>strconv.ParseInt(s, 10, 64)\<close>: the value, and whether an error
  accompanies it. A numeral out of range gives the nearest representable value together with
  the error, a malformed one gives 0.
\<close>

definition ParseInt :: "string \<Rightarrow> int \<times> bool" where
  "ParseInt s =
     (case parse_big s of
        None \<Rightarrow> (0, True)
      | Some i \<Rightarrow>
          if i > max_int64 then (max_int64, True)
          else if i < min_int64 then (min_int64, True)
          else (i, False))"

lemma is_digit_digit_char [simp]: "d < 10 \<Longrightarrow> is_digit (digit_char d)"
  by (simp add: is_digit_def digit_char_def byte_of_char_of)

lemma digit_val_digit_char [simp]: "d < 10 \<Longrightarrow> digit_val (digit_char d) = d"
  by (simp add: digit_val_def digit_char_def byte_of_char_of)

lemma nat_digits_all_digits: "all_digits (nat_digits n)"
proof (induction n rule: nat_digits.induct)
  case (1 n)
  then show ?case
    by (subst nat_digits.simps) (auto simp: all_digits_def)
qed

lemma digits_val_nat_digits [simp]: "digits_val (nat_digits n) = n"
proof (induction n rule: nat_digits.induct)
  case (1 n)
  then show ?case
    by (subst nat_digits.simps) (auto simp: digits_val_def)
qed

lemma is_digit_visible: "is_digit c \<Longrightarrow> visible c"
  by (simp add: is_digit_def visible_def)

lemma sign_not_digit [simp]: "\<not> is_digit (CHR ''-'')" "\<not> is_digit (CHR ''+'')"
  by (simp_all add: is_digit_def byte_of_def)

lemma parse_big_digits: "all_digits s \<Longrightarrow> parse_big s = Some (int (digits_val s))"
  by (cases s) (auto simp: parse_big_def all_digits_def)

lemma parse_big_FormatInt [simp]: "parse_big (FormatInt i) = Some i"
proof (cases "i < 0")
  case True
  then show ?thesis
    by (simp add: FormatInt_def parse_big_def nat_digits_all_digits)
next
  case False
  then show ?thesis
    by (simp add: FormatInt_def parse_big_digits nat_digits_all_digits)
qed

lemma ParseInt_FormatInt: "is_int64 i \<Longrightarrow> ParseInt (FormatInt i) = (i, False)"
  by (simp add: ParseInt_def is_int64_def)

lemma ParseInt_range: "is_int64 (fst (ParseInt s))"
  by (auto simp: ParseInt_def is_int64_def max_int64_def min_int64_def split: option.splits)

lemma all_digits_visible: "all_digits s \<Longrightarrow> c \<in> set s \<Longrightarrow> visible c"
  by (auto simp: all_digits_def list_all_iff is_digit_visible)

lemma visible_minus [simp]: "visible (CHR ''-'')"
  by (simp add: visible_def byte_of_def)

lemma FormatInt_visible: "\<forall>c \<in> set (FormatInt i). visible c"
  by (auto simp: FormatInt_def intro: all_digits_visible nat_digits_all_digits)

lemma FormatInt_nonempty [simp]: "FormatInt i \<noteq> []"
  using nat_digits_all_digits by (auto simp: FormatInt_def all_digits_def)

lemma FormatInt_inj: "FormatInt i = FormatInt j \<Longrightarrow> i = j"
  by (metis option.inject parse_big_FormatInt)

lemma TrimSpace_FormatInt [simp]: "TrimSpace (FormatInt i) = FormatInt i"
  by (rule TrimSpace_visible [OF FormatInt_visible])

subsection \<open>Durations as text\<close>

text \<open>
  \<^verbatim>\<open>Duration.String\<close>: the fraction is printed without trailing zeros, a duration below
  one second in the largest unit that keeps the integral part positive.
\<close>

definition strip_zeros :: "string \<Rightarrow> string" where
  "strip_zeros s = rev (dropWhile (\<lambda>c. c = CHR ''0'') (rev s))"

definition zero_pad :: "nat \<Rightarrow> string \<Rightarrow> string" where
  "zero_pad w s = replicate (w - length s) (CHR ''0'') @ s"

definition frac_text :: "nat \<Rightarrow> nat \<Rightarrow> string" where
  "frac_text v prec =
     (let f = v mod 10 ^ prec
      in if f = 0 then [] else CHR ''.'' # strip_zeros (zero_pad prec (nat_digits f)))"

definition DurationString :: "duration \<Rightarrow> string" where
  "DurationString d =
     (let u = nat \<bar>d\<bar>; sign = (if d < 0 then ''-'' else [])
      in if u = 0 then ''0s''
         else if u < 1000 then sign @ nat_digits u @ ''ns''
         else if u < 1000000 then
           sign @ nat_digits (u div 1000) @ frac_text u 3 @ [CHR 0xC2, CHR 0xB5] @ ''s''
         else if u < 1000000000 then
           sign @ nat_digits (u div 1000000) @ frac_text u 6 @ ''ms''
         else
           (let v = u div 1000000000; m = v div 60; h = m div 60
            in sign @ (if 0 < h then nat_digits h @ ''h'' else [])
                 @ (if 0 < m then nat_digits (m mod 60) @ ''m'' else [])
                 @ nat_digits (v mod 60) @ frac_text u 9 @ ''s''))"

end
