(* ===== verification/Database.thy ===== *)
theory Database
  imports GoStrings "HOL-Library.List_Lexorder" "HOL-Library.Char_ord"
begin

text \<open>
  The PostgreSQL tables of \<^verbatim>\<open>migrations/*.up.sql\<close> the repositories read and write, as
  lists of records in insertion order, and the environment of a statement: what the server
  (code outside the repository) decides. Also the JSON values of the \<^verbatim>\<open>jsonb\<close> columns:
  what Go decodes from them, and the canonical form the settlement sync compares.
\<close>

subsection \<open>Rows and tables\<close>

record request_row =
  prID :: string
  prWalletAccountID :: string
  prChain :: string
  prNetwork :: string
  prAsset :: string
  prStatus :: string
  prExpectedAmountMinor :: "int option"
  prAddressCanonical :: string
  prAddressScheme :: string
  prDerivationIndex :: int
  prChainID :: "int option"
  prTokenStandard :: "string option"
  prTokenContract :: "string option"
  prTokenDecimals :: "int option"
  prMetadata :: details
  prWebhookURL :: "string option"
  prExpiresAt :: time
  prCreatedAt :: time
  prUpdatedAt :: time
  prLeaseOwner :: "string option"
  prLeaseUntil :: "time option"

record settlement_row =
  stRequestID :: string
  stEvidenceRef :: string
  stAmountMinor :: int
  stConfirmations :: int
  stBlockHeight :: "int option"
  stBlockHash :: "string option"
  stIsCanonical :: bool
  stMetadata :: details
  stFirstSeenAt :: time
  stLastSeenAt :: time
  stUpdatedAt :: time

record outbox_row =
  oeID :: int
  oeEventID :: string
  oeEventType :: string
  oePaymentRequestID :: string
  oeDestinationURL :: "string option"
  oePayload :: gval
  oeDeliveryStatus :: string
  oeAttempts :: int
  oeMaxAttempts :: int
  oeNextAttemptAt :: time
  oeLeaseOwner :: "string option"
  oeLeaseUntil :: "time option"
  oeLastError :: "string option"
  oeDeliveredAt :: "time option"
  oeManualLastAction :: "string option"
  oeManualLastActor :: "string option"
  oeManualLastAt :: "time option"
  oeCreatedAt :: time
  oeUpdatedAt :: time

record wallet_row =
  waID :: string
  waChain :: string
  waNetwork :: string
  waKeysetID :: string
  waDerivationPathTemplate :: string
  waNextIndex :: int
  waIsActive :: bool
  waKeyMaterialHash :: "string option"
  waKeyMaterialHashAlgo :: "string option"
  waCreatedAt :: time
  waUpdatedAt :: time

record catalog_row =
  caChain :: string
  caNetwork :: string
  caAsset :: string
  caWalletAccountID :: string
  caMinorUnit :: string
  caDecimals :: int
  caAddressScheme :: string
  caChainID :: "int option"
  caTokenStandard :: "string option"
  caTokenContract :: "string option"
  caTokenDecimals :: "int option"
  caDefaultExpiresInSeconds :: int
  caEnabled :: bool

record idempotency_row =
  idScopePrincipal :: string
  idScopeMethod :: string
  idScopePath :: string
  idKey :: string
  idRequestHash :: string
  idHashAlgorithm :: string
  idResourceID :: string
  idResponsePayload :: gval
  idCreatedAt :: time
  idExpiresAt :: time

record sync_event_row =
  seChain :: string
  seNetwork :: string
  seKeysetID :: string
  seWalletAccountID :: string
  seAction :: string
  seMatchSource :: string
  seKeyMaterialHash :: string
  seKeyMaterialHashAlgo :: string
  seDetails :: details

record db =
  dbWallets :: "wallet_row list"
  dbCatalog :: "catalog_row list"
  dbIdempotency :: "idempotency_row list"
  dbSyncEvents :: "sync_event_row list"
  dbRequests :: "request_row list"
  dbSettlements :: "settlement_row list"
  dbOutbox :: "outbox_row list"
  dbNextOutboxID :: int

subsection \<open>What the server decides\<close>

text \<open>
  \<open>pgFault stmt key\<close> is the driver's error text when the statement called \<open>stmt\<close> fails
  for the row \<open>key\<close>; \<open>pgViolation c\<close> the error text when constraint \<open>c\<close> rejects a
  row. \<open>pgNumeric\<close> is the conversion of a text to \<^verbatim>\<open>numeric(78,0)\<close>,
  \<open>pgTimestamp\<close> the cast of a text to \<^verbatim>\<open>timestamptz\<close>, \<open>pgFits n v\<close> the check
  \<^verbatim>\<open>octet_length(v::text) <= n\<close>, \<open>pgNumber\<close> the \<^verbatim>\<open>float64\<close> of a JSON number literal and
  \<open>pgEventID\<close> the random event identifier the insert statement computes.
\<close>

record pg =
  pgFault :: "string \<Rightarrow> string \<Rightarrow> string option"
  pgViolation :: "string \<Rightarrow> string"
  pgNumeric :: "string \<Rightarrow> int option"
  pgTimestamp :: "string \<Rightarrow> time option"
  pgFits :: "nat \<Rightarrow> gval \<Rightarrow> bool"
  pgNumber :: "string \<Rightarrow> gval"
  pgEventID :: "string \<Rightarrow> int \<Rightarrow> string"

text \<open>PostgreSQL's \<^verbatim>\<open>btrim(x)\<close> removes blanks only; \<^verbatim>\<open>NULLIF(btrim(x), '')\<close> of a null is null.\<close>

definition btrim :: "string \<Rightarrow> string" where
  "btrim s = rev (dropWhile (\<lambda>c. c = CHR '' '') (rev (dropWhile (\<lambda>c. c = CHR '' '') s)))"

fun blank_column :: "string option \<Rightarrow> bool" where
  "blank_column None = True"
| "blank_column (Some u) = (btrim u = [])"

subsection \<open>JSON values\<close>

text \<open>
  A \<^verbatim>\<open>float64\<close> keeps 53 bits: rounding to nearest, ties to even. Go decodes every JSON number
  of a \<^verbatim>\<open>map[string]any\<close> to \<^verbatim>\<open>float64\<close>.
\<close>

fun bit_len :: "nat \<Rightarrow> nat" where
  "bit_len n = (if n = 0 then 0 else 1 + bit_len (n div 2))"

declare bit_len.simps [simp del]

definition round_nat :: "nat \<Rightarrow> nat" where
  "round_nat n =
     (if n < 2 ^ 53 then n
      else let k = bit_len n - 53; q = n div 2 ^ k; r = n mod 2 ^ k; half = 2 ^ (k - 1)
           in (if r > half \<or> r = half \<and> odd q then q + 1 else q) * 2 ^ k)"

definition float64_of_int :: "int \<Rightarrow> int" where
  "float64_of_int i = sgn i * int (round_nat (nat \<bar>i\<bar>))"

lemma float64_of_int_exact: "\<bar>i\<bar> < 2 ^ 53 \<Longrightarrow> float64_of_int i = i"
  by (simp add: float64_of_int_def round_nat_def sgn_mult_abs nat_less_iff)

primrec json_decode :: "(string \<Rightarrow> gval) \<Rightarrow> gval \<Rightarrow> gval" where
  "json_decode num GNil = GNil"
| "json_decode num (GBool b) = GBool b"
| "json_decode num (GStr s) = GStr s"
| "json_decode num (GTime t) = GTime t"
| "json_decode num (GNum s) = num s"
| "json_decode num (GFloat m e) = GFloat m e"
| "json_decode num (GInt i) = GFloat (float64_of_int i) 0"
| "json_decode num (GArr xs) = GArr (map (json_decode num) xs)"
| "json_decode num (GMap m) = GMap (map (map_prod id (json_decode num)) m)"

definition decode_object :: "(string \<Rightarrow> gval) \<Rightarrow> details \<Rightarrow> details" where
  "decode_object num m = map (map_prod id (json_decode num)) m"

lemma lookup_decode_object [simp]:
  "lookup (decode_object num m) k = map_option (json_decode num) (lookup m k)"
  by (induction m k rule: lookup.induct) (auto simp: decode_object_def)

text \<open>\<^verbatim>\<open>json.Marshal\<close> writes the keys of a map in order.\<close>

primrec sort_keys :: "gval \<Rightarrow> gval" where
  "sort_keys GNil = GNil"
| "sort_keys (GBool b) = GBool b"
| "sort_keys (GStr s) = GStr s"
| "sort_keys (GTime t) = GTime t"
| "sort_keys (GNum s) = GNum s"
| "sort_keys (GFloat m e) = GFloat m e"
| "sort_keys (GInt i) = GInt i"
| "sort_keys (GArr xs) = GArr (map sort_keys xs)"
| "sort_keys (GMap m) = GMap (sort_key fst (map (map_prod id sort_keys) m))"

definition empty_db :: db where
  "empty_db =
     \<lparr>dbWallets = [], dbCatalog = [], dbIdempotency = [], dbSyncEvents = [],
      dbRequests = [], dbSettlements = [], dbOutbox = [], dbNextOutboxID = 1\<rparr>"

text \<open>The status of a request, as the table holds it.\<close>

definition request_status :: "db \<Rightarrow> string \<Rightarrow> string option" where
  "request_status s k = map_option prStatus (find (\<lambda>r. prID r = k) (dbRequests s))"

end
