(* ===== verification/ReconcilePorts.thy ===== *)
theory ReconcilePorts
  imports GoStrings
begin

text \<open>
  The data that crosses the ports of the reconciler
  (\<^verbatim>\<open>internal/application/dto/payment_request_reconcile.go\<close>) and the repository interface
  (\<^verbatim>\<open>internal/application/ports/out/payment_request_reconciliation_repository.go\<close>) as a
  record of state-passing operations. The locale at the end states what the use case relies
  on; the store in \<open>PaymentStore\<close> provides it.
\<close>

subsection \<open>Commands, rows and observations\<close>

record reconcile_command =
  rcNow :: time
  rcBatchSize :: int
  rcWorkerID :: string
  rcLeaseDuration :: duration
  rcReorgObserveWindow :: duration
  rcStabilityCycles :: int

record reconcile_output =
  roClaimed :: int
  roScanned :: int
  roConfirmed :: int
  roDetected :: int
  roReorged :: int
  roReconfirmed :: int
  roExpired :: int
  roSkipped :: int
  roErrors :: int

definition empty_output :: reconcile_output where
  "empty_output =
     \<lparr>roClaimed = 0, roScanned = 0, roConfirmed = 0, roDetected = 0, roReorged = 0,
      roReconfirmed = 0, roExpired = 0, roSkipped = 0, roErrors = 0\<rparr>"

record open_request =
  orID :: string
  orStatus :: string
  orChain :: string
  orNetwork :: string
  orAsset :: string
  orExpectedAmountMinor :: "string option"
  orAddressCanonical :: string
  orExpiresAt :: time
  orChainID :: "int option"
  orTokenStandard :: "string option"
  orTokenContract :: "string option"
  orTokenDecimals :: "int option"
  orMetadata :: details

record observe_input =
  oiRequestID :: string
  oiChain :: string
  oiNetwork :: string
  oiAsset :: string
  oiExpectedAmountMinor :: "string option"
  oiAddressCanonical :: string
  oiChainID :: "int option"
  oiTokenStandard :: "string option"
  oiTokenContract :: "string option"
  oiTokenDecimals :: "int option"

record evidence =
  evRef :: string
  evAmountMinor :: string
  evConfirmations :: int
  evIsCanonical :: bool
  evBlockHeight :: "int option"
  evBlockHash :: "string option"
  evMetadata :: details

record observe_output =
  obSupported :: bool
  obObservedAmount :: string
  obDetected :: bool
  obConfirmed :: bool
  obFinalityReached :: bool
  obSource :: string
  obDetails :: details
  obSettlements :: "evidence list"

definition unsupported_observation :: observe_output where
  "unsupported_observation =
     \<lparr>obSupported = False, obObservedAmount = [], obDetected = False, obConfirmed = False,
      obFinalityReached = False, obSource = [], obDetails = [], obSettlements = []\<rparr>"

record sync_result =
  srCanonical :: int
  srNonCanonical :: int
  srNewlyOrphaned :: int

definition empty_sync_result :: sync_result where
  "empty_sync_result = \<lparr>srCanonical = 0, srNonCanonical = 0, srNewlyOrphaned = 0\<rparr>"

record evidence_summary =
  esCanonical :: int
  esNonCanonical :: int
  esNewlyOrphaned :: int

record transition_metadata =
  tmObservedAmountMinor :: string
  tmObservationSource :: string
  tmObservationDetails :: details
  tmTransitionReason :: string
  tmFinalityReached :: "bool option"
  tmEvidenceSummary :: "evidence_summary option"
  tmFirstConfirmedAt :: "time option"
  tmFinalityReachedAt :: "time option"
  tmStabilitySignal :: string
  tmStabilityPromoteStreak :: int
  tmStabilityDemoteStreak :: int
  tmUpdatedAt :: time

text \<open>A composite literal that names only some fields leaves the others at their zero value.\<close>

definition zero_metadata :: transition_metadata where
  "zero_metadata =
     \<lparr>tmObservedAmountMinor = [], tmObservationSource = [], tmObservationDetails = [],
      tmTransitionReason = [], tmFinalityReached = None, tmEvidenceSummary = None,
      tmFirstConfirmedAt = None, tmFinalityReachedAt = None, tmStabilitySignal = [],
      tmStabilityPromoteStreak = 0, tmStabilityDemoteStreak = 0, tmUpdatedAt = zero_time\<rparr>"

subsection \<open>The repository interface\<close>

record 's reconciliation_repository =
  ClaimOpenForReconciliation ::
    "time \<Rightarrow> duration \<Rightarrow> int \<Rightarrow> string \<Rightarrow> time \<Rightarrow> 's \<Rightarrow> open_request list res \<times> 's"
  SyncObservedSettlements ::
    "string \<Rightarrow> string \<Rightarrow> string \<Rightarrow> string \<Rightarrow> time \<Rightarrow> evidence list \<Rightarrow> 's \<Rightarrow> sync_result res \<times> 's"
  TransitionStatusIfCurrent ::
    "string \<Rightarrow> string \<Rightarrow> string \<Rightarrow> time \<Rightarrow> string \<Rightarrow> transition_metadata \<Rightarrow> 's \<Rightarrow> bool res \<times> 's"

text \<open>
  What the reconciler relies on, over the status of a request as the store holds it: claiming
  and settlement sync leave every status alone, and a transition either leaves the store's
  statuses as they are or moves exactly the named request, whose status was the expected one,
  to the requested one (both compared in lower case and without surrounding blanks).
\<close>

locale reconciliation_port =
  fixes repo :: "'s reconciliation_repository"
    and status_of :: "'s \<Rightarrow> string \<Rightarrow> string option"
  assumes claim_status:
      "ClaimOpenForReconciliation repo now w lim own lu s = (r, s') \<Longrightarrow> status_of s' = status_of s"
    and sync_status:
      "SyncObservedSettlements repo rid ch nw asst now evs s = (q, s') \<Longrightarrow> status_of s' = status_of s"
    and transition_status:
      "TransitionStatusIfCurrent repo rid cur nxt now own md s = (b, s') \<Longrightarrow>
         status_of s' = status_of s \<or>
         status_of s (TrimSpace rid) = Some (ToLower (TrimSpace cur)) \<and>
         status_of s' = (status_of s)(TrimSpace rid \<mapsto> ToLower (TrimSpace nxt))"

end
