(* ===== verification/Reconcile.thy ===== *)
theory Reconcile
  imports ReconcilePorts
begin

text \<open>
  The reconcile use case
  (\<^verbatim>\<open>internal/application/use_cases/reconcile_payment_requests_use_case.go\<close>): the stability
  streaks and their JSON metadata, the decision for one observed request, and the loop over the
  claimed rows. The repository and the chain observer are parameters; a Go \<^verbatim>\<open>nil\<close> is \<open>None\<close>.
\<close>

subsection \<open>State carried in the metadata\<close>

record reconcile_state =
  rsFirstConfirmedAt :: "time option"
  rsFinalityAt :: "time option"
  rsStabilitySignal :: string
  rsPromoteStreak :: int
  rsDemoteStreak :: int

definition zero_state :: reconcile_state where
  "zero_state =
     \<lparr>rsFirstConfirmedAt = None, rsFinalityAt = None, rsStabilitySignal = [],
      rsPromoteStreak = 0, rsDemoteStreak = 0\<rparr>"

definition cloneMap :: "details \<Rightarrow> details" where
  "cloneMap input = foldl (\<lambda>out (k, v). assoc_put k v out) [] input"

fun parseMetadataString :: "gval option \<Rightarrow> string" where
  "parseMetadataString (Some (GStr s)) = TrimSpace s"
| "parseMetadataString _ = []"

text \<open>
  \<^verbatim>\<open>int(f)\<close> for a \<^verbatim>\<open>float64\<close> \<open>m * 2 ^ e\<close>: truncation towards zero; out of range the
  amd64 conversion gives the least integer.
\<close>

definition float_to_int :: "int \<Rightarrow> int \<Rightarrow> int" where
  "float_to_int m e =
     (let v = (if 0 \<le> e then m * 2 ^ nat e else quot m (2 ^ nat (- e)))
      in if is_int64 v then v else min_int64)"

fun parseMetadataInt :: "gval option \<Rightarrow> int" where
  "parseMetadataInt (Some (GFloat m e)) = float_to_int m e"
| "parseMetadataInt (Some (GInt i)) = i"
| "parseMetadataInt (Some (GStr s)) =
     (let trimmed = TrimSpace s in if trimmed = [] then 0 else fst (ParseInt trimmed))"
| "parseMetadataInt _ = 0"

fun parseMetadataTime :: "gval option \<Rightarrow> time option" where
  "parseMetadataTime (Some (GTime t)) = Some t"
| "parseMetadataTime _ = None"

definition parseReconciliationState :: "details \<Rightarrow> reconcile_state" where
  "parseReconciliationState metadata =
     (case lookup metadata ''reconciliation'' of
        Some (GMap reconciliation) \<Rightarrow>
          \<lparr>rsFirstConfirmedAt = parseMetadataTime (lookup reconciliation ''first_confirmed_at''),
           rsFinalityAt = parseMetadataTime (lookup reconciliation ''finality_reached_at''),
           rsStabilitySignal =
             ToLower (TrimSpace (parseMetadataString (lookup reconciliation ''stability_signal''))),
           rsPromoteStreak = parseMetadataInt (lookup reconciliation ''stability_promote_streak''),
           rsDemoteStreak = parseMetadataInt (lookup reconciliation ''stability_demote_streak'')\<rparr>
      | _ \<Rightarrow> zero_state)"

definition shouldExpireRequest :: "string \<Rightarrow> time \<Rightarrow> time \<Rightarrow> bool" where
  "shouldExpireRequest currentStatus now expiresAt =
     (if currentStatus \<noteq> ''pending'' \<and> currentStatus \<noteq> ''detected'' \<and> currentStatus \<noteq> ''reorged''
      then False
      else \<not> expiresAt > now)"

definition shouldSkipConfirmedObservation ::
  "string \<Rightarrow> reconcile_state \<Rightarrow> time \<Rightarrow> duration \<Rightarrow> bool" where
  "shouldSkipConfirmedObservation currentStatus state now observeWindow =
     (if currentStatus \<noteq> ''confirmed'' \<or> observeWindow \<le> 0 then False
      else case (rsFirstConfirmedAt state, rsFinalityAt state) of
        (Some first, Some _) \<Rightarrow> \<not> now < first + observeWindow
      | _ \<Rightarrow> False)"

definition nextStabilityState :: "reconcile_state \<Rightarrow> string \<Rightarrow> reconcile_state" where
  "nextStabilityState state sig =
     (let s = ToLower (TrimSpace sig)
      in if s = ''promote'' then
           state\<lparr>rsPromoteStreak :=
                   (if rsStabilitySignal state = ''promote'' then rsPromoteStreak state + 1 else 1),
                 rsDemoteStreak := 0, rsStabilitySignal := ''promote''\<rparr>
         else if s = ''demote'' then
           state\<lparr>rsDemoteStreak :=
                   (if rsStabilitySignal state = ''demote'' then rsDemoteStreak state + 1 else 1),
                 rsPromoteStreak := 0, rsStabilitySignal := ''demote''\<rparr>
         else state\<lparr>rsPromoteStreak := 0, rsDemoteStreak := 0, rsStabilitySignal := []\<rparr>)"

subsection \<open>Metadata of an observation\<close>

definition openStatus :: "string \<Rightarrow> bool" where
  "openStatus st = (st = ''pending'' \<or> st = ''detected'' \<or> st = ''reorged'')"

text \<open>The first half of \<^verbatim>\<open>buildObservationMetadata\<close>: the next stability state.\<close>

definition observationState ::
  "observe_output \<Rightarrow> sync_result \<Rightarrow> reconcile_state \<Rightarrow> string \<Rightarrow> string \<Rightarrow> reconcile_state" where
  "observationState observation summary state currentStatus transitionReason =
     (if transitionReason \<noteq> [] then nextStabilityState state []
      else if currentStatus = ''confirmed'' \<and>
              (\<not> obConfirmed observation \<or> srNewlyOrphaned summary > 0) then
        nextStabilityState state ''demote''
      else if obConfirmed observation \<and> openStatus currentStatus then
        nextStabilityState state ''promote''
      else nextStabilityState state [])"

definition stampConfirmation ::
  "time \<Rightarrow> observe_output \<Rightarrow> string \<Rightarrow> bool \<Rightarrow> bool \<Rightarrow> reconcile_state \<Rightarrow> reconcile_state" where
  "stampConfirmation now observation currentStatus nextIsConfirmed nextIsReorged next =
     (let first = (if rsFirstConfirmedAt next = None then Some now else rsFirstConfirmedAt next)
      in if nextIsConfirmed then
           next\<lparr>rsFirstConfirmedAt := first,
                rsFinalityAt := (if obFinalityReached observation then Some now
                                 else rsFinalityAt next)\<rparr>
         else if nextIsReorged then next\<lparr>rsFinalityAt := None\<rparr>
         else if currentStatus = ''confirmed'' \<and> obConfirmed observation then
           next\<lparr>rsFirstConfirmedAt := first,
                rsFinalityAt := (if obFinalityReached observation \<and> rsFinalityAt next = None
                                 then Some now else rsFinalityAt next)\<rparr>
         else next)"

definition buildObservationMetadata ::
  "time \<Rightarrow> observe_output \<Rightarrow> sync_result \<Rightarrow> reconcile_state \<Rightarrow> string \<Rightarrow> string \<Rightarrow> bool \<Rightarrow> bool \<Rightarrow>
   int \<Rightarrow> transition_metadata" where
  "buildObservationMetadata now observation summary state currentStatus transitionReason
       nextIsConfirmed nextIsReorged stabilityCycles =
     (let next = stampConfirmation now observation currentStatus nextIsConfirmed nextIsReorged
                   (observationState observation summary state currentStatus transitionReason);
          ds = cloneMap (obDetails observation)
      in \<lparr>tmObservedAmountMinor = obObservedAmount observation,
          tmObservationSource = obSource observation,
          tmObservationDetails =
            (if stabilityCycles > 0
             then assoc_put ''stability_cycles_required'' (GInt stabilityCycles) ds else ds),
          tmTransitionReason = transitionReason,
          tmFinalityReached = Some (obFinalityReached observation),
          tmEvidenceSummary =
            Some \<lparr>esCanonical = srCanonical summary, esNonCanonical = srNonCanonical summary,
                  esNewlyOrphaned = srNewlyOrphaned summary\<rparr>,
          tmFirstConfirmedAt = rsFirstConfirmedAt next,
          tmFinalityReachedAt = rsFinalityAt next,
          tmStabilitySignal = rsStabilitySignal next,
          tmStabilityPromoteStreak = rsPromoteStreak next,
          tmStabilityDemoteStreak = rsDemoteStreak next,
          tmUpdatedAt = now\<rparr>)"

subsection \<open>Deciding one observed request\<close>

text \<open>Target status, transition reason and whether this is a re-confirmation.\<close>

definition decideTarget ::
  "string \<Rightarrow> observe_output \<Rightarrow> sync_result \<Rightarrow> reconcile_state \<Rightarrow> int \<Rightarrow> string \<times> string \<times> bool" where
  "decideTarget currentStatus observation summary state stabilityCycles =
     (let allowImmediateDemote = srNewlyOrphaned summary > 0
      in if currentStatus = ''confirmed'' \<and> (\<not> obConfirmed observation \<or> allowImmediateDemote) then
           (if allowImmediateDemote \<or>
               rsDemoteStreak (nextStabilityState state ''demote'') \<ge> stabilityCycles
            then (''reorged'', ''payment_reorged'', False)
            else (currentStatus, [], False))
         else if obConfirmed observation \<and> openStatus currentStatus then
           (if rsPromoteStreak (nextStabilityState state ''promote'') \<ge> stabilityCycles
            then if currentStatus = ''reorged'' then (''confirmed'', ''payment_reconfirmed'', True)
                 else (''confirmed'', ''payment_confirmed'', False)
            else (currentStatus, [], False))
         else if obDetected observation \<and> currentStatus = ''pending'' then
           (''detected'', ''payment_detected'', False)
         else (currentStatus, [], False))"

definition countTarget :: "string \<Rightarrow> bool \<Rightarrow> reconcile_output \<Rightarrow> reconcile_output" where
  "countTarget targetStatus isReconfirm out =
     (if targetStatus = ''confirmed'' then
        out\<lparr>roConfirmed := roConfirmed out + 1,
            roReconfirmed := roReconfirmed out + (if isReconfirm then 1 else 0)\<rparr>
      else if targetStatus = ''detected'' then out\<lparr>roDetected := roDetected out + 1\<rparr>
      else if targetStatus = ''reorged'' then out\<lparr>roReorged := roReorged out + 1\<rparr>
      else if targetStatus = ''expired'' then out\<lparr>roExpired := roExpired out + 1\<rparr>
      else out\<lparr>roSkipped := roSkipped out + 1\<rparr>)"

subsection \<open>One row of the loop\<close>

text \<open>
  Each branch of the loop body returns the counters, the error that ends the run (if any) and
  the store. Every branch ends with exactly one \<^verbatim>\<open>TransitionStatusIfCurrent\<close>, which also
  releases the row's lease.
\<close>

type_synonym 's row_result = "reconcile_output \<times> app_error option \<times> 's"

definition expireRow ::
  "'s reconciliation_repository \<Rightarrow> time \<Rightarrow> string \<Rightarrow> open_request \<Rightarrow> string \<Rightarrow> reconcile_output \<Rightarrow> 's \<Rightarrow>
   's row_result" where
  "expireRow repo now workerID row currentStatus out s =
     (case TransitionStatusIfCurrent repo (orID row) currentStatus ''expired'' now workerID
             (zero_metadata\<lparr>tmTransitionReason := ''payment_expired'', tmUpdatedAt := now\<rparr>) s of
        (Inl e, s') \<Rightarrow> (out, Some e, s')
      | (Inr updated, s') \<Rightarrow>
          (if updated then out\<lparr>roExpired := roExpired out + 1\<rparr>
           else out\<lparr>roSkipped := roSkipped out + 1\<rparr>, None, s'))"

definition skipConfirmedRow ::
  "'s reconciliation_repository \<Rightarrow> reconcile_command \<Rightarrow> time \<Rightarrow> string \<Rightarrow> open_request \<Rightarrow> string \<Rightarrow>
   reconcile_state \<Rightarrow> reconcile_output \<Rightarrow> 's \<Rightarrow> 's row_result" where
  "skipConfirmedRow repo cmd now workerID row currentStatus state out s =
     (let observation = unsupported_observation\<lparr>obSupported := True,
            obSource := ''reconcile_policy'',
            obDetails :=
              [(''observation_skipped'', GBool True),
               (''reason'', GStr ''observe_window_elapsed''),
               (''reorg_observe_window'', GStr (DurationString (rcReorgObserveWindow cmd)))]\<rparr>
      in case TransitionStatusIfCurrent repo (orID row) currentStatus currentStatus now workerID
             (buildObservationMetadata now observation empty_sync_result state currentStatus []
                False False (rcStabilityCycles cmd)) s of
        (Inl e, s') \<Rightarrow> (out, Some e, s')
      | (Inr updated, s') \<Rightarrow>
          (if updated then out\<lparr>roSkipped := roSkipped out + 1\<rparr> else out, None, s'))"

definition observeInput :: "open_request \<Rightarrow> observe_input" where
  "observeInput row =
     \<lparr>oiRequestID = orID row, oiChain = orChain row, oiNetwork = orNetwork row,
      oiAsset = orAsset row, oiExpectedAmountMinor = orExpectedAmountMinor row,
      oiAddressCanonical = orAddressCanonical row, oiChainID = orChainID row,
      oiTokenStandard = orTokenStandard row, oiTokenContract = orTokenContract row,
      oiTokenDecimals = orTokenDecimals row\<rparr>"

definition observeErrorRow ::
  "'s reconciliation_repository \<Rightarrow> time \<Rightarrow> string \<Rightarrow> open_request \<Rightarrow> string \<Rightarrow> app_error \<Rightarrow>
   reconcile_output \<Rightarrow> 's \<Rightarrow> 's row_result" where
  "observeErrorRow repo now workerID row currentStatus observeErr out s =
     (let out' = out\<lparr>roErrors := roErrors out + 1\<rparr>
      in case TransitionStatusIfCurrent repo (orID row) currentStatus currentStatus now workerID
             (zero_metadata\<lparr>tmObservationSource := ''reconcile_policy'',
                tmObservationDetails := [(''observation_error'', GStr (Code observeErr))],
                tmUpdatedAt := now\<rparr>) s of
        (Inl e, s') \<Rightarrow> (out', Some e, s')
      | (Inr _, s') \<Rightarrow> (out', None, s'))"

definition unsupportedRow ::
  "'s reconciliation_repository \<Rightarrow> time \<Rightarrow> string \<Rightarrow> open_request \<Rightarrow> string \<Rightarrow> reconcile_output \<Rightarrow> 's \<Rightarrow>
   's row_result" where
  "unsupportedRow repo now workerID row currentStatus out s =
     (case TransitionStatusIfCurrent repo (orID row) currentStatus currentStatus now workerID
             (zero_metadata\<lparr>tmObservationSource := ''reconcile_policy'',
                tmObservationDetails := [(''supported'', GBool False)],
                tmUpdatedAt := now\<rparr>) s of
        (Inl e, s') \<Rightarrow> (out, Some e, s')
      | (Inr _, s') \<Rightarrow> (out\<lparr>roSkipped := roSkipped out + 1\<rparr>, None, s'))"

definition observedRow ::
  "'s reconciliation_repository \<Rightarrow> reconcile_command \<Rightarrow> time \<Rightarrow> string \<Rightarrow> open_request \<Rightarrow> string \<Rightarrow>
   reconcile_state \<Rightarrow> observe_output \<Rightarrow> reconcile_output \<Rightarrow> 's \<Rightarrow> 's row_result" where
  "observedRow repo cmd now workerID row currentStatus state observation out s =
     (case SyncObservedSettlements repo (orID row) (orChain row) (orNetwork row) (orAsset row) now
             (obSettlements observation) s of
        (Inl e, s1) \<Rightarrow> (out, Some e, s1)
      | (Inr summary, s1) \<Rightarrow>
         (case decideTarget currentStatus observation summary state (rcStabilityCycles cmd) of
            (targetStatus, transitionReason, isReconfirm) \<Rightarrow>
             (case TransitionStatusIfCurrent repo (orID row) currentStatus targetStatus now workerID
                     (buildObservationMetadata now observation summary state currentStatus
                        transitionReason (targetStatus = ''confirmed'') (targetStatus = ''reorged'')
                        (rcStabilityCycles cmd)) s1 of
                (Inl e, s2) \<Rightarrow> (out, Some e, s2)
              | (Inr updated, s2) \<Rightarrow>
                  (if updated then countTarget targetStatus isReconfirm out
                   else out\<lparr>roSkipped := roSkipped out + 1\<rparr>, None, s2))))"

definition reconcileRow ::
  "'s reconciliation_repository \<Rightarrow> (observe_input \<Rightarrow> observe_output res) \<Rightarrow> reconcile_command \<Rightarrow> time \<Rightarrow>
   string \<Rightarrow> open_request \<Rightarrow> reconcile_output \<Rightarrow> 's \<Rightarrow> 's row_result" where
  "reconcileRow repo observe cmd now workerID row out s =
     (let currentStatus = ToLower (TrimSpace (orStatus row));
          state = parseReconciliationState (orMetadata row)
      in if shouldExpireRequest currentStatus now (orExpiresAt row) then
           expireRow repo now workerID row currentStatus out s
         else if shouldSkipConfirmedObservation currentStatus state now (rcReorgObserveWindow cmd) then
           skipConfirmedRow repo cmd now workerID row currentStatus state out s
         else case observe (observeInput row) of
             Inl e \<Rightarrow> observeErrorRow repo now workerID row currentStatus e out s
           | Inr observation \<Rightarrow>
               if \<not> obSupported observation then
                 unsupportedRow repo now workerID row currentStatus out s
               else observedRow repo cmd now workerID row currentStatus state observation out s)"

fun reconcileRows ::
  "'s reconciliation_repository \<Rightarrow> (observe_input \<Rightarrow> observe_output res) \<Rightarrow> reconcile_command \<Rightarrow> time \<Rightarrow>
   string \<Rightarrow> open_request list \<Rightarrow> reconcile_output \<Rightarrow> 's \<Rightarrow> 's row_result" where
  "reconcileRows repo observe cmd now workerID [] out s = (out, None, s)"
| "reconcileRows repo observe cmd now workerID (row # rows) out s =
     (case reconcileRow repo observe cmd now workerID row out s of
        (out', Some e, s') \<Rightarrow> (out', Some e, s')
      | (out', None, s') \<Rightarrow> reconcileRows repo observe cmd now workerID rows out' s')"

subsection \<open>Execute\<close>

definition validateReconcile ::
  "'s reconciliation_repository option \<Rightarrow> (observe_input \<Rightarrow> observe_output res) option \<Rightarrow>
   reconcile_command \<Rightarrow> app_error option" where
  "validateReconcile repository observer cmd =
     (if repository = None then
        Some (NewInternal ''payment_request_reconciliation_repository_missing''
                ''payment request reconciliation repository is required'' [])
      else if observer = None then
        Some (NewInternal ''payment_chain_observer_gateway_missing''
                ''payment chain observer gateway is required'' [])
      else if rcBatchSize cmd \<le> 0 then
        Some (NewValidation ''reconcile_batch_size_invalid''
                ''reconcile batch size must be greater than zero''
                [(''batch_size'', GInt (rcBatchSize cmd))])
      else if TrimSpace (rcWorkerID cmd) = [] then
        Some (NewValidation ''reconcile_worker_id_invalid''
                ''reconcile worker id is required'' [])
      else if rcLeaseDuration cmd \<le> 0 then
        Some (NewValidation ''reconcile_lease_duration_invalid''
                ''reconcile lease duration must be greater than zero''
                [(''lease_duration'', GStr (DurationString (rcLeaseDuration cmd)))])
      else if rcReorgObserveWindow cmd \<le> 0 then
        Some (NewValidation ''reconcile_reorg_observe_window_invalid''
                ''reconcile reorg observe window must be greater than zero''
                [(''reorg_observe_window'', GStr (DurationString (rcReorgObserveWindow cmd)))])
      else if rcStabilityCycles cmd \<le> 0 then
        Some (NewValidation ''reconcile_stability_cycles_invalid''
                ''reconcile stability cycles must be greater than zero''
                [(''stability_cycles'', GInt (rcStabilityCycles cmd))])
      else None)"

text \<open>\<open>clock\<close> is what \<^verbatim>\<open>time.Now()\<close> returns, used when the command carries no instant.\<close>

definition reconcileExecute ::
  "'s reconciliation_repository option \<Rightarrow> (observe_input \<Rightarrow> observe_output res) option \<Rightarrow> time \<Rightarrow>
   reconcile_command \<Rightarrow> 's \<Rightarrow> 's row_result" where
  "reconcileExecute repository observer clock cmd s =
     (case validateReconcile repository observer cmd of
        Some e \<Rightarrow> (empty_output, Some e, s)
      | None \<Rightarrow>
          (let repo = the repository;
               workerID = TrimSpace (rcWorkerID cmd);
               now = (if IsZero (rcNow cmd) then clock else rcNow cmd);
               leaseUntil = now + rcLeaseDuration cmd
           in case ClaimOpenForReconciliation repo now (rcReorgObserveWindow cmd) (rcBatchSize cmd)
                     workerID leaseUntil s of
                (Inl e, s') \<Rightarrow> (empty_output, Some e, s')
              | (Inr rows, s') \<Rightarrow>
                  reconcileRows repo (the observer) cmd now workerID rows
                    (empty_output\<lparr>roClaimed := int (length rows),
                                  roScanned := int (length rows)\<rparr>) s'))"


subsection \<open>Stability streaks\<close>

lemma signal_normal [simp]:
  "ToLower (TrimSpace ''promote'') = ''promote''" "ToLower (TrimSpace ''demote'') = ''demote''"
  by code_simp+

lemma nextStabilityState_simps [simp]:
  "nextStabilityState st ''promote'' =
     st\<lparr>rsPromoteStreak := (if rsStabilitySignal st = ''promote'' then rsPromoteStreak st + 1 else 1),
        rsDemoteStreak := 0, rsStabilitySignal := ''promote''\<rparr>"
  "nextStabilityState st ''demote'' =
     st\<lparr>rsDemoteStreak := (if rsStabilitySignal st = ''demote'' then rsDemoteStreak st + 1 else 1),
        rsPromoteStreak := 0, rsStabilitySignal := ''demote''\<rparr>"
  "nextStabilityState st [] =
     st\<lparr>rsPromoteStreak := 0, rsDemoteStreak := 0, rsStabilitySignal := []\<rparr>"
  by (simp_all add: nextStabilityState_def)

definition run_length :: "string \<Rightarrow> string list \<Rightarrow> int" where
  "run_length sig history = int (length (takeWhile (\<lambda>x. x = sig) (rev history)))"

lemma run_length_snoc [simp]:
  "run_length sig (h @ [x]) = (if x = sig then run_length sig h + 1 else 0)"
  by (simp add: run_length_def)

lemma run_length_Nil [simp]: "run_length sig [] = 0"
  by (simp add: run_length_def)

definition signals :: "string list \<Rightarrow> bool" where
  "signals history = (\<forall>x \<in> set history. x = ''promote'' \<or> x = ''demote'' \<or> x = [])"

lemma stability_state_history:
  assumes "signals history"
  shows "foldl nextStabilityState zero_state history =
     zero_state\<lparr>rsPromoteStreak := run_length ''promote'' history,
       rsDemoteStreak := run_length ''demote'' history,
       rsStabilitySignal := (if history = [] then [] else last history)\<rparr>"
  using assms
proof (induction history rule: rev_induct)
  case Nil
  show ?case by (simp add: zero_state_def)
next
  case (snoc x h)
  then have h: "signals h" and x: "x = ''promote'' \<or> x = ''demote'' \<or> x = []"
    by (simp_all add: signals_def)
  have last: "h = [] \<Longrightarrow> run_length sig h = 0" for sig by simp
  have away: "h \<noteq> [] \<Longrightarrow> last h \<noteq> sig \<Longrightarrow> run_length sig h = 0" for sig
    by (cases h rule: rev_cases) simp_all
  show ?case
    using x snoc.IH [OF h] away last by (elim disjE) (simp_all add: zero_state_def)
qed

subsection \<open>The edges of the status machine\<close>

definition edge :: "string \<Rightarrow> string \<Rightarrow> bool" where
  "edge a b =
     (a = ''pending'' \<and> (b = ''detected'' \<or> b = ''confirmed'' \<or> b = ''expired'') \<or>
      a = ''detected'' \<and> (b = ''confirmed'' \<or> b = ''expired'') \<or>
      a = ''confirmed'' \<and> b = ''reorged'' \<or>
      a = ''reorged'' \<and> (b = ''confirmed'' \<or> b = ''expired''))"

lemma openStatus_edges:
  "openStatus st \<Longrightarrow> edge st ''expired''" "openStatus st \<Longrightarrow> edge st ''confirmed''"
  by (auto simp: openStatus_def edge_def)

lemma shouldExpire_open: "shouldExpireRequest st now ex \<Longrightarrow> openStatus st \<and> ex \<le> now"
  by (auto simp: shouldExpireRequest_def openStatus_def split: if_splits)

lemma decideTarget_edge:
  "decideTarget st obs summary state n = (t, reason, again) \<Longrightarrow>
     (t = st \<and> reason = [] \<or> edge st t \<and> reason \<noteq> []) \<and> (again \<longrightarrow> t = ''confirmed'')"
  by (auto simp: decideTarget_def Let_def openStatus_def edge_def split: if_splits)

lemma edge_final: "edge a b \<Longrightarrow> a \<noteq> ''expired'' \<and> a \<noteq> ''failed''"
  by (auto simp: edge_def)

lemma edges_final: "edge\<^sup>*\<^sup>* a b \<Longrightarrow> a = ''expired'' \<or> a = ''failed'' \<Longrightarrow> b = a"
  by (induction rule: converse_rtranclp_induct) (auto dest: edge_final)

lemma edge_normal [simp]:
  "edge a b \<Longrightarrow> ToLower (TrimSpace b) = b"
  unfolding edge_def by (elim disjE conjE; simp; code_simp)

definition status_moves :: "(string \<Rightarrow> string option) \<Rightarrow> (string \<Rightarrow> string option) \<Rightarrow> bool" where
  "status_moves f g = (\<forall>k. rel_option edge\<^sup>*\<^sup>* (f k) (g k))"

lemma status_moves_refl [intro, simp]: "status_moves f f"
  by (simp add: status_moves_def option.rel_refl)

lemma status_moves_trans: "status_moves f g \<Longrightarrow> status_moves g h \<Longrightarrow> status_moves f h"
  unfolding status_moves_def
  by (metis (no_types, lifting) option.rel_sel rtranclp_trans)

lemma status_moves_upd:
  "f k = Some a \<Longrightarrow> edge a b \<or> a = b \<Longrightarrow> status_moves f (f(k \<mapsto> b))"
  by (auto simp: status_moves_def option.rel_refl)

lemma status_moves_final:
  assumes "status_moves f g" "f k = Some a" "a = ''expired'' \<or> a = ''failed''"
  shows "g k = Some a"
proof -
  from assms(1,2) obtain b where "g k = Some b" "edge\<^sup>*\<^sup>* a b"
    unfolding status_moves_def by (auto simp: option_rel_Some1 dest!: spec [of _ k])
  with edges_final assms(3) show ?thesis by blast
qed

context reconciliation_port
begin

lemma transition_moves:
  assumes "TransitionStatusIfCurrent repo rid (ToLower (TrimSpace st)) nxt now own md s = (b, s')"
    and "edge (ToLower (TrimSpace st)) nxt \<or> nxt = ToLower (TrimSpace st)"
  shows "status_moves (status_of s) (status_of s')"
proof -
  have cur: "ToLower (TrimSpace (ToLower (TrimSpace st))) = ToLower (TrimSpace st)" by simp
  have nxt: "ToLower (TrimSpace nxt) = nxt" using assms(2) by auto
  from transition_status [OF assms(1)] show ?thesis
    unfolding cur nxt using assms(2) by (auto intro: status_moves_upd)
qed

lemma observedRow_moves:
  assumes "observedRow repo cmd now w row (ToLower (TrimSpace st)) state obs out s = (out', e, s')"
  shows "status_moves (status_of s) (status_of s')"
proof -
  let ?cur = "ToLower (TrimSpace st)"
  obtain q s1 where sync:
    "SyncObservedSettlements repo (orID row) (orChain row) (orNetwork row) (orAsset row) now
       (obSettlements obs) s = (q, s1)"
    by fastforce
  note same = sync_status [OF sync]
  show ?thesis
  proof (cases q)
    case (Inl err)
    with assms sync same show ?thesis by (auto simp: observedRow_def)
  next
    case (Inr summary)
    obtain t reason again where
      d: "decideTarget ?cur obs summary state (rcStabilityCycles cmd) = (t, reason, again)"
      by (cases "decideTarget ?cur obs summary state (rcStabilityCycles cmd)") auto
    from decideTarget_edge [OF d] have t: "edge ?cur t \<or> t = ?cur" by auto
    from assms sync Inr d obtain md b where
      "TransitionStatusIfCurrent repo (orID row) ?cur t now w md s1 = (b, s')"
      by (auto simp: observedRow_def split: prod.splits sum.splits)
    from transition_moves [OF this t] same show ?thesis by simp
  qed
qed

lemma stay_moves:
  assumes "TransitionStatusIfCurrent repo rid (ToLower (TrimSpace st)) (ToLower (TrimSpace st))
             now own md s = (b, s')"
  shows "status_moves (status_of s) (status_of s')"
  using transition_moves [OF assms] by simp

lemma expireRow_moves:
  assumes "expireRow repo now w row (ToLower (TrimSpace st)) out s = (out', e, s')"
    and "openStatus (ToLower (TrimSpace st))"
  shows "status_moves (status_of s) (status_of s')"
  using assms(1) transition_moves [of "orID row" st "''expired''"] openStatus_edges(1) [OF assms(2)]
  by (auto simp: expireRow_def split: prod.splits sum.splits)

lemma quiet_rows_move:
  "skipConfirmedRow repo cmd now w row (ToLower (TrimSpace st)) state out s = (out', e, s') \<Longrightarrow>
     status_moves (status_of s) (status_of s')"
  "observeErrorRow repo now w row (ToLower (TrimSpace st)) err out s = (out', e, s') \<Longrightarrow>
     status_moves (status_of s) (status_of s')"
  "unsupportedRow repo now w row (ToLower (TrimSpace st)) out s = (out', e, s') \<Longrightarrow>
     status_moves (status_of s) (status_of s')"
  by (auto simp: skipConfirmedRow_def observeErrorRow_def unsupportedRow_def Let_def
      split: prod.splits sum.splits dest: stay_moves)

lemma reconcileRow_moves:
  assumes "reconcileRow repo observe cmd now w row out s = (out', e, s')"
  shows "status_moves (status_of s) (status_of s')"
  using assms shouldExpire_open
  by (auto simp: reconcileRow_def Let_def split: if_splits sum.splits
      dest: expireRow_moves quiet_rows_move observedRow_moves)

lemma reconcileRows_moves:
  "reconcileRows repo observe cmd now w rows out s = (out', e, s') \<Longrightarrow>
     status_moves (status_of s) (status_of s')"
proof (induction rows arbitrary: out s)
  case Nil
  then show ?case by simp
next
  case (Cons row rows)
  obtain o1 e1 s1 where row: "reconcileRow repo observe cmd now w row out s = (o1, e1, s1)"
    by (cases "reconcileRow repo observe cmd now w row out s") auto
  note m = reconcileRow_moves [OF row]
  show ?case
  proof (cases e1)
    case None
    with Cons.prems row have "reconcileRows repo observe cmd now w rows o1 s1 = (out', e, s')" by simp
    from Cons.IH [OF this] m show ?thesis by (blast intro: status_moves_trans)
  next
    case (Some x)
    with Cons.prems row m show ?thesis by simp
  qed
qed

lemma reconcileExecute_moves:
  assumes "reconcileExecute (Some repo) observer clock cmd s = (out, e, s')"
  shows "status_moves (status_of s) (status_of s')"
  using assms
  by (auto simp: reconcileExecute_def Let_def split: option.splits prod.splits sum.splits
      dest!: reconcileRows_moves claim_status)

end

subsection \<open>Counters\<close>

definition counted :: "reconcile_output \<Rightarrow> int" where
  "counted out =
     roConfirmed out + roDetected out + roReorged out + roExpired out + roSkipped out + roErrors out"

definition step_counts :: "reconcile_output \<Rightarrow> reconcile_output \<Rightarrow> bool" where
  "step_counts out out' =
     (roClaimed out' = roClaimed out \<and> roScanned out' = roScanned out \<and>
      (counted out' = counted out \<or> counted out' = counted out + 1) \<and>
      0 \<le> roReconfirmed out' - roReconfirmed out \<and>
      roReconfirmed out' - roReconfirmed out \<le> roConfirmed out' - roConfirmed out)"

lemmas row_defs =
  expireRow_def skipConfirmedRow_def observeErrorRow_def unsupportedRow_def observedRow_def
  countTarget_def

lemma reconcileRow_counts:
  "reconcileRow repo observe cmd now w row out s = (out', e, s') \<Longrightarrow> step_counts out out'"
  by (auto simp: reconcileRow_def row_defs Let_def step_counts_def counted_def
      split: if_splits sum.splits prod.splits)

lemma reconcileRows_counts:
  "reconcileRows repo observe cmd now w rows out s = (out', e, s') \<Longrightarrow>
     roClaimed out' = roClaimed out \<and> roScanned out' = roScanned out \<and>
     counted out \<le> counted out' \<and> counted out' \<le> counted out + int (length rows) \<and>
     roReconfirmed out' - roReconfirmed out \<le> roConfirmed out' - roConfirmed out"
proof (induction rows arbitrary: out s)
  case (Cons row rows)
  obtain o1 e1 s1 where row: "reconcileRow repo observe cmd now w row out s = (o1, e1, s1)"
    by (cases "reconcileRow repo observe cmd now w row out s") auto
  have step: "step_counts out o1" using row by (rule reconcileRow_counts)
  show ?case
  proof (cases e1)
    case None
    with Cons.prems row have "reconcileRows repo observe cmd now w rows o1 s1 = (out', e, s')"
      by simp
    from Cons.IH [OF this] step show ?thesis by (auto simp: step_counts_def)
  next
    case (Some x)
    with Cons.prems row have "out' = o1" by simp
    with step show ?thesis by (auto simp: step_counts_def)
  qed
qed simp

lemma reconcileExecute_counts:
  "reconcileExecute repository observer clock cmd s = (out, e, s') \<Longrightarrow>
     roScanned out = roClaimed out \<and> 0 \<le> counted out \<and> counted out \<le> roClaimed out \<and>
     roReconfirmed out \<le> roConfirmed out"
  by (auto simp: reconcileExecute_def Let_def empty_output_def counted_def
      split: option.splits prod.splits sum.splits dest!: reconcileRows_counts)

end
