(* ===== verification/PaymentStore.thy ===== *)
theory PaymentStore
  imports Database Reconcile
begin

text \<open>
  The reconciler's repository
  (\<^verbatim>\<open>internal/adapters/outbound/persistence/postgresql/paymentrequest/reconciliation_repository.go\<close>):
  claiming open requests under a lease, synchronising the settlement evidence of a request, and
  the compare-and-set status transition that also writes the outbox event. Each operation takes
  the server's decisions (\<open>pg\<close>) and the tables, and returns its result and the tables; a
  transaction that fails leaves the tables as they were.
\<close>

definition errorDetail :: "string \<Rightarrow> details" where
  "errorDetail e = [(''error'', GStr e)]"

subsection \<open>ClaimOpenForReconciliation\<close>

text \<open>\<^verbatim>\<open>~ '^[0-9]{4}-[0-9]{2}-[0-9]{2}T'\<close>\<close>

fun looks_like_timestamp :: "string \<Rightarrow> bool" where
  "looks_like_timestamp (a # b # c # d # e # f # g # h # i # j # k # rest) =
     (is_digit a \<and> is_digit b \<and> is_digit c \<and> is_digit d \<and> e = CHR ''-'' \<and>
      is_digit f \<and> is_digit g \<and> h = CHR ''-'' \<and> is_digit i \<and> is_digit j \<and> k = CHR ''T'')"
| "looks_like_timestamp _ = False"

text \<open>
  The observation window of a confirmed or reorged request: whether it is still open, or
  \<open>None\<close> when the cast of the stored text fails, which fails the statement.
\<close>

definition windowOpen :: "pg \<Rightarrow> time \<Rightarrow> int \<Rightarrow> details \<Rightarrow> bool option" where
  "windowOpen pg now seconds metadata =
     (case lookup metadata ''reconciliation'' of
        Some (GMap reconciliation) \<Rightarrow>
          (case lookup reconciliation ''first_confirmed_at'' of
             Some (GTime t) \<Rightarrow> Some (t + seconds * second > now)
           | Some (GStr v) \<Rightarrow>
               if looks_like_timestamp (btrim v)
               then map_option (\<lambda>t. t + seconds * second > now) (pgTimestamp pg (btrim v))
               else Some True
           | _ \<Rightarrow> Some True)
      | _ \<Rightarrow> Some True)"

definition windowed :: "request_row \<Rightarrow> bool" where
  "windowed r = (prStatus r = ''confirmed'' \<or> prStatus r = ''reorged'')"

definition leaseFree :: "time \<Rightarrow> request_row \<Rightarrow> bool" where
  "leaseFree now r = (case prLeaseUntil r of None \<Rightarrow> True | Some u \<Rightarrow> u \<le> now)"

definition claimable :: "pg \<Rightarrow> time \<Rightarrow> int \<Rightarrow> request_row \<Rightarrow> bool" where
  "claimable pg now seconds r =
     ((prStatus r = ''pending'' \<or> prStatus r = ''detected'' \<or>
       windowed r \<and> windowOpen pg now seconds (prMetadata r) = Some True) \<and>
      leaseFree now r)"

definition trimmedColumn :: "string option \<Rightarrow> string option" where
  "trimmedColumn v =
     (case v of None \<Rightarrow> None | Some x \<Rightarrow> if TrimSpace x = [] then None else Some (TrimSpace x))"

definition openRequestOf :: "pg \<Rightarrow> request_row \<Rightarrow> open_request" where
  "openRequestOf pg r =
     \<lparr>orID = prID r,
      orStatus = ToLower (TrimSpace (prStatus r)),
      orChain = ToLower (TrimSpace (prChain r)),
      orNetwork = ToLower (TrimSpace (prNetwork r)),
      orAsset = ToUpper (TrimSpace (prAsset r)),
      orExpectedAmountMinor = trimmedColumn (map_option FormatInt (prExpectedAmountMinor r)),
      orAddressCanonical = TrimSpace (prAddressCanonical r),
      orExpiresAt = prExpiresAt r,
      orChainID = prChainID r,
      orTokenStandard = trimmedColumn (prTokenStandard r),
      orTokenContract = trimmedColumn (prTokenContract r),
      orTokenDecimals = prTokenDecimals r,
      orMetadata = decode_object (pgNumber pg) (prMetadata r)\<rparr>"

definition leaseRows :: "string set \<Rightarrow> string \<Rightarrow> time \<Rightarrow> request_row list \<Rightarrow> request_row list" where
  "leaseRows ids owner until rows =
     map (\<lambda>r. if prID r \<in> ids then r\<lparr>prLeaseOwner := Some owner, prLeaseUntil := Some until\<rparr> else r)
       rows"

definition windowSeconds :: "duration \<Rightarrow> int" where
  "windowSeconds observeWindow =
     (let s = quot observeWindow second in if s \<le> 0 then 1 else s)"

definition candidates :: "pg \<Rightarrow> time \<Rightarrow> int \<Rightarrow> int \<Rightarrow> request_row list \<Rightarrow> request_row list" where
  "candidates pg now seconds limit rows =
     take (nat limit)
       (filter (claimable pg now seconds) (sort_key prCreatedAt (sort_key prID rows)))"

text \<open>
  The rows come back in the order of the candidates (PostgreSQL leaves this order open). An
  error while the rows are read comes after the statement has taken the leases.
\<close>

definition claimOpen ::
  "pg \<Rightarrow> time \<Rightarrow> duration \<Rightarrow> int \<Rightarrow> string \<Rightarrow> time \<Rightarrow> db \<Rightarrow> open_request list res \<times> db" where
  "claimOpen pg now observeWindow limit leaseOwner leaseUntil s =
     (let seconds = windowSeconds observeWindow;
          failed = (\<lambda>msg e. Inl (NewInternal ''payment_request_query_failed'' msg (errorDetail e)))
      in case pgFault pg ''claim'' [] of
           Some e \<Rightarrow> (failed ''failed to claim open payment requests for reconciliation'' e, s)
         | None \<Rightarrow>
             if limit < 0 then
               (failed ''failed to claim open payment requests for reconciliation''
                  (pgViolation pg ''limit''), s)
             else if \<exists>r \<in> set (dbRequests s).
                       windowed r \<and> windowOpen pg now seconds (prMetadata r) = None then
               (failed ''failed to claim open payment requests for reconciliation''
                  (pgViolation pg ''timestamptz''), s)
             else
               (let chosen = candidates pg now seconds limit (dbRequests s);
                    s' = s\<lparr>dbRequests :=
                            leaseRows (set (map prID chosen)) (TrimSpace leaseOwner) leaseUntil
                              (dbRequests s)\<rparr>
                in case pgFault pg ''claim_rows'' [] of
                     Some e \<Rightarrow> (failed ''failed while iterating open payment requests'' e, s')
                   | None \<Rightarrow> (Inr (map (openRequestOf pg) chosen), s')))"

subsection \<open>SyncObservedSettlements\<close>

record settlement_state =
  ssAmountMinor :: string
  ssConfirmations :: int
  ssBlockHeight :: "int option"
  ssBlockHash :: "string option"
  ssIsCanonical :: bool
  ssMetadata :: gval

text \<open>
  The canonical JSON text is kept as the value it is the text of, keys sorted and numbers as
  \<^verbatim>\<open>float64\<close>; two canonical texts are equal iff these values are.
\<close>

definition canonicalJSON :: "pg \<Rightarrow> details \<Rightarrow> gval" where
  "canonicalJSON pg metadata = sort_keys (json_decode (pgNumber pg) (GMap metadata))"

fun object_of :: "gval \<Rightarrow> details" where
  "object_of (GMap m) = m"
| "object_of _ = []"

definition settlementOfRow :: "pg \<Rightarrow> settlement_row \<Rightarrow> settlement_state" where
  "settlementOfRow pg r =
     \<lparr>ssAmountMinor = TrimSpace (FormatInt (stAmountMinor r)),
      ssConfirmations = stConfirmations r,
      ssBlockHeight = stBlockHeight r,
      ssBlockHash = trimmedColumn (stBlockHash r),
      ssIsCanonical = stIsCanonical r,
      ssMetadata = canonicalJSON pg (stMetadata r)\<rparr>"

definition settlementOfEvidence :: "pg \<Rightarrow> evidence \<Rightarrow> settlement_state" where
  "settlementOfEvidence pg ev =
     \<lparr>ssAmountMinor = TrimSpace (evAmountMinor ev),
      ssConfirmations = (if evConfirmations ev < 0 then 0 else evConfirmations ev),
      ssBlockHeight = evBlockHeight ev,
      ssBlockHash = trimmedColumn (evBlockHash ev),
      ssIsCanonical = evIsCanonical ev,
      ssMetadata = canonicalJSON pg (evMetadata ev)\<rparr>"

definition settlementEquals :: "settlement_state \<Rightarrow> settlement_state \<Rightarrow> bool" where
  "settlementEquals a b =
     (if ssAmountMinor a \<noteq> ssAmountMinor b \<or> ssConfirmations a \<noteq> ssConfirmations b \<or>
         ssIsCanonical a \<noteq> ssIsCanonical b \<or> ssMetadata a \<noteq> ssMetadata b then False
      else if ssBlockHeight a \<noteq> ssBlockHeight b then False
      else ssBlockHash a = ssBlockHash b)"

lemma settlementEquals_iff [simp]: "settlementEquals a b \<longleftrightarrow> a = b"
  by (cases a, cases b) (auto simp: settlementEquals_def)

definition ofRequest :: "string \<Rightarrow> settlement_row \<Rightarrow> bool" where
  "ofRequest rid r = (stRequestID r = rid)"

definition loadExisting ::
  "pg \<Rightarrow> string \<Rightarrow> settlement_row list \<Rightarrow> (string \<times> settlement_state) list" where
  "loadExisting pg rid rows =
     map (\<lambda>r. (stEvidenceRef r, settlementOfRow pg r)) (filter (ofRequest rid) rows)"

definition syncError :: "string \<Rightarrow> string \<Rightarrow> string \<Rightarrow> string \<Rightarrow> string \<Rightarrow> app_error" where
  "syncError code msg e rid ref =
     NewInternal code msg
       ([(''error'', GStr e), (''id'', GStr rid)] @
        (if ref = [] then [] else [(''evidence_ref'', GStr ref)]))"

definition rowOfState :: "string \<Rightarrow> string \<Rightarrow> settlement_state \<Rightarrow> int \<Rightarrow> time \<Rightarrow> settlement_row" where
  "rowOfState rid ref st amount now =
     \<lparr>stRequestID = rid, stEvidenceRef = ref, stAmountMinor = amount,
      stConfirmations = ssConfirmations st, stBlockHeight = ssBlockHeight st,
      stBlockHash = ssBlockHash st, stIsCanonical = ssIsCanonical st,
      stMetadata = object_of (ssMetadata st), stFirstSeenAt = now, stLastSeenAt = now,
      stUpdatedAt = now\<rparr>"

definition updateSettlement :: "string \<Rightarrow> string \<Rightarrow> settlement_row \<Rightarrow> settlement_row list \<Rightarrow>
  settlement_row list" where
  "updateSettlement rid ref new rows =
     map (\<lambda>r. if ofRequest rid r \<and> stEvidenceRef r = ref
              then new\<lparr>stFirstSeenAt := stFirstSeenAt r\<rparr> else r) rows"

text \<open>The columns the server checks: a number that fits, not negative, and the size of the JSON.\<close>

definition checkSettlement :: "pg \<Rightarrow> settlement_state \<Rightarrow> string + int" where
  "checkSettlement pg st =
     (case pgNumeric pg (ssAmountMinor st) of
        None \<Rightarrow> Inl (pgViolation pg ''amount_minor'')
      | Some amount \<Rightarrow>
          if amount < 0 then Inl (pgViolation pg ''payment_request_settlements_amount_non_negative'')
          else if \<not> pgFits pg 4096 (ssMetadata st) then
            Inl (pgViolation pg ''payment_request_settlements_metadata_size'')
          else Inr amount)"

record sync_loop =
  slExisting :: "(string \<times> settlement_state) list"
  slRefs :: "string list"
  slRows :: "settlement_row list"

definition syncOne ::
  "pg \<Rightarrow> (string \<Rightarrow> bool) \<Rightarrow> string \<Rightarrow> time \<Rightarrow> evidence \<Rightarrow> sync_loop \<Rightarrow> sync_loop res" where
  "syncOne pg known rid now ev st =
     (let ref = TrimSpace (evRef ev); amountMinor = TrimSpace (evAmountMinor ev)
      in if ref = [] \<or> amountMinor = [] then Inr st
         else
           (let refs = (if ref \<in> set (slRefs st) then slRefs st else slRefs st @ [ref]);
                new = settlementOfEvidence pg ev;
                done = (\<lambda>rows. Inr \<lparr>slExisting = assoc_put ref new (slExisting st),
                                    slRefs = refs, slRows = rows\<rparr>)
            in case lookup (slExisting st) ref of
                 None \<Rightarrow>
                   (let failed = (\<lambda>e. Inl (syncError ''payment_request_update_failed''
                                      ''failed to insert settlement evidence'' e rid ref))
                    in case (pgFault pg ''settlement_insert'' ref, checkSettlement pg new) of
                         (Some e, _) \<Rightarrow> failed e
                       | (None, Inl e) \<Rightarrow> failed e
                       | (None, Inr amount) \<Rightarrow>
                           if \<not> known rid then
                             failed (pgViolation pg ''payment_request_settlements_fkey'')
                           else done (slRows st @ [rowOfState rid ref new amount now]))
               | Some current \<Rightarrow>
                   if settlementEquals current new then Inr (st\<lparr>slRefs := refs\<rparr>)
                   else
                     (let failed = (\<lambda>e. Inl (syncError ''payment_request_update_failed''
                                        ''failed to update settlement evidence'' e rid ref))
                      in case (pgFault pg ''settlement_update'' ref, checkSettlement pg new) of
                           (Some e, _) \<Rightarrow> failed e
                         | (None, Inl e) \<Rightarrow> failed e
                         | (None, Inr amount) \<Rightarrow>
                             done (updateSettlement rid ref (rowOfState rid ref new amount now)
                                     (slRows st)))))"

fun syncLoop ::
  "pg \<Rightarrow> (string \<Rightarrow> bool) \<Rightarrow> string \<Rightarrow> time \<Rightarrow> evidence list \<Rightarrow> sync_loop \<Rightarrow> sync_loop res" where
  "syncLoop pg known rid now [] st = Inr st"
| "syncLoop pg known rid now (ev # evs) st =
     (case syncOne pg known rid now ev st of
        Inl e \<Rightarrow> Inl e
      | Inr st' \<Rightarrow> syncLoop pg known rid now evs st')"

definition orphaned :: "string \<Rightarrow> string list \<Rightarrow> settlement_row \<Rightarrow> bool" where
  "orphaned rid refs r =
     (ofRequest rid r \<and> stIsCanonical r \<and> (refs = [] \<or> stEvidenceRef r \<notin> set refs))"

definition markOrphans :: "string \<Rightarrow> string list \<Rightarrow> time \<Rightarrow> settlement_row list \<Rightarrow> settlement_row list" where
  "markOrphans rid refs now rows =
     map (\<lambda>r. if orphaned rid refs r then r\<lparr>stIsCanonical := False, stUpdatedAt := now\<rparr> else r) rows"

definition summarize :: "string \<Rightarrow> settlement_row list \<Rightarrow> int \<Rightarrow> sync_result" where
  "summarize rid rows orphans =
     \<lparr>srCanonical = int (length (filter (\<lambda>r. ofRequest rid r \<and> stIsCanonical r) rows)),
      srNonCanonical = int (length (filter (\<lambda>r. ofRequest rid r \<and> \<not> stIsCanonical r) rows)),
      srNewlyOrphaned = orphans\<rparr>"

definition knownRequest :: "db \<Rightarrow> string \<Rightarrow> bool" where
  "knownRequest s rid = (\<exists>r \<in> set (dbRequests s). prID r = rid)"

definition orphanMessage :: "string list \<Rightarrow> string" where
  "orphanMessage refs =
     (if refs = [] then ''failed to mark orphaned settlements''
      else ''failed to mark missing settlements as orphaned'')"

definition syncSettlements ::
  "pg \<Rightarrow> string \<Rightarrow> string \<Rightarrow> string \<Rightarrow> string \<Rightarrow> time \<Rightarrow> evidence list \<Rightarrow> db \<Rightarrow> sync_result res \<times> db" where
  "syncSettlements pg requestID chain network asset now settlements s =
     (let rid = TrimSpace requestID;
          fail = (\<lambda>code msg e. (Inl (syncError code msg e rid []), s))
      in case pgFault pg ''sync_begin'' rid of
           Some e \<Rightarrow> fail ''payment_request_update_failed''
                      ''failed to begin settlement sync transaction'' e
         | None \<Rightarrow>
         case pgFault pg ''sync_load'' rid of
           Some e \<Rightarrow> fail ''payment_request_query_failed''
                      ''failed to load existing settlement evidence'' e
         | None \<Rightarrow>
         case syncLoop pg (knownRequest s) rid now settlements
                \<lparr>slExisting = loadExisting pg rid (dbSettlements s), slRefs = [],
                 slRows = dbSettlements s\<rparr> of
           Inl e \<Rightarrow> (Inl e, s)
         | Inr st \<Rightarrow>
         case pgFault pg ''sync_orphans'' rid of
           Some e \<Rightarrow> fail ''payment_request_update_failed'' (orphanMessage (slRefs st)) e
         | None \<Rightarrow>
         (let rows = markOrphans rid (slRefs st) now (slRows st);
              orphans = int (length (filter (orphaned rid (slRefs st)) (slRows st)))
          in case pgFault pg ''sync_count'' rid of
               Some e \<Rightarrow> fail ''payment_request_query_failed''
                          ''failed to summarize settlement evidence'' e
             | None \<Rightarrow>
             case pgFault pg ''sync_commit'' rid of
               Some e \<Rightarrow> fail ''payment_request_update_failed''
                          ''failed to commit settlement sync transaction'' e
             | None \<Rightarrow> (Inr (summarize rid rows orphans), s\<lparr>dbSettlements := rows\<rparr>)))"

subsection \<open>TransitionStatusIfCurrent\<close>

text \<open>The JSON of the transition metadata: the \<^verbatim>\<open>omitempty\<close> fields appear when not empty.\<close>

definition stringField :: "string \<Rightarrow> string \<Rightarrow> details" where
  "stringField k v = (if v = [] then [] else [(k, GStr v)])"

definition intField :: "string \<Rightarrow> int \<Rightarrow> details" where
  "intField k v = (if v = 0 then [] else [(k, GInt v)])"

definition timeField :: "string \<Rightarrow> time option \<Rightarrow> details" where
  "timeField k v = (case v of None \<Rightarrow> [] | Some t \<Rightarrow> [(k, GTime t)])"

definition encodeSummary :: "evidence_summary \<Rightarrow> gval" where
  "encodeSummary es =
     GMap (intField ''canonical_count'' (esCanonical es) @
           intField ''non_canonical_count'' (esNonCanonical es) @
           intField ''newly_orphaned_count'' (esNewlyOrphaned es))"

definition encodeTransition :: "transition_metadata \<Rightarrow> details" where
  "encodeTransition md =
     stringField ''observed_amount_minor'' (tmObservedAmountMinor md) @
     stringField ''observation_source'' (tmObservationSource md) @
     (if tmObservationDetails md = [] then []
      else [(''observation_details'', GMap (tmObservationDetails md))]) @
     stringField ''transition_reason'' (tmTransitionReason md) @
     (case tmFinalityReached md of None \<Rightarrow> [] | Some b \<Rightarrow> [(''finality_reached'', GBool b)]) @
     (case tmEvidenceSummary md of None \<Rightarrow> []
      | Some es \<Rightarrow> [(''evidence_summary'', encodeSummary es)]) @
     timeField ''first_confirmed_at'' (tmFirstConfirmedAt md) @
     timeField ''finality_reached_at'' (tmFinalityReachedAt md) @
     stringField ''stability_signal'' (tmStabilitySignal md) @
     intField ''stability_promote_streak'' (tmStabilityPromoteStreak md) @
     intField ''stability_demote_streak'' (tmStabilityDemoteStreak md) @
     [(''updated_at'', GTime (tmUpdatedAt md))]"

definition hasMetadata :: "transition_metadata \<Rightarrow> bool" where
  "hasMetadata md =
     (\<not> IsZero (tmUpdatedAt md) \<or> tmObservedAmountMinor md \<noteq> [] \<or> tmObservationSource md \<noteq> [] \<or>
      tmObservationDetails md \<noteq> [] \<or> tmTransitionReason md \<noteq> [] \<or>
      tmFinalityReached md \<noteq> None \<or> tmEvidenceSummary md \<noteq> None \<or>
      tmFirstConfirmedAt md \<noteq> None \<or> tmFinalityReachedAt md \<noteq> None \<or>
      tmStabilitySignal md \<noteq> [] \<or> tmStabilityPromoteStreak md > 0 \<or>
      tmStabilityDemoteStreak md > 0)"

definition metadataPayload :: "transition_metadata \<Rightarrow> details" where
  "metadataPayload md =
     (if hasMetadata md then [(''reconciliation'', GMap (encodeTransition md))] else [])"

text \<open>\<^verbatim>\<open>jsonb || jsonb\<close> on objects: the right operand's top-level keys win.\<close>

definition jsonb_merge :: "details \<Rightarrow> details \<Rightarrow> details" where
  "jsonb_merge m n = foldl (\<lambda>acc (k, v). assoc_put k v acc) m n"

definition transitionMatches :: "string \<Rightarrow> string \<Rightarrow> string \<Rightarrow> request_row \<Rightarrow> bool" where
  "transitionMatches rid cur owner r =
     (prID r = rid \<and> prStatus r = cur \<and>
      (prLeaseOwner r = None \<or> prLeaseOwner r = Some owner))"

definition transitionRow :: "string \<Rightarrow> details \<Rightarrow> time \<Rightarrow> request_row \<Rightarrow> request_row" where
  "transitionRow nxt payload now r =
     r\<lparr>prStatus := nxt, prMetadata := jsonb_merge (prMetadata r) payload, prUpdatedAt := now,
       prLeaseOwner := None, prLeaseUntil := None\<rparr>"

primrec strip_nulls :: "gval \<Rightarrow> gval" where
  "strip_nulls GNil = GNil"
| "strip_nulls (GBool b) = GBool b"
| "strip_nulls (GStr s) = GStr s"
| "strip_nulls (GTime t) = GTime t"
| "strip_nulls (GNum s) = GNum s"
| "strip_nulls (GFloat m e) = GFloat m e"
| "strip_nulls (GInt i) = GInt i"
| "strip_nulls (GArr xs) = GArr (map strip_nulls xs)"
| "strip_nulls (GMap m) = GMap (filter (\<lambda>kv. snd kv \<noteq> GNil) (map (map_prod id strip_nulls) m))"

definition nullable :: "gval option \<Rightarrow> gval" where
  "nullable v = (case v of None \<Rightarrow> GNil | Some x \<Rightarrow> x)"

text \<open>\<^verbatim>\<open>NULLIF($4::jsonb #>> '{reconciliation,key}', '')\<close> for a text value.\<close>

definition reconciliationText :: "details \<Rightarrow> string \<Rightarrow> gval" where
  "reconciliationText payload k =
     (case lookup payload ''reconciliation'' of
        Some (GMap m) \<Rightarrow> (case lookup m k of Some (GStr v) \<Rightarrow> if v = [] then GNil else GStr v
                         | _ \<Rightarrow> GNil)
      | _ \<Rightarrow> GNil)"

definition reconciliationValue :: "details \<Rightarrow> string \<Rightarrow> gval" where
  "reconciliationValue payload k =
     (case lookup payload ''reconciliation'' of
        Some (GMap m) \<Rightarrow> nullable (lookup m k)
      | _ \<Rightarrow> GNil)"

definition eventPayload ::
  "string \<Rightarrow> string \<Rightarrow> string \<Rightarrow> details \<Rightarrow> time \<Rightarrow> request_row \<Rightarrow> gval" where
  "eventPayload eventID cur nxt payload now r =
     strip_nulls (GMap
       [(''event_id'', GStr eventID),
        (''event_type'', GStr ''payment_request.status_changed''),
        (''occurred_at'', GTime now),
        (''data'', GMap
          [(''payment_request'', strip_nulls (GMap
             [(''id'', GStr (prID r)),
              (''chain'', GStr (prChain r)),
              (''network'', GStr (prNetwork r)),
              (''asset'', GStr (prAsset r)),
              (''expected_amount_minor'',
                 nullable (map_option (GStr \<circ> FormatInt) (prExpectedAmountMinor r))),
              (''address_canonical'', GStr (prAddressCanonical r)),
              (''expires_at'', GTime (prExpiresAt r)),
              (''previous_status'', GStr cur),
              (''current_status'', GStr nxt),
              (''observed_amount_minor'', reconciliationText payload ''observed_amount_minor''),
              (''observation_source'', reconciliationText payload ''observation_source''),
              (''transition_reason'', reconciliationText payload ''transition_reason''),
              (''finality_reached'', reconciliationValue payload ''finality_reached''),
              (''evidence_summary'', reconciliationValue payload ''evidence_summary'')]))])])"

definition emitsEvent :: "bool \<Rightarrow> string \<Rightarrow> string \<Rightarrow> request_row \<Rightarrow> bool" where
  "emitsEvent outboxEnabled cur nxt r =
     (outboxEnabled \<and> cur \<noteq> nxt \<and>
      (nxt = ''detected'' \<or> nxt = ''confirmed'' \<or> nxt = ''reorged'' \<or> nxt = ''expired'') \<and>
      \<not> blank_column (prWebhookURL r))"

definition newEvent ::
  "pg \<Rightarrow> int \<Rightarrow> string \<Rightarrow> string \<Rightarrow> details \<Rightarrow> time \<Rightarrow> int \<Rightarrow> request_row \<Rightarrow> outbox_row" where
  "newEvent pg maxAttempts cur nxt payload now oid r =
     (let eventID = pgEventID pg (prID r) oid
      in \<lparr>oeID = oid, oeEventID = eventID, oeEventType = ''payment_request.status_changed'',
          oePaymentRequestID = prID r, oeDestinationURL = prWebhookURL r,
          oePayload = eventPayload eventID cur nxt payload now r,
          oeDeliveryStatus = ''pending'', oeAttempts = 0, oeMaxAttempts = maxAttempts,
          oeNextAttemptAt = now, oeLeaseOwner = None, oeLeaseUntil = None, oeLastError = None,
          oeDeliveredAt = None, oeManualLastAction = None, oeManualLastActor = None,
          oeManualLastAt = None, oeCreatedAt = now, oeUpdatedAt = now\<rparr>)"

text \<open>What the constraints of the two tables reject, for the rows a transition would write.\<close>

definition allowedStatus :: "string \<Rightarrow> bool" where
  "allowedStatus st =
     (st \<in> {''pending'', ''detected'', ''confirmed'', ''reorged'', ''expired'', ''failed''})"

definition transitionViolation ::
  "pg \<Rightarrow> request_row list \<Rightarrow> outbox_row list \<Rightarrow> outbox_row list \<Rightarrow> string option" where
  "transitionViolation pg updated events outbox =
     (if \<exists>r \<in> set updated. \<not> allowedStatus (prStatus r) then
        Some (pgViolation pg ''payment_requests_status_allowed'')
      else if \<exists>r \<in> set updated. \<not> pgFits pg 4096 (GMap (prMetadata r)) then
        Some (pgViolation pg ''payment_requests_metadata_size'')
      else if \<exists>e \<in> set events. oeEventID e \<in> oeEventID ` set outbox then
        Some (pgViolation pg ''webhook_outbox_events_event_id_key'')
      else if \<exists>e \<in> set events. \<not> 0 < oeMaxAttempts e then
        Some (pgViolation pg ''webhook_outbox_max_attempts_positive'')
      else if \<exists>e \<in> set events. \<not> pgFits pg 16384 (oePayload e) then
        Some (pgViolation pg ''webhook_outbox_payload_size'')
      else None)"

record repository_config =
  rWebhookOutboxEnabled :: bool
  rWebhookMaxAttempts :: int

definition newRepositoryConfig :: "bool \<Rightarrow> int \<Rightarrow> repository_config" where
  "newRepositoryConfig enabled maxAttempts =
     \<lparr>rWebhookOutboxEnabled = enabled,
      rWebhookMaxAttempts = (if maxAttempts \<le> 0 then 8 else maxAttempts)\<rparr>"

text \<open>The request identifier is the primary key, so at most one row matches.\<close>

definition transitionStatus ::
  "pg \<Rightarrow> repository_config \<Rightarrow> string \<Rightarrow> string \<Rightarrow> string \<Rightarrow> time \<Rightarrow> string \<Rightarrow> transition_metadata \<Rightarrow>
   db \<Rightarrow> bool res \<times> db" where
  "transitionStatus pg cfg requestID currentStatus nextStatus now leaseOwner md s =
     (let rid = TrimSpace requestID;
          cur = ToLower (TrimSpace currentStatus);
          nxt = ToLower (TrimSpace nextStatus);
          owner = TrimSpace leaseOwner;
          payload = metadataPayload md;
          matched = filter (transitionMatches rid cur owner) (dbRequests s);
          emitting = filter (emitsEvent (rWebhookOutboxEnabled cfg) cur nxt) matched;
          events = map2 (newEvent pg (rWebhookMaxAttempts cfg) cur nxt payload now)
                     (map (\<lambda>i. dbNextOutboxID s + int i) [0..<length emitting]) emitting;
          failed = (\<lambda>e. (Inl (NewInternal ''payment_request_update_failed''
                          ''failed to transition payment request status''
                          [(''error'', GStr e), (''id'', GStr requestID)]), s))
      in case pgFault pg ''transition'' rid of
           Some e \<Rightarrow> failed e
         | None \<Rightarrow>
         case transitionViolation pg (map (transitionRow nxt payload now) matched) events
                (dbOutbox s) of
           Some e \<Rightarrow> failed e
         | None \<Rightarrow>
             (Inr (length matched = 1),
              s\<lparr>dbRequests :=
                  map (\<lambda>r. if transitionMatches rid cur owner r
                           then transitionRow nxt payload now r else r) (dbRequests s),
                dbOutbox := dbOutbox s @ events,
                dbNextOutboxID := dbNextOutboxID s + int (length emitting)\<rparr>))"

subsection \<open>The repository, as the reconciler sees it\<close>

definition paymentRepository :: "pg \<Rightarrow> repository_config \<Rightarrow> db reconciliation_repository" where
  "paymentRepository pg cfg =
     \<lparr>ClaimOpenForReconciliation = claimOpen pg,
      SyncObservedSettlements = syncSettlements pg,
      TransitionStatusIfCurrent = transitionStatus pg cfg\<rparr>"

lemma find_map_same:
  assumes "\<And>r. P (f r) = P r"
  shows "find P (map f rows) = map_option f (find P rows)"
  using assms by (induction rows) auto

lemma prID_leaseRows:
  "request_status (s\<lparr>dbRequests := leaseRows ids own lu (dbRequests s)\<rparr>) = request_status s"
  by (rule ext)
    (auto simp: request_status_def leaseRows_def find_map_same option.map_comp comp_def
      intro!: map_option_cong)

lemma claimOpen_status:
  "claimOpen pg now w lim own lu s = (r, s') \<Longrightarrow> request_status s' = request_status s"
  by (auto simp: claimOpen_def Let_def prID_leaseRows split: option.splits if_splits)

lemma syncSettlements_requests:
  "syncSettlements pg rid ch nw asst now evs s = (q, s') \<Longrightarrow> dbRequests s' = dbRequests s"
  by (auto simp: syncSettlements_def Let_def split: option.splits sum.splits)

lemma transition_find:
  "find (\<lambda>r. prID r = k)
     (map (\<lambda>r. if transitionMatches rid cur owner r then transitionRow nxt pl now r else r) rows) =
   map_option (\<lambda>r. if transitionMatches rid cur owner r then transitionRow nxt pl now r else r)
     (find (\<lambda>r. prID r = k) rows)"
  by (rule find_map_same) (simp add: transitionRow_def)

lemma find_key: "find (\<lambda>r. prID r = k) rows = Some r \<Longrightarrow> prID r = k \<and> r \<in> set rows"
  by (induction rows) (auto split: if_splits)

lemma transitionStatus_status:
  assumes "transitionStatus pg cfg rid cur nxt now own md s = (b, s')"
  shows "request_status s' = request_status s \<or>
         request_status s (TrimSpace rid) = Some (ToLower (TrimSpace cur)) \<and>
         request_status s' = (request_status s)(TrimSpace rid \<mapsto> ToLower (TrimSpace nxt))"
proof -
  let ?m = "transitionMatches (TrimSpace rid) (ToLower (TrimSpace cur)) (TrimSpace own)"
  let ?f = "\<lambda>r. if ?m r then transitionRow (ToLower (TrimSpace nxt)) (metadataPayload md) now r else r"
  from assms consider "s' = s" | "dbRequests s' = map ?f (dbRequests s)"
    by (auto simp: transitionStatus_def Let_def split: option.splits if_splits)
  then show ?thesis
  proof cases
    case 2
    have st: "request_status s' k =
        map_option (\<lambda>r. prStatus (?f r)) (find (\<lambda>r. prID r = k) (dbRequests s))" for k
      by (simp add: request_status_def 2 transition_find option.map_comp comp_def)
    have same: "request_status s' k = request_status s k"
      if "\<And>a. find (\<lambda>r. prID r = k) (dbRequests s) = Some a \<Longrightarrow> \<not> ?m a" for k
      using that unfolding st unfolding request_status_def
      by (cases "find (\<lambda>r. prID r = k) (dbRequests s)") simp_all
    have key: "k = TrimSpace rid" if "find (\<lambda>r. prID r = k) (dbRequests s) = Some a" "?m a" for k a
      using find_key [OF that(1)] that(2) by (simp add: transitionMatches_def)
    show ?thesis
    proof (cases "\<exists>a. find (\<lambda>r. prID r = TrimSpace rid) (dbRequests s) = Some a \<and> ?m a")
      case True
      then obtain a where a: "find (\<lambda>r. prID r = TrimSpace rid) (dbRequests s) = Some a" "?m a"
        by blast
      have "request_status s' (TrimSpace rid) = Some (ToLower (TrimSpace nxt))"
        using a unfolding st by (simp add: transitionRow_def)
      moreover have "request_status s (TrimSpace rid) = Some (ToLower (TrimSpace cur))"
        using a by (simp add: request_status_def transitionMatches_def)
      moreover have "request_status s' k = request_status s k" if "k \<noteq> TrimSpace rid" for k
        using key that by (intro same) blast
      ultimately show ?thesis by (auto simp: fun_eq_iff)
    next
      case False
      then have "request_status s' k = request_status s k" for k
        using key by (intro same) blast
      then show ?thesis by auto
    qed
  qed simp
qed

interpretation store: reconciliation_port "paymentRepository pg cfg" request_status for pg cfg
proof
  show "request_status s' = request_status s"
    if "ClaimOpenForReconciliation (paymentRepository pg cfg) now w lim own lu s = (r, s')"
    for now w lim own lu s r s'
    using that by (simp add: paymentRepository_def claimOpen_status)
  show "request_status s' = request_status s"
    if "SyncObservedSettlements (paymentRepository pg cfg) rid ch nw asst now evs s = (q, s')"
    for rid ch nw asst now evs s q s'
    using syncSettlements_requests [of pg rid ch nw asst now evs s q s'] that
    by (simp add: paymentRepository_def request_status_def fun_eq_iff)
  show "request_status s' = request_status s \<or>
      request_status s (TrimSpace rid) = Some (ToLower (TrimSpace cur)) \<and>
      request_status s' = (request_status s)(TrimSpace rid \<mapsto> ToLower (TrimSpace nxt))"
    if "TransitionStatusIfCurrent (paymentRepository pg cfg) rid cur nxt now own md s = (b, s')"
    for rid cur nxt now own md s b s'
    using that by (intro transitionStatus_status) (simp add: paymentRepository_def)
qed

end
