(* ===== verification/SettlementSync.thy ===== *)
theory SettlementSync
  imports PaymentStore
begin

text \<open>
  What \<open>syncSettlements\<close> achieves, stated over the old rows and the evidence alone
  (\<open>sync_spec\<close>): the loop keeps \<open>sync_inv\<close>, so after a success the canonical evidence of the
  request is exactly what was observed last, and everything else it had is orphaned.
\<close>

definition usable :: "evidence \<Rightarrow> bool" where
  "usable ev = (TrimSpace (evRef ev) \<noteq> [] \<and> TrimSpace (evAmountMinor ev) \<noteq> [])"

definition lastObserved :: "evidence list \<Rightarrow> string \<Rightarrow> evidence option" where
  "lastObserved evs ref = find (\<lambda>ev. usable ev \<and> TrimSpace (evRef ev) = ref) (rev evs)"

definition observedRefs :: "evidence list \<Rightarrow> string set" where
  "observedRefs evs = {TrimSpace (evRef ev) |ev. ev \<in> set evs \<and> usable ev}"

lemma lastObserved_snoc:
  "lastObserved (evs @ [ev]) ref =
     (if usable ev \<and> TrimSpace (evRef ev) = ref then Some ev else lastObserved evs ref)"
  by (simp add: lastObserved_def)

lemma lastObserved_None: "lastObserved evs ref = None \<longleftrightarrow> ref \<notin> observedRefs evs"
  by (auto simp: lastObserved_def observedRefs_def find_None_iff)

lemma observedRefs_snoc:
  "observedRefs (evs @ [ev]) =
     (if usable ev then insert (TrimSpace (evRef ev)) (observedRefs evs) else observedRefs evs)"
  by (auto simp: observedRefs_def)

definition rowFor :: "string \<Rightarrow> string \<Rightarrow> settlement_row list \<Rightarrow> settlement_row option" where
  "rowFor rid ref rows = find (\<lambda>r. ofRequest rid r \<and> stEvidenceRef r = ref) rows"

definition settlementKeys :: "settlement_row list \<Rightarrow> (string \<times> string) list" where
  "settlementKeys rows = map (\<lambda>r. (stRequestID r, stEvidenceRef r)) rows"

definition shows_state :: "pg \<Rightarrow> settlement_row \<Rightarrow> settlement_state \<Rightarrow> bool" where
  "shows_state pg r st =
     (pgNumeric pg (ssAmountMinor st) = Some (stAmountMinor r) \<and>
      stConfirmations r = ssConfirmations st \<and> stBlockHeight r = ssBlockHeight st \<and>
      trimmedColumn (stBlockHash r) = ssBlockHash st \<and> stIsCanonical r = ssIsCanonical st)"

definition untouched :: "string \<Rightarrow> string set \<Rightarrow> settlement_row list \<Rightarrow> settlement_row list" where
  "untouched rid refs rows = filter (\<lambda>r. \<not> (ofRequest rid r \<and> stEvidenceRef r \<in> refs)) rows"

definition sync_inv ::
  "pg \<Rightarrow> string \<Rightarrow> settlement_row list \<Rightarrow> evidence list \<Rightarrow> sync_loop \<Rightarrow> bool" where
  "sync_inv pg rid rows0 evs st =
     (set (slRefs st) = observedRefs evs \<and>
      distinct (settlementKeys (slRows st)) \<and>
      untouched rid (observedRefs evs) (slRows st) = untouched rid (observedRefs evs) rows0 \<and>
      (\<forall>ref. rel_option (shows_state pg) (rowFor rid ref (slRows st)) (lookup (slExisting st) ref)) \<and>
      (\<forall>ref ev. lastObserved evs ref = Some ev \<longrightarrow>
         lookup (slExisting st) ref = Some (settlementOfEvidence pg ev)))"

lemma rowFor_append:
  "rowFor rid ref (rows @ [r]) =
     (case rowFor rid ref rows of None \<Rightarrow> if ofRequest rid r \<and> stEvidenceRef r = ref then Some r else None
      | Some x \<Rightarrow> Some x)"
  by (induction rows) (auto simp: rowFor_def)

lemma rowFor_update:
  assumes "ofRequest rid new" "stEvidenceRef new = ref'"
  shows "rowFor rid ref (updateSettlement rid ref' new rows) =
     (if ref = ref' then map_option (\<lambda>r. new\<lparr>stFirstSeenAt := stFirstSeenAt r\<rparr>) (rowFor rid ref rows)
      else rowFor rid ref rows)"
  using assms by (induction rows) (auto simp: rowFor_def updateSettlement_def ofRequest_def)

lemma settlementKeys_update:
  assumes "ofRequest rid new" "stEvidenceRef new = ref"
  shows "settlementKeys (updateSettlement rid ref new rows) = settlementKeys rows"
  using assms by (auto simp: settlementKeys_def updateSettlement_def ofRequest_def)

lemma rowFor_None_key: "rowFor rid ref rows = None \<Longrightarrow> (rid, ref) \<notin> set (settlementKeys rows)"
  by (auto simp: rowFor_def settlementKeys_def find_None_iff ofRequest_def)

lemma untouched_update:
  "ref \<in> refs \<Longrightarrow> ofRequest rid new \<Longrightarrow> stEvidenceRef new = ref \<Longrightarrow>
     untouched rid refs (updateSettlement rid ref new rows) = untouched rid refs rows"
  by (induction rows) (auto simp: untouched_def updateSettlement_def ofRequest_def)

lemma untouched_insert:
  "untouched rid refs rows = untouched rid refs rows' \<Longrightarrow>
     untouched rid (insert ref refs) rows = untouched rid (insert ref refs) rows'"
proof -
  have split: "untouched rid (insert ref refs) xs =
      filter (\<lambda>r. \<not> (ofRequest rid r \<and> stEvidenceRef r = ref)) (untouched rid refs xs)" for xs
    by (auto simp: untouched_def intro!: filter_cong)
  assume "untouched rid refs rows = untouched rid refs rows'"
  then show ?thesis by (simp add: split)
qed

lemma untouched_append [simp]:
  "ofRequest rid r \<Longrightarrow> stEvidenceRef r \<in> refs \<Longrightarrow>
     untouched rid refs (rows @ [r]) = untouched rid refs rows"
  by (simp add: untouched_def)

lemma rowOfState_simps [simp]:
  "stRequestID (rowOfState rid ref st a now) = rid"
  "stEvidenceRef (rowOfState rid ref st a now) = ref"
  "ofRequest rid (rowOfState rid ref st a now)"
  by (simp_all add: rowOfState_def ofRequest_def)

lemma trimmedColumn_idem [simp]: "trimmedColumn (trimmedColumn v) = trimmedColumn v"
  by (auto simp: trimmedColumn_def split: option.splits)

lemma shows_rowOfState:
  "checkSettlement pg (settlementOfEvidence pg ev) = Inr amount \<Longrightarrow>
     shows_state pg (rowOfState rid ref (settlementOfEvidence pg ev) amount now)
       (settlementOfEvidence pg ev)"
  by (auto simp: checkSettlement_def shows_state_def rowOfState_def settlementOfEvidence_def
      split: option.splits if_splits)

lemma shows_first_seen [simp]:
  "shows_state pg (r\<lparr>stFirstSeenAt := t\<rparr>) st = shows_state pg r st"
  by (simp add: shows_state_def)

lemma syncOne_inv:
  assumes "syncOne pg known rid now ev st = Inr st'" "sync_inv pg rid rows0 evs st"
  shows "sync_inv pg rid rows0 (evs @ [ev]) st'"
proof (cases "usable ev")
  case False
  with assms show ?thesis
    by (auto simp: syncOne_def usable_def sync_inv_def observedRefs_snoc lastObserved_snoc)
next
  case True
  let ?ref = "TrimSpace (evRef ev)" and ?new = "settlementOfEvidence pg ev"
  let ?refs = "if ?ref \<in> set (slRefs st) then slRefs st else slRefs st @ [?ref]"
  have refs: "set ?refs = observedRefs (evs @ [ev])"
    using assms(2) True by (auto simp: sync_inv_def observedRefs_snoc)
  note inv = assms(2) [unfolded sync_inv_def]
  consider
      (insert) amount where "lookup (slExisting st) ?ref = None"
        "checkSettlement pg ?new = Inr amount"
        "st' = \<lparr>slExisting = assoc_put ?ref ?new (slExisting st), slRefs = ?refs,
                slRows = slRows st @ [rowOfState rid ?ref ?new amount now]\<rparr>"
    | (same) "lookup (slExisting st) ?ref = Some ?new" "st' = st\<lparr>slRefs := ?refs\<rparr>"
    | (update) current amount where "lookup (slExisting st) ?ref = Some current"
        "checkSettlement pg ?new = Inr amount"
        "st' = \<lparr>slExisting = assoc_put ?ref ?new (slExisting st), slRefs = ?refs,
                slRows = updateSettlement rid ?ref (rowOfState rid ?ref ?new amount now) (slRows st)\<rparr>"
    using assms(1) True unfolding syncOne_def Let_def usable_def
    by (auto split: option.splits sum.splits if_splits)
  then show ?thesis
  proof cases
    case insert
    then have none: "rowFor rid ?ref (slRows st) = None" using inv by (metis option.rel_sel)
    have rel: "rel_option (shows_state pg) (rowFor rid r (slRows st)) (lookup (slExisting st) r)" for r
      using inv by blast
    have "rel_option (shows_state pg) (rowFor rid r (slRows st')) (lookup (slExisting st') r)" for r
      using rel [of r] insert(3) none shows_rowOfState [OF insert(2)]
      by (cases "r = ?ref"; cases "rowFor rid r (slRows st)") (auto simp: rowFor_append)
    moreover have "untouched rid (observedRefs (evs @ [ev])) (slRows st') =
        untouched rid (observedRefs (evs @ [ev])) rows0"
      using inv insert(3) True untouched_insert [of rid "observedRefs evs" "slRows st" rows0 ?ref]
      by (simp add: observedRefs_snoc untouched_append)
    ultimately show ?thesis
      using inv insert(3) True refs rowFor_None_key [OF none]
      by (auto simp: sync_inv_def lastObserved_snoc settlementKeys_def)
  next
    case same
    then show ?thesis
      using inv True refs untouched_insert [of rid "observedRefs evs" "slRows st" rows0 ?ref]
      by (auto simp: sync_inv_def lastObserved_snoc observedRefs_snoc)
  next
    case update
    have "rel_option (shows_state pg) (rowFor rid r (slRows st')) (lookup (slExisting st') r)" for r
    proof (cases "r = ?ref")
      case True
      have "rel_option (shows_state pg) (rowFor rid ?ref (slRows st)) (Some current)"
        using inv update(1) by metis
      then show ?thesis
        using True update(3) shows_rowOfState [OF update(2)]
        by (auto simp: rowFor_update option_rel_Some2)
    next
      case False
      then show ?thesis using inv update(3) by (simp add: rowFor_update)
    qed
    moreover have "untouched rid (observedRefs (evs @ [ev])) (slRows st') =
        untouched rid (observedRefs (evs @ [ev])) rows0"
      using inv update(3) True untouched_insert [of rid "observedRefs evs" "slRows st" rows0 ?ref]
      by (simp add: observedRefs_snoc untouched_update)
    ultimately show ?thesis
      using inv update(3) True refs
      by (auto simp: sync_inv_def lastObserved_snoc settlementKeys_update)
  qed
qed

lemma syncLoop_inv:
  "syncLoop pg known rid now evs st = Inr st' \<Longrightarrow> sync_inv pg rid rows0 before st \<Longrightarrow>
     sync_inv pg rid rows0 (before @ evs) st'"
proof (induction evs arbitrary: before st)
  case (Cons ev evs)
  then show ?case
    by (auto split: sum.splits dest!: syncOne_inv [where evs = before]
        intro: Cons.IH [of _ "before @ [ev]", simplified])
qed simp

text \<open>
  The settlement table as the server keeps it: the primary key, and amounts the column can hold.
  \<open>numericLaw\<close>: a value of the column, written as text, is read back as itself.
\<close>

definition settlementsOK :: "pg \<Rightarrow> settlement_row list \<Rightarrow> bool" where
  "settlementsOK pg rows =
     (distinct (settlementKeys rows) \<and>
      (\<forall>r \<in> set rows. pgNumeric pg (FormatInt (stAmountMinor r)) = Some (stAmountMinor r)))"

definition numericLaw :: "pg \<Rightarrow> bool" where
  "numericLaw pg = (\<forall>t n. pgNumeric pg t = Some n \<longrightarrow> pgNumeric pg (FormatInt n) = Some n)"

lemma loadExisting_shows:
  assumes "\<And>r. r \<in> set rows \<Longrightarrow> pgNumeric pg (FormatInt (stAmountMinor r)) = Some (stAmountMinor r)"
  shows "rel_option (shows_state pg) (rowFor rid ref rows) (lookup (loadExisting pg rid rows) ref)"
  using assms
  by (induction rows)
    (auto simp: rowFor_def loadExisting_def shows_state_def settlementOfRow_def)

lemma sync_inv_start:
  assumes "settlementsOK pg rows"
  shows "sync_inv pg rid rows [] \<lparr>slExisting = loadExisting pg rid rows, slRefs = [], slRows = rows\<rparr>"
  using assms
  by (simp add: settlementsOK_def sync_inv_def loadExisting_shows observedRefs_def lastObserved_def)

lemma rowFor_untouched:
  "ref \<notin> refs \<Longrightarrow> rowFor rid ref (untouched rid refs rows) = rowFor rid ref rows"
  by (induction rows) (auto simp: rowFor_def untouched_def)

lemma rowFor_markOrphans:
  "rowFor rid ref (markOrphans rid refs now rows) =
     map_option (\<lambda>r. if orphaned rid refs r then r\<lparr>stIsCanonical := False, stUpdatedAt := now\<rparr> else r)
       (rowFor rid ref rows)"
  by (induction rows) (auto simp: rowFor_def markOrphans_def ofRequest_def)

lemma settlementKeys_markOrphans [simp]:
  "settlementKeys (markOrphans rid refs now rows) = settlementKeys rows"
  by (auto simp: settlementKeys_def markOrphans_def)

lemma orphaned_unobserved:
  "set refs = R \<Longrightarrow> orphaned rid refs r \<longleftrightarrow> ofRequest rid r \<and> stIsCanonical r \<and> stEvidenceRef r \<notin> R"
  by (auto simp: orphaned_def)

lemma filter_orphaned_untouched:
  assumes "set refs = R"
  shows "filter (orphaned rid refs) rows = filter (orphaned rid refs) (untouched rid R rows)"
  using assms by (auto simp: untouched_def orphaned_unobserved intro!: filter_cong)

lemma others_untouched:
  "filter (\<lambda>r. \<not> ofRequest rid r) rows = filter (\<lambda>r. \<not> ofRequest rid r) (untouched rid R rows)"
  by (auto simp: untouched_def intro!: filter_cong)

lemma others_markOrphans:
  "filter (\<lambda>r. \<not> ofRequest rid r) (markOrphans rid refs now rows) =
     filter (\<lambda>r. \<not> ofRequest rid r) rows"
  by (induction rows) (auto simp: markOrphans_def orphaned_def ofRequest_def)

lemma rowFor_Some: "rowFor rid ref rows = Some r \<Longrightarrow> ofRequest rid r \<and> stEvidenceRef r = ref"
  by (induction rows) (auto simp: rowFor_def split: if_splits)

text \<open>
  What a successful sync leaves behind, in terms of the old rows and the evidence alone.
\<close>

definition sync_spec ::
  "pg \<Rightarrow> string \<Rightarrow> time \<Rightarrow> evidence list \<Rightarrow> settlement_row list \<Rightarrow> settlement_row list \<Rightarrow> sync_result \<Rightarrow> bool"
  where
  "sync_spec pg rid now evs rows rows' sm =
     (distinct (settlementKeys rows') \<and>
      filter (\<lambda>r. \<not> ofRequest rid r) rows' = filter (\<lambda>r. \<not> ofRequest rid r) rows \<and>
      (\<forall>ref. case lastObserved evs ref of
           Some ev \<Rightarrow> (case rowFor rid ref rows' of
               Some r \<Rightarrow> shows_state pg r (settlementOfEvidence pg ev)
             | None \<Rightarrow> False)
         | None \<Rightarrow> rowFor rid ref rows' =
             map_option (\<lambda>r. if stIsCanonical r
                             then r\<lparr>stIsCanonical := False, stUpdatedAt := now\<rparr> else r)
               (rowFor rid ref rows)) \<and>
      srNewlyOrphaned sm =
        int (length (filter (\<lambda>r. ofRequest rid r \<and> stIsCanonical r \<and>
                                  lastObserved evs (stEvidenceRef r) = None) rows)) \<and>
      srCanonical sm = int (length (filter (\<lambda>r. ofRequest rid r \<and> stIsCanonical r) rows')) \<and>
      srNonCanonical sm = int (length (filter (\<lambda>r. ofRequest rid r \<and> \<not> stIsCanonical r) rows')))"

lemma sync_inv_spec:
  assumes "sync_inv pg rid rows evs st"
  shows "sync_spec pg rid now evs rows (markOrphans rid (slRefs st) now (slRows st))
     (summarize rid (markOrphans rid (slRefs st) now (slRows st))
       (int (length (filter (orphaned rid (slRefs st)) (slRows st)))))"
proof -
  note inv = assms [unfolded sync_inv_def]
  have refs: "set (slRefs st) = observedRefs evs" using inv by blast
  have un: "untouched rid (observedRefs evs) (slRows st) = untouched rid (observedRefs evs) rows"
    using inv by blast
  have orphan: "orphaned rid (slRefs st) r \<longleftrightarrow>
      ofRequest rid r \<and> stIsCanonical r \<and> lastObserved evs (stEvidenceRef r) = None" for r
    using orphaned_unobserved [OF refs] by (simp add: lastObserved_None)
  have count: "filter (orphaned rid (slRefs st)) (slRows st) = filter (orphaned rid (slRefs st)) rows"
    using filter_orphaned_untouched [OF refs] un by metis
  have counted: "filter (orphaned rid (slRefs st)) rows =
      filter (\<lambda>r. ofRequest rid r \<and> stIsCanonical r \<and> lastObserved evs (stEvidenceRef r) = None) rows"
    using orphan by (intro filter_cong) simp_all
  have others: "filter (\<lambda>r. \<not> ofRequest rid r) (slRows st) = filter (\<lambda>r. \<not> ofRequest rid r) rows"
    using others_untouched un by metis
  have obs: "\<exists>r. rowFor rid ref (slRows st) = Some r \<and> shows_state pg r (settlementOfEvidence pg ev)"
    if "lastObserved evs ref = Some ev" for ref ev
    using inv that by (metis option_rel_Some2)
  have unobs: "rowFor rid ref (slRows st) = rowFor rid ref rows" if "lastObserved evs ref = None" for ref
    using that un rowFor_untouched [of ref "observedRefs evs" rid] by (metis lastObserved_None)
  show ?thesis
    using inv
    by (auto simp: sync_spec_def others_markOrphans others count counted summarize_def rowFor_markOrphans
        unobs orphan intro!: map_option_cong split: option.splits dest: obs rowFor_Some)
qed

lemma rowFor_member:
  "distinct (settlementKeys rows) \<Longrightarrow> r \<in> set rows \<Longrightarrow> ofRequest rid r \<Longrightarrow>
     rowFor rid (stEvidenceRef r) rows = Some r"
  by (induction rows) (auto simp: rowFor_def settlementKeys_def ofRequest_def image_iff)

lemma sync_inv_amounts:
  assumes "sync_inv pg rid rows0 evs st" "settlementsOK pg rows0" "numericLaw pg"
  shows "settlementsOK pg (markOrphans rid (slRefs st) now (slRows st))"
proof -
  note inv = assms(1) [unfolded sync_inv_def]
  have "pgNumeric pg (FormatInt (stAmountMinor r)) = Some (stAmountMinor r)" if r: "r \<in> set (slRows st)" for r
  proof (cases "ofRequest rid r")
    case True
    then have "rowFor rid (stEvidenceRef r) (slRows st) = Some r" using inv r rowFor_member by blast
    then obtain x where "shows_state pg r x" using inv by (metis option_rel_Some1)
    then show ?thesis using assms(3) by (auto simp: shows_state_def numericLaw_def)
  next
    case False
    then have "r \<in> set (untouched rid (observedRefs evs) (slRows st))" using r by (simp add: untouched_def)
    also have "untouched rid (observedRefs evs) (slRows st) = untouched rid (observedRefs evs) rows0"
      using inv by blast
    finally have "r \<in> set rows0" by (simp add: untouched_def)
    then show ?thesis using assms(2) by (simp add: settlementsOK_def)
  qed
  then show ?thesis using inv by (auto simp: settlementsOK_def) (auto simp: markOrphans_def)
qed

lemma syncSettlements_spec:
  assumes "syncSettlements pg requestID ch nw asst now evs s = (Inr sm, s')"
    and "settlementsOK pg (dbSettlements s)"
  shows "sync_spec pg (TrimSpace requestID) now evs (dbSettlements s) (dbSettlements s') sm"
    and "s' = s\<lparr>dbSettlements := dbSettlements s'\<rparr>"
    and "numericLaw pg \<Longrightarrow> settlementsOK pg (dbSettlements s')"
proof -
  let ?rid = "TrimSpace requestID"
  from assms(1) obtain st where
    loop: "syncLoop pg (knownRequest s) ?rid now evs
        \<lparr>slExisting = loadExisting pg ?rid (dbSettlements s), slRefs = [],
         slRows = dbSettlements s\<rparr> = Inr st"
    and sm: "sm = summarize ?rid (markOrphans ?rid (slRefs st) now (slRows st))
       (int (length (filter (orphaned ?rid (slRefs st)) (slRows st))))"
    and s': "s' = s\<lparr>dbSettlements := markOrphans ?rid (slRefs st) now (slRows st)\<rparr>"
    by (auto simp: syncSettlements_def Let_def split: option.splits sum.splits)
  have inv: "sync_inv pg ?rid (dbSettlements s) evs st"
    using syncLoop_inv [OF loop sync_inv_start [OF assms(2)]] by simp
  then show "sync_spec pg ?rid now evs (dbSettlements s) (dbSettlements s') sm"
    unfolding sm s' by (simp add: sync_inv_spec)
  show "s' = s\<lparr>dbSettlements := dbSettlements s'\<rparr>" by (simp add: s')
  show "settlementsOK pg (dbSettlements s')" if "numericLaw pg"
    using sync_inv_amounts [OF inv assms(2) that] by (simp add: s')
qed

lemma canonical_count:
  assumes "distinct (settlementKeys rows)"
  shows "length (filter (\<lambda>r. ofRequest rid r \<and> P r) rows) =
     card {ref. \<exists>r. rowFor rid ref rows = Some r \<and> P r}"
proof -
  let ?F = "filter (\<lambda>r. ofRequest rid r \<and> P r) rows"
  note row = rowFor_member [OF assms]
  have sub: "rowFor rid ref rows = Some r \<Longrightarrow> r \<in> set rows" for ref r
    by (induction rows) (auto simp: rowFor_def split: if_splits)
  have "distinct (map stEvidenceRef ?F)"
  proof -
    have "distinct (settlementKeys ?F)"
      using assms unfolding settlementKeys_def by (rule distinct_map_filter)
    moreover have "settlementKeys ?F = map (Pair rid) (map stEvidenceRef ?F)"
      by (auto simp: settlementKeys_def ofRequest_def)
    ultimately show ?thesis using distinct_map [of "Pair rid"] by metis
  qed
  then have "length ?F = card (set (map stEvidenceRef ?F))"
    using distinct_card by fastforce
  also have "set (map stEvidenceRef ?F) = {ref. \<exists>r. rowFor rid ref rows = Some r \<and> P r}"
    using row sub by (fastforce dest: rowFor_Some)
  finally show ?thesis .
qed

lemma sync_spec_canonical:
  assumes "sync_spec pg rid now evs rows rows' sm"
  shows "{ref. \<exists>r. rowFor rid ref rows' = Some r \<and> stIsCanonical r} =
     {ref. \<exists>ev. lastObserved evs ref = Some ev \<and> evIsCanonical ev}"
proof (intro Collect_cong)
  fix ref
  have "case lastObserved evs ref of
      Some ev \<Rightarrow> (case rowFor rid ref rows' of
          Some r \<Rightarrow> shows_state pg r (settlementOfEvidence pg ev) | None \<Rightarrow> False)
    | None \<Rightarrow> rowFor rid ref rows' =
        map_option (\<lambda>r. if stIsCanonical r then r\<lparr>stIsCanonical := False, stUpdatedAt := now\<rparr> else r)
          (rowFor rid ref rows)"
    using assms by (simp add: sync_spec_def)
  then show "(\<exists>r. rowFor rid ref rows' = Some r \<and> stIsCanonical r) \<longleftrightarrow>
      (\<exists>ev. lastObserved evs ref = Some ev \<and> evIsCanonical ev)"
    by (auto simp: shows_state_def settlementOfEvidence_def split: option.splits if_splits)
qed

lemma sync_spec_canonical_count:
  assumes "sync_spec pg rid now evs rows rows' sm"
  shows "srCanonical sm = int (card {ref. \<exists>ev. lastObserved evs ref = Some ev \<and> evIsCanonical ev})"
  using assms canonical_count [of rows' rid stIsCanonical] sync_spec_canonical [OF assms]
  by (simp add: sync_spec_def)

text \<open>A second sync with the same evidence orphans nothing.\<close>

lemma sync_spec_again:
  assumes "sync_spec pg rid now evs rows rows' sm" "sync_spec pg rid now' evs rows' rows'' sm'"
  shows "srNewlyOrphaned sm' = 0" "srCanonical sm' = srCanonical sm"
proof -
  have dist: "distinct (settlementKeys rows')" using assms(1) by (simp add: sync_spec_def)
  have "\<exists>ev. lastObserved evs ref = Some ev" if "rowFor rid ref rows' = Some r" "stIsCanonical r" for ref r
    using sync_spec_canonical [OF assms(1)] that by blast
  then have none: "{ref. \<exists>r. rowFor rid ref rows' = Some r \<and> stIsCanonical r \<and>
      lastObserved evs (stEvidenceRef r) = None} = {}"
    using rowFor_Some by fastforce
  have "srNewlyOrphaned sm' = int (length (filter (\<lambda>r. ofRequest rid r \<and> stIsCanonical r \<and>
      lastObserved evs (stEvidenceRef r) = None) rows'))"
    using assms(2) unfolding sync_spec_def by blast
  also have "\<dots> = 0"
    unfolding canonical_count [OF dist, of rid
        "\<lambda>r. stIsCanonical r \<and> lastObserved evs (stEvidenceRef r) = None"] none
    by simp
  finally show "srNewlyOrphaned sm' = 0" .
  show "srCanonical sm' = srCanonical sm"
    by (simp only: sync_spec_canonical_count [OF assms(1)] sync_spec_canonical_count [OF assms(2)])
qed

end
