(* ===== verification/Leases.thy ===== *)
theory Leases
  imports GoStrings
begin

text \<open>
  Time-bounded leases on the rows of a table, as the payment reconciler and the webhook
  dispatcher both use them: any number of workers claim rows, act on the rows they claimed and
  may stall for any time in between. The locale states the contract a table must keep; its
  result is that no two workers hold an unexpired lease on one row.
\<close>

record ('s, 'k) lease_system =
  lsStore :: 's
  lsNow :: time
  lsHeld :: "(string \<times> 'k \<times> time) set"

text \<open>
  One step of the system. A claim may use a clock reading from the past (a slow worker), a
  failed claim may have taken leases nobody will use, an action ends the worker's hold on the
  row or renews it to a later instant, and the rest of the program may change the store.
\<close>

inductive lease_step ::
  "('c \<Rightarrow> string \<Rightarrow> time \<Rightarrow> time \<Rightarrow> 's \<Rightarrow> 'k list option \<times> 's) \<Rightarrow>
   ('a \<Rightarrow> string \<Rightarrow> 'k \<Rightarrow> 's \<Rightarrow> time option \<times> 's) \<Rightarrow> ('s \<Rightarrow> 's \<Rightarrow> bool) \<Rightarrow>
   ('s, 'k) lease_system \<Rightarrow> ('s, 'k) lease_system \<Rightarrow> bool"
  for claim act rest where
  tick: "lsNow S \<le> t \<Longrightarrow> lease_step claim act rest S (S\<lparr>lsNow := t\<rparr>)"
| claimed: "now \<le> lsNow S \<Longrightarrow> claim c own now until (lsStore S) = (Some ks, s') \<Longrightarrow>
     lease_step claim act rest S
       (S\<lparr>lsStore := s', lsHeld := lsHeld S \<union> {(TrimSpace own, k, until) |k. k \<in> set ks}\<rparr>)"
| claim_failed: "now \<le> lsNow S \<Longrightarrow> claim c own now until (lsStore S) = (None, s') \<Longrightarrow>
     lease_step claim act rest S (S\<lparr>lsStore := s'\<rparr>)"
| acted: "act a own k (lsStore S) = (renewed, s') \<Longrightarrow>
     lease_step claim act rest S
       (S\<lparr>lsStore := s',
          lsHeld := {h \<in> lsHeld S. \<not> (fst h = TrimSpace own \<and> fst (snd h) = k)} \<union>
            (case renewed of None \<Rightarrow> {} | Some u \<Rightarrow> {(TrimSpace own, k, u)})\<rparr>)"
| elsewhere: "rest (lsStore S) s' \<Longrightarrow> lease_step claim act rest S (S\<lparr>lsStore := s'\<rparr>)"

locale lease_table =
  fixes ok :: "'s \<Rightarrow> bool"
    and lease :: "'s \<Rightarrow> 'k \<Rightarrow> (string \<times> time) option"
    and claim :: "'c \<Rightarrow> string \<Rightarrow> time \<Rightarrow> time \<Rightarrow> 's \<Rightarrow> 'k list option \<times> 's"
    and act :: "'a \<Rightarrow> string \<Rightarrow> 'k \<Rightarrow> 's \<Rightarrow> time option \<times> 's"
    and rest :: "'s \<Rightarrow> 's \<Rightarrow> bool"
  assumes claim_ok: "claim c own now until s = (r, s') \<Longrightarrow> ok s \<Longrightarrow> ok s'"
    and act_ok: "act a own k s = (q, s') \<Longrightarrow> ok s \<Longrightarrow> ok s'"
    and rest_ok: "rest s s' \<Longrightarrow> ok s \<Longrightarrow> ok s'"
    and claim_takes:
      "claim c own now until s = (Some ks, s') \<Longrightarrow> k \<in> set ks \<Longrightarrow>
         lease s' k = Some (TrimSpace own, until)"
    and claim_free:
      "claim c own now until s = (r, s') \<Longrightarrow> ok s \<Longrightarrow> lease s k = Some (own', u) \<Longrightarrow> now < u \<Longrightarrow>
         lease s' k = lease s k \<and> (\<forall>ks. r = Some ks \<longrightarrow> k \<notin> set ks)"
    and act_fenced:
      "act a own k s = (q, s') \<Longrightarrow> ok s \<Longrightarrow> lease s j = Some (own', u) \<Longrightarrow>
         j \<noteq> k \<or> own' \<noteq> TrimSpace own \<Longrightarrow> lease s' j = lease s j"
    and act_renews:
      "act a own k s = (Some u, s') \<Longrightarrow> ok s \<Longrightarrow> lease s' k = Some (TrimSpace own, u)"
    and rest_keeps:
      "rest s s' \<Longrightarrow> ok s \<Longrightarrow> lease s k = Some l \<Longrightarrow> lease s' k = Some l"
begin

definition held_ok :: "('s, 'k) lease_system \<Rightarrow> bool" where
  "held_ok S = (ok (lsStore S) \<and> (\<forall>(own, k, u) \<in> lsHeld S. lsNow S < u \<longrightarrow> lease (lsStore S) k = Some (own, u)))"

lemma held_okD:
  "held_ok S \<Longrightarrow> (own, k, u) \<in> lsHeld S \<Longrightarrow> lsNow S < u \<Longrightarrow> lease (lsStore S) k = Some (own, u)"
  by (auto simp: held_ok_def)

lemma held_ok_store: "held_ok S \<Longrightarrow> ok (lsStore S)"
  by (simp add: held_ok_def)

lemma held_okI:
  "ok (lsStore S) \<Longrightarrow>
   (\<And>own k u. (own, k, u) \<in> lsHeld S \<Longrightarrow> lsNow S < u \<Longrightarrow> lease (lsStore S) k = Some (own, u)) \<Longrightarrow>
   held_ok S"
  by (auto simp: held_ok_def)

lemma held_ok_step:
  "lease_step claim act rest S T \<Longrightarrow> held_ok S \<Longrightarrow> held_ok T"
proof (induction rule: lease_step.induct)
  case (tick S t)
  then show ?case by (auto simp: held_ok_def)
next
  case (claimed now S c own until ks s')
  note ok = held_ok_store [OF claimed.prems]
  show ?case
  proof (rule held_okI; simp)
    show "ok s'" using claim_ok claimed(2) ok .
    fix o' k u
    assume held: "(o', k, u) \<in> lsHeld S \<or> o' = TrimSpace own \<and> u = until \<and> k \<in> set ks"
      and u: "lsNow S < u"
    from held show "lease s' k = Some (o', u)"
    proof
      assume "(o', k, u) \<in> lsHeld S"
      then have l: "lease (lsStore S) k = Some (o', u)" using claimed.prems u by (blast dest: held_okD)
      then show ?thesis using claim_free [OF claimed(2) ok l] claimed(1) u by simp
    next
      assume "o' = TrimSpace own \<and> u = until \<and> k \<in> set ks"
      then show ?thesis using claim_takes [OF claimed(2)] by blast
    qed
  qed
next
  case (claim_failed now S c own until s')
  note ok = held_ok_store [OF claim_failed.prems]
  show ?case
  proof (rule held_okI; simp)
    show "ok s'" using claim_ok claim_failed(2) ok .
    fix o' k u
    assume held: "(o', k, u) \<in> lsHeld S" and u: "lsNow S < u"
    then have l: "lease (lsStore S) k = Some (o', u)" using claim_failed.prems by (blast dest: held_okD)
    show "lease s' k = Some (o', u)"
      using claim_free [OF claim_failed(2) ok l] claim_failed(1) u l by simp
  qed
next
  case (acted a own k S renewed s')
  note ok = held_ok_store [OF acted.prems]
  show ?case
  proof (rule held_okI; simp)
    show "ok s'" using act_ok acted(1) ok .
    fix o' j u
    assume held: "(o', j, u) \<in> lsHeld S \<and> (o' = TrimSpace own \<longrightarrow> j \<noteq> k) \<or>
        (o', j, u) \<in> (case renewed of None \<Rightarrow> {} | Some u \<Rightarrow> {(TrimSpace own, k, u)})"
      and u: "lsNow S < u"
    from held show "lease s' j = Some (o', u)"
    proof
      assume h: "(o', j, u) \<in> lsHeld S \<and> (o' = TrimSpace own \<longrightarrow> j \<noteq> k)"
      then have l: "lease (lsStore S) j = Some (o', u)" using acted.prems u by (blast dest: held_okD)
      then show ?thesis using act_fenced [OF acted(1) ok l] h by auto
    next
      assume "(o', j, u) \<in> (case renewed of None \<Rightarrow> {} | Some u \<Rightarrow> {(TrimSpace own, k, u)})"
      then show ?thesis using acted(1) ok act_renews by (auto split: option.splits)
    qed
  qed
next
  case (elsewhere S s')
  then show ?case
    by (intro held_okI) (auto intro: rest_ok rest_keeps dest: held_okD held_ok_store)
qed

lemma held_ok_reachable:
  "(lease_step claim act rest)\<^sup>*\<^sup>* S T \<Longrightarrow> held_ok S \<Longrightarrow> held_ok T"
  by (induction rule: rtranclp_induct) (auto intro: held_ok_step)

lemma leases_exclusive:
  assumes "(lease_step claim act rest)\<^sup>*\<^sup>* S T" "ok (lsStore S)" "lsHeld S = {}"
    and "(own, k, u) \<in> lsHeld T" "(own', k, u') \<in> lsHeld T" "lsNow T < u" "lsNow T < u'"
  shows "own = own'"
proof -
  have "held_ok S" by (simp add: held_ok_def assms(2,3))
  with assms(1) have "held_ok T" by (rule held_ok_reachable)
  with assms(4-7) have "lease (lsStore T) k = Some (own, u)" "lease (lsStore T) k = Some (own', u')"
    using held_okD by blast+
  then show ?thesis by simp
qed

end

end
