(* ===== verification/RequestLeases.thy ===== *)
theory RequestLeases
  imports SettlementSync Leases
begin

text \<open>
  The lease of the payment request table: claiming workers and compare-and-set transitions keep
  the contract of \<open>lease_table\<close>, whatever the server decides at each statement.
\<close>

definition rowLease :: "request_row \<Rightarrow> (string \<times> time) option" where
  "rowLease r = (case (prLeaseOwner r, prLeaseUntil r) of (Some w, Some u) \<Rightarrow> Some (w, u) | _ \<Rightarrow> None)"

definition requestLease :: "db \<Rightarrow> string \<Rightarrow> (string \<times> time) option" where
  "requestLease s k = Option.bind (find (\<lambda>r. prID r = k) (dbRequests s)) rowLease"

type_synonym claim_args = "pg \<times> duration \<times> int"
type_synonym transition_args =
  "pg \<times> repository_config \<times> string \<times> string \<times> string \<times> time \<times> transition_metadata"

fun claimRequests ::
  "claim_args \<Rightarrow> string \<Rightarrow> time \<Rightarrow> time \<Rightarrow> db \<Rightarrow> string list option \<times> db" where
  "claimRequests (pg, window, limit) own now until s =
     (case claimOpen pg now window limit own until s of
        (Inl _, s') \<Rightarrow> (None, s')
      | (Inr rows, s') \<Rightarrow> (Some (map orID rows), s'))"

fun transitionRequest :: "transition_args \<Rightarrow> string \<Rightarrow> string \<Rightarrow> db \<Rightarrow> time option \<times> db" where
  "transitionRequest (pg, cfg, rid, cur, nxt, now, md) own k s =
     (if k = TrimSpace rid then (None, snd (transitionStatus pg cfg rid cur nxt now own md s))
      else (None, s))"

text \<open>The rest of the program, on this table: settlement syncs and new requests.\<close>

inductive requestsRest :: "db \<Rightarrow> db \<Rightarrow> bool" where
  synced: "syncSettlements pg rid ch nw asst now evs s = (q, s') \<Longrightarrow> requestsRest s s'"
| created: "prID row \<notin> prID ` set (dbRequests s) \<Longrightarrow> requestsRest s (s\<lparr>dbRequests := dbRequests s @ [row]\<rparr>)"

lemma find_leaseRows:
  "find (\<lambda>r. prID r = k) (leaseRows ids own lu rows) =
     map_option (\<lambda>r. if k \<in> ids then r\<lparr>prLeaseOwner := Some own, prLeaseUntil := Some lu\<rparr> else r)
       (find (\<lambda>r. prID r = k) rows)"
  by (induction rows) (auto simp: leaseRows_def)

lemma candidates_subset:
  "r \<in> set (candidates pg now sec lim rows) \<Longrightarrow> r \<in> set rows \<and> claimable pg now sec r"
  by (auto simp: candidates_def dest: in_set_takeD)

lemma find_by_id:
  "distinct (map prID rows) \<Longrightarrow> r \<in> set rows \<Longrightarrow> find (\<lambda>x. prID x = prID r) rows = Some r"
  by (induction rows) (auto simp: image_iff)

lemma claimOpen_cases:
  assumes "claimOpen pg now w lim own until s = (q, s')"
  obtains (failed) "s' = s" "\<not> is_ok q"
  | (leased) chosen where "chosen = candidates pg now (windowSeconds w) lim (dbRequests s)"
      "s' = s\<lparr>dbRequests := leaseRows (set (map prID chosen)) (TrimSpace own) until (dbRequests s)\<rparr>"
      "is_ok q \<longrightarrow> q = Inr (map (openRequestOf pg) chosen)"
  using assms by (auto simp: claimOpen_def Let_def split: option.splits if_splits)

lemma prIDs_leaseRows [simp]: "map prID (leaseRows ids own lu rows) = map prID rows"
  by (simp add: leaseRows_def)

definition requestsOK :: "db \<Rightarrow> bool" where
  "requestsOK s = distinct (map prID (dbRequests s))"

lemma transitionStatus_cases:
  assumes "transitionStatus pg cfg rid cur nxt now own md s = (q, s')"
  obtains (same) "s' = s" "\<not> is_ok q"
  | (updated) "q = Inr (length (filter (transitionMatches (TrimSpace rid) (ToLower (TrimSpace cur))
         (TrimSpace own)) (dbRequests s)) = 1)"
      "dbRequests s' = map (\<lambda>r. if transitionMatches (TrimSpace rid) (ToLower (TrimSpace cur)) (TrimSpace own) r
         then transitionRow (ToLower (TrimSpace nxt)) (metadataPayload md) now r else r) (dbRequests s)"
proof -
  from assms have "s' = s \<and> \<not> is_ok q \<or>
      q = Inr (length (filter (transitionMatches (TrimSpace rid) (ToLower (TrimSpace cur))
         (TrimSpace own)) (dbRequests s)) = 1) \<and>
      dbRequests s' = map (\<lambda>r. if transitionMatches (TrimSpace rid) (ToLower (TrimSpace cur)) (TrimSpace own) r
         then transitionRow (ToLower (TrimSpace nxt)) (metadataPayload md) now r else r) (dbRequests s)"
    unfolding transitionStatus_def Let_def by (auto split: option.split_asm)
  with same updated show thesis by blast
qed

lemma prIDs_transition:
  "map prID (map (\<lambda>r. if M r then transitionRow nxt pl now r else r) rows) = map prID rows"
  by (simp add: transitionRow_def)

lemma claimRequests_ok:
  "claimRequests c own now until s = (r, s') \<Longrightarrow> map prID (dbRequests s') = map prID (dbRequests s)"
  by (cases c) (auto split: prod.splits sum.splits elim!: claimOpen_cases)

lemma transitionRequest_ok:
  assumes "transitionRequest a own k s = (q, s')"
  shows "map prID (dbRequests s') = map prID (dbRequests s)"
proof -
  obtain pg cfg rid cur nxt now md where a: "a = (pg, cfg, rid, cur, nxt, now, md)"
    by (cases a) auto
  obtain b t where t: "transitionStatus pg cfg rid cur nxt now own md s = (b, t)" by fastforce
  from t have "map prID (dbRequests t) = map prID (dbRequests s)"
    by (cases rule: transitionStatus_cases) (simp_all only: prIDs_transition)
  with assms t show ?thesis by (auto simp: a split: if_splits)
qed

lemma requestLease_leaseRows:
  "requestLease (s\<lparr>dbRequests := leaseRows ids own lu (dbRequests s)\<rparr>) k =
     (if k \<in> ids \<and> find (\<lambda>r. prID r = k) (dbRequests s) \<noteq> None then Some (own, lu)
      else requestLease s k)"
  by (cases "find (\<lambda>r. prID r = k) (dbRequests s)")
    (simp_all add: requestLease_def find_leaseRows rowLease_def)

lemma find_append_Some: "find P xs = Some x \<Longrightarrow> find P (xs @ ys) = Some x"
  by (induction xs) (auto split: if_splits)

interpretation request_leases: lease_table requestsOK requestLease claimRequests transitionRequest
  requestsRest
proof
  fix c own now until s r s'
  assume "claimRequests c own now until s = (r, s')" "requestsOK s"
  then show "requestsOK s'" by (simp add: requestsOK_def claimRequests_ok)
next
  fix a own k s q s'
  assume "transitionRequest a own k s = (q, s')" "requestsOK s"
  then show "requestsOK s'" by (simp add: requestsOK_def transitionRequest_ok)
next
  fix s s'
  assume "requestsRest s s'" "requestsOK s"
  then show "requestsOK s'"
    by (cases rule: requestsRest.cases) (auto simp: requestsOK_def dest: syncSettlements_requests)
next
  fix c own now until s ks s' k
  assume claim: "claimRequests c own now until s = (Some ks, s')" and k: "k \<in> set ks"
  obtain pg w lim where c: "c = (pg, w, lim)" by (cases c) auto
  from claim obtain rows where rows: "claimOpen pg now w lim own until s = (Inr rows, s')"
      "ks = map orID rows"
    by (auto simp: c split: prod.splits sum.splits)
  from rows(1) show "requestLease s' k = Some (TrimSpace own, until)"
  proof (cases rule: claimOpen_cases)
    case (leased chosen)
    then have ids: "ks = map prID chosen" using rows(2) by (simp add: openRequestOf_def)
    from k obtain r where r: "r \<in> set chosen" "prID r = k" unfolding ids by auto
    then have "find (\<lambda>r. prID r = k) (dbRequests s) \<noteq> None"
      using leased(1) by (auto simp: find_None_iff dest: candidates_subset)
    with k ids show ?thesis unfolding leased(2) requestLease_leaseRows by simp
  qed simp
next
  fix c own now until s r s' k own' u
  assume claim: "claimRequests c own now until s = (r, s')" and ok: "requestsOK s"
    and l: "requestLease s k = Some (own', u)" "now < u"
  obtain pg w lim where c: "c = (pg, w, lim)" by (cases c) auto
  obtain q t where t: "claimOpen pg now w lim own until s = (q, t)" by fastforce
  with claim have s': "s' = t" and r: "r = (case q of Inl _ \<Rightarrow> None | Inr rows \<Rightarrow> Some (map orID rows))"
    by (auto simp: c split: sum.splits)
  from t show "requestLease s' k = requestLease s k \<and> (\<forall>ks. r = Some ks \<longrightarrow> k \<notin> set ks)"
  proof (cases rule: claimOpen_cases)
    case failed
    then show ?thesis by (auto simp: s' r split: sum.splits)
  next
    case (leased chosen)
    have "k \<notin> prID ` set chosen"
    proof
      assume "k \<in> prID ` set chosen"
      then obtain x where x: "x \<in> set (dbRequests s)" "claimable pg now (windowSeconds w) x" "k = prID x"
        using leased(1) by (auto dest: candidates_subset)
      then have "requestLease s k = rowLease x"
        using ok by (simp add: requestLease_def requestsOK_def find_by_id)
      with l x(2) show False
        by (auto simp: rowLease_def claimable_def leaseFree_def split: option.splits)
    qed
    then show ?thesis
      using leased(3) unfolding s' leased(2) requestLease_leaseRows
      by (auto simp: r openRequestOf_def split: sum.splits)
  qed
next
  fix a own k s q s' j own' u
  assume act: "transitionRequest a own k s = (q, s')" and ok: "requestsOK s"
    and l: "requestLease s j = Some (own', u)" "j \<noteq> k \<or> own' \<noteq> TrimSpace own"
  obtain pg cfg rid cur nxt now md where a: "a = (pg, cfg, rid, cur, nxt, now, md)"
    by (cases a) auto
  show "requestLease s' j = requestLease s j"
  proof (cases "k = TrimSpace rid")
    case True
    then have "transitionStatus pg cfg rid cur nxt now own md s = (fst (transitionStatus pg cfg rid cur nxt now own md s), s')"
      using act by (auto simp: a)
    then show ?thesis
    proof (cases rule: transitionStatus_cases)
      case updated
      obtain r where r: "find (\<lambda>r. prID r = j) (dbRequests s) = Some r" "rowLease r = Some (own', u)"
        using l(1) by (auto simp: requestLease_def bind_eq_Some_conv)
      have "\<not> transitionMatches (TrimSpace rid) (ToLower (TrimSpace cur)) (TrimSpace own) r"
        using r l(2) find_key [OF r(1)] True
        by (auto simp: transitionMatches_def rowLease_def split: option.splits)
      then show ?thesis
        by (simp add: requestLease_def updated(2) transition_find r(1))
    qed simp
  next
    case False
    then show ?thesis using act by (simp add: a)
  qed
next
  fix a own k s u s'
  assume "transitionRequest a own k s = (Some u, s')"
  then show "requestLease s' k = Some (TrimSpace own, u)"
    by (cases a) (auto split: if_splits)
next
  fix s s' k l
  assume "requestsRest s s'" "requestLease s k = Some l"
  then show "requestLease s' k = Some l"
    by (cases rule: requestsRest.cases)
      (auto simp: requestLease_def find_append_Some bind_eq_Some_conv dest: syncSettlements_requests)
qed

end
