(* ===== verification/Transitions.thy ===== *)
theory Transitions
  imports RequestLeases
begin

text \<open>
  What one successful status transition does to the rows of a store whose request identifiers are
  unique: it rewrites the single matching row and appends the events of that row.
\<close>

lemma orID_openRequestOf [simp]: "orID (openRequestOf pg r) = prID r"
  by (simp add: openRequestOf_def)

lemma filter_unique:
  assumes "distinct xs" "x \<in> set xs" "P x" "\<And>y. y \<in> set xs \<Longrightarrow> P y \<Longrightarrow> y = x"
  shows "filter P xs = [x]"
  using assms
proof (induction xs)
  case (Cons a xs)
  show ?case
  proof (cases "a = x")
    case True
    with Cons.prems(1,4) have "\<forall>y \<in> set xs. \<not> P y" by (metis distinct.simps(2) list.set_intros(2))
    then have "filter P xs = []" by (simp add: filter_empty_conv)
    with True Cons.prems(3) show ?thesis by simp
  next
    case False
    have "\<not> P a" using Cons.prems(4) False by (metis list.set_intros(1))
    moreover have "filter P xs = [x]"
    proof (rule Cons.IH)
      show "distinct xs" using Cons.prems(1) by simp
      show "x \<in> set xs" using Cons.prems(2) False by simp
      show "P x" by (rule Cons.prems(3))
      show "y = x" if "y \<in> set xs" "P y" for y
        using that by (intro Cons.prems(4)) (simp_all only: list.set insert_iff simp_thms)
    qed
    ultimately show ?thesis by simp
  qed
qed simp

lemma request_key:
  "requestsOK s \<Longrightarrow> x \<in> set (dbRequests s) \<Longrightarrow> y \<in> set (dbRequests s) \<Longrightarrow> prID x = prID y \<Longrightarrow> x = y"
  by (auto simp: requestsOK_def distinct_map dest: inj_onD)

lemma matched_unique:
  assumes "requestsOK s" "r \<in> set (dbRequests s)" "transitionMatches rid cur own r"
  shows "filter (transitionMatches rid cur own) (dbRequests s) = [r]"
proof (rule filter_unique)
  have inj: "inj_on prID (set (dbRequests s))" using assms(1) by (simp add: requestsOK_def distinct_map)
  show "distinct (dbRequests s)" using assms(1) by (simp add: requestsOK_def distinct_map)
  show "x = r" if "x \<in> set (dbRequests s)" "transitionMatches rid cur own x" for x
    using inj_onD [OF inj] assms that by (metis transitionMatches_def)
qed (fact assms)+

lemma transition_row:
  assumes "transitionStatus pg cfg rid cur nxt now own md s = (Inr b, s')" "requestsOK s"
    and "r \<in> set (dbRequests s)"
    and "transitionMatches (TrimSpace rid) (ToLower (TrimSpace cur)) (TrimSpace own) r"
  shows "b" and "find (\<lambda>x. prID x = prID r) (dbRequests s') =
     Some (transitionRow (ToLower (TrimSpace nxt)) (metadataPayload md) now r)"
proof -
  let ?m = "transitionMatches (TrimSpace rid) (ToLower (TrimSpace cur)) (TrimSpace own)"
  from assms(1) have upd: "b = (length (filter ?m (dbRequests s)) = 1)"
    "dbRequests s' = map (\<lambda>r. if ?m r then transitionRow (ToLower (TrimSpace nxt)) (metadataPayload md) now r
       else r) (dbRequests s)"
    by (cases rule: transitionStatus_cases; simp)+
  have inj: "inj_on prID (set (dbRequests s))" using assms(2) by (simp add: requestsOK_def distinct_map)
  have "\<And>x. x \<in> set (dbRequests s) \<Longrightarrow> ?m x \<Longrightarrow> x = r"
    using inj_onD [OF inj] assms(3,4) by (metis transitionMatches_def)
  moreover have "distinct (dbRequests s)" using assms(2) by (simp add: requestsOK_def distinct_map)
  ultimately have "filter ?m (dbRequests s) = [r]"
    using assms(3,4)
    by (intro filter_unique) blast+
  with upd(1) show b by simp
  show "find (\<lambda>x. prID x = prID r) (dbRequests s') =
     Some (transitionRow (ToLower (TrimSpace nxt)) (metadataPayload md) now r)"
    using assms(2-4) by (simp add: upd(2) transition_find requestsOK_def find_by_id)
qed

lemma transition_true:
  assumes "transitionStatus pg cfg rid cur nxt now own md s = (Inr True, s')"
  obtains r where "r \<in> set (dbRequests s)"
    "transitionMatches (TrimSpace rid) (ToLower (TrimSpace cur)) (TrimSpace own) r"
proof -
  from assms have "length (filter (transitionMatches (TrimSpace rid) (ToLower (TrimSpace cur))
      (TrimSpace own)) (dbRequests s)) = 1"
    by (cases rule: transitionStatus_cases) simp_all
  then have "filter (transitionMatches (TrimSpace rid) (ToLower (TrimSpace cur)) (TrimSpace own))
      (dbRequests s) \<noteq> []"
    by auto
  then show thesis using that by (auto simp: filter_empty_conv)
qed

lemma transition_outbox:
  assumes "transitionStatus pg cfg rid cur nxt now own md s = (q, s')"
    "is_ok q"
    "filter (transitionMatches (TrimSpace rid) (ToLower (TrimSpace cur)) (TrimSpace own)) (dbRequests s) = rs"
  shows "dbOutbox s' = dbOutbox s @ map2 (newEvent pg (rWebhookMaxAttempts cfg) (ToLower (TrimSpace cur))
       (ToLower (TrimSpace nxt)) (metadataPayload md) now)
     (map (\<lambda>i. dbNextOutboxID s + int i)
       [0..<length (filter (emitsEvent (rWebhookOutboxEnabled cfg) (ToLower (TrimSpace cur))
          (ToLower (TrimSpace nxt))) rs)])
     (filter (emitsEvent (rWebhookOutboxEnabled cfg) (ToLower (TrimSpace cur)) (ToLower (TrimSpace nxt))) rs)"
  using assms(1,2) unfolding transitionStatus_def Let_def assms(3)
  by (auto split: option.split_asm)

end
