(* ===== verification/Examples.thy ===== *)
theory Examples
  imports PaymentStore
begin

text \<open>
  Concrete data on which the properties are applied: a server without faults, one payment request
  and an observation of it.
\<close>

subsection \<open>A small store for the examples\<close>

definition demo_pg :: pg where
  "demo_pg =
     \<lparr>pgFault = (\<lambda>_ _. None), pgViolation = (\<lambda>c. c), pgNumeric = parse_big,
      pgTimestamp = (\<lambda>_. None), pgFits = (\<lambda>_ _. True), pgNumber = GStr,
      pgEventID = (\<lambda>rid n. ''evt_'' @ rid @ FormatInt n)\<rparr>"

definition demo_cfg :: repository_config where
  "demo_cfg = newRepositoryConfig True 0"

definition demo_request :: "string \<Rightarrow> string \<Rightarrow> details \<Rightarrow> request_row" where
  "demo_request rid st md =
     \<lparr>prID = rid, prWalletAccountID = ''wa'', prChain = ''bitcoin'', prNetwork = ''regtest'',
      prAsset = ''BTC'', prStatus = st, prExpectedAmountMinor = Some 1000,
      prAddressCanonical = ''bcrt1q'', prAddressScheme = ''bip84_p2wpkh'', prDerivationIndex = 0,
      prChainID = None, prTokenStandard = None, prTokenContract = None, prTokenDecimals = None,
      prMetadata = md, prWebhookURL = Some ''https://shop.example'', prExpiresAt = 3600 * second,
      prCreatedAt = 0, prUpdatedAt = 0, prLeaseOwner = None, prLeaseUntil = None\<rparr>"

definition demo_db :: "string \<Rightarrow> details \<Rightarrow> db" where
  "demo_db st md = empty_db\<lparr>dbRequests := [demo_request ''pr_1'' st md]\<rparr>"

definition demo_evidence :: "string \<Rightarrow> bool \<Rightarrow> evidence" where
  "demo_evidence ref canonical =
     \<lparr>evRef = ref, evAmountMinor = ''1000'', evConfirmations = 1, evIsCanonical = canonical,
      evBlockHeight = Some 7, evBlockHash = None, evMetadata = []\<rparr>"

definition demo_observation :: "bool \<Rightarrow> observe_output" where
  "demo_observation confirmed =
     unsupported_observation\<lparr>obSupported := True, obObservedAmount := ''1000'', obDetected := True,
       obConfirmed := confirmed, obSource := ''btc'',
       obSettlements := [demo_evidence ''tx:0'' True]\<rparr>"

definition demo_command :: "int \<Rightarrow> reconcile_command" where
  "demo_command cycles =
     \<lparr>rcNow = 10 * second, rcBatchSize = 5, rcWorkerID = ''w1'', rcLeaseDuration = 30 * second,
      rcReorgObserveWindow = 3600 * second, rcStabilityCycles = cycles\<rparr>"

text \<open>One outbox event, in the given delivery status.\<close>

definition demo_event :: "string \<Rightarrow> outbox_row" where
  "demo_event st =
     \<lparr>oeID = 1, oeEventID = ''evt_1'', oeEventType = ''payment_request.status_changed'',
      oePaymentRequestID = ''pr_1'', oeDestinationURL = Some ''https://shop.example'',
      oePayload = GMap [], oeDeliveryStatus = st, oeAttempts = 0, oeMaxAttempts = 8,
      oeNextAttemptAt = 0, oeLeaseOwner = None, oeLeaseUntil = None, oeLastError = None,
      oeDeliveredAt = (if st = ''delivered'' then Some second else None),
      oeManualLastAction = None, oeManualLastActor = None, oeManualLastAt = None,
      oeCreatedAt = 0, oeUpdatedAt = 0\<rparr>"

definition demo_outbox :: "string \<Rightarrow> db" where
  "demo_outbox st = (demo_db ''confirmed'' [])\<lparr>dbOutbox := [demo_event st], dbNextOutboxID := 2\<rparr>"

end
