(* ===== verification/PaymentProps.thy ===== *)
theory PaymentProps
  imports Transitions Examples
begin

text \<open>
  The properties of the reconciler over its store, with the lemmas they share: what the stored
  metadata gives back, transitions on a row a worker holds, claims in order of age, and a small
  concrete store on which the properties are applied.
\<close>

subsection \<open>The reconciler's state in the stored metadata\<close>

lemma lookup_jsonb_merge_single [simp]:
  "lookup (jsonb_merge m [(k, v)]) k' = (if k' = k then Some v else lookup m k')"
  by (simp add: jsonb_merge_def)

lemma lookup_fields [simp]:
  "lookup (stringField k v) k' = (if k' = k \<and> v \<noteq> [] then Some (GStr v) else None)"
  "lookup (intField k i) k' = (if k' = k \<and> i \<noteq> 0 then Some (GInt i) else None)"
  "lookup (timeField k t) k' = (if k' = k then map_option GTime t else None)"
  by (auto simp: stringField_def intField_def timeField_def split: option.splits)

lemma lookup_encodeTransition [simp]:
  "lookup (encodeTransition md) ''first_confirmed_at'' = map_option GTime (tmFirstConfirmedAt md)"
  "lookup (encodeTransition md) ''finality_reached_at'' = map_option GTime (tmFinalityReachedAt md)"
  "lookup (encodeTransition md) ''stability_signal'' =
     (if tmStabilitySignal md = [] then None else Some (GStr (tmStabilitySignal md)))"
  "lookup (encodeTransition md) ''stability_promote_streak'' =
     (if tmStabilityPromoteStreak md = 0 then None else Some (GInt (tmStabilityPromoteStreak md)))"
  "lookup (encodeTransition md) ''stability_demote_streak'' =
     (if tmStabilityDemoteStreak md = 0 then None else Some (GInt (tmStabilityDemoteStreak md)))"
  by (auto simp: encodeTransition_def lookup_append split: option.splits)

lemma parse_decoded_time [simp]:
  "parseMetadataTime (map_option (json_decode num) (map_option GTime t)) = t"
  by (cases t) simp_all

lemma parse_decoded_int:
  "\<bar>i\<bar> < 2 ^ 53 \<Longrightarrow> parseMetadataInt (Some (json_decode num (GInt i))) = i"
  by (auto simp: float64_of_int_exact float_to_int_def is_int64_def min_int64_def max_int64_def)

definition signalText :: "string \<Rightarrow> bool" where
  "signalText sg = (sg = ''promote'' \<or> sg = ''demote'' \<or> sg = [])"

lemma parse_stored_state:
  assumes "hasMetadata md" "signalText (tmStabilitySignal md)"
    and "\<bar>tmStabilityPromoteStreak md\<bar> < 2 ^ 53" "\<bar>tmStabilityDemoteStreak md\<bar> < 2 ^ 53"
  shows "parseReconciliationState (decode_object num (jsonb_merge m (metadataPayload md))) =
     \<lparr>rsFirstConfirmedAt = tmFirstConfirmedAt md, rsFinalityAt = tmFinalityReachedAt md,
      rsStabilitySignal = tmStabilitySignal md, rsPromoteStreak = tmStabilityPromoteStreak md,
      rsDemoteStreak = tmStabilityDemoteStreak md\<rparr>"
proof -
  let ?m = "decode_object num (jsonb_merge m (metadataPayload md))"
  have look: "lookup ?m ''reconciliation'' = Some (GMap (decode_object num (encodeTransition md)))"
    by (simp add: metadataPayload_def assms(1) decode_object_def [symmetric])
  have sg: "ToLower (TrimSpace (parseMetadataString (map_option (json_decode num)
      (if tmStabilitySignal md = [] then None else Some (GStr (tmStabilitySignal md)))))) =
      tmStabilitySignal md"
    using assms(2) signal_normal by (auto simp: signalText_def)
  show ?thesis
    unfolding parseReconciliationState_def look
    using parse_decoded_int [OF assms(3)] parse_decoded_int [OF assms(4)]
    by (simp add: sg [simplified])
qed

lemma buildObservationMetadata_fields:
  fixes now obs sm state cur reason nc nr n
  defines "md \<equiv> buildObservationMetadata now obs sm state cur reason nc nr n"
    and "st \<equiv> stampConfirmation now obs cur nc nr (observationState obs sm state cur reason)"
  shows "hasMetadata md" "tmFirstConfirmedAt md = rsFirstConfirmedAt st"
    "tmFinalityReachedAt md = rsFinalityAt st" "tmStabilitySignal md = rsStabilitySignal st"
    "tmStabilityPromoteStreak md = rsPromoteStreak st" "tmStabilityDemoteStreak md = rsDemoteStreak st"
  by (simp_all add: md_def st_def buildObservationMetadata_def Let_def hasMetadata_def)

lemma stamped_streaks:
  fixes now obs sm state cur reason nc nr
  defines "st \<equiv> stampConfirmation now obs cur nc nr (observationState obs sm state cur reason)"
  shows "signalText (rsStabilitySignal st)"
    "rsPromoteStreak st \<in> {0, 1, rsPromoteStreak state + 1}"
    "rsDemoteStreak st \<in> {0, 1, rsDemoteStreak state + 1}"
  by (auto simp: st_def stampConfirmation_def observationState_def Let_def signalText_def)

definition smallStreaks :: "reconcile_state \<Rightarrow> bool" where
  "smallStreaks st = (\<bar>rsPromoteStreak st\<bar> < 2 ^ 52 \<and> \<bar>rsDemoteStreak st\<bar> < 2 ^ 52)"

lemma parse_built_metadata:
  assumes "smallStreaks state"
  shows "parseReconciliationState (decode_object num (jsonb_merge m (metadataPayload
      (buildObservationMetadata now obs sm state cur reason nc nr n)))) =
    stampConfirmation now obs cur nc nr (observationState obs sm state cur reason)"
proof -
  let ?st = "stampConfirmation now obs cur nc nr (observationState obs sm state cur reason)"
  note fields = buildObservationMetadata_fields [of now obs sm state cur reason nc nr n]
  have "\<bar>rsPromoteStreak ?st\<bar> < 2 ^ 53" "\<bar>rsDemoteStreak ?st\<bar> < 2 ^ 53"
    using stamped_streaks(2,3) [of now obs cur nc nr sm state reason] assms
    by (auto simp: smallStreaks_def)
  then show ?thesis
    using fields stamped_streaks(1) [of now obs cur nc nr sm state reason]
    by (subst parse_stored_state) simp_all
qed

subsection \<open>Claims\<close>

lemma sorted_candidates:
  "sorted (map prCreatedAt (filter P (sort_key prCreatedAt rows)))"
  by (intro sorted_filter sorted_sort_key)

lemma take_sorted_le:
  assumes "sorted (map f xs)" "x \<in> set (take n xs)" "y \<in> set xs" "y \<notin> set (take n xs)"
  shows "f x \<le> f y"
proof -
  have "y \<in> set (drop n xs)" using assms(3,4) by (metis Un_iff append_take_drop_id set_append)
  moreover have "sorted (map f (take n xs) @ map f (drop n xs))"
    using assms(1) by (simp flip: map_append)
  ultimately show ?thesis using assms(2) by (auto simp: sorted_append)
qed

subsection \<open>Streaks of a history\<close>


subsection \<open>Properties\<close>


text \<open>
  The counters of a run are consistent: every claimed row is scanned, no row is counted twice
  (confirmed, detected, reorged, expired, skipped and errors together are at most the claimed
  rows), and a re-confirmation is also a confirmation.
\<close>

theorem reconcile_counters:
  "case reconcileExecute repository observer clock cmd s of (out, e, s') \<Rightarrow>
     roScanned out = roClaimed out \<and> 0 \<le> counted out \<and> counted out \<le> roClaimed out \<and>
     roReconfirmed out \<le> roConfirmed out"
  by (auto split: prod.split dest: reconcileExecute_counts)



text \<open>
  C7. A status transition happens once: when it succeeds, exactly one request matched, one outbox
  event is written iff the outbox is enabled, the status changes to a notified one and the
  request has a webhook, and the same transition tried again (by any worker, at any time)
  reports that nothing was updated, changes no request and writes no event.
\<close>

theorem transition_once:
  assumes "requestsOK s" "ToLower (TrimSpace cur) \<noteq> ToLower (TrimSpace nxt)"
    and "transitionStatus pg cfg rid cur nxt now own md s = (Inr True, s1)"
    and "transitionStatus pg' cfg' rid cur nxt now' own' md' s1 = (Inr again, s2)"
  shows "\<exists>r events. r \<in> set (dbRequests s) \<and>
     transitionMatches (TrimSpace rid) (ToLower (TrimSpace cur)) (TrimSpace own) r \<and>
     dbOutbox s1 = dbOutbox s @ events \<and>
     length events = (if emitsEvent (rWebhookOutboxEnabled cfg) (ToLower (TrimSpace cur))
       (ToLower (TrimSpace nxt)) r then 1 else 0) \<and>
     \<not> again \<and> dbRequests s2 = dbRequests s1 \<and> dbOutbox s2 = dbOutbox s1"
proof -
  obtain r where r: "r \<in> set (dbRequests s)"
    "transitionMatches (TrimSpace rid) (ToLower (TrimSpace cur)) (TrimSpace own) r"
    using assms(3) by (rule transition_true)
  have ok: "requestsOK s1"
    using transitionRequest_ok [of "(pg, cfg, rid, cur, nxt, now, md)" own "TrimSpace rid" s] assms(1,3)
    by (simp add: requestsOK_def)
  have find1: "find (\<lambda>x. prID x = TrimSpace rid) (dbRequests s1) =
      Some (transitionRow (ToLower (TrimSpace nxt)) (metadataPayload md) now r)"
    using transition_row(2) [OF assms(3,1) r] r(2) by (simp add: transitionMatches_def)
  have none: "filter (transitionMatches (TrimSpace rid) (ToLower (TrimSpace cur)) (TrimSpace own')) (dbRequests s1) = []"
  proof -
    have "prStatus x = ToLower (TrimSpace nxt)" if "x \<in> set (dbRequests s1)" "prID x = TrimSpace rid" for x
      using find_by_id [of "dbRequests s1" x] that find1 ok
      by (auto simp: requestsOK_def transitionRow_def)
    then show ?thesis using assms(2) by (fastforce simp: filter_empty_conv transitionMatches_def)
  qed
  have "\<not> again \<and> dbRequests s2 = dbRequests s1"
    using assms(4)
  proof (cases rule: transitionStatus_cases)
    case updated
    have "dbRequests s2 = dbRequests s1"
      unfolding updated(2) using none by (intro map_idI) (auto simp: filter_empty_conv)
    with updated(1) none show ?thesis by simp
  qed simp
  moreover have "dbOutbox s2 = dbOutbox s1"
    using transition_outbox [OF assms(4) _ none] by simp
  moreover have "\<exists>events. dbOutbox s1 = dbOutbox s @ events \<and>
      length events = (if emitsEvent (rWebhookOutboxEnabled cfg) (ToLower (TrimSpace cur))
       (ToLower (TrimSpace nxt)) r then 1 else 0)"
    using transition_outbox [OF assms(3) _ matched_unique [OF assms(1) r]]
    by (cases "emitsEvent (rWebhookOutboxEnabled cfg) (ToLower (TrimSpace cur)) (ToLower (TrimSpace nxt)) r")
      simp_all
  ultimately show ?thesis using r by blast
qed

definition demo_confirm :: "string \<Rightarrow> db \<Rightarrow> bool res \<times> db" where
  "demo_confirm worker s =
     transitionStatus demo_pg demo_cfg ''pr_1'' ''detected'' ''confirmed'' (10 * second) worker
       (zero_metadata\<lparr>tmUpdatedAt := 10 * second\<rparr>) s"

lemma demo_confirm_runs:
  "fst (demo_confirm ''w1'' (demo_db ''detected'' [])) = Inr True"
  "fst (demo_confirm ''w2'' (snd (demo_confirm ''w1'' (demo_db ''detected'' [])))) = Inr False"
  by code_simp+

lemma demo_ok: "requestsOK (demo_db st md)"
  by (simp add: requestsOK_def demo_db_def empty_db_def)

theorem transition_once_witness:
  "\<exists>event. dbOutbox (snd (demo_confirm ''w1'' (demo_db ''detected'' []))) = [event] \<and>
     dbOutbox (snd (demo_confirm ''w2'' (snd (demo_confirm ''w1'' (demo_db ''detected'' []))))) = [event]"
proof -
  let ?s = "demo_db ''detected'' []"
  have ne: "ToLower (TrimSpace ''detected'') \<noteq> ToLower (TrimSpace ''confirmed'')" by code_simp
  have emits: "emitsEvent (rWebhookOutboxEnabled demo_cfg) (ToLower (TrimSpace ''detected''))
      (ToLower (TrimSpace ''confirmed'')) (demo_request ''pr_1'' ''detected'' [])" by code_simp
  have s: "set (dbRequests ?s) = {demo_request ''pr_1'' ''detected'' []}" "dbOutbox ?s = []"
    by (simp_all add: demo_db_def empty_db_def)
  have "demo_confirm ''w1'' ?s = (Inr True, snd (demo_confirm ''w1'' ?s))"
    "demo_confirm ''w2'' (snd (demo_confirm ''w1'' ?s)) =
       (Inr False, snd (demo_confirm ''w2'' (snd (demo_confirm ''w1'' ?s))))"
    using demo_confirm_runs by (simp_all add: prod_eq_iff)
  from transition_once [OF demo_ok ne, OF this [unfolded demo_confirm_def], folded demo_confirm_def]
  show ?thesis using emits unfolding s by (auto simp: length_Suc_conv)
qed

text \<open>
  C20. What the reconciler computes in one cycle (first confirmation, finality, the stability signal
  and its streaks) is exactly what it reads back from the stored metadata in the next one: the
  JSON it writes, the top-level merge in the store and the decoding of numbers lose nothing.
\<close>

theorem reconciler_state_survives:
  assumes "transitionStatus pg cfg rid cur nxt now own
      (buildObservationMetadata now obs sm state cur' reason nc nr n) s = (Inr b, s')"
    and "requestsOK s" "r \<in> set (dbRequests s)"
    and "transitionMatches (TrimSpace rid) (ToLower (TrimSpace cur)) (TrimSpace own) r"
    and "smallStreaks state"
  shows "\<exists>r'. find (\<lambda>x. prID x = prID r) (dbRequests s') = Some r' \<and>
     parseReconciliationState (orMetadata (openRequestOf pg' r')) =
       stampConfirmation now obs cur' nc nr (observationState obs sm state cur' reason)"
  using transition_row(2) [OF assms(1-4)] parse_built_metadata [OF assms(5)]
  by (simp add: openRequestOf_def transitionRow_def)

theorem reconciler_state_survives_witness:
  "\<exists>r'. find (\<lambda>x. prID x = ''pr_1'') (dbRequests (snd (transitionStatus demo_pg demo_cfg ''pr_1'' ''detected''
        ''detected'' (10 * second) ''w1'' (buildObservationMetadata (10 * second) (demo_observation True)
          empty_sync_result (zero_state\<lparr>rsPromoteStreak := 4, rsStabilitySignal := ''promote''\<rparr>)
          ''detected'' [] False False 9) (demo_db ''detected'' [])))) = Some r' \<and>
     parseReconciliationState (orMetadata (openRequestOf demo_pg r')) =
       zero_state\<lparr>rsPromoteStreak := 5, rsStabilitySignal := ''promote''\<rparr>"
proof -
  let ?st = "zero_state\<lparr>rsPromoteStreak := 4, rsStabilitySignal := ''promote''\<rparr>"
  let ?s = "demo_db ''detected'' []"
  let ?t = "transitionStatus demo_pg demo_cfg ''pr_1'' ''detected'' ''detected'' (10 * second) ''w1''
     (buildObservationMetadata (10 * second) (demo_observation True) empty_sync_result ?st
        ''detected'' [] False False 9) ?s"
  have "fst ?t = Inr True" by code_simp
  then have t: "?t = (Inr True, snd ?t)" by (simp add: prod_eq_iff)
  have r: "demo_request ''pr_1'' ''detected'' [] \<in> set (dbRequests ?s)"
    by (simp add: demo_db_def empty_db_def)
  have m: "transitionMatches (TrimSpace ''pr_1'') (ToLower (TrimSpace ''detected'')) (TrimSpace ''w1'')
      (demo_request ''pr_1'' ''detected'' [])" by code_simp
  have small: "smallStreaks ?st" by (simp add: smallStreaks_def zero_state_def)
  have st: "stampConfirmation (10 * second) (demo_observation True) ''detected'' False False
      (observationState (demo_observation True) empty_sync_result ?st ''detected'' []) =
      zero_state\<lparr>rsPromoteStreak := 5, rsStabilitySignal := ''promote''\<rparr>" by code_simp
  show ?thesis
    using reconciler_state_survives [OF t demo_ok r m small, of demo_pg]
    by (simp add: st demo_request_def)
qed

text \<open>
  C38. A failed observation forgets what the reconciler knew: the metadata it writes replaces the
  whole \<open>reconciliation\<close> object, so the first confirmation, the finality instant and both
  streaks are gone in the next cycle, although the status itself is kept.
\<close>

theorem observation_error_forgets:
  assumes "observeErrorRow (paymentRepository pg cfg) now own (openRequestOf pg r) (prStatus r) err out s =
      (out', None, s')"
    and "requestsOK s" "r \<in> set (dbRequests s)"
    and "transitionMatches (TrimSpace (prID r)) (ToLower (TrimSpace (prStatus r))) (TrimSpace own) r"
  shows "\<exists>r'. find (\<lambda>x. prID x = prID r) (dbRequests s') = Some r' \<and> prStatus r' = prStatus r \<and>
     parseReconciliationState (orMetadata (openRequestOf pg' r')) = zero_state"
proof -
  let ?md = "zero_metadata\<lparr>tmObservationSource := ''reconcile_policy'',
     tmObservationDetails := [(''observation_error'', GStr (Code err))], tmUpdatedAt := now\<rparr>"
  have md: "hasMetadata ?md" "tmStabilitySignal ?md = []" "tmStabilityPromoteStreak ?md = 0"
      "tmStabilityDemoteStreak ?md = 0" "tmFirstConfirmedAt ?md = None" "tmFinalityReachedAt ?md = None"
    by (simp_all add: hasMetadata_def zero_metadata_def)
  obtain b where t: "transitionStatus pg cfg (prID r) (prStatus r) (prStatus r) now own ?md s = (Inr b, s')"
    using assms(1)
    by (auto simp: observeErrorRow_def Let_def paymentRepository_def openRequestOf_def
        split: prod.splits sum.splits)
  have st: "prStatus r = ToLower (TrimSpace (prStatus r))"
    using assms(4) by (simp add: transitionMatches_def)
  show ?thesis
    using transition_row(2) [OF t assms(2-4)] st parse_stored_state [OF md(1)] md(2-6)
    by (simp add: openRequestOf_def transitionRow_def signalText_def zero_state_def)
qed

definition demo_confirmed_metadata :: details where
  "demo_confirmed_metadata =
     [(''reconciliation'', GMap [(''first_confirmed_at'', GTime second),
        (''finality_reached_at'', GTime (2 * second))])]"

theorem observation_error_forgets_witness:
  "parseReconciliationState (orMetadata (openRequestOf demo_pg
      (demo_request ''pr_1'' ''confirmed'' demo_confirmed_metadata))) \<noteq> zero_state \<and>
   (\<exists>r'. find (\<lambda>x. prID x = ''pr_1'') (dbRequests (snd (snd (observeErrorRow (paymentRepository demo_pg demo_cfg)
        (10 * second) ''w1'' (openRequestOf demo_pg (demo_request ''pr_1'' ''confirmed'' demo_confirmed_metadata))
        ''confirmed'' (NewInternal ''rpc'' ''rpc'' []) empty_output
        (demo_db ''confirmed'' demo_confirmed_metadata))))) = Some r' \<and> prStatus r' = ''confirmed'' \<and>
      parseReconciliationState (orMetadata (openRequestOf demo_pg r')) = zero_state)"
proof -
  let ?r = "demo_request ''pr_1'' ''confirmed'' demo_confirmed_metadata"
  let ?s = "demo_db ''confirmed'' demo_confirmed_metadata"
  let ?e = "observeErrorRow (paymentRepository demo_pg demo_cfg) (10 * second) ''w1'' (openRequestOf demo_pg ?r)
     (prStatus ?r) (NewInternal ''rpc'' ''rpc'' []) empty_output ?s"
  have "fst (snd ?e) = None" by code_simp
  then have e: "?e = (fst ?e, None, snd (snd ?e))" by (simp add: prod_eq_iff)
  have r: "?r \<in> set (dbRequests ?s)" by (simp add: demo_db_def empty_db_def)
  have m: "transitionMatches (TrimSpace (prID ?r)) (ToLower (TrimSpace (prStatus ?r))) (TrimSpace ''w1'') ?r"
    by code_simp
  have ne: "parseReconciliationState (orMetadata (openRequestOf demo_pg ?r)) \<noteq> zero_state" by code_simp
  show ?thesis
    using observation_error_forgets [OF e demo_ok r m, of demo_pg] ne by (simp add: demo_request_def)
qed

text \<open>
  A confirmed or reorged request whose first confirmation is older than the observation window
  is never claimed again, whether or not finality was reached and whether or not it has expired:
  a reorged request can stay reorged for ever.
\<close>

theorem closed_window_never_claimed:
  assumes "claimOpen pg now w lim own until s = (Inr rows, s')" "requestsOK s"
    and "r \<in> set (dbRequests s)" "prStatus r = ''confirmed'' \<or> prStatus r = ''reorged''"
    and "lookup (prMetadata r) ''reconciliation'' = Some (GMap m)"
    and "lookup m ''first_confirmed_at'' = Some (GTime t)" "t + windowSeconds w * second \<le> now"
  shows "prID r \<notin> orID ` set rows"
  using assms(1)
proof (cases rule: claimOpen_cases)
  case (leased chosen)
  have "\<not> claimable pg now (windowSeconds w) r"
    using assms(4-7) by (auto simp: claimable_def windowed_def windowOpen_def)
  have "prID r \<notin> prID ` set chosen"
  proof
    assume "prID r \<in> prID ` set chosen"
    then obtain x where x: "x \<in> set chosen" "prID x = prID r" by auto
    then have "x \<in> set (dbRequests s)" "claimable pg now (windowSeconds w) x"
      using candidates_subset unfolding leased(1) by blast+
    moreover from this(1) have "x = r" using request_key [OF assms(2) _ assms(3) x(2)] by blast
    ultimately show False using \<open>\<not> claimable pg now (windowSeconds w) r\<close> by simp
  qed
  moreover have "orID ` set rows = prID ` set chosen"
    using leased(3) by (simp add: image_image orID_openRequestOf)
  ultimately show ?thesis by simp
qed simp

theorem closed_window_never_claimed_witness:
  "\<exists>rows. fst (claimOpen demo_pg (7200 * second) (3600 * second) 5 ''w1'' (7230 * second)
       (demo_db ''reorged'' demo_confirmed_metadata)) = Inr rows \<and> ''pr_1'' \<notin> orID ` set rows"
proof -
  let ?s = "demo_db ''reorged'' demo_confirmed_metadata"
  let ?r = "demo_request ''pr_1'' ''reorged'' demo_confirmed_metadata"
  let ?c = "claimOpen demo_pg (7200 * second) (3600 * second) 5 ''w1'' (7230 * second) ?s"
  have "is_ok (fst ?c)" by code_simp
  then obtain rows where "fst ?c = Inr rows" by (auto simp: is_ok_iff)
  then have c: "?c = (Inr rows, snd ?c)" by (simp add: prod_eq_iff)
  have r: "?r \<in> set (dbRequests ?s)" "prStatus ?r = ''confirmed'' \<or> prStatus ?r = ''reorged''"
    by (simp_all add: demo_db_def empty_db_def demo_request_def)
  have m: "lookup (prMetadata ?r) ''reconciliation'' =
      Some (GMap [(''first_confirmed_at'', GTime second), (''finality_reached_at'', GTime (2 * second))])"
    by (simp add: demo_request_def demo_confirmed_metadata_def)
  have f: "lookup [(''first_confirmed_at'', GTime second), (''finality_reached_at'', GTime (2 * second))]
      ''first_confirmed_at'' = Some (GTime second)" by simp
  have w: "second + windowSeconds (3600 * second) * second \<le> 7200 * second" by code_simp
  show ?thesis
    using closed_window_never_claimed [OF c demo_ok r m f w] \<open>fst ?c = Inr rows\<close>
    by (simp add: demo_request_def)
qed

text \<open>
  C4. A settlement sync that succeeds implements its specification: every reference observed (with
  blanks trimmed, entries without reference or amount ignored, the last entry of a reference
  winning) has a row with that evidence, every other row of the request is orphaned and otherwise
  unchanged, the rows of other requests and all other tables are untouched, the key stays unique,
  and the summary counts exactly the rows of the result and the rows newly orphaned.
\<close>

theorem settlement_sync_refines:
  assumes "syncSettlements pg requestID ch nw asst now evs s = (Inr sm, s')"
    and "settlementsOK pg (dbSettlements s)" "numericLaw pg"
  shows "sync_spec pg (TrimSpace requestID) now evs (dbSettlements s) (dbSettlements s') sm \<and>
     s' = s\<lparr>dbSettlements := dbSettlements s'\<rparr> \<and> settlementsOK pg (dbSettlements s')"
  using syncSettlements_spec [OF assms(1,2)] assms(3) by blast

definition demo_settled :: db where
  "demo_settled = (demo_db ''confirmed'' [])\<lparr>dbSettlements :=
     [rowOfState ''pr_1'' ''tx:0'' (settlementOfEvidence demo_pg (demo_evidence ''tx:0'' True)) 1000 0]\<rparr>"

lemma demo_numeric: "numericLaw demo_pg"
  by (simp add: numericLaw_def demo_pg_def)

lemma demo_settled_ok: "settlementsOK demo_pg (dbSettlements demo_settled)"
  by (simp add: settlementsOK_def demo_settled_def settlementKeys_def demo_pg_def)

definition demo_sync :: "evidence list \<Rightarrow> db \<Rightarrow> sync_result res \<times> db" where
  "demo_sync evs s = syncSettlements demo_pg ''pr_1'' [] [] [] (20 * second) evs s"

lemma demo_sync_run:
  "fst (demo_sync [demo_evidence ''tx:1'' True] demo_settled) =
     Inr \<lparr>srCanonical = 1, srNonCanonical = 1, srNewlyOrphaned = 1\<rparr>"
  by code_simp

theorem settlement_sync_refines_witness:
  "sync_spec demo_pg ''pr_1'' (20 * second) [demo_evidence ''tx:1'' True] (dbSettlements demo_settled)
     (dbSettlements (snd (demo_sync [demo_evidence ''tx:1'' True] demo_settled)))
     \<lparr>srCanonical = 1, srNonCanonical = 1, srNewlyOrphaned = 1\<rparr>"
proof -
  let ?d = "demo_sync [demo_evidence ''tx:1'' True] demo_settled"
  have d: "?d = (Inr \<lparr>srCanonical = 1, srNonCanonical = 1, srNewlyOrphaned = 1\<rparr>, snd ?d)"
    using demo_sync_run by (simp add: prod_eq_iff)
  have t: "TrimSpace ''pr_1'' = ''pr_1''" by code_simp
  show ?thesis
    using settlement_sync_refines [OF d [unfolded demo_sync_def] demo_settled_ok demo_numeric]
    by (simp add: t demo_sync_def)
qed

text \<open>
  The canonical count a sync reports depends on the evidence alone (the number of references
  whose last entry is canonical), and a second sync with the same evidence, at any later time,
  reports the same count and no newly orphaned row: repeating a cycle is harmless.
\<close>

theorem settlement_sync_repeats:
  assumes "syncSettlements pg requestID ch nw asst now evs s = (Inr sm, s')"
    and "syncSettlements pg requestID ch nw asst now' evs s' = (Inr sm', s'')"
    and "settlementsOK pg (dbSettlements s)" "numericLaw pg"
  shows "srCanonical sm = int (card {ref. \<exists>ev. lastObserved evs ref = Some ev \<and> evIsCanonical ev}) \<and>
     srCanonical sm' = srCanonical sm \<and> srNewlyOrphaned sm' = 0"
proof -
  note one = syncSettlements_spec [OF assms(1,3)]
  note two = syncSettlements_spec [OF assms(2) one(3) [OF assms(4)]]
  show ?thesis
    using sync_spec_canonical_count [OF one(1)] sync_spec_again [OF one(1) two(1)] by blast
qed

lemma demo_sync_again:
  "fst (demo_sync [demo_evidence ''tx:1'' True] (snd (demo_sync [demo_evidence ''tx:1'' True] demo_settled))) =
     Inr \<lparr>srCanonical = 1, srNonCanonical = 1, srNewlyOrphaned = 0\<rparr>"
  by code_simp

theorem settlement_sync_repeats_witness:
  "card {ref. \<exists>ev. lastObserved [demo_evidence ''tx:1'' True] ref = Some ev \<and> evIsCanonical ev} = 1"
proof -
  let ?evs = "[demo_evidence ''tx:1'' True]"
  let ?d = "demo_sync ?evs demo_settled"
  let ?e = "demo_sync ?evs (snd ?d)"
  have d: "?d = (Inr \<lparr>srCanonical = 1, srNonCanonical = 1, srNewlyOrphaned = 1\<rparr>, snd ?d)"
    "?e = (Inr \<lparr>srCanonical = 1, srNonCanonical = 1, srNewlyOrphaned = 0\<rparr>, snd ?e)"
    using demo_sync_run demo_sync_again by (simp_all add: prod_eq_iff)
  show ?thesis
    using settlement_sync_repeats [OF d(1) [unfolded demo_sync_def] d(2) [unfolded demo_sync_def]
        demo_settled_ok demo_numeric]
    by simp
qed

text \<open>
  C5. Leases exclude: however many workers claim batches, act on rows and stall, and whatever the
  server answers, from a store with unique request identifiers no two workers ever hold an
  unexpired lease on the same payment request.
\<close>

theorem request_lease_exclusive:
  assumes "(lease_step claimRequests transitionRequest requestsRest)\<^sup>*\<^sup>* S T"
    and "requestsOK (lsStore S)" "lsHeld S = {}"
    and "(own, k, u) \<in> lsHeld T" "(own', k, u') \<in> lsHeld T" "lsNow T < u" "lsNow T < u'"
  shows "own = own'"
  using assms by (rule request_leases.leases_exclusive)

theorem request_lease_exclusive_witness:
  "\<exists>T. (lease_step claimRequests transitionRequest requestsRest)\<^sup>*\<^sup>*
       \<lparr>lsStore = demo_db ''pending'' [], lsNow = second, lsHeld = {}\<rparr> T \<and>
     (''w1'', ''pr_1'', 5 * second) \<in> lsHeld T \<and> lsNow T < 5 * second \<and>
     (\<forall>own. (own, ''pr_1'', 5 * second) \<in> lsHeld T \<longrightarrow> own = ''w1'')"
proof -
  let ?S = "\<lparr>lsStore = demo_db ''pending'' [], lsNow = second, lsHeld = {}\<rparr>"
  let ?c = "claimRequests (demo_pg, 3600 * second, 5) ''w1'' second (5 * second) (demo_db ''pending'' [])"
  let ?T = "?S\<lparr>lsStore := snd ?c, lsHeld := lsHeld ?S \<union> {(TrimSpace ''w1'', k, 5 * second) |k. k \<in> set [''pr_1'']}\<rparr>"
  have "fst ?c = Some [''pr_1'']" by code_simp
  then have c: "?c = (Some [''pr_1''], snd ?c)" by (simp add: prod_eq_iff)
  have step: "lease_step claimRequests transitionRequest requestsRest ?S ?T"
    using c by (intro lease_step.claimed [where now = second and c = "(demo_pg, 3600 * second, 5)"]) simp_all
  have w: "TrimSpace ''w1'' = ''w1''" by code_simp
  have held: "(''w1'', ''pr_1'', 5 * second) \<in> lsHeld ?T" by (simp add: w)
  have now: "lsNow ?T < 5 * second" by (simp add: second_def)
  have ok: "requestsOK (lsStore ?S)" "lsHeld ?S = {}" by (simp_all add: demo_ok)
  have "own = ''w1''" if "(own, ''pr_1'', 5 * second) \<in> lsHeld ?T" for own
    using request_lease_exclusive [OF r_into_rtranclp [of "lease_step claimRequests transitionRequest requestsRest",
          OF step] ok that held now now] .
  with step held now show ?thesis by blast
qed

text \<open>
  A claim takes at most the batch size, only rows that are open (or inside their observation
  window) with no unexpired lease, and takes the oldest first: a claimable row is left out only
  when the batch is full, of rows at least as old.
\<close>

theorem claim_oldest_first:
  assumes "claimOpen pg now w lim own until s = (Inr rows, s')"
  shows "length rows \<le> nat lim \<and>
     (\<forall>o' \<in> set rows. \<exists>r \<in> set (dbRequests s). prID r = orID o' \<and> claimable pg now (windowSeconds w) r \<and>
        (\<forall>x \<in> set (dbRequests s). claimable pg now (windowSeconds w) x \<longrightarrow> prID x \<notin> orID ` set rows \<longrightarrow>
           length rows = nat lim \<and> prCreatedAt r \<le> prCreatedAt x))"
  using assms
proof (cases rule: claimOpen_cases)
  case (leased chosen)
  let ?all = "filter (claimable pg now (windowSeconds w)) (sort_key prCreatedAt (sort_key prID (dbRequests s)))"
  have chosen: "chosen = take (nat lim) ?all" using leased(1) by (simp add: candidates_def)
  have rows: "rows = map (openRequestOf pg) chosen" using leased(3) by simp
  have ids: "orID ` set rows = prID ` set chosen" by (simp add: rows image_image)
  have full: "length rows = nat lim \<and> prCreatedAt r \<le> prCreatedAt x"
    if x: "x \<in> set (dbRequests s)" "claimable pg now (windowSeconds w) x" "prID x \<notin> orID ` set rows"
      and r: "r \<in> set chosen" for x r
  proof
    have notin: "x \<notin> set (take (nat lim) ?all)" using x(3) unfolding ids chosen by blast
    have "x \<in> set ?all" using x(1,2) by simp
    with notin have "nat lim \<le> length ?all"
      by (metis nle_le take_all)
    then show "length rows = nat lim" by (simp add: rows chosen)
    show "prCreatedAt r \<le> prCreatedAt x"
      using take_sorted_le [OF sorted_candidates r [unfolded chosen] \<open>x \<in> set ?all\<close> notin] .
  qed
  have member: "r \<in> set (dbRequests s) \<and> claimable pg now (windowSeconds w) r" if "r \<in> set chosen" for r
    using that candidates_subset unfolding leased(1) by blast
  have "length rows \<le> nat lim" by (simp add: rows chosen)
  moreover have "\<exists>r \<in> set (dbRequests s). prID r = orID o' \<and> claimable pg now (windowSeconds w) r \<and>
        (\<forall>x \<in> set (dbRequests s). claimable pg now (windowSeconds w) x \<longrightarrow> prID x \<notin> orID ` set rows \<longrightarrow>
           length rows = nat lim \<and> prCreatedAt r \<le> prCreatedAt x)"
    if "o' \<in> set rows" for o'
  proof -
    from that obtain r where r: "r \<in> set chosen" "orID o' = prID r" by (auto simp: rows)
    with full member show ?thesis by (intro bexI [of _ r]) auto
  qed
  ultimately show ?thesis by blast
qed simp

theorem claim_oldest_first_witness:
  "\<exists>rows. fst (claimOpen demo_pg second second 1 ''w1'' (5 * second) (demo_db ''pending'' [])) = Inr rows \<and>
     length rows \<le> 1"
proof -
  let ?c = "claimOpen demo_pg second second 1 ''w1'' (5 * second) (demo_db ''pending'' [])"
  have "is_ok (fst ?c)" by code_simp
  then obtain rows where rows: "fst ?c = Inr rows" by (auto simp: is_ok_iff)
  then have "?c = (Inr rows, snd ?c)" by (simp add: prod_eq_iff)
  from claim_oldest_first [OF this] rows show ?thesis by simp
qed

lemma openStatus_normal: "openStatus st \<Longrightarrow> ToLower (TrimSpace st) = st"
  unfolding openStatus_def by (elim disjE; simp; code_simp)

text \<open>
  C21. Liveness of expiry: when a worker processes a pending, detected or reorged request it has
  leased and whose deadline has passed, without a store error, the request is expired afterwards,
  whatever the chain observer would have said, and the run counts it as expired.
\<close>

theorem overdue_request_expires:
  assumes "reconcileRow (paymentRepository pg cfg) observe cmd now own (openRequestOf pg r) out s = (out', None, s')"
    and "requestsOK s" "r \<in> set (dbRequests s)" "TrimSpace (prID r) = prID r"
    and "prLeaseOwner r = Some (TrimSpace own)" "openStatus (prStatus r)" "prExpiresAt r \<le> now"
  shows "request_status s' (prID r) = Some ''expired'' \<and> out' = out\<lparr>roExpired := roExpired out + 1\<rparr>"
proof -
  note st = openStatus_normal [OF assms(6)]
  have expire: "shouldExpireRequest (prStatus r) now (prExpiresAt r)"
    using assms(6,7) by (auto simp: shouldExpireRequest_def openStatus_def)
  then have "expireRow (paymentRepository pg cfg) now own (openRequestOf pg r) (prStatus r) out s = (out', None, s')"
    using assms(1) by (simp add: reconcileRow_def openRequestOf_def st Let_def)
  then obtain b md where t: "transitionStatus pg cfg (prID r) (prStatus r) ''expired'' now own md s = (Inr b, s')"
    and out: "out' = (if b then out\<lparr>roExpired := roExpired out + 1\<rparr> else out\<lparr>roSkipped := roSkipped out + 1\<rparr>)"
    by (auto simp: expireRow_def paymentRepository_def openRequestOf_def split: prod.splits sum.splits)
  have m: "transitionMatches (TrimSpace (prID r)) (ToLower (TrimSpace (prStatus r))) (TrimSpace own) r"
    using assms(4,5) st by (simp add: transitionMatches_def)
  have e: "ToLower (TrimSpace ''expired'') = ''expired''" by code_simp
  show ?thesis
    using transition_row [OF t assms(2,3) m] out
    by (simp add: request_status_def transitionRow_def e)
qed

definition demo_leased :: request_row where
  "demo_leased = demo_request ''pr_1'' ''reorged'' []\<lparr>prLeaseOwner := Some ''w1'', prLeaseUntil := Some (9000 * second)\<rparr>"

theorem overdue_request_expires_witness:
  "request_status (snd (snd (reconcileRow (paymentRepository demo_pg demo_cfg) (\<lambda>_. Inr (demo_observation True))
      (demo_command 1) (7200 * second) ''w1'' (openRequestOf demo_pg demo_leased) empty_output
      (empty_db\<lparr>dbRequests := [demo_leased]\<rparr>)))) ''pr_1'' = Some ''expired''"
proof -
  let ?s = "empty_db\<lparr>dbRequests := [demo_leased]\<rparr>"
  let ?r = "reconcileRow (paymentRepository demo_pg demo_cfg) (\<lambda>_. Inr (demo_observation True))
      (demo_command 1) (7200 * second) ''w1'' (openRequestOf demo_pg demo_leased) empty_output ?s"
  have "fst (snd ?r) = None" by code_simp
  then have r: "?r = (fst ?r, None, snd (snd ?r))" by (simp add: prod_eq_iff)
  have f: "requestsOK ?s" "demo_leased \<in> set (dbRequests ?s)" by (simp_all add: requestsOK_def)
  have i: "TrimSpace (prID demo_leased) = prID demo_leased" "prLeaseOwner demo_leased = Some (TrimSpace ''w1'')"
    "openStatus (prStatus demo_leased)" "prExpiresAt demo_leased \<le> 7200 * second"
    by code_simp+
  show ?thesis
    using overdue_request_expires [OF r f i] by (simp add: demo_leased_def demo_request_def)
qed

end
