(* ===== verification/WebhookOutbox.thy ===== *)
theory WebhookOutbox
  imports PaymentStore Leases
begin

text \<open>
  The webhook outbox repository
  (\<^verbatim>\<open>internal/adapters/outbound/persistence/postgresql/webhookoutbox/repository.go\<close>): claiming
  pending events under a lease, the fenced outcomes of a delivery, lease renewal, the operators'
  requeue and cancel, and the two read queries, over the same tables as the payment store.
\<close>

subsection \<open>Rows that cross the port\<close>

record pending_event =
  peID :: int
  peEventID :: string
  peEventType :: string
  peDestinationURL :: string
  pePayload :: gval
  peAttempts :: int
  peMaxAttempts :: int

record mutation_result =
  mrFound :: bool
  mrUpdated :: bool
  mrCurrentStatus :: string

record outbox_overview =
  ovPending :: int
  ovPendingReady :: int
  ovRetrying :: int
  ovFailed :: int
  ovDelivered :: int
  ovOldestPendingCreatedAt :: "time option"
  ovOldestPendingAgeSec :: "int option"

record dlq_event =
  dqEventID :: string
  dqEventType :: string
  dqPaymentRequestID :: string
  dqDestinationURL :: string
  dqAttempts :: int
  dqMaxAttempts :: int
  dqLastError :: "string option"
  dqCreatedAt :: time
  dqUpdatedAt :: time
  dqDeliveredAt :: "time option"

definition queryFailed :: "string \<Rightarrow> string \<Rightarrow> app_error" where
  "queryFailed msg e = NewInternal ''webhook_outbox_query_failed'' msg (errorDetail e)"

definition updateFailed :: "string \<Rightarrow> app_error" where
  "updateFailed e =
     NewInternal ''webhook_outbox_update_failed'' ''failed to update webhook outbox event'' (errorDetail e)"

subsection \<open>ClaimPendingForDispatch\<close>

definition eventLeaseFree :: "time \<Rightarrow> outbox_row \<Rightarrow> bool" where
  "eventLeaseFree now r = (case oeLeaseUntil r of None \<Rightarrow> True | Some u \<Rightarrow> u \<le> now)"

definition dispatchable :: "time \<Rightarrow> outbox_row \<Rightarrow> bool" where
  "dispatchable now r =
     (oeDeliveryStatus r = ''pending'' \<and> \<not> blank_column (oeDestinationURL r) \<and>
      oeNextAttemptAt r \<le> now \<and> eventLeaseFree now r)"

definition dispatchCandidates :: "time \<Rightarrow> int \<Rightarrow> outbox_row list \<Rightarrow> outbox_row list" where
  "dispatchCandidates now limit rows =
     take (nat limit) (filter (dispatchable now) (sort_key oeCreatedAt (sort_key oeID rows)))"

definition leaseEvents :: "int set \<Rightarrow> string \<Rightarrow> time \<Rightarrow> time \<Rightarrow> outbox_row list \<Rightarrow> outbox_row list" where
  "leaseEvents ids owner until now rows =
     map (\<lambda>r. if oeID r \<in> ids
              then r\<lparr>oeLeaseOwner := Some owner, oeLeaseUntil := Some until, oeUpdatedAt := now\<rparr> else r)
       rows"

definition pendingEventOf :: "outbox_row \<Rightarrow> pending_event" where
  "pendingEventOf r =
     \<lparr>peID = oeID r, peEventID = oeEventID r, peEventType = oeEventType r,
      peDestinationURL = (case oeDestinationURL r of None \<Rightarrow> [] | Some u \<Rightarrow> u),
      pePayload = oePayload r, peAttempts = oeAttempts r, peMaxAttempts = oeMaxAttempts r\<rparr>"

definition claimPending ::
  "pg \<Rightarrow> time \<Rightarrow> int \<Rightarrow> string \<Rightarrow> time \<Rightarrow> db \<Rightarrow> pending_event list res \<times> db" where
  "claimPending pg now limit leaseOwner leaseUntil s =
     (case pgFault pg ''outbox_claim'' [] of
        Some e \<Rightarrow> (Inl (queryFailed ''failed to claim webhook outbox events'' e), s)
      | None \<Rightarrow>
          if limit < 0 then
            (Inl (queryFailed ''failed to claim webhook outbox events'' (pgViolation pg ''limit'')), s)
          else
            (let chosen = dispatchCandidates now limit (dbOutbox s);
                 s' = s\<lparr>dbOutbox := leaseEvents (set (map oeID chosen)) (TrimSpace leaseOwner)
                                     leaseUntil now (dbOutbox s)\<rparr>
             in case pgFault pg ''outbox_claim_rows'' [] of
                  Some e \<Rightarrow>
                    (Inl (queryFailed ''failed while iterating claimed webhook outbox events'' e), s')
                | None \<Rightarrow> (Inr (map pendingEventOf chosen), s')))"

subsection \<open>Outcomes of a delivery\<close>

text \<open>
  One \<^verbatim>\<open>UPDATE\<close> of the rows that match, reporting whether exactly one row was affected. The
  server rejects a row that breaks a column check.
\<close>

definition outboxRowAllowed :: "outbox_row \<Rightarrow> bool" where
  "outboxRowAllowed r =
     (oeDeliveryStatus r \<in> {''pending'', ''delivered'', ''failed''} \<and> 0 \<le> oeAttempts r \<and>
      0 < oeMaxAttempts r)"

definition execRowsAffected ::
  "pg \<Rightarrow> string \<Rightarrow> int \<Rightarrow> (outbox_row \<Rightarrow> bool) \<Rightarrow> (outbox_row \<Rightarrow> outbox_row) \<Rightarrow> db \<Rightarrow> bool res \<times> db" where
  "execRowsAffected pg stmt oid matches change s =
     (case pgFault pg stmt (FormatInt oid) of
        Some e \<Rightarrow> (Inl (updateFailed e), s)
      | None \<Rightarrow>
          if \<exists>r \<in> set (dbOutbox s). matches r \<and> \<not> outboxRowAllowed (change r) then
            (Inl (updateFailed (pgViolation pg ''webhook_outbox_events'')), s)
          else
            (Inr (length (filter matches (dbOutbox s)) = 1),
             s\<lparr>dbOutbox := map (\<lambda>r. if matches r then change r else r) (dbOutbox s)\<rparr>))"

definition ownedPending :: "int \<Rightarrow> string \<Rightarrow> outbox_row \<Rightarrow> bool" where
  "ownedPending oid owner r =
     (oeID r = oid \<and> oeDeliveryStatus r = ''pending'' \<and>
      (oeLeaseOwner r = None \<or> oeLeaseOwner r = Some owner))"

definition MarkDelivered :: "pg \<Rightarrow> int \<Rightarrow> string \<Rightarrow> time \<Rightarrow> db \<Rightarrow> bool res \<times> db" where
  "MarkDelivered pg oid leaseOwner deliveredAt s =
     execRowsAffected pg ''mark_delivered'' oid (ownedPending oid (TrimSpace leaseOwner))
       (\<lambda>r. r\<lparr>oeDeliveryStatus := ''delivered'', oeDeliveredAt := Some deliveredAt,
             oeLastError := None, oeLeaseOwner := None, oeLeaseUntil := None,
             oeUpdatedAt := deliveredAt\<rparr>) s"

definition MarkRetry ::
  "pg \<Rightarrow> int \<Rightarrow> string \<Rightarrow> int \<Rightarrow> time \<Rightarrow> string \<Rightarrow> time \<Rightarrow> db \<Rightarrow> bool res \<times> db" where
  "MarkRetry pg oid leaseOwner attempts nextAttemptAt lastError updatedAt s =
     execRowsAffected pg ''mark_retry'' oid (ownedPending oid (TrimSpace leaseOwner))
       (\<lambda>r. r\<lparr>oeAttempts := attempts, oeNextAttemptAt := nextAttemptAt,
             oeLastError := Some (TrimSpace lastError), oeLeaseOwner := None, oeLeaseUntil := None,
             oeUpdatedAt := updatedAt\<rparr>) s"

definition MarkFailed ::
  "pg \<Rightarrow> int \<Rightarrow> string \<Rightarrow> int \<Rightarrow> string \<Rightarrow> time \<Rightarrow> db \<Rightarrow> bool res \<times> db" where
  "MarkFailed pg oid leaseOwner attempts lastError updatedAt s =
     execRowsAffected pg ''mark_failed'' oid (ownedPending oid (TrimSpace leaseOwner))
       (\<lambda>r. r\<lparr>oeDeliveryStatus := ''failed'', oeAttempts := attempts,
             oeLastError := Some (TrimSpace lastError), oeLeaseOwner := None, oeLeaseUntil := None,
             oeUpdatedAt := updatedAt\<rparr>) s"

definition RenewLease :: "pg \<Rightarrow> int \<Rightarrow> string \<Rightarrow> time \<Rightarrow> time \<Rightarrow> db \<Rightarrow> bool res \<times> db" where
  "RenewLease pg oid leaseOwner leaseUntil updatedAt s =
     execRowsAffected pg ''renew_lease'' oid
       (\<lambda>r. oeID r = oid \<and> oeDeliveryStatus r = ''pending'' \<and>
            oeLeaseOwner r = Some (TrimSpace leaseOwner))
       (\<lambda>r. r\<lparr>oeLeaseUntil := Some leaseUntil, oeUpdatedAt := updatedAt\<rparr>) s"

subsection \<open>Operations of the operators\<close>

text \<open>
  The event identifier is unique. A statement reports whether the event was found, its status
  before, and whether it was updated.
\<close>

definition mutationWithStatus ::
  "pg \<Rightarrow> string \<Rightarrow> string \<Rightarrow> (string \<Rightarrow> bool) \<Rightarrow> (outbox_row \<Rightarrow> outbox_row) \<Rightarrow> db \<Rightarrow>
   mutation_result res \<times> db" where
  "mutationWithStatus pg stmt eventID allowed change s =
     (case pgFault pg stmt eventID of
        Some e \<Rightarrow> (Inl (updateFailed e), s)
      | None \<Rightarrow>
          (let selected = filter (\<lambda>r. oeEventID r = eventID) (dbOutbox s);
               hit = (\<lambda>r. oeEventID r = eventID \<and> allowed (oeDeliveryStatus r))
           in (Inr \<lparr>mrFound = (selected \<noteq> []),
                    mrUpdated = (filter hit (dbOutbox s) \<noteq> []),
                    mrCurrentStatus = ToLower (TrimSpace
                      (case selected of [] \<Rightarrow> [] | r # _ \<Rightarrow> oeDeliveryStatus r))\<rparr>,
               s\<lparr>dbOutbox := map (\<lambda>r. if hit r then change r else r) (dbOutbox s)\<rparr>)))"

definition RequeueFailedByEventID ::
  "pg \<Rightarrow> string \<Rightarrow> string \<Rightarrow> time \<Rightarrow> db \<Rightarrow> mutation_result res \<times> db" where
  "RequeueFailedByEventID pg eventID operatorID updatedAt s =
     mutationWithStatus pg ''requeue'' (TrimSpace eventID) (\<lambda>st. st = ''failed'')
       (\<lambda>r. r\<lparr>oeDeliveryStatus := ''pending'', oeAttempts := 0, oeNextAttemptAt := updatedAt,
             oeLastError := None, oeDeliveredAt := None, oeLeaseOwner := None, oeLeaseUntil := None,
             oeManualLastAction := Some ''requeue'',
             oeManualLastActor := Some (TrimSpace operatorID),
             oeManualLastAt := Some updatedAt, oeUpdatedAt := updatedAt\<rparr>) s"

definition CancelByEventID ::
  "pg \<Rightarrow> string \<Rightarrow> string \<Rightarrow> string \<Rightarrow> time \<Rightarrow> db \<Rightarrow> mutation_result res \<times> db" where
  "CancelByEventID pg eventID operatorID lastError updatedAt s =
     mutationWithStatus pg ''cancel'' (TrimSpace eventID) (\<lambda>st. st = ''pending'' \<or> st = ''failed'')
       (\<lambda>r. r\<lparr>oeDeliveryStatus := ''failed'', oeLastError := Some (TrimSpace lastError),
             oeLeaseOwner := None, oeLeaseUntil := None,
             oeManualLastAction := Some ''cancel'',
             oeManualLastActor := Some (TrimSpace operatorID),
             oeManualLastAt := Some updatedAt, oeUpdatedAt := updatedAt\<rparr>) s"

subsection \<open>Read queries\<close>

definition countEvents :: "(outbox_row \<Rightarrow> bool) \<Rightarrow> db \<Rightarrow> int" where
  "countEvents p s = int (length (filter p (dbOutbox s)))"

definition oldestPending :: "outbox_row list \<Rightarrow> time option" where
  "oldestPending rows =
     (case map oeCreatedAt (filter (\<lambda>r. oeDeliveryStatus r = ''pending'') rows) of
        [] \<Rightarrow> None
      | t # ts \<Rightarrow> Some (foldl min t ts))"

text \<open>
  \<^verbatim>\<open>now.Sub(oldest).Seconds()\<close> truncated to \<^verbatim>\<open>int64\<close>, not below zero (ages that fit a
  \<^verbatim>\<open>time.Duration\<close>).
\<close>

definition GetOverview :: "pg \<Rightarrow> time \<Rightarrow> db \<Rightarrow> outbox_overview res" where
  "GetOverview pg now s =
     (case pgFault pg ''overview'' [] of
        Some e \<Rightarrow> Inl (queryFailed ''failed to query webhook outbox overview'' e)
      | None \<Rightarrow>
          (let pending = (\<lambda>r. oeDeliveryStatus r = ''pending''); oldest = oldestPending (dbOutbox s)
           in Inr \<lparr>ovPending = countEvents pending s,
                   ovPendingReady = countEvents (\<lambda>r. pending r \<and> oeNextAttemptAt r \<le> now \<and>
                                                    eventLeaseFree now r) s,
                   ovRetrying = countEvents (\<lambda>r. pending r \<and> oeAttempts r > 0) s,
                   ovFailed = countEvents (\<lambda>r. oeDeliveryStatus r = ''failed'') s,
                   ovDelivered = countEvents (\<lambda>r. oeDeliveryStatus r = ''delivered'') s,
                   ovOldestPendingCreatedAt = oldest,
                   ovOldestPendingAgeSec =
                     map_option (\<lambda>t. if now - t < 0 then 0 else quot (now - t) second) oldest\<rparr>))"

definition dlqPage :: "int \<Rightarrow> outbox_row list \<Rightarrow> outbox_row list" where
  "dlqPage limit rows =
     take (nat limit)
       (rev (sort_key oeUpdatedAt (sort_key oeID
          (filter (\<lambda>r. oeDeliveryStatus r = ''failed'') rows))))"

definition dlqEventOf :: "outbox_row \<Rightarrow> string \<Rightarrow> dlq_event" where
  "dlqEventOf r url =
     \<lparr>dqEventID = oeEventID r, dqEventType = oeEventType r,
      dqPaymentRequestID = oePaymentRequestID r, dqDestinationURL = url,
      dqAttempts = oeAttempts r, dqMaxAttempts = oeMaxAttempts r, dqLastError = oeLastError r,
      dqCreatedAt = oeCreatedAt r, dqUpdatedAt = oeUpdatedAt r, dqDeliveredAt = oeDeliveredAt r\<rparr>"

text \<open>Scanning a null \<^verbatim>\<open>destination_url\<close> into a Go \<^verbatim>\<open>string\<close> is an error.\<close>

fun scanDLQ :: "pg \<Rightarrow> outbox_row list \<Rightarrow> dlq_event list res" where
  "scanDLQ pg [] = Inr []"
| "scanDLQ pg (r # rows) =
     (case oeDestinationURL r of
        None \<Rightarrow> Inl (queryFailed ''failed to parse webhook dlq event row'' (pgViolation pg ''scan_null''))
      | Some url \<Rightarrow>
          (case scanDLQ pg rows of
             Inl e \<Rightarrow> Inl e
           | Inr events \<Rightarrow> Inr (dlqEventOf r url # events)))"

definition ListDLQ :: "pg \<Rightarrow> int \<Rightarrow> db \<Rightarrow> dlq_event list res" where
  "ListDLQ pg limit s =
     (case pgFault pg ''list_dlq'' [] of
        Some e \<Rightarrow> Inl (queryFailed ''failed to list webhook dlq events'' e)
      | None \<Rightarrow>
          if limit < 0 then Inl (queryFailed ''failed to list webhook dlq events'' (pgViolation pg ''limit''))
          else
            (case scanDLQ pg (dlqPage limit (dbOutbox s)) of
               Inl e \<Rightarrow> Inl e
             | Inr events \<Rightarrow>
                 (case pgFault pg ''list_dlq_rows'' [] of
                    Some e \<Rightarrow> Inl (queryFailed ''failed while iterating webhook dlq rows'' e)
                  | None \<Rightarrow> Inr events)))"

end
