(* ===== verification/Dispatch.thy ===== *)
theory Dispatch
  imports WebhookOutbox
begin

text \<open>
  The dispatch use case (\<^verbatim>\<open>internal/application/use_cases/dispatch_webhook_events_use_case.go\<close>):
  heartbeat interval, retry backoff with deterministic jitter, the outcome of one delivery and the
  loop over the claimed events. Durations are 64-bit: \<open>wrap64\<close> is written out where the code's
  arithmetic can overflow. The repository is a record of state-passing operations, the webhook
  gateway a function of the request, and the instants at which the heartbeat goroutine renews the
  lease during a delivery are a parameter.
\<close>

unbundle bit_operations_syntax

subsection \<open>Data\<close>

record dispatch_command =
  dcNow :: time
  dcBatchSize :: int
  dcWorkerID :: string
  dcLeaseDuration :: duration
  dcInitialBackoff :: duration
  dcMaxBackoff :: duration
  dcRetryJitterBPS :: int
  dcRetryBudget :: int

record dispatch_output =
  doClaimed :: int
  doSent :: int
  doRetried :: int
  doFailed :: int
  doSkipped :: int
  doErrors :: int
  doHTTP2xx :: int
  doHTTP4xx :: int
  doHTTP5xx :: int
  doNetworkError :: int

definition zero_dispatch_output :: dispatch_output where
  "zero_dispatch_output =
     \<lparr>doClaimed = 0, doSent = 0, doRetried = 0, doFailed = 0, doSkipped = 0, doErrors = 0,
      doHTTP2xx = 0, doHTTP4xx = 0, doHTTP5xx = 0, doNetworkError = 0\<rparr>"

record send_input =
  siEventID :: string
  siEventType :: string
  siDeliveryAttempt :: int
  siDestinationURL :: string
  siPayload :: gval

record 's outbox_repository =
  obClaimPending :: "time \<Rightarrow> int \<Rightarrow> string \<Rightarrow> time \<Rightarrow> 's \<Rightarrow> pending_event list res \<times> 's"
  obMarkDelivered :: "int \<Rightarrow> string \<Rightarrow> time \<Rightarrow> 's \<Rightarrow> bool res \<times> 's"
  obMarkRetry :: "int \<Rightarrow> string \<Rightarrow> int \<Rightarrow> time \<Rightarrow> string \<Rightarrow> time \<Rightarrow> 's \<Rightarrow> bool res \<times> 's"
  obMarkFailed :: "int \<Rightarrow> string \<Rightarrow> int \<Rightarrow> string \<Rightarrow> time \<Rightarrow> 's \<Rightarrow> bool res \<times> 's"
  obRenewLease :: "int \<Rightarrow> string \<Rightarrow> time \<Rightarrow> time \<Rightarrow> 's \<Rightarrow> bool res \<times> 's"

text \<open>The gateway returns a status code and possibly an error.\<close>

type_synonym webhook_gateway = "send_input \<Rightarrow> int \<times> app_error option"

subsection \<open>Heartbeat\<close>

definition webhookLeaseHeartbeatInterval :: "duration \<Rightarrow> duration res" where
  "webhookLeaseHeartbeatInterval leaseDuration =
     (let third = quot leaseDuration 3;
          floored = (if third \<le> 0 then 100 * millisecond else third);
          interval = (if floored \<ge> leaseDuration then quot leaseDuration 2 else floored)
      in if interval \<le> 0 \<or> interval \<ge> leaseDuration then
           Inl (NewValidation ''dispatch_webhook_lease_heartbeat_interval_invalid''
             ''dispatch webhook lease duration is too small for heartbeat interval''
             [(''lease_duration'', GStr (DurationString leaseDuration))])
         else Inr interval)"

definition renewWebhookLease ::
  "'s outbox_repository \<Rightarrow> string \<Rightarrow> int \<Rightarrow> string \<Rightarrow> duration \<Rightarrow> time \<Rightarrow> 's \<Rightarrow> app_error option \<times> 's" where
  "renewWebhookLease repo eventID rowID workerID leaseDuration updatedAt s =
     (case obRenewLease repo rowID workerID (updatedAt + leaseDuration) updatedAt s of
        (Inl e, s') \<Rightarrow>
          (Some (NewInternal ''dispatch_webhook_lease_renew_failed''
             ''failed to renew webhook outbox lease''
             [(''event_id'', GStr eventID), (''row_id'', GInt rowID), (''worker_id'', GStr workerID),
              (''error'', GStr (Message e))]), s')
      | (Inr False, s') \<Rightarrow>
          (Some (NewInternal ''dispatch_webhook_lease_lost''
             ''webhook outbox lease ownership was lost during dispatch''
             [(''event_id'', GStr eventID), (''row_id'', GInt rowID), (''worker_id'', GStr workerID)]), s')
      | (Inr True, s') \<Rightarrow> (None, s'))"

text \<open>
  The goroutine renews at once and then at every tick until the delivery returns; the first
  failure ends it and is reported. \<open>beats\<close> are the instants of the renewals that happened.
\<close>

fun runLeaseHeartbeat ::
  "'s outbox_repository \<Rightarrow> string \<Rightarrow> int \<Rightarrow> string \<Rightarrow> duration \<Rightarrow> time list \<Rightarrow> 's \<Rightarrow> app_error option \<times> 's" where
  "runLeaseHeartbeat repo eventID rowID workerID leaseDuration [] s = (None, s)"
| "runLeaseHeartbeat repo eventID rowID workerID leaseDuration (beat # beats) s =
     (case renewWebhookLease repo eventID rowID workerID leaseDuration beat s of
        (Some e, s') \<Rightarrow> (Some e, s')
      | (None, s') \<Rightarrow> runLeaseHeartbeat repo eventID rowID workerID leaseDuration beats s')"

subsection \<open>Results of a delivery\<close>

definition webhookDispatchErrorMessage :: "app_error option \<Rightarrow> int \<Rightarrow> string" where
  "webhookDispatchErrorMessage appErr statusCode =
     (case appErr of
        Some e \<Rightarrow>
          (let message = TrimSpace (Message e);
               message = (if message = [] then TrimSpace (Code e) else message)
           in if message = [] then ''webhook dispatch failed'' else message)
      | None \<Rightarrow>
          if statusCode \<le> 0 then ''webhook dispatch failed''
          else ''webhook endpoint returned status '' @ FormatInt statusCode)"

definition recordWebhookDeliveryBucket ::
  "dispatch_output \<Rightarrow> int \<Rightarrow> app_error option \<Rightarrow> dispatch_output" where
  "recordWebhookDeliveryBucket out statusCode sendErr =
     (if sendErr \<noteq> None then out\<lparr>doNetworkError := doNetworkError out + 1\<rparr>
      else if 200 \<le> statusCode \<and> statusCode \<le> 299 then out\<lparr>doHTTP2xx := doHTTP2xx out + 1\<rparr>
      else if 400 \<le> statusCode \<and> statusCode \<le> 499 then out\<lparr>doHTTP4xx := doHTTP4xx out + 1\<rparr>
      else if 500 \<le> statusCode \<and> statusCode \<le> 599 then out\<lparr>doHTTP5xx := doHTTP5xx out + 1\<rparr>
      else out\<lparr>doNetworkError := doNetworkError out + 1\<rparr>)"

subsection \<open>Backoff and jitter\<close>

fun backoffLoop :: "nat \<Rightarrow> duration \<Rightarrow> duration \<Rightarrow> duration" where
  "backoffLoop 0 backoff mx = backoff"
| "backoffLoop (Suc n) backoff mx =
     (if backoff \<ge> mx then mx
      else let doubled = wrap64 (backoff * 2)
           in if doubled > mx then mx else backoffLoop n doubled mx)"

definition webhookRetryBackoff :: "int \<Rightarrow> duration \<Rightarrow> duration \<Rightarrow> duration" where
  "webhookRetryBackoff attempts initial mx =
     (if attempts \<le> 1 then initial else backoffLoop (nat (attempts - 1)) initial mx)"

definition webhookEffectiveMaxAttempts :: "int \<Rightarrow> int \<Rightarrow> int" where
  "webhookEffectiveMaxAttempts rowMaxAttempts retryBudget =
     (if retryBudget \<le> 0 then rowMaxAttempts
      else if retryBudget + 1 < rowMaxAttempts then retryBudget + 1 else rowMaxAttempts)"

text \<open>32-bit FNV-1a.\<close>

definition fnv1a :: "string \<Rightarrow> 32 word" where
  "fnv1a s = foldl (\<lambda>h c. (h XOR word_of_nat (byte_of c)) * 16777619) 2166136261 s"

definition webhookDeterministicJitterOffsetBPS :: "string \<Rightarrow> int \<Rightarrow> int \<Rightarrow> int \<Rightarrow> int" where
  "webhookDeterministicJitterOffsetBPS eventID rowID attempt jitterBPS =
     (if jitterBPS \<le> 0 then 0
      else let span = jitterBPS * 2 + 1
           in if span \<le> 1 then 0
              else uint (fnv1a (TrimSpace eventID @ ''|'' @ FormatInt rowID @ ''|'' @ FormatInt attempt)
                     mod word_of_int span) - jitterBPS)"

definition webhookRetryBackoffWithJitter ::
  "int \<Rightarrow> duration \<Rightarrow> duration \<Rightarrow> int \<Rightarrow> string \<Rightarrow> int \<Rightarrow> duration" where
  "webhookRetryBackoffWithJitter attempts initial mx jitterBPS eventID rowID =
     (let base = webhookRetryBackoff attempts initial mx
      in if jitterBPS \<le> 0 \<or> base \<le> 0 then base
         else let offset = webhookDeterministicJitterOffsetBPS eventID rowID attempts jitterBPS;
                  factor = (if 10000 + offset < 1 then 1 else 10000 + offset);
                  nanos = quot (wrap64 (base * factor)) 10000;
                  jittered = (if nanos \<le> 0 then 1 else nanos)
              in if jittered > mx then mx else jittered)"

subsection \<open>One claimed event\<close>

type_synonym 's dispatch_result = "dispatch_output \<times> app_error option \<times> 's"

text \<open>
  The outcome written after a delivery: how many of the sent, failed or retried counters go up
  when the row was updated, then the heartbeat's error, if any.
\<close>

definition finishRow ::
  "(dispatch_output \<Rightarrow> dispatch_output) \<Rightarrow> app_error option \<Rightarrow> dispatch_output \<Rightarrow> bool res \<times> 's \<Rightarrow>
   's dispatch_result" where
  "finishRow count heartbeatErr out outcome =
     (case outcome of
        (Inl e, s') \<Rightarrow> (out, Some e, s')
      | (Inr updated, s') \<Rightarrow>
          (if updated then count out else out\<lparr>doSkipped := doSkipped out + 1\<rparr>, heartbeatErr, s'))"

definition dispatchRow ::
  "'s outbox_repository \<Rightarrow> webhook_gateway \<Rightarrow> (pending_event \<Rightarrow> time list) \<Rightarrow> dispatch_command \<Rightarrow>
   time \<Rightarrow> string \<Rightarrow> pending_event \<Rightarrow> dispatch_output \<Rightarrow> 's \<Rightarrow> 's dispatch_result" where
  "dispatchRow repo send beats cmd now workerID row out s =
     (let destinationURL = TrimSpace (peDestinationURL row)
      in if destinationURL = [] then
           (out\<lparr>doErrors := doErrors out + 1, doSkipped := doSkipped out + 1\<rparr>, None, s)
         else
           (let deliveryAttempt = (if peAttempts row + 1 \<le> 0 then 1 else peAttempts row + 1);
                (statusCode, sendErr) =
                  send \<lparr>siEventID = peEventID row, siEventType = peEventType row,
                        siDeliveryAttempt = deliveryAttempt, siDestinationURL = destinationURL,
                        siPayload = pePayload row\<rparr>;
                (heartbeatErr, s1) =
                  runLeaseHeartbeat repo (peEventID row) (peID row) workerID (dcLeaseDuration cmd)
                    (beats row) s;
                out1 = recordWebhookDeliveryBucket out statusCode sendErr
            in if sendErr = None \<and> 200 \<le> statusCode \<and> statusCode \<le> 299 then
                 finishRow (\<lambda>q. q\<lparr>doSent := doSent q + 1\<rparr>) heartbeatErr out1
                   (obMarkDelivered repo (peID row) workerID now s1)
               else
                 (let out2 = out1\<lparr>doErrors := doErrors out1 + 1\<rparr>;
                      nextAttempts = peAttempts row + 1;
                      effective = webhookEffectiveMaxAttempts (peMaxAttempts row) (dcRetryBudget cmd);
                      message = webhookDispatchErrorMessage sendErr statusCode
                  in if nextAttempts \<ge> effective then
                       finishRow (\<lambda>q. q\<lparr>doFailed := doFailed q + 1\<rparr>) heartbeatErr out2
                         (obMarkFailed repo (peID row) workerID nextAttempts message now s1)
                     else
                       finishRow (\<lambda>q. q\<lparr>doRetried := doRetried q + 1\<rparr>) heartbeatErr out2
                         (obMarkRetry repo (peID row) workerID nextAttempts
                            (now + webhookRetryBackoffWithJitter nextAttempts (dcInitialBackoff cmd)
                               (dcMaxBackoff cmd) (dcRetryJitterBPS cmd) (peEventID row) (peID row))
                            message now s1))))"

fun dispatchRows ::
  "'s outbox_repository \<Rightarrow> webhook_gateway \<Rightarrow> (pending_event \<Rightarrow> time list) \<Rightarrow> dispatch_command \<Rightarrow>
   time \<Rightarrow> string \<Rightarrow> pending_event list \<Rightarrow> dispatch_output \<Rightarrow> 's \<Rightarrow> 's dispatch_result" where
  "dispatchRows repo send beats cmd now workerID [] out s = (out, None, s)"
| "dispatchRows repo send beats cmd now workerID (row # rows) out s =
     (case dispatchRow repo send beats cmd now workerID row out s of
        (out', Some e, s') \<Rightarrow> (out', Some e, s')
      | (out', None, s') \<Rightarrow> dispatchRows repo send beats cmd now workerID rows out' s')"

subsection \<open>Execute\<close>

definition validateDispatch ::
  "'s outbox_repository option \<Rightarrow> webhook_gateway option \<Rightarrow> dispatch_command \<Rightarrow> app_error option" where
  "validateDispatch repository gateway cmd =
     (if repository = None then
        Some (NewInternal ''webhook_outbox_repository_missing''
                ''webhook outbox repository is required'' [])
      else if gateway = None then
        Some (NewInternal ''webhook_event_gateway_missing'' ''webhook event gateway is required'' [])
      else if dcBatchSize cmd \<le> 0 then
        Some (NewValidation ''dispatch_webhook_batch_size_invalid''
                ''dispatch webhook batch size must be greater than zero''
                [(''batch_size'', GInt (dcBatchSize cmd))])
      else if TrimSpace (dcWorkerID cmd) = [] then
        Some (NewValidation ''dispatch_webhook_worker_id_invalid''
                ''dispatch webhook worker id is required'' [])
      else if dcLeaseDuration cmd \<le> 0 then
        Some (NewValidation ''dispatch_webhook_lease_duration_invalid''
                ''dispatch webhook lease duration must be greater than zero''
                [(''lease_duration'', GStr (DurationString (dcLeaseDuration cmd)))])
      else if dcInitialBackoff cmd \<le> 0 then
        Some (NewValidation ''dispatch_webhook_initial_backoff_invalid''
                ''dispatch webhook initial backoff must be greater than zero''
                [(''initial_backoff'', GStr (DurationString (dcInitialBackoff cmd)))])
      else if dcMaxBackoff cmd < dcInitialBackoff cmd then
        Some (NewValidation ''dispatch_webhook_max_backoff_invalid''
                ''dispatch webhook max backoff must be greater than or equal to initial backoff''
                [(''initial_backoff'', GStr (DurationString (dcInitialBackoff cmd))),
                 (''max_backoff'', GStr (DurationString (dcMaxBackoff cmd)))])
      else if dcRetryJitterBPS cmd < 0 \<or> dcRetryJitterBPS cmd > 10000 then
        Some (NewValidation ''dispatch_webhook_retry_jitter_bps_invalid''
                ''dispatch webhook retry jitter bps must be between 0 and 10000''
                [(''retry_jitter_bps'', GInt (dcRetryJitterBPS cmd))])
      else if dcRetryBudget cmd < 0 then
        Some (NewValidation ''dispatch_webhook_retry_budget_invalid''
                ''dispatch webhook retry budget must be a non-negative integer''
                [(''retry_budget'', GInt (dcRetryBudget cmd))])
      else (case webhookLeaseHeartbeatInterval (dcLeaseDuration cmd) of
              Inl e \<Rightarrow> Some e
            | Inr _ \<Rightarrow> None))"

definition dispatchExecute ::
  "'s outbox_repository option \<Rightarrow> webhook_gateway option \<Rightarrow> (pending_event \<Rightarrow> time list) \<Rightarrow> time \<Rightarrow>
   dispatch_command \<Rightarrow> 's \<Rightarrow> 's dispatch_result" where
  "dispatchExecute repository gateway beats clock cmd s =
     (case validateDispatch repository gateway cmd of
        Some e \<Rightarrow> (zero_dispatch_output, Some e, s)
      | None \<Rightarrow>
          (let repo = the repository;
               workerID = TrimSpace (dcWorkerID cmd);
               now = (if IsZero (dcNow cmd) then clock else dcNow cmd)
           in case obClaimPending repo now (dcBatchSize cmd) workerID (now + dcLeaseDuration cmd) s of
                (Inl e, s') \<Rightarrow> (zero_dispatch_output, Some e, s')
              | (Inr rows, s') \<Rightarrow>
                  dispatchRows repo (the gateway) beats cmd now workerID rows
                    (zero_dispatch_output\<lparr>doClaimed := int (length rows)\<rparr>) s'))"

definition webhookRepository :: "pg \<Rightarrow> db outbox_repository" where
  "webhookRepository pg =
     \<lparr>obClaimPending = claimPending pg, obMarkDelivered = MarkDelivered pg, obMarkRetry = MarkRetry pg,
      obMarkFailed = MarkFailed pg, obRenewLease = RenewLease pg\<rparr>"

end
