(* ===== verification/OutboxLeases.thy ===== *)
theory OutboxLeases
  imports WebhookOutbox Transitions
begin

text \<open>
  Every writer of the outbox table keeps the well-formedness of its rows (\<open>outboxOK\<close>), their
  identity and order, and leaves delivered rows alone; claims, outcomes and renewals keep the lease
  contract of \<open>lease_table\<close>.
\<close>

subsection \<open>Every writer of the outbox table\<close>

inductive outbox_step :: "db \<Rightarrow> db \<Rightarrow> bool" where
  claimed: "claimPending pg now lim own until s = (q, s') \<Longrightarrow> outbox_step s s'"
| delivered: "MarkDelivered pg oid own at s = (b, s') \<Longrightarrow> outbox_step s s'"
| retried: "MarkRetry pg oid own n next err at s = (b, s') \<Longrightarrow> outbox_step s s'"
| gave_up: "MarkFailed pg oid own n err at s = (b, s') \<Longrightarrow> outbox_step s s'"
| renewed: "RenewLease pg oid own until at s = (b, s') \<Longrightarrow> outbox_step s s'"
| requeued: "RequeueFailedByEventID pg ev operator at s = (m, s') \<Longrightarrow> outbox_step s s'"
| cancelled: "CancelByEventID pg ev operator err at s = (m, s') \<Longrightarrow> outbox_step s s'"
| notified: "transitionStatus pg cfg rid cur nxt now own md s = (b, s') \<Longrightarrow> outbox_step s s'"

definition leaseShape :: "outbox_row \<Rightarrow> bool" where
  "leaseShape r =
     ((oeLeaseOwner r = None) = (oeLeaseUntil r = None) \<and>
      (oeDeliveryStatus r \<noteq> ''pending'' \<longrightarrow> oeLeaseOwner r = None) \<and>
      ((oeDeliveryStatus r = ''delivered'') = (oeDeliveredAt r \<noteq> None)) \<and> outboxRowAllowed r)"

definition outboxOK :: "db \<Rightarrow> bool" where
  "outboxOK s =
     (distinct (map oeID (dbOutbox s)) \<and> (\<forall>r \<in> set (dbOutbox s). oeID r < dbNextOutboxID s) \<and>
      distinct (map oeEventID (dbOutbox s)) \<and> (\<forall>r \<in> set (dbOutbox s). leaseShape r))"

text \<open>A change of the table that keeps identities, in place, followed by new rows.\<close>

definition identity :: "outbox_row \<Rightarrow> int \<times> string \<times> string \<times> string \<times> string option \<times> gval \<times> int \<times> time" where
  "identity r =
     (oeID r, oeEventID r, oeEventType r, oePaymentRequestID r, oeDestinationURL r, oePayload r,
      oeMaxAttempts r, oeCreatedAt r)"

definition keeps_row :: "outbox_row \<Rightarrow> outbox_row \<Rightarrow> bool" where
  "keeps_row r r' =
     (identity r' = identity r \<and> leaseShape r' \<and> (oeDeliveryStatus r = ''delivered'' \<longrightarrow> r' = r))"

definition rewritten :: "db \<Rightarrow> db \<Rightarrow> bool" where
  "rewritten s s' =
     (list_all2 keeps_row (dbOutbox s) (dbOutbox s') \<and> dbNextOutboxID s' = dbNextOutboxID s \<and>
      dbRequests s' = dbRequests s)"

lemma keeps_row_refl [simp]: "leaseShape r \<Longrightarrow> keeps_row r r"
  by (simp add: keeps_row_def)

lemma rewritten_map:
  assumes "outboxOK s" "\<And>r. r \<in> set (dbOutbox s) \<Longrightarrow> hit r \<Longrightarrow> leaseShape r \<Longrightarrow> keeps_row r (f r)"
  shows "rewritten s (s\<lparr>dbOutbox := map (\<lambda>r. if hit r then f r else r) (dbOutbox s)\<rparr>)"
  using assms by (auto simp: rewritten_def outboxOK_def list_all2_map2 intro!: list.rel_refl_strong)

lemma rewritten_refl: "outboxOK s \<Longrightarrow> rewritten s s"
  using rewritten_map [of s "\<lambda>_. False" id] by simp

lemma event_key:
  "outboxOK s \<Longrightarrow> x \<in> set (dbOutbox s) \<Longrightarrow> y \<in> set (dbOutbox s) \<Longrightarrow> oeID x = oeID y \<Longrightarrow> x = y"
  by (auto simp: outboxOK_def distinct_map dest: inj_onD)

lemma dispatchCandidates_subset:
  "r \<in> set (dispatchCandidates now lim rows) \<Longrightarrow> r \<in> set rows \<and> dispatchable now r"
  by (auto simp: dispatchCandidates_def dest: in_set_takeD)

lemma claimPending_cases:
  assumes "claimPending pg now lim own until s = (q, s')"
  obtains (failed) "s' = s" "\<not> is_ok q"
  | (leased) chosen where "chosen = dispatchCandidates now lim (dbOutbox s)"
      "s' = s\<lparr>dbOutbox := leaseEvents (set (map oeID chosen)) (TrimSpace own) until now (dbOutbox s)\<rparr>"
      "is_ok q \<longrightarrow> q = Inr (map pendingEventOf chosen)"
  using assms by (auto simp: claimPending_def Let_def split: option.splits if_splits)

lemma claimPending_rewritten:
  assumes "claimPending pg now lim own until s = (q, s')" "outboxOK s"
  shows "rewritten s s'"
  using assms(1)
proof (cases rule: claimPending_cases)
  case failed
  with assms(2) show ?thesis by (simp add: rewritten_refl)
next
  case (leased chosen)
  show ?thesis
    unfolding leased(2) leaseEvents_def
  proof (rule rewritten_map [OF assms(2)])
    fix r
    assume r: "r \<in> set (dbOutbox s)" "oeID r \<in> set (map oeID chosen)" "leaseShape r"
    then obtain x where x: "x \<in> set chosen" "oeID x = oeID r" by auto
    then have d: "x \<in> set (dbOutbox s)" "dispatchable now x"
      using dispatchCandidates_subset unfolding leased(1) by blast+
    from event_key [OF assms(2) d(1) r(1) x(2)] d(2) have "oeDeliveryStatus r = ''pending''"
      by (simp add: dispatchable_def)
    with r(3) show "keeps_row r (r\<lparr>oeLeaseOwner := Some (TrimSpace own), oeLeaseUntil := Some until,
        oeUpdatedAt := now\<rparr>)"
      by (auto simp: keeps_row_def identity_def leaseShape_def outboxRowAllowed_def)
  qed
qed

lemma execRowsAffected_cases:
  assumes "execRowsAffected pg stmt oid hit f s = (q, s')"
  obtains (failed) "s' = s" "\<not> is_ok q"
  | (applied) "q = Inr (length (filter hit (dbOutbox s)) = 1)"
      "s' = s\<lparr>dbOutbox := map (\<lambda>r. if hit r then f r else r) (dbOutbox s)\<rparr>"
      "\<forall>r \<in> set (dbOutbox s). hit r \<longrightarrow> outboxRowAllowed (f r)"
proof -
  from assms have "s' = s \<and> \<not> is_ok q \<or>
      q = Inr (length (filter hit (dbOutbox s)) = 1) \<and>
      s' = s\<lparr>dbOutbox := map (\<lambda>r. if hit r then f r else r) (dbOutbox s)\<rparr> \<and>
      (\<forall>r \<in> set (dbOutbox s). hit r \<longrightarrow> outboxRowAllowed (f r))"
    unfolding execRowsAffected_def by (auto split: option.split_asm if_split_asm)
  with failed applied show thesis by blast
qed

lemma execRowsAffected_rewritten:
  assumes "execRowsAffected pg stmt oid hit f s = (q, s')" "outboxOK s"
    and "\<And>r. hit r \<Longrightarrow> leaseShape r \<Longrightarrow> outboxRowAllowed (f r) \<Longrightarrow> keeps_row r (f r)"
  shows "rewritten s s'"
  using assms(1)
proof (cases rule: execRowsAffected_cases)
  case failed
  with assms(2) show ?thesis by (simp add: rewritten_refl)
next
  case applied
  show ?thesis unfolding applied(2) using applied(3) assms(3) by (intro rewritten_map [OF assms(2)]) blast
qed

lemma marks_rewritten:
  assumes "outboxOK s"
  shows "MarkDelivered pg oid own at s = (q, s') \<Longrightarrow> rewritten s s'"
    and "MarkRetry pg oid own n next err at s = (q, s') \<Longrightarrow> rewritten s s'"
    and "MarkFailed pg oid own n err at s = (q, s') \<Longrightarrow> rewritten s s'"
    and "RenewLease pg oid own until at s = (q, s') \<Longrightarrow> rewritten s s'"
  unfolding MarkDelivered_def MarkRetry_def MarkFailed_def RenewLease_def
  by (erule execRowsAffected_rewritten [OF _ assms];
      auto simp: keeps_row_def identity_def leaseShape_def ownedPending_def)+

lemma mutation_cases:
  assumes "mutationWithStatus pg stmt ev ok f s = (q, s')"
  obtains (failed) "s' = s" "\<not> is_ok q"
  | (applied) "s' = s\<lparr>dbOutbox := map (\<lambda>r. if oeEventID r = ev \<and> ok (oeDeliveryStatus r) then f r else r)
        (dbOutbox s)\<rparr>"
      "q = Inr \<lparr>mrFound = (filter (\<lambda>r. oeEventID r = ev) (dbOutbox s) \<noteq> []),
         mrUpdated = (filter (\<lambda>r. oeEventID r = ev \<and> ok (oeDeliveryStatus r)) (dbOutbox s) \<noteq> []),
         mrCurrentStatus = ToLower (TrimSpace (case filter (\<lambda>r. oeEventID r = ev) (dbOutbox s) of
            [] \<Rightarrow> [] | r # _ \<Rightarrow> oeDeliveryStatus r))\<rparr>"
proof (cases "pgFault pg stmt ev")
  case None
  with assms show thesis by (intro applied) (simp_all add: mutationWithStatus_def Let_def)
next
  case (Some e)
  with assms show thesis by (intro failed) (auto simp: mutationWithStatus_def)
qed

lemma mutation_rewritten:
  assumes "mutationWithStatus pg stmt ev ok f s = (q, s')" "outboxOK s"
    and "\<And>r. ok (oeDeliveryStatus r) \<Longrightarrow> leaseShape r \<Longrightarrow> keeps_row r (f r)"
  shows "rewritten s s'"
  using assms(1)
proof (cases rule: mutation_cases)
  case failed
  with assms(2) show ?thesis by (simp add: rewritten_refl)
next
  case applied
  show ?thesis unfolding applied(1) using assms(3) by (intro rewritten_map [OF assms(2)]) blast
qed

lemma requeue_keeps:
  "oeDeliveryStatus r = ''failed'' \<Longrightarrow> leaseShape r \<Longrightarrow>
     keeps_row r (r\<lparr>oeDeliveryStatus := ''pending'', oeAttempts := 0, oeNextAttemptAt := at,
       oeLastError := None, oeDeliveredAt := None, oeLeaseOwner := None, oeLeaseUntil := None,
       oeManualLastAction := act, oeManualLastActor := who, oeManualLastAt := wh, oeUpdatedAt := up\<rparr>)"
  by (simp add: keeps_row_def identity_def leaseShape_def outboxRowAllowed_def)

lemma cancel_keeps:
  "oeDeliveryStatus r = ''pending'' \<or> oeDeliveryStatus r = ''failed'' \<Longrightarrow> leaseShape r \<Longrightarrow>
     keeps_row r (r\<lparr>oeDeliveryStatus := ''failed'', oeLastError := err, oeLeaseOwner := None,
       oeLeaseUntil := None, oeManualLastAction := act, oeManualLastActor := who,
       oeManualLastAt := wh, oeUpdatedAt := up\<rparr>)"
  by (elim disjE) (simp_all add: keeps_row_def identity_def leaseShape_def outboxRowAllowed_def)

lemma operators_rewritten:
  assumes "outboxOK s"
  shows "RequeueFailedByEventID pg ev operator at s = (q, s') \<Longrightarrow> rewritten s s'"
    and "CancelByEventID pg ev operator err at s = (q, s') \<Longrightarrow> rewritten s s'"
  unfolding RequeueFailedByEventID_def CancelByEventID_def
  by (erule mutation_rewritten [OF _ assms], rule requeue_keeps, assumption+)
    (erule mutation_rewritten [OF _ assms], rule cancel_keeps, assumption+)

lemma transition_empty_or_single:
  assumes "requestsOK s"
  shows "filter (transitionMatches rid cur own) (dbRequests s) = [] \<or>
     (\<exists>r. filter (transitionMatches rid cur own) (dbRequests s) = [r])"
proof (cases "filter (transitionMatches rid cur own) (dbRequests s)")
  case (Cons r rs)
  then have "r \<in> set (filter (transitionMatches rid cur own) (dbRequests s))" by simp
  then show ?thesis using matched_unique [OF assms, of r rid cur own] by simp
qed simp

lemma filter_at_most_one:
  "xs = [] \<or> (\<exists>r. xs = [r]) \<Longrightarrow> filter P xs = [] \<or> (\<exists>r. filter P xs = [r])"
  by auto

definition appended :: "db \<Rightarrow> db \<Rightarrow> bool" where
  "appended s s' =
     (dbOutbox s' = dbOutbox s \<and> dbNextOutboxID s' = dbNextOutboxID s \<or>
      (\<exists>e. dbOutbox s' = dbOutbox s @ [e] \<and> dbNextOutboxID s' = dbNextOutboxID s + 1 \<and>
         oeID e = dbNextOutboxID s \<and> leaseShape e \<and> oeEventID e \<notin> oeEventID ` set (dbOutbox s) \<and>
         oeLeaseOwner e = None \<and> oeDeliveryStatus e = ''pending'' \<and> oeAttempts e = 0))"

lemma newEvent_shape:
  "0 < n \<Longrightarrow> leaseShape (newEvent pg n cur nxt pl now oid r)"
  "oeID (newEvent pg n cur nxt pl now oid r) = oid"
  "oeLeaseOwner (newEvent pg n cur nxt pl now oid r) = None"
  "oeDeliveryStatus (newEvent pg n cur nxt pl now oid r) = ''pending''"
  "oeAttempts (newEvent pg n cur nxt pl now oid r) = 0"
  "oeMaxAttempts (newEvent pg n cur nxt pl now oid r) = n"
  by (simp_all add: newEvent_def Let_def leaseShape_def outboxRowAllowed_def)

lemma transition_appends:
  assumes "transitionStatus pg cfg rid cur nxt now own md s = (q, s')" "requestsOK s"
  shows "appended s s'"
proof (cases "is_ok q")
  case False
  with assms(1) show ?thesis
    by (cases rule: transitionStatus_cases) (simp_all add: appended_def)
next
  case True
  let ?c = "ToLower (TrimSpace cur)" and ?n = "ToLower (TrimSpace nxt)"
  let ?M = "filter (transitionMatches (TrimSpace rid) ?c (TrimSpace own)) (dbRequests s)"
  let ?E = "filter (emitsEvent (rWebhookOutboxEnabled cfg) ?c ?n) ?M"
  let ?ev = "newEvent pg (rWebhookMaxAttempts cfg) ?c ?n (metadataPayload md) now (dbNextOutboxID s)"
  consider (none) "?E = []" | (one) r where "?E = [r]"
    using filter_at_most_one [OF transition_empty_or_single [OF assms(2)]] by blast
  then show ?thesis
  proof cases
    case none
    from assms(1) True show ?thesis
      unfolding transitionStatus_def Let_def none by (auto simp: appended_def split: option.split_asm)
  next
    case (one r)
    from assms(1) True have "transitionViolation pg (map (transitionRow ?n (metadataPayload md) now) ?M)
        [?ev r] (dbOutbox s) = None"
      and s': "dbOutbox s' = dbOutbox s @ [?ev r]" "dbNextOutboxID s' = dbNextOutboxID s + 1"
      unfolding transitionStatus_def Let_def one by (auto split: option.split_asm)
    then have "oeEventID (?ev r) \<notin> oeEventID ` set (dbOutbox s)" "0 < rWebhookMaxAttempts cfg"
      by (auto simp: transitionViolation_def newEvent_shape split: if_split_asm)
    then show ?thesis using s' by (auto simp: appended_def newEvent_shape)
  qed
qed

text \<open>Every step rewrites the rows in place and may append one new event.\<close>

definition goodStore :: "db \<Rightarrow> bool" where
  "goodStore s = (outboxOK s \<and> requestsOK s)"

lemma transition_requestsOK:
  "transitionStatus pg cfg rid cur nxt now own md s = (q, s') \<Longrightarrow> requestsOK s \<Longrightarrow> requestsOK s'"
  using transitionRequest_ok [of "(pg, cfg, rid, cur, nxt, now, md)" own "TrimSpace rid" s]
  by (simp add: requestsOK_def)

lemma outbox_step_shape:
  assumes "outbox_step s s'" "goodStore s"
  shows "rewritten s s' \<or> appended s s' \<and> requestsOK s'"
  using assms
  by (cases rule: outbox_step.cases)
    (auto simp: goodStore_def dest: claimPending_rewritten marks_rewritten operators_rewritten
      transition_appends transition_requestsOK)

lemma rewritten_ok:
  assumes "rewritten s s'" "outboxOK s"
  shows "outboxOK s'"
proof -
  have all: "list_all2 keeps_row (dbOutbox s) (dbOutbox s')" using assms(1) by (simp add: rewritten_def)
  have "map oeID (dbOutbox s') = map oeID (dbOutbox s)" "map oeEventID (dbOutbox s') = map oeEventID (dbOutbox s)"
    using all by (induction rule: list_all2_induct) (simp_all add: keeps_row_def identity_def)
  moreover have "\<forall>r \<in> set (dbOutbox s'). leaseShape r"
    using all by (induction rule: list_all2_induct) (simp_all add: keeps_row_def)
  ultimately show ?thesis
    using assms unfolding outboxOK_def rewritten_def
    by (metis (no_types, lifting) imageE image_eqI image_set)
qed

lemma appended_ok:
  assumes "appended s s'" "outboxOK s"
  shows "outboxOK s'"
  using assms(1) unfolding appended_def
proof (elim disjE exE conjE)
  fix e
  assume e: "dbOutbox s' = dbOutbox s @ [e]" "dbNextOutboxID s' = dbNextOutboxID s + 1"
    "oeID e = dbNextOutboxID s" "leaseShape e" "oeEventID e \<notin> oeEventID ` set (dbOutbox s)"
  have "oeID e \<notin> oeID ` set (dbOutbox s)"
    using assms(2) e(3) unfolding outboxOK_def by fastforce
  with assms(2) e show ?thesis unfolding outboxOK_def by (auto intro: less_SucI order.strict_trans)
qed (use assms(2) in \<open>simp add: outboxOK_def\<close>)

lemma outbox_step_good: "outbox_step s s' \<Longrightarrow> goodStore s \<Longrightarrow> goodStore s'"
  using outbox_step_shape [of s s'] rewritten_ok appended_ok
  by (auto simp: goodStore_def requestsOK_def rewritten_def)

lemma outbox_steps_good: "outbox_step\<^sup>*\<^sup>* s s' \<Longrightarrow> goodStore s \<Longrightarrow> goodStore s'"
  by (induction rule: rtranclp_induct) (auto intro: outbox_step_good)

lemma list_all2_member: "list_all2 P xs ys \<Longrightarrow> x \<in> set xs \<Longrightarrow> \<exists>y \<in> set ys. P x y"
  by (induction rule: list_all2_induct) auto

lemma outbox_step_row:
  assumes "outbox_step s s'" "goodStore s" "r \<in> set (dbOutbox s)"
  shows "\<exists>r' \<in> set (dbOutbox s'). identity r' = identity r \<and> (oeDeliveryStatus r = ''delivered'' \<longrightarrow> r' = r)"
  using outbox_step_shape [OF assms(1,2)] assms(3)
  by (auto simp: rewritten_def appended_def keeps_row_def dest!: list_all2_member)

lemma outbox_steps_row:
  "outbox_step\<^sup>*\<^sup>* s s' \<Longrightarrow> goodStore s \<Longrightarrow> r \<in> set (dbOutbox s) \<Longrightarrow>
     \<exists>r' \<in> set (dbOutbox s'). identity r' = identity r \<and> (oeDeliveryStatus r = ''delivered'' \<longrightarrow> r' = r)"
proof (induction rule: rtranclp_induct)
  case (step t u)
  then obtain r1 where r1: "r1 \<in> set (dbOutbox t)" "identity r1 = identity r"
      "oeDeliveryStatus r = ''delivered'' \<longrightarrow> r1 = r" by blast
  obtain r2 where "r2 \<in> set (dbOutbox u)" "identity r2 = identity r1"
      "oeDeliveryStatus r1 = ''delivered'' \<longrightarrow> r2 = r1"
    using outbox_step_row [OF step(2) outbox_steps_good [OF step(1) step.prems(1)] r1(1)] by blast
  with r1 show ?case by (intro bexI [of _ r2]) auto
qed blast

subsection \<open>Leases on events\<close>

definition rowEventLease :: "outbox_row \<Rightarrow> (string \<times> time) option" where
  "rowEventLease r = (case (oeLeaseOwner r, oeLeaseUntil r) of (Some w, Some u) \<Rightarrow> Some (w, u) | _ \<Rightarrow> None)"

definition eventLease :: "db \<Rightarrow> int \<Rightarrow> (string \<times> time) option" where
  "eventLease s k = Option.bind (find (\<lambda>r. oeID r = k) (dbOutbox s)) rowEventLease"

datatype event_action =
    Deliver pg time
  | Retry pg int time string time
  | GiveUp pg int string time
  | Renew pg time time

fun claimEvents :: "pg \<times> int \<Rightarrow> string \<Rightarrow> time \<Rightarrow> time \<Rightarrow> db \<Rightarrow> int list option \<times> db" where
  "claimEvents (pg, limit) own now until s =
     (case claimPending pg now limit own until s of
        (Inl _, s') \<Rightarrow> (None, s')
      | (Inr rows, s') \<Rightarrow> (Some (map peID rows), s'))"

fun actOnEvent :: "event_action \<Rightarrow> string \<Rightarrow> int \<Rightarrow> db \<Rightarrow> time option \<times> db" where
  "actOnEvent (Deliver pg at) own k s = (None, snd (MarkDelivered pg k own at s))"
| "actOnEvent (Retry pg n next err at) own k s = (None, snd (MarkRetry pg k own n next err at s))"
| "actOnEvent (GiveUp pg n err at) own k s = (None, snd (MarkFailed pg k own n err at s))"
| "actOnEvent (Renew pg until at) own k s =
     (case RenewLease pg k own until at s of
        (Inr True, s') \<Rightarrow> (Some until, s')
      | (_, s') \<Rightarrow> (None, s'))"

text \<open>The rest of the program, operators aside: status transitions that write events.\<close>

inductive eventsRest :: "db \<Rightarrow> db \<Rightarrow> bool" where
  "transitionStatus pg cfg rid cur nxt now own md s = (b, s') \<Longrightarrow> eventsRest s s'"

lemma find_map_event:
  assumes "\<And>r. oeID (f r) = oeID r"
  shows "find (\<lambda>r. oeID r = k) (map f rows) = map_option f (find (\<lambda>r. oeID r = k) rows)"
  using assms by (induction rows) auto

lemma find_event_id:
  "find (\<lambda>r. oeID r = k) rows = Some r \<Longrightarrow> oeID r = k \<and> r \<in> set rows"
  by (induction rows) (auto split: if_splits)

lemma find_event:
  "distinct (map oeID rows) \<Longrightarrow> r \<in> set rows \<Longrightarrow> find (\<lambda>x. oeID x = oeID r) rows = Some r"
  by (induction rows) (auto simp: image_iff)

lemma execRowsAffected_lease:
  assumes "execRowsAffected pg stmt k hit f s = (q, s')" "eventLease s j = Some (own', u)"
    and "\<And>r. oeID (f r) = oeID r"
    and "\<And>r. oeID r = j \<Longrightarrow> oeLeaseOwner r = Some own' \<Longrightarrow> \<not> hit r"
  shows "eventLease s' j = eventLease s j"
  using assms(1)
proof (cases rule: execRowsAffected_cases)
  case applied
  obtain r where r: "find (\<lambda>r. oeID r = j) (dbOutbox s) = Some r" "rowEventLease r = Some (own', u)"
    using assms(2) by (auto simp: eventLease_def bind_eq_Some_conv)
  have "oeLeaseOwner r = Some own'"
    using r(2) by (auto simp: rowEventLease_def split: option.splits)
  then have "\<not> hit r" using assms(4) find_event_id [OF r(1)] by blast
  moreover have "find (\<lambda>r. oeID r = j) (dbOutbox s') =
      map_option (\<lambda>r. if hit r then f r else r) (find (\<lambda>r. oeID r = j) (dbOutbox s))"
    using assms(3) by (simp add: applied(2) find_map_event)
  ultimately show ?thesis using r by (simp add: eventLease_def)
qed simp

lemma actOnEvent_cases:
  assumes "actOnEvent a own k s = (q, s')"
  obtains (deliver) pg at b where "MarkDelivered pg k own at s = (b, s')" "q = None"
  | (retry) pg n nx err at b where "MarkRetry pg k own n nx err at s = (b, s')" "q = None"
  | (give_up) pg n err at b where "MarkFailed pg k own n err at s = (b, s')" "q = None"
  | (renew) pg until at b where "RenewLease pg k own until at s = (b, s')"
      "q = (if b = Inr True then Some until else None)"
proof (cases a)
  case (Deliver pg at)
  with assms show thesis using deliver by (cases "MarkDelivered pg k own at s") auto
next
  case (Retry pg n nx err at)
  with assms show thesis using retry by (cases "MarkRetry pg k own n nx err at s") auto
next
  case (GiveUp pg n err at)
  with assms show thesis using give_up by (cases "MarkFailed pg k own n err at s") auto
next
  case (Renew pg until at)
  obtain b t where bt: "RenewLease pg k own until at s = (b, t)" by fastforce
  with assms Renew have "s' = t" "q = (if b = Inr True then Some until else None)"
    by (auto split: sum.splits bool.splits)
  with bt show thesis using renew by blast
qed

lemma actOnEvent_fenced:
  assumes "actOnEvent a own k s = (q, s')" "eventLease s j = Some (own', u)"
    "j \<noteq> k \<or> own' \<noteq> TrimSpace own"
  shows "eventLease s' j = eventLease s j"
  using assms(1)
  by (cases rule: actOnEvent_cases)
    (unfold MarkDelivered_def MarkRetry_def MarkFailed_def RenewLease_def,
     (erule execRowsAffected_lease [OF _ assms(2)]; use assms(3) in \<open>auto simp: ownedPending_def\<close>)+)

lemma actOnEvent_step: "actOnEvent a own k s = (q, s') \<Longrightarrow> outbox_step s s'"
  by (cases rule: actOnEvent_cases) (auto intro: outbox_step.intros)

lemma claimEvents_step: "claimEvents c own now until s = (q, s') \<Longrightarrow> outbox_step s s'"
  by (cases c) (auto split: prod.splits sum.splits intro: outbox_step.intros)

lemma eventLease_leaseEvents:
  "eventLease (s\<lparr>dbOutbox := leaseEvents ids own lu now (dbOutbox s)\<rparr>) k =
     (if k \<in> ids \<and> find (\<lambda>r. oeID r = k) (dbOutbox s) \<noteq> None then Some (own, lu) else eventLease s k)"
proof -
  have "find (\<lambda>r. oeID r = k) (leaseEvents ids own lu now (dbOutbox s)) =
      map_option (\<lambda>r. if oeID r \<in> ids then r\<lparr>oeLeaseOwner := Some own, oeLeaseUntil := Some lu, oeUpdatedAt := now\<rparr> else r)
        (find (\<lambda>r. oeID r = k) (dbOutbox s))"
    unfolding leaseEvents_def by (rule find_map_event) simp
  then show ?thesis
    by (cases "find (\<lambda>r. oeID r = k) (dbOutbox s)")
      (auto simp: eventLease_def rowEventLease_def dest: find_event_id)
qed

interpretation event_leases: lease_table goodStore eventLease claimEvents actOnEvent eventsRest
proof
  fix c own now until s r s'
  assume "claimEvents c own now until s = (r, s')" "goodStore s"
  then show "goodStore s'" by (blast intro: outbox_step_good claimEvents_step)
next
  fix a own k s q s'
  assume "actOnEvent a own k s = (q, s')" "goodStore s"
  then show "goodStore s'" by (blast intro: outbox_step_good actOnEvent_step)
next
  fix s s'
  assume "eventsRest s s'" "goodStore s"
  then show "goodStore s'"
    by (cases rule: eventsRest.cases) (blast intro: outbox_step_good outbox_step.notified)
next
  fix c own now until s ks s' k
  assume claim: "claimEvents c own now until s = (Some ks, s')" and k: "k \<in> set ks"
  obtain pg lim where c: "c = (pg, lim)" by (cases c) auto
  from claim obtain rows where rows: "claimPending pg now lim own until s = (Inr rows, s')"
      "ks = map peID rows"
    by (auto simp: c split: prod.splits sum.splits)
  from rows(1) show "eventLease s' k = Some (TrimSpace own, until)"
  proof (cases rule: claimPending_cases)
    case (leased chosen)
    then have ids: "ks = map oeID chosen" using rows(2) by (simp add: pendingEventOf_def)
    from k obtain r where r: "r \<in> set chosen" "oeID r = k" unfolding ids by auto
    then have "find (\<lambda>r. oeID r = k) (dbOutbox s) \<noteq> None"
      using leased(1) by (auto simp: find_None_iff dest: dispatchCandidates_subset)
    with k ids show ?thesis unfolding leased(2) eventLease_leaseEvents by simp
  qed simp
next
  fix c own now until s r s' k own' u
  assume claim: "claimEvents c own now until s = (r, s')" and ok: "goodStore s"
    and l: "eventLease s k = Some (own', u)" "now < u"
  obtain pg lim where c: "c = (pg, lim)" by (cases c) auto
  obtain q t where t: "claimPending pg now lim own until s = (q, t)" by fastforce
  with claim have s': "s' = t" and r: "r = (case q of Inl _ \<Rightarrow> None | Inr rows \<Rightarrow> Some (map peID rows))"
    by (auto simp: c split: sum.splits)
  from t show "eventLease s' k = eventLease s k \<and> (\<forall>ks. r = Some ks \<longrightarrow> k \<notin> set ks)"
  proof (cases rule: claimPending_cases)
    case failed
    then show ?thesis by (auto simp: s' r split: sum.splits)
  next
    case (leased chosen)
    have "k \<notin> oeID ` set chosen"
    proof
      assume "k \<in> oeID ` set chosen"
      then obtain x where x: "x \<in> set (dbOutbox s)" "dispatchable now x" "k = oeID x"
        using leased(1) by (auto dest: dispatchCandidates_subset)
      then have "eventLease s k = rowEventLease x"
        using ok by (simp add: eventLease_def goodStore_def outboxOK_def find_event)
      with l x(2) show False
        by (auto simp: rowEventLease_def dispatchable_def eventLeaseFree_def split: option.splits)
    qed
    then show ?thesis
      using leased(3) unfolding s' leased(2) eventLease_leaseEvents
      by (auto simp: r pendingEventOf_def split: sum.splits)
  qed
next
  fix a own k s q s' j own' u
  assume "actOnEvent a own k s = (q, s')" "eventLease s j = Some (own', u)" "j \<noteq> k \<or> own' \<noteq> TrimSpace own"
  then show "eventLease s' j = eventLease s j" by (rule actOnEvent_fenced)
next
  fix a own k s u s'
  assume act: "actOnEvent a own k s = (Some u, s')" and ok: "goodStore s"
  from act obtain pg at where "RenewLease pg k own u at s = (Inr True, s')"
    by (cases rule: actOnEvent_cases) (auto split: if_splits)
  then show "eventLease s' k = Some (TrimSpace own, u)"
    unfolding RenewLease_def
  proof (cases rule: execRowsAffected_cases)
    case applied
    let ?hit = "\<lambda>r. oeID r = k \<and> oeDeliveryStatus r = ''pending'' \<and> oeLeaseOwner r = Some (TrimSpace own)"
    from applied(1) have "filter ?hit (dbOutbox s) \<noteq> []" by auto
    then obtain r where r: "r \<in> set (dbOutbox s)" "?hit r" by (auto simp: filter_empty_conv)
    then have "find (\<lambda>x. oeID x = k) (dbOutbox s) = Some r"
      using ok find_event [of "dbOutbox s" r] by (simp add: goodStore_def outboxOK_def)
    with r show ?thesis by (simp add: applied(2) eventLease_def find_map_event rowEventLease_def)
  qed simp
next
  fix s s' k l
  assume rest: "eventsRest s s'" and ok: "goodStore s" and l: "eventLease s k = Some l"
  from rest ok have "appended s s'"
    by (cases rule: eventsRest.cases) (auto simp: goodStore_def intro: transition_appends)
  with l show "eventLease s' k = Some l"
    by (auto simp: appended_def eventLease_def bind_eq_Some_conv find_append_Some)
qed

end
