(* ===== verification/DispatchLemmas.thy ===== *)
theory DispatchLemmas
  imports Dispatch OutboxLeases
begin

text \<open>
  The dispatcher's arithmetic (heartbeat interval, backoff and jitter without and with 64-bit
  overflow), its counters, and its run over the store: every row it processes goes through writers
  of the outbox, attempts stay within their limit, and one delivery has exactly one outcome.
\<close>

unbundle bit_operations_syntax

subsection \<open>Backoff and jitter\<close>

lemma wrap64_small: "- (2 ^ 63) \<le> i \<Longrightarrow> i < 2 ^ 63 \<Longrightarrow> wrap64 i = i"
  by (simp add: wrap64_def)

lemma le_mult_pow2: "0 < (b::int) \<Longrightarrow> b \<le> b * 2 ^ k"
  by simp

lemma uint_small: "0 \<le> k \<Longrightarrow> k < 2 ^ 32 \<Longrightarrow> uint (word_of_int k :: 32 word) = k"
  by (simp add: uint_word_of_int)

lemma backoffLoop_min:
  assumes "0 < b" "b \<le> mx" "mx \<le> 2 ^ 62"
  shows "backoffLoop n b mx = min mx (b * 2 ^ n)"
  using assms
proof (induction n arbitrary: b)
  case (Suc n)
  show ?case
  proof (cases "b = mx")
    case True
    have "mx \<le> mx * 2 ^ Suc n" using Suc.prems by (intro le_mult_pow2) simp
    with True show ?thesis by simp
  next
    case False
    with Suc.prems have w: "wrap64 (b * 2) = b * 2" by (intro wrap64_small) simp_all
    show ?thesis
    proof (cases "b * 2 > mx")
      case True
      have "b * 2 \<le> b * 2 * 2 ^ n" using Suc.prems by (intro le_mult_pow2) simp
      with True have "min mx (b * 2 ^ Suc n) = mx" by (simp add: mult.assoc)
      with True False Suc.prems w show ?thesis by (simp add: Let_def)
    next
      case dbl: False
      then have "backoffLoop n (b * 2) mx = min mx (b * 2 * 2 ^ n)" using Suc by simp
      with dbl False Suc.prems w show ?thesis by (simp add: Let_def)
    qed
  qed
qed simp

lemma webhookRetryBackoff_min:
  assumes "1 \<le> n" "0 < initial" "initial \<le> mx" "mx \<le> 2 ^ 62"
  shows "webhookRetryBackoff n initial mx = min mx (initial * 2 ^ nat (n - 1))"
  using assms by (simp add: webhookRetryBackoff_def backoffLoop_min)

lemma jitter_offset_range:
  assumes "0 \<le> bps" "bps \<le> 10000"
  shows "- bps \<le> webhookDeterministicJitterOffsetBPS ev row n bps \<and>
     webhookDeterministicJitterOffsetBPS ev row n bps \<le> bps"
proof (cases "bps = 0")
  case False
  let ?w = "word_of_int (bps * 2 + 1) :: 32 word"
  have span: "uint ?w = bps * 2 + 1" using assms by (intro uint_small) simp_all
  have "uint (x mod ?w) < bps * 2 + 1" for x :: "32 word"
    using pos_mod_bound [of "bps * 2 + 1" "uint x"] assms unfolding uint_mod span by linarith
  moreover have "0 \<le> uint (x mod ?w)" for x :: "32 word" by simp
  moreover obtain x :: "32 word" where
    "webhookDeterministicJitterOffsetBPS ev row n bps = uint (x mod ?w) - bps"
    using assms False by (simp add: webhookDeterministicJitterOffsetBPS_def Let_def)
  moreover note \<open>\<And>x. uint (x mod ?w) < bps * 2 + 1\<close> [of x] \<open>\<And>x. 0 \<le> uint (x mod ?w)\<close> [of x]
  ultimately show ?thesis by linarith
qed (simp add: webhookDeterministicJitterOffsetBPS_def)

lemma base_range:
  assumes "1 \<le> n" "0 < initial" "initial \<le> mx" "mx \<le> 2 ^ 62"
  shows "1 \<le> webhookRetryBackoff n initial mx \<and> webhookRetryBackoff n initial mx \<le> mx"
proof -
  have "1 \<le> initial * 2 ^ nat (n - 1)"
    using le_mult_pow2 [of initial "nat (n - 1)"] assms(2) by linarith
  with assms show ?thesis by (simp add: webhookRetryBackoff_min)
qed

lemma jittered_bounds:
  fixes n initial mx bps row :: int and ev :: string
  assumes "1 \<le> n" "0 < initial" "initial \<le> mx" "mx * 20000 < 2 ^ 63" "0 \<le> bps" "bps \<le> 10000"
  defines "base \<equiv> webhookRetryBackoff n initial mx"
    and "r \<equiv> webhookRetryBackoffWithJitter n initial mx bps ev row"
  shows "1 \<le> r \<and> r \<le> mx \<and> base * (10000 - bps) div 10000 \<le> r \<and>
    r \<le> max 1 (base * (10000 + bps) div 10000)"
proof (cases "bps = 0")
  have b: "1 \<le> base" "base \<le> mx"
    unfolding base_def using base_range [of n initial mx] assms(1-4) by simp_all
  {
    case True
    then have "r = base" by (simp add: r_def base_def webhookRetryBackoffWithJitter_def)
    with True b show ?thesis by simp
  next
    case False
    define f where "f = (let o' = webhookDeterministicJitterOffsetBPS ev row n bps
       in if 10000 + o' < 1 then 1 else 10000 + o')"
    have f: "max 1 (10000 - bps) \<le> f" "f \<le> 10000 + bps"
      using jitter_offset_range [OF assms(5,6), of ev row n] assms(5) False by (auto simp: f_def Let_def)
    have prod: "0 < base * f" "base * f \<le> mx * 20000"
      using b f assms(6) by (auto intro!: mult_mono)
    then have "wrap64 (base * f) = base * f" using assms(4) by (intro wrap64_small) simp_all
    moreover have "quot (base * f) 10000 = base * f div 10000" using prod by (simp add: quot_nonneg)
    ultimately have r: "r = (let j = max 1 (base * f div 10000) in if j > mx then mx else j)"
      using False assms(5) b prod(1)
      by (auto simp: r_def webhookRetryBackoffWithJitter_def Let_def base_def [symmetric] f_def max_def)
    have lo: "base * (10000 - bps) div 10000 \<le> base * f div 10000"
      using b f by (intro zdiv_mono1 mult_left_mono) simp_all
    have up: "base * f div 10000 \<le> base * (10000 + bps) div 10000"
      using b f by (intro zdiv_mono1 mult_left_mono) simp_all
    have "base * (10000 - bps) div 10000 \<le> base * 10000 div 10000"
      using b assms(5) by (intro zdiv_mono1 mult_left_mono) simp_all
    then have "base * (10000 - bps) div 10000 \<le> mx" using b by simp
    with lo up b show ?thesis unfolding r Let_def by (auto simp: max_def)
  }
qed

lemma jitter_overflow:
  assumes "1 \<le> n" "webhookRetryBackoff n initial mx = base" "0 < base" "0 < bps" "bps \<le> 9999"
    and "2 ^ 63 \<le> base * (10000 - bps)" "base * (10000 + bps) < 2 ^ 64" "1 \<le> mx"
  shows "webhookRetryBackoffWithJitter n initial mx bps ev row = 1"
proof -
  define f where "f = 10000 + webhookDeterministicJitterOffsetBPS ev row n bps"
  have f: "10000 - bps \<le> f" "f \<le> 10000 + bps"
    using jitter_offset_range [of bps ev row n] assms(4,5) by (simp_all add: f_def)
  have "base * (10000 - bps) \<le> base * f" "base * f \<le> base * (10000 + bps)"
    using f assms(3) by simp_all
  then have "2 ^ 63 \<le> base * f" "base * f < 2 ^ 64" using assms(6,7) by linarith+
  then have "wrap64 (base * f) = base * f - 2 ^ 64"
    unfolding wrap64_def by (simp add: mod_pos_geq mod_pos_pos_trivial)
  then have "quot (wrap64 (base * f)) 10000 \<le> 0"
    using \<open>base * f < 2 ^ 64\<close> by (intro quot_nonpos_le) simp_all
  moreover have "\<not> f < 1" using f assms(5) by simp
  ultimately show ?thesis
    using assms(3,4,8)
    unfolding webhookRetryBackoffWithJitter_def Let_def assms(2) f_def [symmetric] by simp
qed

lemma heartbeat_interval:
  "webhookLeaseHeartbeatInterval d =
     (if d \<ge> 3 then Inr (d div 3) else if d = 2 then Inr 1
      else Inl (NewValidation ''dispatch_webhook_lease_heartbeat_interval_invalid''
             ''dispatch webhook lease duration is too small for heartbeat interval''
             [(''lease_duration'', GStr (DurationString d))]))"
proof -
  consider "d \<ge> 3" | "d = 2" | "d = 1" | "d = 0" | "d < 0" by linarith
  then show ?thesis
  proof cases
    case 1
    then have "quot d 3 = d div 3" "0 < d div 3" "d div 3 < d" by (simp_all add: quot_nonneg)
    with 1 show ?thesis by (simp add: webhookLeaseHeartbeatInterval_def Let_def)
  next
    case 5
    then have "quot d 3 \<le> 0" "quot d 2 \<le> 0" by (simp_all add: quot_nonpos_le)
    with 5 show ?thesis by (simp add: webhookLeaseHeartbeatInterval_def Let_def millisecond_def)
  qed (simp_all add: webhookLeaseHeartbeatInterval_def quot_def millisecond_def)
qed

subsection \<open>Counters\<close>

definition settled :: "dispatch_output \<Rightarrow> int" where
  "settled out = doSent out + doRetried out + doFailed out + doSkipped out"

definition bucketed :: "dispatch_output \<Rightarrow> int" where
  "bucketed out = doHTTP2xx out + doHTTP4xx out + doHTTP5xx out + doNetworkError out"

lemma bucket_simps [simp]:
  "settled (recordWebhookDeliveryBucket out c e) = settled out"
  "doClaimed (recordWebhookDeliveryBucket out c e) = doClaimed out"
  "bucketed (recordWebhookDeliveryBucket out c e) = bucketed out + 1"
  by (simp_all add: recordWebhookDeliveryBucket_def settled_def bucketed_def)

lemma dispatchRow_counts:
  assumes "dispatchRow repo send beats cmd now w row out s = (out', e, s')"
  shows "doClaimed out' = doClaimed out \<and> bucketed out \<le> bucketed out' \<and> bucketed out' \<le> bucketed out + 1 \<and>
     (settled out' = settled out + 1 \<or> e \<noteq> None \<and> settled out' = settled out)"
proof -
  have fin: "doClaimed q' = doClaimed q \<and> bucketed q' = bucketed q \<and>
      (settled q' = settled q + 1 \<or> e' \<noteq> None \<and> settled q' = settled q)"
    if "finishRow cnt hb q o' = (q', e', t)"
      "cnt = (\<lambda>q. q\<lparr>doSent := doSent q + 1\<rparr>) \<or> cnt = (\<lambda>q. q\<lparr>doFailed := doFailed q + 1\<rparr>) \<or>
       cnt = (\<lambda>q. q\<lparr>doRetried := doRetried q + 1\<rparr>)"
    for cnt hb q o' q' e' and t :: 'a
    using that by (auto simp: finishRow_def settled_def bucketed_def split: prod.splits sum.splits if_splits)
  have err: "settled (q\<lparr>doErrors := n\<rparr>) = settled q" "bucketed (q\<lparr>doErrors := n\<rparr>) = bucketed q"
    "doClaimed (q\<lparr>doErrors := n\<rparr>) = doClaimed q" for q n
    by (simp_all add: settled_def bucketed_def)
  show ?thesis
    using assms
    by (auto simp: dispatchRow_def Let_def settled_def [of "_\<lparr>doErrors := _, doSkipped := _\<rparr>"]
        bucketed_def [of "_\<lparr>doErrors := _, doSkipped := _\<rparr>"] err split: if_splits prod.splits
        dest!: fin) (simp_all add: settled_def bucketed_def)
qed

lemma dispatchRows_counts:
  "dispatchRows repo send beats cmd now w rows out s = (out', e, s') \<Longrightarrow>
     doClaimed out' = doClaimed out \<and> settled out \<le> settled out' \<and>
     settled out' \<le> settled out + int (length rows) \<and>
     (e = None \<longrightarrow> settled out' = settled out + int (length rows)) \<and>
     bucketed out \<le> bucketed out' \<and> bucketed out' \<le> bucketed out + int (length rows)"
proof (induction rows arbitrary: out s)
  case (Cons row rows)
  obtain o1 e1 s1 where row: "dispatchRow repo send beats cmd now w row out s = (o1, e1, s1)"
    by (cases "dispatchRow repo send beats cmd now w row out s") auto
  note one = dispatchRow_counts [OF row]
  show ?case
  proof (cases e1)
    case None
    with Cons.prems row have "dispatchRows repo send beats cmd now w rows o1 s1 = (out', e, s')" by simp
    from Cons.IH [OF this] one None show ?thesis by auto
  next
    case (Some x)
    with Cons.prems row have "out' = o1" "e = Some x" by simp_all
    with one Some show ?thesis by auto
  qed
qed simp

lemma dispatchExecute_counts:
  assumes "dispatchExecute repository gateway beats clock cmd s = (out, e, s')"
  shows "0 \<le> settled out \<and> settled out \<le> doClaimed out \<and> (e = None \<longrightarrow> settled out = doClaimed out) \<and>
     0 \<le> bucketed out \<and> bucketed out \<le> doClaimed out"
proof -
  have zero: "settled zero_dispatch_output = 0" "bucketed zero_dispatch_output = 0"
    "settled (zero_dispatch_output\<lparr>doClaimed := n\<rparr>) = 0" "bucketed (zero_dispatch_output\<lparr>doClaimed := n\<rparr>) = 0"
    "doClaimed zero_dispatch_output = 0" for n
    by (simp_all add: zero_dispatch_output_def settled_def bucketed_def)
  show ?thesis
    using assms by (auto simp: dispatchExecute_def Let_def zero split: option.splits prod.splits sum.splits
        dest!: dispatchRows_counts)
qed

subsection \<open>A run over the store\<close>

lemma renew_steps:
  "renewWebhookLease (webhookRepository pg) ev k w d at s = (e, s') \<Longrightarrow> outbox_step s s'"
  by (auto simp: renewWebhookLease_def webhookRepository_def split: prod.splits sum.splits bool.splits
      intro: outbox_step.renewed)

lemma heartbeat_steps:
  "runLeaseHeartbeat (webhookRepository pg) ev k w d bs s = (e, s') \<Longrightarrow> outbox_step\<^sup>*\<^sup>* s s'"
proof (induction bs arbitrary: s)
  case (Cons b bs)
  then show ?case
    by (auto split: prod.splits option.splits dest!: renew_steps intro: converse_rtranclp_into_rtranclp)
qed simp

lemma finishRow_store: "finishRow cnt hb out q = (out', e, s') \<Longrightarrow> \<exists>b. q = (b, s')"
  by (cases q) (auto simp: finishRow_def split: sum.splits)

lemma webhookRepository_simps [simp]:
  "obClaimPending (webhookRepository pg) = claimPending pg"
  "obMarkDelivered (webhookRepository pg) = MarkDelivered pg"
  "obMarkRetry (webhookRepository pg) = MarkRetry pg"
  "obMarkFailed (webhookRepository pg) = MarkFailed pg"
  "obRenewLease (webhookRepository pg) = RenewLease pg"
  by (simp_all add: webhookRepository_def)

lemma dispatchRow_mark:
  assumes "dispatchRow (webhookRepository pg) send beats cmd now w row out s = (out', e, s')"
  obtains (skipped) "s' = s"
  | (marked) s1 hb where
      "runLeaseHeartbeat (webhookRepository pg) (peEventID row) (peID row) w (dcLeaseDuration cmd) (beats row) s = (hb, s1)"
      "(\<exists>b. MarkDelivered pg (peID row) w now s1 = (b, s')) \<or>
       (\<exists>b msg. webhookEffectiveMaxAttempts (peMaxAttempts row) (dcRetryBudget cmd) \<le> peAttempts row + 1 \<and>
          MarkFailed pg (peID row) w (peAttempts row + 1) msg now s1 = (b, s')) \<or>
       (\<exists>b at msg. peAttempts row + 1 < webhookEffectiveMaxAttempts (peMaxAttempts row) (dcRetryBudget cmd) \<and>
          MarkRetry pg (peID row) w (peAttempts row + 1) at msg now s1 = (b, s'))"
proof (cases "TrimSpace (peDestinationURL row) = []")
  case True
  with assms show thesis by (intro skipped) (simp add: dispatchRow_def)
next
  case False
  obtain hb s1 where h: "runLeaseHeartbeat (webhookRepository pg) (peEventID row) (peID row) w
      (dcLeaseDuration cmd) (beats row) s = (hb, s1)" by fastforce
  obtain code err where send: "send \<lparr>siEventID = peEventID row, siEventType = peEventType row,
      siDeliveryAttempt = (if peAttempts row + 1 \<le> 0 then 1 else peAttempts row + 1),
      siDestinationURL = TrimSpace (peDestinationURL row), siPayload = pePayload row\<rparr> = (code, err)"
    by fastforce
  show thesis
  proof (rule marked [OF h])
    show "(\<exists>b. MarkDelivered pg (peID row) w now s1 = (b, s')) \<or>
       (\<exists>b msg. webhookEffectiveMaxAttempts (peMaxAttempts row) (dcRetryBudget cmd) \<le> peAttempts row + 1 \<and>
          MarkFailed pg (peID row) w (peAttempts row + 1) msg now s1 = (b, s')) \<or>
       (\<exists>b at msg. peAttempts row + 1 < webhookEffectiveMaxAttempts (peMaxAttempts row) (dcRetryBudget cmd) \<and>
          MarkRetry pg (peID row) w (peAttempts row + 1) at msg now s1 = (b, s'))"
      using assms False unfolding dispatchRow_def Let_def send h webhookRepository_simps prod.case
      by (force split: if_split_asm dest!: finishRow_store simp: not_le)
  qed
qed


lemma dispatchRow_steps:
  assumes "dispatchRow (webhookRepository pg) send beats cmd now w row out s = (out', e, s')"
  shows "outbox_step\<^sup>*\<^sup>* s s'"
  using assms
proof (cases rule: dispatchRow_mark)
  case (marked s1 hb)
  from marked(2) have "outbox_step s1 s'" by (auto intro: outbox_step.intros)
  with heartbeat_steps [OF marked(1)] show ?thesis by (rule rtranclp.rtrancl_into_rtrancl)
qed simp

lemma dispatchRows_steps:
  "dispatchRows (webhookRepository pg) send beats cmd now w rows out s = (out', e, s') \<Longrightarrow>
     outbox_step\<^sup>*\<^sup>* s s'"
proof (induction rows arbitrary: out s)
  case (Cons row rows)
  obtain o1 e1 s1 where row: "dispatchRow (webhookRepository pg) send beats cmd now w row out s = (o1, e1, s1)"
    by (cases "dispatchRow (webhookRepository pg) send beats cmd now w row out s") auto
  note one = dispatchRow_steps [OF row]
  show ?case
  proof (cases e1)
    case None
    with Cons.prems row have "dispatchRows (webhookRepository pg) send beats cmd now w rows o1 s1 = (out', e, s')"
      by simp
    from one Cons.IH [OF this] show ?thesis by (rule rtranclp_trans)
  next
    case (Some x)
    with Cons.prems row one show ?thesis by simp
  qed
qed simp

lemma dispatchExecute_steps:
  assumes "dispatchExecute (Some (webhookRepository pg)) gateway beats clock cmd s = (out, e, s')"
  shows "outbox_step\<^sup>*\<^sup>* s s'"
proof (cases "validateDispatch (Some (webhookRepository pg)) gateway cmd")
  case None
  let ?now = "if IsZero (dcNow cmd) then clock else dcNow cmd"
  obtain q t where c: "claimPending pg ?now (dcBatchSize cmd) (TrimSpace (dcWorkerID cmd))
      (?now + dcLeaseDuration cmd) s = (q, t)" by fastforce
  have step: "outbox_step s t" using c by (rule outbox_step.claimed)
  show ?thesis
  proof (cases q)
    case (Inl x)
    with assms None c step show ?thesis by (simp add: dispatchExecute_def Let_def)
  next
    case (Inr rows)
    with assms None c have "dispatchRows (webhookRepository pg) (the gateway) beats cmd ?now
        (TrimSpace (dcWorkerID cmd)) rows (zero_dispatch_output\<lparr>doClaimed := int (length rows)\<rparr>) t = (out, e, s')"
      by (simp add: dispatchExecute_def Let_def)
    from step dispatchRows_steps [OF this] show ?thesis by (rule converse_rtranclp_into_rtranclp)
  qed
qed (use assms in \<open>simp add: dispatchExecute_def\<close>)

subsection \<open>Attempts stay within their limit\<close>

definition attemptsRowOK :: "outbox_row \<Rightarrow> bool" where
  "attemptsRowOK r =
     (0 \<le> oeAttempts r \<and> oeAttempts r \<le> oeMaxAttempts r \<and>
      (oeDeliveryStatus r = ''pending'' \<longrightarrow> oeAttempts r < oeMaxAttempts r))"

definition attemptsOK :: "db \<Rightarrow> bool" where
  "attemptsOK s = (\<forall>r \<in> set (dbOutbox s). attemptsRowOK r)"

definition caps :: "db \<Rightarrow> (int \<times> int) list" where
  "caps s = map (\<lambda>r. (oeID r, oeMaxAttempts r)) (dbOutbox s)"

definition fits :: "(int \<times> int) list \<Rightarrow> pending_event \<Rightarrow> bool" where
  "fits cs p =
     (0 \<le> peAttempts p \<and> peAttempts p < peMaxAttempts p \<and>
      (\<forall>(i, m) \<in> set cs. i = peID p \<longrightarrow> m = peMaxAttempts p))"

lemma rewritten_caps: "rewritten s s' \<Longrightarrow> caps s' = caps s"
  unfolding rewritten_def caps_def
proof (elim conjE)
  assume "list_all2 keeps_row (dbOutbox s) (dbOutbox s')"
  then show "map (\<lambda>r. (oeID r, oeMaxAttempts r)) (dbOutbox s') = map (\<lambda>r. (oeID r, oeMaxAttempts r)) (dbOutbox s)"
    by (induction rule: list_all2_induct) (simp_all add: keeps_row_def identity_def)
qed

lemma execRowsAffected_attempts:
  assumes "execRowsAffected pg stmt oid hit f s = (q, s')" "attemptsOK s"
    and "\<And>r. r \<in> set (dbOutbox s) \<Longrightarrow> hit r \<Longrightarrow> attemptsRowOK r \<Longrightarrow> attemptsRowOK (f r)"
  shows "attemptsOK s'"
  using assms(1)
proof (cases rule: execRowsAffected_cases)
  case failed
  with assms(2) show ?thesis by simp
next
  case applied
  show ?thesis using assms(2,3) unfolding attemptsOK_def applied(2) by auto
qed

lemma renew_attempts:
  assumes "renewWebhookLease (webhookRepository pg) ev k w d at s = (e, s')" "outboxOK s" "attemptsOK s"
  shows "rewritten s s' \<and> attemptsOK s'"
proof -
  from assms(1) obtain q where q: "RenewLease pg k w (at + d) at s = (q, s')"
    by (auto simp: renewWebhookLease_def split: prod.splits sum.splits bool.splits)
  then have "attemptsOK s'"
    unfolding RenewLease_def by (rule execRowsAffected_attempts [OF _ assms(3)]) (simp add: attemptsRowOK_def)
  with marks_rewritten(4) [OF assms(2) q] show ?thesis ..
qed

lemma rewritten_trans:
  "rewritten s t \<Longrightarrow> rewritten t u \<Longrightarrow> rewritten s u"
proof -
  have "keeps_row a b \<Longrightarrow> keeps_row b c \<Longrightarrow> keeps_row a c" for a b c
    by (auto simp: keeps_row_def)
  then have "list_all2 keeps_row xs ys \<Longrightarrow> list_all2 keeps_row ys zs \<Longrightarrow> list_all2 keeps_row xs zs" for xs ys zs
    by (rule list_all2_trans)
  then show "rewritten s t \<Longrightarrow> rewritten t u \<Longrightarrow> rewritten s u" by (auto simp: rewritten_def)
qed

lemma heartbeat_attempts:
  "runLeaseHeartbeat (webhookRepository pg) ev k w d bs s = (e, s') \<Longrightarrow> outboxOK s \<Longrightarrow> attemptsOK s \<Longrightarrow>
     rewritten s s' \<and> attemptsOK s'"
proof (induction bs arbitrary: s)
  case Nil
  then show ?case by (simp add: rewritten_refl)
next
  case (Cons b bs)
  obtain e1 s1 where r: "renewWebhookLease (webhookRepository pg) ev k w d b s = (e1, s1)" by fastforce
  note one = renew_attempts [OF r Cons.prems(2,3)]
  show ?case
  proof (cases e1)
    case None
    with Cons.prems r have "runLeaseHeartbeat (webhookRepository pg) ev k w d bs s1 = (e, s')" by simp
    from Cons.IH [OF this] one rewritten_ok [OF _ Cons.prems(2)] show ?thesis
      by (blast intro: rewritten_trans)
  next
    case (Some x)
    with Cons.prems(1) r one show ?thesis by simp
  qed
qed

lemma effective_le: "webhookEffectiveMaxAttempts m b \<le> m"
  by (simp add: webhookEffectiveMaxAttempts_def)

lemma dispatchRow_attempts:
  assumes "dispatchRow (webhookRepository pg) send beats cmd now w row out s = (out', e, s')"
    and "outboxOK s" "attemptsOK s" "fits (caps s) row"
  shows "rewritten s s' \<and> attemptsOK s'"
  using assms(1)
proof (cases rule: dispatchRow_mark)
  case skipped
  with assms(2,3) show ?thesis by (simp add: rewritten_refl)
next
  case (marked s1 hb)
  note h = heartbeat_attempts [OF marked(1) assms(2,3)]
  have ok: "outboxOK s1" using h rewritten_ok assms(2) by blast
  have f: "fits (caps s1) row" using h assms(4) rewritten_caps by metis
  have cap: "oeMaxAttempts r = peMaxAttempts row" if "r \<in> set (dbOutbox s1)" "oeID r = peID row" for r
    using f that by (auto simp: fits_def caps_def)
  have att: "0 \<le> peAttempts row" "peAttempts row < peMaxAttempts row" using f by (simp_all add: fits_def)
  have lim: "webhookEffectiveMaxAttempts (peMaxAttempts row) (dcRetryBudget cmd) \<le> peMaxAttempts row"
    by (rule effective_le)
  have a1: "attemptsOK s1" using h by blast
  have "rewritten s1 s' \<and> attemptsOK s'"
    using marked(2)
  proof (elim disjE exE conjE)
    fix b
    assume m: "MarkDelivered pg (peID row) w now s1 = (b, s')"
    then have "attemptsOK s'"
      unfolding MarkDelivered_def by (rule execRowsAffected_attempts [OF _ a1]) (simp add: attemptsRowOK_def)
    with marks_rewritten(1) [OF ok m] show ?thesis ..
  next
    fix b msg
    assume m: "MarkFailed pg (peID row) w (peAttempts row + 1) msg now s1 = (b, s')"
    then have "attemptsOK s'"
      unfolding MarkFailed_def
      by (rule execRowsAffected_attempts [OF _ a1]) (use att cap in \<open>auto simp: attemptsRowOK_def ownedPending_def\<close>)
    with marks_rewritten(3) [OF ok m] show ?thesis ..
  next
    fix b at msg
    assume n: "peAttempts row + 1 < webhookEffectiveMaxAttempts (peMaxAttempts row) (dcRetryBudget cmd)"
      and m: "MarkRetry pg (peID row) w (peAttempts row + 1) at msg now s1 = (b, s')"
    from m have "attemptsOK s'"
      unfolding MarkRetry_def
      by (rule execRowsAffected_attempts [OF _ a1])
        (use att cap lim n in \<open>auto simp: attemptsRowOK_def ownedPending_def\<close>)
    with marks_rewritten(2) [OF ok m] show ?thesis ..
  qed
  with h show ?thesis by (blast intro: rewritten_trans)
qed

lemma dispatchRows_attempts:
  "dispatchRows (webhookRepository pg) send beats cmd now w rows out s = (out', e, s') \<Longrightarrow>
     outboxOK s \<Longrightarrow> attemptsOK s \<Longrightarrow> (\<forall>p \<in> set rows. fits (caps s) p) \<Longrightarrow> attemptsOK s'"
proof (induction rows arbitrary: out s)
  case (Cons row rows)
  obtain o1 e1 s1 where row: "dispatchRow (webhookRepository pg) send beats cmd now w row out s = (o1, e1, s1)"
    by (cases "dispatchRow (webhookRepository pg) send beats cmd now w row out s") auto
  have one: "rewritten s s1 \<and> attemptsOK s1"
    using dispatchRow_attempts [OF row Cons.prems(2,3)] Cons.prems(4) by simp
  show ?case
  proof (cases e1)
    case None
    with Cons.prems row have "dispatchRows (webhookRepository pg) send beats cmd now w rows o1 s1 = (out', e, s')"
      by simp
    moreover have "outboxOK s1" "caps s1 = caps s" using one Cons.prems(2) rewritten_ok rewritten_caps by blast+
    ultimately show ?thesis using Cons.IH [of o1 s1] Cons.prems(4) one by simp
  next
    case (Some x)
    with Cons.prems row one show ?thesis by simp
  qed
qed simp

lemma claimed_fits:
  assumes "claimPending pg now lim own until s = (Inr rows, s')" "outboxOK s" "attemptsOK s"
  shows "attemptsOK s' \<and> (\<forall>p \<in> set rows. fits (caps s') p)"
  using assms(1)
proof (cases rule: claimPending_cases)
  case (leased chosen)
  have caps: "caps s' = caps s" using claimPending_rewritten [OF assms(1,2)] by (rule rewritten_caps)
  have "attemptsOK s'"
    using assms(3) by (auto simp: leased(2) attemptsOK_def attemptsRowOK_def leaseEvents_def)
  moreover have "fits (caps s') p" if "p \<in> set rows" for p
  proof -
    from that leased(3) obtain r where r: "r \<in> set chosen" "p = pendingEventOf r" by auto
    then have m: "r \<in> set (dbOutbox s)" "dispatchable now r"
      using dispatchCandidates_subset unfolding leased(1) by blast+
    then have "0 \<le> oeAttempts r" "oeAttempts r < oeMaxAttempts r"
      using assms(3) by (auto simp: attemptsOK_def attemptsRowOK_def dispatchable_def)
    moreover have "oeMaxAttempts x = oeMaxAttempts r" if "x \<in> set (dbOutbox s)" "oeID x = oeID r" for x
      using event_key [OF assms(2) that(1) m(1) that(2)] by simp
    ultimately show ?thesis unfolding fits_def caps r(2) by (auto simp: caps_def pendingEventOf_def)
  qed
  ultimately show ?thesis by blast
qed simp

lemma dispatchExecute_attempts:
  assumes "outboxOK s" "attemptsOK s"
    and "dispatchExecute (Some (webhookRepository pg)) gateway beats clock cmd s = (out, e, s')"
  shows "attemptsOK s'"
proof (cases "validateDispatch (Some (webhookRepository pg)) gateway cmd")
  case None
  let ?now = "if IsZero (dcNow cmd) then clock else dcNow cmd"
  obtain q t where c: "claimPending pg ?now (dcBatchSize cmd) (TrimSpace (dcWorkerID cmd))
      (?now + dcLeaseDuration cmd) s = (q, t)" by fastforce
  have ok: "outboxOK t" using claimPending_rewritten [OF c assms(1)] assms(1) by (rule rewritten_ok)
  show ?thesis
  proof (cases q)
    case (Inl x)
    have "attemptsOK t"
      using c assms(2)
      by (cases rule: claimPending_cases)
        (auto simp: attemptsOK_def attemptsRowOK_def leaseEvents_def)
    with assms(3) None c Inl show ?thesis by (simp add: dispatchExecute_def Let_def)
  next
    case (Inr rows)
    with assms(3) None c have "dispatchRows (webhookRepository pg) (the gateway) beats cmd ?now
        (TrimSpace (dcWorkerID cmd)) rows (zero_dispatch_output\<lparr>doClaimed := int (length rows)\<rparr>) t = (out, e, s')"
      by (simp add: dispatchExecute_def Let_def)
    then show ?thesis
      using dispatchRows_attempts ok claimed_fits [OF c [unfolded Inr] assms(1,2)] by blast
  qed
qed (use assms in \<open>simp add: dispatchExecute_def\<close>)

subsection \<open>The outcome of one delivery\<close>

definition leasedRow :: "db \<Rightarrow> outbox_row \<Rightarrow> string \<Rightarrow> bool" where
  "leasedRow s r w =
     (outboxOK s \<and> r \<in> set (dbOutbox s) \<and> oeDeliveryStatus r = ''pending'' \<and>
      oeLeaseOwner r = Some (TrimSpace w))"

lemma exec_row:
  assumes "execRowsAffected pg stmt oid hit f s = (Inr b, s')" "outboxOK s" "r \<in> set (dbOutbox s)" "hit r"
    "\<And>x. oeID (f x) = oeID x" "\<And>x. hit x \<Longrightarrow> oeID x = oid"
  shows "find (\<lambda>x. oeID x = oeID r) (dbOutbox s') = Some (f r) \<and> b"
  using assms(1)
proof (cases rule: execRowsAffected_cases)
  case applied
  have "find (\<lambda>x. oeID x = oeID r) (dbOutbox s) = Some r"
    using assms(2,3) by (simp add: outboxOK_def find_event)
  moreover have "filter hit (dbOutbox s) = [r]"
  proof (rule filter_unique)
    show "distinct (dbOutbox s)" using assms(2) by (simp add: outboxOK_def distinct_map)
    show "x = r" if "x \<in> set (dbOutbox s)" "hit x" for x
      using event_key [OF assms(2) that(1) assms(3)] assms(6) that(2) assms(4) by metis
  qed (fact assms)+
  ultimately show ?thesis
    using applied(1) assms(4,5) by (simp add: applied(2) find_map_event)
qed simp

lemma find_member: "find P xs = Some x \<Longrightarrow> x \<in> set xs"
  by (induction xs) (auto split: if_splits)

definition renewedRow :: "outbox_row \<Rightarrow> outbox_row \<Rightarrow> bool" where
  "renewedRow r r1 = (\<exists>u t. r1 = r\<lparr>oeLeaseUntil := u, oeUpdatedAt := t\<rparr>)"

lemma renewedRow_refl: "renewedRow r r"
  unfolding renewedRow_def by (rule exI [of _ "oeLeaseUntil r"], rule exI [of _ "oeUpdatedAt r"]) simp

lemma renewedRow_trans:
  assumes "renewedRow a b" "renewedRow b c"
  shows "renewedRow a c"
proof -
  from assms obtain u t u' t' where "b = a\<lparr>oeLeaseUntil := u, oeUpdatedAt := t\<rparr>"
    "c = b\<lparr>oeLeaseUntil := u', oeUpdatedAt := t'\<rparr>"
    unfolding renewedRow_def by blast
  then have "c = a\<lparr>oeLeaseUntil := u', oeUpdatedAt := t'\<rparr>" by simp
  then show ?thesis unfolding renewedRow_def by blast
qed

lemma renew_row:
  assumes "renewWebhookLease (webhookRepository pg) ev (oeID r) w d at s = (None, s')" "leasedRow s r w"
  shows "\<exists>r1. leasedRow s' r1 w \<and> oeID r1 = oeID r \<and> renewedRow r r1"
proof -
  from assms(1) have q: "RenewLease pg (oeID r) w (at + d) at s = (Inr True, s')"
    by (auto simp: renewWebhookLease_def split: prod.splits sum.splits bool.splits)
  let ?r1 = "r\<lparr>oeLeaseUntil := Some (at + d), oeUpdatedAt := at\<rparr>"
  have "find (\<lambda>x. oeID x = oeID r) (dbOutbox s') = Some ?r1"
    using exec_row [OF q [unfolded RenewLease_def], of r] assms(2) by (simp add: leasedRow_def)
  then have "?r1 \<in> set (dbOutbox s')" by (rule find_member)
  moreover have "outboxOK s'"
    using rewritten_ok [OF marks_rewritten(4) [OF _ q]] assms(2) by (simp add: leasedRow_def)
  ultimately have "leasedRow s' ?r1 w" using assms(2) by (simp add: leasedRow_def)
  then show ?thesis unfolding renewedRow_def by (intro exI [of _ ?r1]) auto
qed

lemma heartbeat_row:
  "runLeaseHeartbeat (webhookRepository pg) ev (oeID r) w d bs s = (None, s') \<Longrightarrow> leasedRow s r w \<Longrightarrow>
     \<exists>r1. leasedRow s' r1 w \<and> oeID r1 = oeID r \<and> renewedRow r r1"
proof (induction bs arbitrary: s r)
  case Nil
  then show ?case using renewedRow_refl by auto
next
  case (Cons b bs)
  obtain e1 s1 where r: "renewWebhookLease (webhookRepository pg) ev (oeID r) w d b s = (e1, s1)" by fastforce
  with Cons.prems(1) have e1: "e1 = None" by (cases e1) simp_all
  obtain r1 where r1: "leasedRow s1 r1 w" "oeID r1 = oeID r" "renewedRow r r1"
    using renew_row [OF r [unfolded e1] Cons.prems(2)] by blast
  have "runLeaseHeartbeat (webhookRepository pg) ev (oeID r1) w d bs s1 = (None, s')"
    using Cons.prems(1) r e1 r1(2) by simp
  from Cons.IH [OF this r1(1)] obtain r2 where "leasedRow s' r2 w" "oeID r2 = oeID r1" "renewedRow r1 r2"
    by blast
  with r1 show ?case by (intro exI [of _ r2]) (auto intro: renewedRow_trans)
qed

definition attemptOutcome ::
  "dispatch_command \<Rightarrow> time \<Rightarrow> int \<times> app_error option \<Rightarrow> outbox_row \<Rightarrow> outbox_row \<Rightarrow> bool" where
  "attemptOutcome cmd now answer r r' =
     (identity r' = identity r \<and> oeLeaseOwner r' = None \<and> oeLeaseUntil r' = None \<and>
      (if snd answer = None \<and> 200 \<le> fst answer \<and> fst answer \<le> 299
       then oeDeliveryStatus r' = ''delivered'' \<and> oeDeliveredAt r' = Some now \<and> oeAttempts r' = oeAttempts r
       else if webhookEffectiveMaxAttempts (oeMaxAttempts r) (dcRetryBudget cmd) \<le> oeAttempts r + 1
       then oeDeliveryStatus r' = ''failed'' \<and> oeAttempts r' = oeAttempts r + 1
       else oeDeliveryStatus r' = ''pending'' \<and> oeAttempts r' = oeAttempts r + 1 \<and>
         oeNextAttemptAt r' = now + webhookRetryBackoffWithJitter (oeAttempts r + 1) (dcInitialBackoff cmd)
           (dcMaxBackoff cmd) (dcRetryJitterBPS cmd) (oeEventID r) (oeID r)))"

definition requestOf :: "outbox_row \<Rightarrow> send_input" where
  "requestOf r =
     \<lparr>siEventID = oeEventID r, siEventType = oeEventType r,
      siDeliveryAttempt = (if oeAttempts r + 1 \<le> 0 then 1 else oeAttempts r + 1),
      siDestinationURL = TrimSpace (peDestinationURL (pendingEventOf r)), siPayload = oePayload r\<rparr>"

lemma finishRow_None:
  "finishRow cnt hb out q = (out', None, s') \<Longrightarrow> hb = None \<and> (\<exists>b. q = (Inr b, s'))"
  by (cases q) (auto simp: finishRow_def split: sum.splits)

lemma dispatchRow_outcome:
  assumes "dispatchRow (webhookRepository pg) send beats cmd now w (pendingEventOf r) out s = (out', None, s')"
    and "leasedRow s r w" "siDestinationURL (requestOf r) \<noteq> []"
  shows "\<exists>r'. find (\<lambda>x. oeID x = oeID r) (dbOutbox s') = Some r' \<and> attemptOutcome cmd now (send (requestOf r)) r r'"
proof -
  obtain code err where send: "send (requestOf r) = (code, err)" by fastforce
  obtain hb s1 where h: "runLeaseHeartbeat (webhookRepository pg) (oeEventID r) (oeID r) w
      (dcLeaseDuration cmd) (beats (pendingEventOf r)) s = (hb, s1)" by fastforce
  have pe: "peEventID (pendingEventOf r) = oeEventID r" "peID (pendingEventOf r) = oeID r"
    "peAttempts (pendingEventOf r) = oeAttempts r" "peMaxAttempts (pendingEventOf r) = oeMaxAttempts r"
    by (simp_all add: pendingEventOf_def)
  have inp: "\<lparr>siEventID = oeEventID r, siEventType = peEventType (pendingEventOf r),
      siDeliveryAttempt = (if oeAttempts r + 1 \<le> 0 then 1 else oeAttempts r + 1),
      siDestinationURL = TrimSpace (peDestinationURL (pendingEventOf r)), siPayload = pePayload (pendingEventOf r)\<rparr> = requestOf r"
    by (simp add: requestOf_def pendingEventOf_def)
  let ?ok = "err = None \<and> 200 \<le> code \<and> code \<le> 299"
  let ?eff = "webhookEffectiveMaxAttempts (oeMaxAttempts r) (dcRetryBudget cmd)"
  from assms(1,3) have run: "hb = None \<and>
     (if ?ok then \<exists>b. MarkDelivered pg (oeID r) w now s1 = (Inr b, s')
      else if ?eff \<le> oeAttempts r + 1
      then \<exists>b. MarkFailed pg (oeID r) w (oeAttempts r + 1) (webhookDispatchErrorMessage err code) now s1 = (Inr b, s')
      else \<exists>b. MarkRetry pg (oeID r) w (oeAttempts r + 1)
             (now + webhookRetryBackoffWithJitter (oeAttempts r + 1) (dcInitialBackoff cmd) (dcMaxBackoff cmd)
                (dcRetryJitterBPS cmd) (oeEventID r) (oeID r)) (webhookDispatchErrorMessage err code) now s1 = (Inr b, s'))"
    unfolding dispatchRow_def Let_def pe inp send h prod.case webhookRepository_simps
    by (auto simp: requestOf_def split: if_split_asm dest!: finishRow_None)
  then obtain r1 where r1: "leasedRow s1 r1 w" "oeID r1 = oeID r" "renewedRow r r1"
    using heartbeat_row [OF _ assms(2)] h by blast
  have own: "outboxOK s1" "r1 \<in> set (dbOutbox s1)" "ownedPending (oeID r) (TrimSpace w) r1"
    using r1 by (simp_all add: leasedRow_def ownedPending_def)
  have id1: "identity r1 = identity r" "oeAttempts r1 = oeAttempts r" "oeDeliveryStatus r1 = oeDeliveryStatus r"
    using r1(3) by (auto simp: renewedRow_def identity_def)
  have pend: "oeDeliveryStatus r = ''pending''" using assms(2) by (simp add: leasedRow_def)
  have row: "find (\<lambda>x. oeID x = oeID r) (dbOutbox s') = Some (f r1)"
    if "execRowsAffected pg stmt (oeID r) (ownedPending (oeID r) (TrimSpace w)) f s1 = (Inr b, s')"
      "\<And>x. oeID (f x) = oeID x" for stmt f b
    using exec_row [OF that(1) own that(2)] r1(2) by (simp add: ownedPending_def)
  show ?thesis
  proof (cases ?ok)
    case True
    with run obtain b where "MarkDelivered pg (oeID r) w now s1 = (Inr b, s')" by auto
    from row [OF this [unfolded MarkDelivered_def]] True send id1 show ?thesis
      by (auto simp: attemptOutcome_def identity_def)
  next
    case False
    show ?thesis
    proof (cases "?eff \<le> oeAttempts r + 1")
      case True
      with run False obtain b where
        "MarkFailed pg (oeID r) w (oeAttempts r + 1) (webhookDispatchErrorMessage err code) now s1 = (Inr b, s')"
        by auto
      from row [OF this [unfolded MarkFailed_def]] True False send id1 show ?thesis
        by (auto simp: attemptOutcome_def identity_def)
    next
      case more: False
      with run False obtain b where
        "MarkRetry pg (oeID r) w (oeAttempts r + 1)
             (now + webhookRetryBackoffWithJitter (oeAttempts r + 1) (dcInitialBackoff cmd) (dcMaxBackoff cmd)
                (dcRetryJitterBPS cmd) (oeEventID r) (oeID r)) (webhookDispatchErrorMessage err code) now s1 = (Inr b, s')"
        by auto
      from row [OF this [unfolded MarkRetry_def]] more False send id1 pend show ?thesis
        by (auto simp: attemptOutcome_def identity_def)
    qed
  qed
qed

end
