(* ===== verification/OutboxProps.thy ===== *)
theory OutboxProps
  imports DispatchLemmas Examples
begin

text \<open>
  The properties of the webhook outbox and its dispatcher, with their instances on a small store.
\<close>

lemma demo_good: "goodStore (demo_outbox ''pending'')" "goodStore (demo_outbox ''delivered'')"
  "goodStore (demo_outbox ''failed'')"
  by code_simp+

subsection \<open>The life of an event\<close>

text \<open>
  C11. A delivered event is final: no claim, outcome, renewal, operator command or status transition,
  in any order and with any server faults, changes its row in any column again.
\<close>

theorem delivered_is_final:
  assumes "outbox_step\<^sup>*\<^sup>* s t" "goodStore s" "r \<in> set (dbOutbox s)" "oeDeliveryStatus r = ''delivered''"
  shows "r \<in> set (dbOutbox t)"
  using outbox_steps_row [OF assms(1-3)] assms(4) by auto

theorem delivered_is_final_witness:
  "demo_event ''delivered'' \<in> set (dbOutbox (snd (CancelByEventID demo_pg ''evt_1'' ''ops'' ''stop'' second (demo_outbox ''delivered''))))"
proof -
  have "outbox_step (demo_outbox ''delivered'')
      (snd (CancelByEventID demo_pg ''evt_1'' ''ops'' ''stop'' second (demo_outbox ''delivered'')))"
    by (rule outbox_step.cancelled [of demo_pg "''evt_1''" "''ops''" "''stop''" second]) (rule prod.collapse [symmetric])
  note steps = r_into_rtranclp [of outbox_step, OF this]
  have r: "demo_event ''delivered'' \<in> set (dbOutbox (demo_outbox ''delivered''))"
    "oeDeliveryStatus (demo_event ''delivered'') = ''delivered''"
    by (simp_all add: demo_outbox_def demo_event_def)
  show ?thesis by (rule delivered_is_final [OF steps demo_good(2) r])
qed

text \<open>
  C12. No event is lost or altered: whatever happens afterwards, an event once written keeps a row
  with the same identifier, type, request, destination, payload and attempt limit, and the table
  stays well formed (unique identifiers, both lease columns set or null together, no lease and no
  pending work on a settled event, a delivery instant exactly on delivered ones).
\<close>

theorem event_is_preserved:
  assumes "outbox_step\<^sup>*\<^sup>* s t" "goodStore s"
  shows "goodStore t \<and> identity ` set (dbOutbox s) \<subseteq> identity ` set (dbOutbox t)"
  using outbox_steps_good [OF assms] outbox_steps_row [OF assms]
  by (auto simp: image_iff) metis

theorem event_is_preserved_witness:
  "goodStore (snd (MarkRetry demo_pg 1 ''w1'' 1 second ''boom'' 0 (demo_outbox ''pending''))) \<and>
   identity (demo_event ''pending'') \<in>
     identity ` set (dbOutbox (snd (MarkRetry demo_pg 1 ''w1'' 1 second ''boom'' 0 (demo_outbox ''pending''))))"
proof -
  have "outbox_step (demo_outbox ''pending'') (snd (MarkRetry demo_pg 1 ''w1'' 1 second ''boom'' 0 (demo_outbox ''pending'')))"
    by (rule outbox_step.retried [of demo_pg 1 "''w1''" 1 second "''boom''" 0]) (rule prod.collapse [symmetric])
  from event_is_preserved [OF r_into_rtranclp [of outbox_step, OF this] demo_good(1)]
  show ?thesis by (auto simp: demo_outbox_def)
qed



subsection \<open>Dispatching\<close>

text \<open>
  C26. One delivery, one outcome: when a worker processes an event it has leased, without a store or
  heartbeat error, the event ends with its lease released and, by the gateway's answer, delivered
  at the run's instant (a 2xx status), failed with one more attempt (no attempt left), or pending
  with one more attempt and due after the backoff; the gateway saw the event's own request.
\<close>

theorem delivery_outcome:
  assumes "dispatchRow (webhookRepository pg) send beats cmd now w (pendingEventOf r) out s = (out', None, s')"
    and "leasedRow s r w" "siDestinationURL (requestOf r) \<noteq> []"
  shows "\<exists>r'. find (\<lambda>x. oeID x = oeID r) (dbOutbox s') = Some r' \<and> attemptOutcome cmd now (send (requestOf r)) r r'"
  using assms by (rule dispatchRow_outcome)

definition demo_dispatch :: "int \<Rightarrow> dispatch_command" where
  "demo_dispatch budget =
     \<lparr>dcNow = 10 * second, dcBatchSize = 5, dcWorkerID = ''w1'', dcLeaseDuration = 30 * second,
      dcInitialBackoff = 5 * second, dcMaxBackoff = 300 * second, dcRetryJitterBPS = 0, dcRetryBudget = budget\<rparr>"

definition demo_leased_event :: outbox_row where
  "demo_leased_event = demo_event ''pending''\<lparr>oeLeaseOwner := Some ''w1'', oeLeaseUntil := Some (40 * second)\<rparr>"

definition demo_leased_outbox :: db where
  "demo_leased_outbox = (demo_outbox ''pending'')\<lparr>dbOutbox := [demo_leased_event]\<rparr>"

theorem delivery_outcome_witness:
  "\<exists>r'. find (\<lambda>x. oeID x = 1) (dbOutbox (snd (snd (dispatchRow (webhookRepository demo_pg) (\<lambda>_. (503, None))
        (\<lambda>_. [12 * second]) (demo_dispatch 0) (10 * second) ''w1'' (pendingEventOf demo_leased_event)
        zero_dispatch_output demo_leased_outbox)))) = Some r' \<and>
     oeDeliveryStatus r' = ''pending'' \<and> oeAttempts r' = 1 \<and> oeNextAttemptAt r' = 15 * second"
proof -
  let ?d = "dispatchRow (webhookRepository demo_pg) (\<lambda>_. (503, None)) (\<lambda>_. [12 * second]) (demo_dispatch 0)
     (10 * second) ''w1'' (pendingEventOf demo_leased_event) zero_dispatch_output demo_leased_outbox"
  have "fst (snd ?d) = None" by code_simp
  then have d: "?d = (fst ?d, None, snd (snd ?d))" by (simp add: prod_eq_iff)
  have l: "leasedRow demo_leased_outbox demo_leased_event ''w1''"
    "siDestinationURL (requestOf demo_leased_event) \<noteq> []" by code_simp+
  have e: "webhookEffectiveMaxAttempts 8 0 = 8" "webhookRetryBackoffWithJitter 1 (5 * second) (300 * second) 0 ''evt_1'' 1 = 5 * second"
    by code_simp+
  show ?thesis
    using delivery_outcome [OF d l]
    by (auto simp: attemptOutcome_def demo_leased_event_def demo_event_def demo_dispatch_def e)
qed

text \<open>
  C36. Attempts stay within their limit: a dispatch run, with any gateway, heartbeats, command and
  server faults, keeps every event's attempts between zero and its limit, strictly below it while
  the event is pending, so an event is sent at most \<open>max_attempts\<close> times unless requeued.
\<close>

theorem attempts_bounded:
  assumes "outboxOK s" "attemptsOK s"
    and "dispatchExecute (Some (webhookRepository pg)) gateway beats clock cmd s = (out, e, s')"
  shows "attemptsOK s'"
  using assms by (rule dispatchExecute_attempts)

theorem attempts_bounded_witness:
  "attemptsOK (snd (snd (dispatchExecute (Some (webhookRepository demo_pg)) (Some (\<lambda>_. (503, None)))
     (\<lambda>_. []) 0 (demo_dispatch 1) (demo_outbox ''pending''))))"
proof -
  have ok: "outboxOK (demo_outbox ''pending'')" "attemptsOK (demo_outbox ''pending'')" by code_simp+
  show ?thesis
    by (rule attempts_bounded [OF ok]) (simp add: prod_eq_iff)
qed

text \<open>
  The counters of a dispatch run are consistent: every claimed event that is processed is counted
  exactly once as sent, retried, failed or skipped (all of them when no error ends the run), and at
  most once in the HTTP buckets.
\<close>

theorem dispatch_counters:
  "case dispatchExecute repository gateway beats clock cmd s of (out, e, s') \<Rightarrow>
     0 \<le> settled out \<and> (case e of None \<Rightarrow> settled out = doClaimed out | Some _ \<Rightarrow> settled out \<le> doClaimed out) \<and>
     0 \<le> bucketed out \<and> bucketed out \<le> doClaimed out"
  by (auto split: prod.split option.split dest: dispatchExecute_counts)

text \<open>
  Retry delays: with a maximum below about 127 hours the delay of the n-th attempt is the
  doubled initial backoff capped at the maximum, spread by the jitter: at least one nanosecond and
  at most the maximum, and within the configured share of the exact value, whatever the event.
\<close>

theorem retry_delay_bounds:
  assumes "1 \<le> n" "0 < initial" "initial \<le> mx" "mx * 20000 < 2 ^ 63" "0 \<le> bps" "bps \<le> 10000"
  shows "webhookRetryBackoff n initial mx = min mx (initial * 2 ^ nat (n - 1)) \<and>
    1 \<le> webhookRetryBackoffWithJitter n initial mx bps ev row \<and>
    webhookRetryBackoffWithJitter n initial mx bps ev row \<le> mx \<and>
    webhookRetryBackoff n initial mx * (10000 - bps) div 10000 \<le> webhookRetryBackoffWithJitter n initial mx bps ev row \<and>
    webhookRetryBackoffWithJitter n initial mx bps ev row \<le>
      max 1 (webhookRetryBackoff n initial mx * (10000 + bps) div 10000)"
proof -
  have "mx \<le> 2 ^ 62" using assms(4) by simp
  then show ?thesis
    using jittered_bounds [OF assms, of ev row] webhookRetryBackoff_min [OF assms(1-3)] by blast
qed

theorem retry_delay_bounds_witness:
  "webhookRetryBackoff 4 (5 * second) (300 * second) = 40 * second \<and>
   36 * second \<le> webhookRetryBackoffWithJitter 4 (5 * second) (300 * second) 1000 ''evt_1'' 1 \<and>
   webhookRetryBackoffWithJitter 4 (5 * second) (300 * second) 1000 ''evt_1'' 1 \<le> 44 * second"
proof -
  have b: "webhookRetryBackoff 4 (5 * second) (300 * second) = 40 * second" by code_simp
  have "36 * second \<le> 40 * second * (10000 - 1000) div 10000"
    "max 1 (40 * second * (10000 + 1000) div 10000) \<le> 44 * second"
    by (simp_all add: second_def)
  with retry_delay_bounds [of 4 "5 * second" "300 * second" 1000 "''evt_1''" 1] show ?thesis
    unfolding b by (simp add: second_def)
qed

text \<open>
  With a large configured maximum the jitter multiplication overflows: once the capped backoff
  times the factor passes \<open>2 ^ 63\<close> (a maximum of fourteen days with any jitter up to ten per cent),
  the delay collapses to one nanosecond for every event, so a failing destination is retried at once.
\<close>

theorem retry_delay_overflows:
  assumes "1 \<le> n" "webhookRetryBackoff n initial mx = base" "0 < base" "0 < bps" "bps \<le> 9999"
    and "2 ^ 63 \<le> base * (10000 - bps)" "base * (10000 + bps) < 2 ^ 64" "1 \<le> mx"
  shows "webhookRetryBackoffWithJitter n initial mx bps ev row = 1"
  using assms by (rule jitter_overflow)

theorem retry_delay_overflows_witness:
  "\<forall>ev row. webhookRetryBackoffWithJitter 20 (60 * second) (1209600 * second) 1000 ev row = 1"
proof (intro allI)
  fix ev row
  have b: "webhookRetryBackoff 20 (60 * second) (1209600 * second) = 1209600 * second" by code_simp
  show "webhookRetryBackoffWithJitter 20 (60 * second) (1209600 * second) 1000 ev row = 1"
    by (rule retry_delay_overflows [OF _ b]) (simp_all add: second_def)
qed

text \<open>
  The heartbeat is fast enough: the interval is rejected exactly for leases below two
  nanoseconds, and otherwise is positive, shorter than the lease, and (from three nanoseconds on)
  fits three times into it, so two renewals may be missed before the lease runs out.
\<close>

theorem heartbeat_fits_lease:
  "case webhookLeaseHeartbeatInterval d of
     Inl _ \<Rightarrow> d \<le> 1
   | Inr i \<Rightarrow> 2 \<le> d \<and> 0 < i \<and> i < d \<and> (3 * i \<le> d \<or> d = 2)"
proof -
  have "0 < d div 3" "d div 3 < d" "3 * (d div 3) \<le> d" if "3 \<le> d" using that by simp_all
  then show ?thesis by (simp add: heartbeat_interval)
qed

text \<open>
  The dead-letter list breaks on legacy rows: one failed event without a destination URL on the
  requested page (the migration that added the column leaves such rows) makes the whole listing
  fail with an internal error.
\<close>

theorem dlq_listing_fails_on_null_destination:
  assumes "r \<in> set (dlqPage limit (dbOutbox s))" "oeDestinationURL r = None"
  shows "\<exists>e. ListDLQ pg limit s = Inl e \<and> ErrType e = TypeInternal \<and> Code e = ''webhook_outbox_query_failed''"
proof -
  have "\<exists>e. scanDLQ pg rows = Inl e \<and> ErrType e = TypeInternal \<and> Code e = ''webhook_outbox_query_failed''"
    if "r \<in> set rows" for rows
    using that assms(2)
    by (induction pg rows rule: scanDLQ.induct)
      (auto simp: queryFailed_def NewInternal_def split: option.splits sum.splits)
  with assms(1) obtain e where "scanDLQ pg (dlqPage limit (dbOutbox s)) = Inl e" "ErrType e = TypeInternal"
    "Code e = ''webhook_outbox_query_failed''" by blast
  then show ?thesis
    by (auto simp: ListDLQ_def queryFailed_def NewInternal_def split: option.splits)
qed

theorem dlq_listing_fails_on_null_destination_witness:
  "\<exists>e. ListDLQ demo_pg 10 ((demo_outbox ''failed'')\<lparr>dbOutbox := [(demo_event ''failed'')\<lparr>oeDestinationURL := None\<rparr>]\<rparr>) = Inl e"
proof -
  let ?s = "(demo_outbox ''failed'')\<lparr>dbOutbox := [(demo_event ''failed'')\<lparr>oeDestinationURL := None\<rparr>]\<rparr>"
  have "(demo_event ''failed'')\<lparr>oeDestinationURL := None\<rparr> \<in> set (dlqPage 10 (dbOutbox ?s))"
    by (simp add: dlqPage_def demo_event_def)
  from dlq_listing_fails_on_null_destination [OF this] show ?thesis by auto
qed

end
