(* ===== verification/Json.thy ===== *)
theory Json
  imports Database
begin

text \<open>
  JSON text as the code produces it: \<^verbatim>\<open>json.Marshal\<close> of a string (escapes of
  \<^verbatim>\<open>encoding/json\<close> with HTML escaping, UTF-8 repaired), and the canonical writer of
  \<^verbatim>\<open>create_payment_request_hashing.go\<close>, whose output is hashed for the idempotency check.
\<close>

subsection \<open>UTF-8\<close>

definition continuation :: "char \<Rightarrow> bool" where
  "continuation c = (0x80 \<le> byte_of c \<and> byte_of c \<le> 0xBF)"

text \<open>The length of the encoded character a string starts with, 0 when it starts with none.\<close>

fun utf8_len :: "string \<Rightarrow> nat" where
  "utf8_len [] = 0"
| "utf8_len (a # s) =
     (let b = byte_of a
      in if b < 0x80 then 1
         else if 0xC2 \<le> b \<and> b \<le> 0xDF then
           (case s of c # _ \<Rightarrow> if continuation c then 2 else 0 | [] \<Rightarrow> 0)
         else if 0xE0 \<le> b \<and> b \<le> 0xEF then
           (case s of
              c # d # _ \<Rightarrow>
                if continuation c \<and> continuation d \<and> (b = 0xE0 \<longrightarrow> 0xA0 \<le> byte_of c) \<and>
                   (b = 0xED \<longrightarrow> byte_of c \<le> 0x9F)
                then 3 else 0
            | _ \<Rightarrow> 0)
         else if 0xF0 \<le> b \<and> b \<le> 0xF4 then
           (case s of
              c # d # e # _ \<Rightarrow>
                if continuation c \<and> continuation d \<and> continuation e \<and>
                   (b = 0xF0 \<longrightarrow> 0x90 \<le> byte_of c) \<and> (b = 0xF4 \<longrightarrow> byte_of c \<le> 0x8F)
                then 4 else 0
            | _ \<Rightarrow> 0)
         else 0)"

lemma utf8_len_le: "utf8_len s \<le> length s"
  by (cases s) (auto simp: Let_def split: list.splits)

text \<open>The characters of a string; a byte that starts none stands alone and is invalid.\<close>

function runes :: "string \<Rightarrow> (bool \<times> string) list" where
  "runes [] = []"
| "runes (c # s) =
     (let n = utf8_len (c # s)
      in if n = 0 then (False, [c]) # runes s
         else (True, take n (c # s)) # runes (drop n (c # s)))"
  by pat_completeness auto
termination by (relation "measure length") auto

definition valid_utf8 :: "string \<Rightarrow> bool" where
  "valid_utf8 s = list_all fst (runes s)"

definition replacement :: string where
  "replacement = [char_of (0xEF :: nat), char_of (0xBF :: nat), char_of (0xBD :: nat)]"

definition utf8_repair :: "string \<Rightarrow> string" where
  "utf8_repair s = concat (map (\<lambda>(ok, r). if ok then r else replacement) (runes s))"

subsection \<open>Strings\<close>

definition hex_char :: "nat \<Rightarrow> char" where
  "hex_char d = (if d < 10 then char_of (48 + d) else char_of (87 + d))"

definition u00 :: "nat \<Rightarrow> string" where
  "u00 b = [CHR 0x5C, CHR ''u'', CHR ''0'', CHR ''0'', hex_char (b div 16), hex_char (b mod 16)]"

definition escape_ascii :: "char \<Rightarrow> string" where
  "escape_ascii c =
     (let b = byte_of c
      in if b = 0x5C \<or> b = 0x22 then [CHR 0x5C, c]
         else if b = 8 then [CHR 0x5C, CHR ''b'']
         else if b = 12 then [CHR 0x5C, CHR ''f'']
         else if b = 10 then [CHR 0x5C, CHR ''n'']
         else if b = 13 then [CHR 0x5C, CHR ''r'']
         else if b = 9 then [CHR 0x5C, CHR ''t'']
         else if b < 32 \<or> b = 0x3C \<or> b = 0x3E \<or> b = 0x26 then u00 b
         else [c])"

text \<open>U+2028 and U+2029 are escaped too, and an invalid byte becomes U+FFFD.\<close>

definition escape_rune :: "bool \<times> string \<Rightarrow> string" where
  "escape_rune r =
     (if \<not> fst r then CHR 0x5C # ''ufffd''
      else if map byte_of (snd r) = [0xE2, 0x80, 0xA8] then CHR 0x5C # ''u2028''
      else if map byte_of (snd r) = [0xE2, 0x80, 0xA9] then CHR 0x5C # ''u2029''
      else case snd r of [c] \<Rightarrow> escape_ascii c | _ \<Rightarrow> snd r)"

definition json_string :: "string \<Rightarrow> string" where
  "json_string s = CHR 0x22 # concat (map escape_rune (runes s)) @ [CHR 0x22]"

subsection \<open>Values\<close>

fun commas :: "string list \<Rightarrow> string" where
  "commas [] = []"
| "commas [x] = x"
| "commas (x # y # xs) = x @ CHR '','' # commas (y # xs)"

definition json_member :: "string \<times> string \<Rightarrow> string" where
  "json_member kv = json_string (fst kv) @ CHR '':'' # snd kv"

text \<open>
  The text of a value, with the keys of maps in byte order. \<open>num\<close> is what is written for a
  \<^verbatim>\<open>json.Number\<close>, \<open>leaf\<close> the text of a \<^verbatim>\<open>float64\<close> or of an instant.
\<close>

primrec json_write :: "(string \<Rightarrow> string) \<Rightarrow> (gval \<Rightarrow> string) \<Rightarrow> gval \<Rightarrow> string" where
  "json_write num leaf GNil = ''null''"
| "json_write num leaf (GBool b) = (if b then ''true'' else ''false'')"
| "json_write num leaf (GStr s) = json_string s"
| "json_write num leaf (GTime t) = leaf (GTime t)"
| "json_write num leaf (GNum s) = num s"
| "json_write num leaf (GFloat m e) = leaf (GFloat m e)"
| "json_write num leaf (GInt i) = FormatInt i"
| "json_write num leaf (GArr xs) = CHR ''['' # commas (map (json_write num leaf) xs) @ '']''"
| "json_write num leaf (GMap m) =
     CHR ''{'' # commas (map json_member
       (sort_key fst (map (map_prod id (json_write num leaf)) m))) @ ''}''"

definition writeCanonicalJSON :: "(gval \<Rightarrow> string) \<Rightarrow> gval \<Rightarrow> string" where
  "writeCanonicalJSON leaf v = json_write (\<lambda>s. s) leaf v"

text \<open>\<^verbatim>\<open>isValidNumber\<close> of \<^verbatim>\<open>encoding/json\<close>.\<close>

definition valid_exponent :: "string \<Rightarrow> bool" where
  "valid_exponent s =
     (case s of [] \<Rightarrow> True
      | c # r \<Rightarrow> (c = CHR ''e'' \<or> c = CHR ''E'') \<and>
          (let d = (case r of x # y \<Rightarrow> if x = CHR ''+'' \<or> x = CHR ''-'' then y else r | [] \<Rightarrow> r)
           in d \<noteq> [] \<and> list_all is_digit d))"

definition valid_fraction :: "string \<Rightarrow> bool" where
  "valid_fraction s =
     (case s of
        c # r \<Rightarrow>
          if c = CHR ''.''
          then takeWhile is_digit r \<noteq> [] \<and> valid_exponent (dropWhile is_digit r)
          else valid_exponent s
      | [] \<Rightarrow> True)"

definition isValidNumber :: "string \<Rightarrow> bool" where
  "isValidNumber s =
     (let u = (case s of c # r \<Rightarrow> if c = CHR ''-'' then r else s | [] \<Rightarrow> s)
      in case u of
           [] \<Rightarrow> False
         | c # r \<Rightarrow>
             if c = CHR ''0'' then valid_fraction r
             else is_digit c \<and> valid_fraction (dropWhile is_digit r))"

definition number_text :: "string \<Rightarrow> string" where
  "number_text s = (if s = [] then ''0'' else s)"

primrec marshalable :: "gval \<Rightarrow> bool" where
  "marshalable GNil = True"
| "marshalable (GBool b) = True"
| "marshalable (GStr s) = True"
| "marshalable (GTime t) = True"
| "marshalable (GNum s) = isValidNumber (number_text s)"
| "marshalable (GFloat m e) = True"
| "marshalable (GInt i) = True"
| "marshalable (GArr xs) = list_all marshalable xs"
| "marshalable (GMap m) = list_all (\<lambda>(k, b). b) (map (map_prod id marshalable) m)"

definition json_marshal :: "(gval \<Rightarrow> string) \<Rightarrow> gval \<Rightarrow> string option" where
  "json_marshal leaf v = (if marshalable v then Some (json_write number_text leaf v) else None)"

text \<open>What decoding that text with \<^verbatim>\<open>UseNumber\<close> gives: every number is its literal.\<close>

primrec use_number :: "(gval \<Rightarrow> string) \<Rightarrow> gval \<Rightarrow> gval" where
  "use_number leaf GNil = GNil"
| "use_number leaf (GBool b) = GBool b"
| "use_number leaf (GStr s) = GStr (utf8_repair s)"
| "use_number leaf (GTime t) = GTime t"
| "use_number leaf (GNum s) = GNum (number_text s)"
| "use_number leaf (GFloat m e) = GNum (leaf (GFloat m e))"
| "use_number leaf (GInt i) = GNum (FormatInt i)"
| "use_number leaf (GArr xs) = GArr (map (use_number leaf) xs)"
| "use_number leaf (GMap m) = GMap (map (map_prod utf8_repair (use_number leaf)) m)"

end
