(* ===== verification/ValueObjects.thy ===== *)
theory ValueObjects
  imports GoStrings
begin

text \<open>
  The domain layer (\<^verbatim>\<open>internal/domain\<close>): value objects for the chain, network, asset and amount
  of a request, addresses with their EIP-55 form, the request status, webhook host patterns, the
  expiry rules and the payment request entity. Keccak-256 and the parsing of URLs are parameters.
\<close>

definition field :: "string \<Rightarrow> details" where
  "field f = [(''field'', GStr f)]"

definition invalid_request :: "string \<Rightarrow> details \<Rightarrow> app_error" where
  "invalid_request msg ds = NewValidation ''invalid_request'' msg ds"

text \<open>An anchored character class with a repetition count, \<^verbatim>\<open>^[...]{n,m}$\<close>.\<close>

definition class_match :: "(char \<Rightarrow> bool) \<Rightarrow> nat \<Rightarrow> nat \<Rightarrow> string \<Rightarrow> bool" where
  "class_match p n m s = (n \<le> length s \<and> length s \<le> m \<and> list_all p s)"

subsection \<open>Asset tuple and amount\<close>

definition lowerNameChar :: "char \<Rightarrow> bool" where
  "lowerNameChar c = (is_lower c \<or> is_digit c \<or> c = CHR ''_'' \<or> c = CHR ''-'')"

definition upperNameChar :: "char \<Rightarrow> bool" where
  "upperNameChar c = (is_upper c \<or> is_digit c \<or> c = CHR ''_'' \<or> c = CHR ''-'')"

definition NormalizeChain :: "string \<Rightarrow> string res" where
  "NormalizeChain raw =
     (let chain = ToLower (TrimSpace raw)
      in if chain = [] \<or> \<not> class_match lowerNameChar 1 32 chain
         then Inl (invalid_request ''chain is invalid'' (field ''chain''))
         else Inr chain)"

definition NormalizeNetwork :: "string \<Rightarrow> string res" where
  "NormalizeNetwork raw =
     (let network = ToLower (TrimSpace raw)
      in if network = [] \<or> \<not> class_match lowerNameChar 1 32 network
         then Inl (invalid_request ''network is invalid'' (field ''network''))
         else Inr network)"

definition NormalizeAsset :: "string \<Rightarrow> string res" where
  "NormalizeAsset raw =
     (let asset = ToUpper (TrimSpace raw)
      in if asset = [] \<or> \<not> class_match upperNameChar 1 32 asset
         then Inl (invalid_request ''asset is invalid'' (field ''asset''))
         else Inr asset)"

definition NormalizeExpectedAmountMinor :: "string \<Rightarrow> string res" where
  "NormalizeExpectedAmountMinor raw =
     (let value = TrimSpace raw
      in if \<not> class_match is_digit 1 78 value
         then Inl (invalid_request
                ''expected_amount_minor must be an integer string with 1 to 78 digits''
                (field ''expected_amount_minor''))
         else Inr value)"

subsection \<open>Addresses\<close>

definition isHexChar :: "char \<Rightarrow> bool" where
  "isHexChar c =
     (is_digit c \<or> 65 \<le> byte_of c \<and> byte_of c \<le> 70 \<or> 97 \<le> byte_of c \<and> byte_of c \<le> 102)"

definition evmAddressPattern :: "string \<Rightarrow> bool" where
  "evmAddressPattern s = (HasPrefix s ''0x'' \<and> class_match isHexChar 40 40 (drop 2 s))"

definition bech32Char :: "char \<Rightarrow> bool" where
  "bech32Char c = (c \<in> set ''qpzry9x8gf2tvdw0s3jn54khce6mua7l'')"

definition btcBech32Pattern :: "string \<Rightarrow> bool" where
  "btcBech32Pattern s =
     (HasPrefix s ''bc1'' \<and> class_match bech32Char 11 87 (drop 3 s) \<or>
      HasPrefix s ''tb1'' \<and> class_match bech32Char 11 87 (drop 3 s) \<or>
      HasPrefix s ''bcrt1'' \<and> class_match bech32Char 11 87 (drop 5 s))"

definition base58Char :: "char \<Rightarrow> bool" where
  "base58Char c =
     (c \<in> set ''123456789ABCDEFGHJKLMNPQRSTUVWXYZabcdefghijkmnopqrstuvwxyz'')"

definition btcBase58Pattern :: "string \<Rightarrow> bool" where
  "btcBase58Pattern s = class_match base58Char 26 35 s"

definition NormalizeAddressForStorage :: "string \<Rightarrow> string \<Rightarrow> string res" where
  "NormalizeAddressForStorage chain address =
     (let trimmed = TrimSpace address
      in if trimmed = [] then Inl (invalid_request ''address is required'' (field ''address''))
         else if chain = ''ethereum'' then
           (if \<not> evmAddressPattern trimmed
            then Inl (invalid_request ''ethereum address is invalid'' (field ''address''))
            else Inr (''0x'' @ ToLower (TrimPrefix trimmed ''0x'')))
         else if chain = ''bitcoin'' then
           (let lower = ToLower trimmed
            in if HasPrefix lower ''bc1'' \<or> HasPrefix lower ''tb1'' \<or> HasPrefix lower ''bcrt1'' then
                 (if \<not> btcBech32Pattern lower
                  then Inl (invalid_request ''bitcoin bech32 address is invalid'' (field ''address''))
                  else Inr lower)
               else if \<not> btcBase58Pattern trimmed
               then Inl (invalid_request ''bitcoin base58 address is invalid'' (field ''address''))
               else Inr trimmed)
         else Inl (NewValidation ''unsupported_network''
                ''unsupported chain for address canonicalization'' [(''chain'', GStr chain)]))"

text \<open>The \<open>i\<close>-th half byte of the hash decides the case of the \<open>i\<close>-th digit.\<close>

definition checksumNibble :: "nat list \<Rightarrow> nat \<Rightarrow> nat" where
  "checksumNibble hash i =
     (if even i then hash ! (i div 2) div 16 mod 16 else hash ! (i div 2) mod 16)"

definition checksumChar :: "nat list \<Rightarrow> nat \<Rightarrow> char \<Rightarrow> char" where
  "checksumChar hash i ch =
     (if is_digit ch then ch
      else if checksumNibble hash i \<ge> 8 then upper_char ch else ch)"

definition ToEIP55Checksum :: "(string \<Rightarrow> nat list) \<Rightarrow> string \<Rightarrow> string res" where
  "ToEIP55Checksum keccak canonical =
     (let normalized = ''0x'' @ ToLower (TrimSpace (TrimPrefix canonical ''0x''))
      in if \<not> evmAddressPattern normalized
         then Inl (NewInternal ''address_canonical_invalid'' ''canonical ethereum address is invalid''
                [(''address'', GStr canonical)])
         else (let hexPart = TrimPrefix normalized ''0x''; hash = keccak hexPart
               in Inr (''0x'' @ map2 (checksumChar hash) [0..<length hexPart] hexPart)))"

definition FormatAddressForResponse :: "(string \<Rightarrow> nat list) \<Rightarrow> string \<Rightarrow> string \<Rightarrow> string res" where
  "FormatAddressForResponse keccak chain canonical =
     (if chain = ''ethereum'' then ToEIP55Checksum keccak canonical
      else if chain = ''bitcoin'' then Inr canonical
      else Inl (NewInternal ''address_chain_unsupported''
             ''address chain is not supported for response formatting'' [(''chain'', GStr chain)]))"

definition NormalizeTokenContract :: "string \<Rightarrow> string res" where
  "NormalizeTokenContract raw =
     (case NormalizeAddressForStorage ''ethereum'' raw of
        Inl _ \<Rightarrow> Inl (invalid_request ''token_contract is invalid'' (field ''token_contract''))
      | Inr normalized \<Rightarrow> Inr normalized)"

subsection \<open>Status\<close>

datatype payment_request_status =
    StatusPending
  | StatusDetected
  | StatusConfirmed
  | StatusReorged
  | StatusExpired
  | StatusFailed

fun statusString :: "payment_request_status \<Rightarrow> string" where
  "statusString StatusPending = ''pending''"
| "statusString StatusDetected = ''detected''"
| "statusString StatusConfirmed = ''confirmed''"
| "statusString StatusReorged = ''reorged''"
| "statusString StatusExpired = ''expired''"
| "statusString StatusFailed = ''failed''"

definition ParsePaymentRequestStatus :: "string \<Rightarrow> payment_request_status res" where
  "ParsePaymentRequestStatus raw =
     (if raw = ''pending'' then Inr StatusPending
      else if raw = ''detected'' then Inr StatusDetected
      else if raw = ''confirmed'' then Inr StatusConfirmed
      else if raw = ''reorged'' then Inr StatusReorged
      else if raw = ''expired'' then Inr StatusExpired
      else if raw = ''failed'' then Inr StatusFailed
      else Inl (NewInternal ''payment_request_status_invalid'' ''payment request status is invalid''
             [(''status'', GStr raw)]))"

subsection \<open>Expiry\<close>

definition isExpiryInRange :: "int \<Rightarrow> bool" where
  "isExpiryInRange v = (60 \<le> v \<and> v \<le> 2592000)"

definition ResolveExpiresInSeconds :: "int option \<Rightarrow> int \<Rightarrow> int res" where
  "ResolveExpiresInSeconds requested defaultValue =
     (if \<not> isExpiryInRange defaultValue
      then Inl (NewInternal ''asset_catalog_invalid''
             ''asset catalog default_expires_in_seconds is out of range''
             [(''default_expires_in_seconds'', GInt defaultValue)])
      else case requested of
          None \<Rightarrow> Inr defaultValue
        | Some v \<Rightarrow>
            if \<not> isExpiryInRange v
            then Inl (invalid_request ''expires_in_seconds must be between 60 and 2592000''
                   (field ''expires_in_seconds''))
            else Inr v)"

definition ResolveIdempotencyExpiry :: "time \<Rightarrow> time \<Rightarrow> time" where
  "ResolveIdempotencyExpiry createdAt requestExpiresAt =
     (let resolved = createdAt + 7 * 24 * hour;
          resolved = (if requestExpiresAt > resolved then requestExpiresAt else resolved);
          minimum = createdAt + 24 * hour
      in if minimum > resolved then minimum else resolved)"

subsection \<open>Webhook URLs and host patterns\<close>

text \<open>What the code reads of a parsed URL, and rebuilds a URL from.\<close>

record url =
  urlScheme :: string
  urlUser :: "string option"
  urlHost :: string
  urlHostname :: string
  urlPort :: string
  urlPath :: string
  urlRawQuery :: string
  urlFragment :: string

text \<open>\<^verbatim>\<open>net.JoinHostPort\<close> puts brackets around a host with a colon or percent sign.\<close>

definition JoinHostPort :: "string \<Rightarrow> string \<Rightarrow> string" where
  "JoinHostPort host port =
     (if CHR '':'' \<in> set host \<or> CHR ''%'' \<in> set host
      then ''['' @ host @ '']:'' @ port else host @ '':'' @ port)"

text \<open>
  \<open>parse\<close> is \<^verbatim>\<open>url.Parse\<close> (\<open>None\<close> for an error), \<open>render\<close> is \<^verbatim>\<open>URL.String\<close>; a URL is
  absolute when its scheme is not empty.
\<close>

definition NormalizeWebhookURL ::
  "(string \<Rightarrow> url option) \<Rightarrow> (url \<Rightarrow> string) \<Rightarrow> string \<Rightarrow> (string \<times> string) res" where
  "NormalizeWebhookURL parse render raw =
     (let trimmed = TrimSpace raw; bad = (\<lambda>msg. Inl (invalid_request msg (field ''webhook_url'')))
      in if trimmed = [] then bad ''webhook_url is required''
         else case parse trimmed of
             None \<Rightarrow> bad ''webhook_url must be a valid absolute URL''
           | Some parsed \<Rightarrow>
               if urlScheme parsed = [] \<or> TrimSpace (urlHost parsed) = [] then
                 bad ''webhook_url must be a valid absolute URL''
               else if urlUser parsed \<noteq> None then bad ''webhook_url must not contain user info''
               else
                 (let scheme = ToLower (TrimSpace (urlScheme parsed))
                  in if scheme \<noteq> ''http'' \<and> scheme \<noteq> ''https'' then
                       bad ''webhook_url must use http or https''
                     else
                       (let host = TrimSuffix (ToLower (TrimSpace (urlHostname parsed))) ''.''
                        in if host = [] then bad ''webhook_url host is required''
                           else
                             (let port = TrimSpace (urlPort parsed);
                                  canonicalHost = (if port \<noteq> [] then JoinHostPort host port else host)
                              in Inr (render (parsed\<lparr>urlScheme := scheme, urlHost := canonicalHost,
                                                    urlFragment := []\<rparr>), host)))))"

definition NormalizeWebhookHostPattern :: "string \<Rightarrow> string res" where
  "NormalizeWebhookHostPattern raw =
     (let trimmed = TrimSuffix (ToLower (TrimSpace raw)) ''.'';
          bad = (\<lambda>msg. Inl (invalid_request msg []))
      in if trimmed = [] then bad ''webhook host pattern must not be empty''
         else if Contains trimmed ''://'' \<or> ContainsAny trimmed ''/?#'' \<or> Contains trimmed '' '' then
           bad ''webhook host pattern must be a host pattern''
         else if HasPrefix trimmed ''*.'' then
           (let suffix = TrimPrefix trimmed ''*.''
            in if suffix = [] \<or> Contains suffix ''*'' then
                 bad ''webhook host wildcard pattern is invalid''
               else Inr (''*.'' @ suffix))
         else if Contains trimmed ''*'' then bad ''webhook host wildcard pattern is invalid''
         else Inr trimmed)"

definition normalizedHost :: "string \<Rightarrow> string" where
  "normalizedHost host = TrimSuffix (ToLower (TrimSpace host)) ''.''"

definition hostMatches :: "string \<Rightarrow> string \<Rightarrow> bool" where
  "hostMatches host pattern =
     (let p = normalizedHost pattern
      in if p = [] then False
         else if HasPrefix p ''*.'' then
           (let suffix = TrimPrefix p ''*.''
            in suffix \<noteq> [] \<and> host \<noteq> suffix \<and> HasSuffix host (''.'' @ suffix))
         else host = p)"

definition IsWebhookHostAllowed :: "string \<Rightarrow> string list \<Rightarrow> bool" where
  "IsWebhookHostAllowed host allowlist =
     (let h = normalizedHost host
      in if h = [] then False else list_ex (hostMatches h) allowlist)"

subsection \<open>The payment request entity\<close>

record payment_instructions =
  piAddressCanonical :: string
  piAddressScheme :: string
  piDerivationIndex :: int
  piChainID :: "int option"
  piTokenStandard :: "string option"
  piTokenContract :: "string option"
  piTokenDecimals :: "int option"

record payment_request =
  pyID :: string
  pyWalletAccountID :: string
  pyStatus :: payment_request_status
  pyChain :: string
  pyNetwork :: string
  pyAsset :: string
  pyExpectedAmountMinor :: "string option"
  pyMetadata :: details
  pyExpiresAt :: time
  pyCreatedAt :: time
  pyInstructions :: payment_instructions

record new_payment_request_input =
  npID :: string
  npWalletAccountID :: string
  npChain :: string
  npNetwork :: string
  npAsset :: string
  npExpectedAmountMinor :: "string option"
  npMetadata :: details
  npExpiresAt :: time
  npCreatedAt :: time
  npInstructions :: payment_instructions

definition cloneMetadata :: "details \<Rightarrow> details" where
  "cloneMetadata metadata =
     (if metadata = [] then [] else foldl (\<lambda>m (k, v). assoc_put k v m) [] metadata)"

definition NewPendingPaymentRequest :: "new_payment_request_input \<Rightarrow> payment_request res" where
  "NewPendingPaymentRequest input =
     (if npID input = [] then
        Inl (NewInternal ''payment_request_id_missing'' ''payment request id is required'' [])
      else if npWalletAccountID input = [] then
        Inl (NewInternal ''wallet_account_id_missing'' ''wallet account id is required'' [])
      else if \<not> npExpiresAt input > npCreatedAt input then
        Inl (invalid_request ''expires_at must be greater than created_at'' (field ''expires_at''))
      else if piDerivationIndex (npInstructions input) < 0 then
        Inl (NewInternal ''derivation_index_invalid'' ''derivation index must be non-negative''
               [(''derivation_index'', GInt (piDerivationIndex (npInstructions input)))])
      else
        Inr \<lparr>pyID = npID input, pyWalletAccountID = npWalletAccountID input,
             pyStatus = StatusPending, pyChain = npChain input, pyNetwork = npNetwork input,
             pyAsset = npAsset input, pyExpectedAmountMinor = npExpectedAmountMinor input,
             pyMetadata = cloneMetadata (npMetadata input), pyExpiresAt = npExpiresAt input,
             pyCreatedAt = npCreatedAt input, pyInstructions = npInstructions input\<rparr>)"

end
