(* ===== verification/CreateStore.thy ===== *)
theory CreateStore
  imports Json ValueObjects
begin

text \<open>
  The asset catalog read model (\<^verbatim>\<open>assetcatalog/read_model.go\<close>) and the creation of a payment
  request in the store (\<^verbatim>\<open>paymentrequest/repository.go\<close>): the idempotency check, the address
  allocation under the lock of the wallet row, the three writes and the commit. The statements
  of the transaction run at read-committed isolation, so other transactions may commit between
  them: \<open>world i\<close> says what they do to the committed tables before step \<open>i\<close>. The writes of
  the transaction itself become visible with its commit, and not at all when it fails.
\<close>

subsection \<open>Asset catalog\<close>

record catalog_entry =
  ceChain :: string
  ceNetwork :: string
  ceAsset :: string
  ceMinorUnit :: string
  ceDecimals :: int
  ceAddressScheme :: string
  ceDefaultExpiresInSeconds :: int
  ceChainID :: "int option"
  ceTokenStandard :: "string option"
  ceTokenContract :: "string option"
  ceTokenDecimals :: "int option"
  ceWalletAccountID :: string

definition tokenContractColumn :: "app_error \<Rightarrow> string option \<Rightarrow> string option res" where
  "tokenContractColumn err v =
     (case v of
        None \<Rightarrow> Inr None
      | Some raw \<Rightarrow>
          (case NormalizeTokenContract raw of Inl _ \<Rightarrow> Inl err | Inr c \<Rightarrow> Inr (Some c)))"

definition catalogEntryOf :: "catalog_row \<Rightarrow> catalog_entry res" where
  "catalogEntryOf r =
     (let chain = ToLower (caChain r); network = ToLower (caNetwork r);
          asset = ToUpper (caAsset r)
      in case tokenContractColumn
             (NewInternal ''asset_catalog_token_contract_invalid''
                ''asset catalog token_contract is invalid''
                [(''asset'', GStr asset), (''chain'', GStr chain), (''network'', GStr network)])
             (caTokenContract r) of
           Inl e \<Rightarrow> Inl e
         | Inr contract \<Rightarrow>
             Inr \<lparr>ceChain = chain, ceNetwork = network, ceAsset = asset,
                  ceMinorUnit = caMinorUnit r, ceDecimals = caDecimals r,
                  ceAddressScheme = caAddressScheme r,
                  ceDefaultExpiresInSeconds = caDefaultExpiresInSeconds r,
                  ceChainID = caChainID r, ceTokenStandard = caTokenStandard r,
                  ceTokenContract = contract, ceTokenDecimals = caTokenDecimals r,
                  ceWalletAccountID = caWalletAccountID r\<rparr>)"

fun catalogEntries :: "catalog_row list \<Rightarrow> catalog_entry list res" where
  "catalogEntries [] = Inr []"
| "catalogEntries (r # rows) =
     (case catalogEntryOf r of
        Inl e \<Rightarrow> Inl e
      | Inr entry \<Rightarrow>
          (case catalogEntries rows of Inl e \<Rightarrow> Inl e | Inr es \<Rightarrow> Inr (entry # es)))"

definition dbError :: "string \<Rightarrow> string \<Rightarrow> string \<Rightarrow> app_error" where
  "dbError code msg e = NewInternal code msg [(''error'', GStr e)]"

definition ListEnabled :: "pg \<Rightarrow> db \<Rightarrow> catalog_entry list res" where
  "ListEnabled pg s =
     (case pgFault pg ''catalog'' [] of
        Some e \<Rightarrow> Inl (dbError ''asset_catalog_query_failed'' ''failed to query asset catalog'' e)
      | None \<Rightarrow>
          (case catalogEntries
             (sort_key caChain (sort_key caNetwork (sort_key caAsset
                (filter caEnabled (dbCatalog s))))) of
             Inl e \<Rightarrow> Inl e
           | Inr entries \<Rightarrow>
               (case pgFault pg ''catalog_rows'' [] of
                  Some e \<Rightarrow> Inl (dbError ''asset_catalog_rows_failed''
                    ''failed to iterate asset catalog rows'' e)
                | None \<Rightarrow> Inr entries)))"

subsection \<open>Data of a creation\<close>

record idempotency_scope =
  isPrincipalID :: string
  isHTTPMethod :: string
  isHTTPPath :: string

record payment_instructions_resource =
  piAddress :: string
  piScheme :: string
  piIndex :: int
  piChain :: "int option"
  piStandard :: "string option"
  piContract :: "string option"
  piDecimals :: "int option"

record resource =
  rsID :: string
  rsStatus :: string
  rsChain :: string
  rsNetwork :: string
  rsAsset :: string
  rsExpectedAmountMinor :: "string option"
  rsExpiresAt :: time
  rsCreatedAt :: time
  rsInstructions :: payment_instructions_resource

record persistence_command =
  pcResourceID :: string
  pcScope :: idempotency_scope
  pcKey :: string
  pcRequestHash :: string
  pcHashAlgorithm :: string
  pcStatus :: string
  pcChain :: string
  pcNetwork :: string
  pcAsset :: string
  pcWebhookURL :: string
  pcExpectedAmountMinor :: "string option"
  pcMetadata :: details
  pcExpiresAt :: time
  pcIdempotencyExpiresAt :: time
  pcCreatedAt :: time
  pcSnapshot :: catalog_entry
  pcAllocationMode :: string

record resolve_input =
  riChain :: string
  riNetwork :: string
  riAddressScheme :: string
  riKeysetID :: string
  riDerivationPathTemplate :: string
  riDerivationIndex :: int
  riChainID :: "int option"

record resolve_output =
  roAddressCanonical :: string
  roAddress :: string

record create_result =
  crResource :: resource
  crReplayed :: bool

subsection \<open>The stored response\<close>

definition optional :: "string \<Rightarrow> ('a \<Rightarrow> gval) \<Rightarrow> 'a option \<Rightarrow> details" where
  "optional k f v = (case v of None \<Rightarrow> [] | Some x \<Rightarrow> [(k, f x)])"

definition encodeInstructions :: "payment_instructions_resource \<Rightarrow> gval" where
  "encodeInstructions p =
     GMap ([(''address'', GStr (piAddress p)), (''address_scheme'', GStr (piScheme p)),
            (''derivation_index'', GInt (piIndex p))] @
           optional ''chain_id'' GInt (piChain p) @
           optional ''token_standard'' GStr (piStandard p) @
           optional ''token_contract'' GStr (piContract p) @
           optional ''token_decimals'' GInt (piDecimals p))"

definition encodeResource :: "resource \<Rightarrow> gval" where
  "encodeResource r =
     GMap ([(''id'', GStr (rsID r)), (''status'', GStr (rsStatus r)),
            (''chain'', GStr (rsChain r)), (''network'', GStr (rsNetwork r)),
            (''asset'', GStr (rsAsset r))] @
           optional ''expected_amount_minor'' GStr (rsExpectedAmountMinor r) @
           [(''expires_at'', GTime (rsExpiresAt r)), (''created_at'', GTime (rsCreatedAt r)),
            (''payment_instructions'', encodeInstructions (rsInstructions r))])"

text \<open>
  \<^verbatim>\<open>json.Unmarshal\<close> into a field: an absent or null member keeps the zero value, a member of
  another type is an error (\<open>None\<close>).
\<close>

definition decode_string :: "details \<Rightarrow> string \<Rightarrow> string option" where
  "decode_string m k =
     (case lookup m k of
        None \<Rightarrow> Some [] | Some GNil \<Rightarrow> Some [] | Some (GStr s) \<Rightarrow> Some s | _ \<Rightarrow> None)"

definition decode_string_ptr :: "details \<Rightarrow> string \<Rightarrow> string option option" where
  "decode_string_ptr m k =
     (case lookup m k of
        None \<Rightarrow> Some None | Some GNil \<Rightarrow> Some None | Some (GStr s) \<Rightarrow> Some (Some s) | _ \<Rightarrow> None)"

definition decode_int :: "details \<Rightarrow> string \<Rightarrow> int option" where
  "decode_int m k =
     (case lookup m k of
        None \<Rightarrow> Some 0 | Some GNil \<Rightarrow> Some 0
      | Some (GInt i) \<Rightarrow> if is_int64 i then Some i else None | _ \<Rightarrow> None)"

definition decode_int_ptr :: "details \<Rightarrow> string \<Rightarrow> int option option" where
  "decode_int_ptr m k =
     (case lookup m k of
        None \<Rightarrow> Some None | Some GNil \<Rightarrow> Some None
      | Some (GInt i) \<Rightarrow> if is_int64 i then Some (Some i) else None | _ \<Rightarrow> None)"

definition decode_time :: "details \<Rightarrow> string \<Rightarrow> time option" where
  "decode_time m k =
     (case lookup m k of
        None \<Rightarrow> Some zero_time | Some GNil \<Rightarrow> Some zero_time | Some (GTime t) \<Rightarrow> Some t
      | _ \<Rightarrow> None)"

definition decodeInstructions :: "gval option \<Rightarrow> payment_instructions_resource option" where
  "decodeInstructions v =
     (let m = (case v of None \<Rightarrow> Some [] | Some GNil \<Rightarrow> Some [] | Some (GMap m) \<Rightarrow> Some m
               | _ \<Rightarrow> None)
      in case m of None \<Rightarrow> None
         | Some m \<Rightarrow>
             (case (decode_string m ''address'', decode_string m ''address_scheme'',
                    decode_int m ''derivation_index'', decode_int_ptr m ''chain_id'',
                    decode_string_ptr m ''token_standard'', decode_string_ptr m ''token_contract'',
                    decode_int_ptr m ''token_decimals'') of
                (Some a, Some s, Some i, Some c, Some t, Some k, Some d) \<Rightarrow>
                  Some \<lparr>piAddress = a, piScheme = s, piIndex = i, piChain = c, piStandard = t,
                        piContract = k, piDecimals = d\<rparr>
              | _ \<Rightarrow> None))"

definition decodeResource :: "gval \<Rightarrow> resource option" where
  "decodeResource v =
     (case (case v of GMap m \<Rightarrow> Some m | GNil \<Rightarrow> Some [] | _ \<Rightarrow> None) of
        Some m \<Rightarrow>
          (case (decode_string m ''id'', decode_string m ''status'', decode_string m ''chain'',
                 decode_string m ''network'', decode_string m ''asset'',
                 decode_string_ptr m ''expected_amount_minor'', decode_time m ''expires_at'',
                 decode_time m ''created_at'',
                 decodeInstructions (lookup m ''payment_instructions'')) of
             (Some i, Some s, Some c, Some n, Some a, Some e, Some x, Some t, Some p) \<Rightarrow>
               Some \<lparr>rsID = i, rsStatus = s, rsChain = c, rsNetwork = n, rsAsset = a,
                     rsExpectedAmountMinor = e, rsExpiresAt = x, rsCreatedAt = t,
                     rsInstructions = p\<rparr>
           | _ \<Rightarrow> None)
      | None \<Rightarrow> None)"

subsection \<open>Create\<close>

definition sameKey :: "idempotency_scope \<Rightarrow> string \<Rightarrow> idempotency_row \<Rightarrow> bool" where
  "sameKey scope key r =
     (idScopePrincipal r = isPrincipalID scope \<and> idScopeMethod r = isHTTPMethod scope \<and>
      idScopePath r = isHTTPPath scope \<and> idKey r = key)"

definition keyConflict :: "string \<Rightarrow> app_error" where
  "keyConflict key =
     NewConflict ''idempotency_key_conflict''
       ''Idempotency key reused with different request payload''
       [(''idempotency_key'', GStr key)]"

definition payloadInvalid :: "pg \<Rightarrow> idempotency_row \<Rightarrow> app_error" where
  "payloadInvalid pg r =
     NewInternal ''idempotency_payload_invalid'' ''stored idempotency payload is invalid''
       [(''error'', GStr (pgViolation pg ''json'')), (''resource_id'', GStr (idResourceID r))]"

text \<open>The lookup, with and without \<^verbatim>\<open>FOR UPDATE\<close>.\<close>

definition findIdempotencyRecord ::
  "pg \<Rightarrow> string \<Rightarrow> idempotency_scope \<Rightarrow> string \<Rightarrow> db \<Rightarrow> idempotency_row option res" where
  "findIdempotencyRecord pg stmt scope key s =
     (case pgFault pg stmt key of
        Some e \<Rightarrow> Inl (dbError ''idempotency_record_query_failed''
          ''failed to query idempotency record'' e)
      | None \<Rightarrow> Inr (find (sameKey scope key) (dbIdempotency s)))"

definition replayOf :: "pg \<Rightarrow> string \<Rightarrow> string \<Rightarrow> idempotency_row \<Rightarrow> resource res" where
  "replayOf pg key hash r =
     (if idRequestHash r \<noteq> hash then Inl (keyConflict key)
      else case decodeResource (idResponsePayload r) of
          None \<Rightarrow> Inl (payloadInvalid pg r)
        | Some resource \<Rightarrow> Inr resource)"

definition loadReplayResource ::
  "pg \<Rightarrow> idempotency_scope \<Rightarrow> string \<Rightarrow> string \<Rightarrow> db \<Rightarrow> resource option res" where
  "loadReplayResource pg scope key hash s =
     (case findIdempotencyRecord pg ''replay'' scope key s of
        Inl e \<Rightarrow> Inl e
      | Inr None \<Rightarrow> Inr None
      | Inr (Some r) \<Rightarrow>
          (case replayOf pg key hash r of Inl e \<Rightarrow> Inl e | Inr x \<Rightarrow> Inr (Some x)))"

definition lockWallet :: "pg \<Rightarrow> string \<Rightarrow> db \<Rightarrow> wallet_row res" where
  "lockWallet pg wid s =
     (case pgFault pg ''wallet'' wid of
        Some e \<Rightarrow> Inl (NewInternal ''wallet_account_query_failed'' ''failed to query wallet account''
          [(''error'', GStr e), (''wallet_account_id'', GStr wid)])
      | None \<Rightarrow>
          (case find (\<lambda>w. waID w = wid) (dbWallets s) of
             None \<Rightarrow> Inl (NewInternal ''wallet_account_not_found'' ''wallet account mapping is invalid''
               [(''wallet_account_id'', GStr wid)])
           | Some w \<Rightarrow>
               Inr (w\<lparr>waChain := ToLower (waChain w), waNetwork := ToLower (waNetwork w)\<rparr>)))"

text \<open>The constraints of \<^verbatim>\<open>payment_requests\<close>: first the checks, then the unique indexes.\<close>

definition requestChecks :: "pg \<Rightarrow> request_row \<Rightarrow> bool" where
  "requestChecks pg r =
     (prStatus r \<in> {''pending'', ''detected'', ''confirmed'', ''reorged'', ''expired'', ''failed''} \<and>
      0 \<le> prDerivationIndex r \<and>
      (case prExpectedAmountMinor r of None \<Rightarrow> True | Some a \<Rightarrow> 0 \<le> a) \<and>
      pgFits pg 4096 (GMap (prMetadata r)) \<and>
      prCreatedAt r + 60 * second \<le> prExpiresAt r \<and>
      prExpiresAt r \<le> prCreatedAt r + 30 * 24 * hour)"

definition clashes :: "request_row \<Rightarrow> request_row \<Rightarrow> bool" where
  "clashes r q =
     (prID q = prID r \<or>
      prWalletAccountID q = prWalletAccountID r \<and> prDerivationIndex q = prDerivationIndex r \<or>
      prChain q = prChain r \<and> prNetwork q = prNetwork r \<and>
        prAddressCanonical q = prAddressCanonical r)"

definition requestRowOf ::
  "persistence_command \<Rightarrow> string \<Rightarrow> int \<Rightarrow> string \<Rightarrow> int option \<Rightarrow> request_row" where
  "requestRowOf c wid idx address amount =
     \<lparr>prID = pcResourceID c, prWalletAccountID = wid, prChain = pcChain c,
      prNetwork = pcNetwork c, prAsset = pcAsset c, prStatus = pcStatus c,
      prExpectedAmountMinor = amount, prAddressCanonical = address,
      prAddressScheme = ceAddressScheme (pcSnapshot c), prDerivationIndex = idx,
      prChainID = ceChainID (pcSnapshot c), prTokenStandard = ceTokenStandard (pcSnapshot c),
      prTokenContract = ceTokenContract (pcSnapshot c),
      prTokenDecimals = ceTokenDecimals (pcSnapshot c), prMetadata = pcMetadata c,
      prWebhookURL = Some (pcWebhookURL c), prExpiresAt = pcExpiresAt c,
      prCreatedAt = pcCreatedAt c, prUpdatedAt = pcCreatedAt c, prLeaseOwner = None,
      prLeaseUntil = None\<rparr>"

text \<open>
  The insert on the tables \<open>s\<close>: the row to be added, or the error. The amount is a text the
  server converts to \<^verbatim>\<open>numeric\<close>.
\<close>

definition insertPaymentRequest ::
  "pg \<Rightarrow> persistence_command \<Rightarrow> string \<Rightarrow> int \<Rightarrow> string \<Rightarrow> db \<Rightarrow> request_row res" where
  "insertPaymentRequest pg c wid idx address s =
     (let failed = (\<lambda>e. Inl (dbError ''payment_request_insert_failed''
                              ''failed to insert payment request'' e))
      in case pgFault pg ''insert_request'' (pcResourceID c) of
           Some e \<Rightarrow> failed e
         | None \<Rightarrow>
             (case (case pcExpectedAmountMinor c of None \<Rightarrow> Some None
                    | Some a \<Rightarrow> map_option Some (pgNumeric pg a)) of
                None \<Rightarrow> failed (pgViolation pg ''numeric'')
              | Some amount \<Rightarrow>
                  (let row = requestRowOf c wid idx address amount
                   in if \<not> requestChecks pg row then failed (pgViolation pg ''payment_requests'')
                      else if list_ex (clashes row) (dbRequests s) then
                        Inl (dbError ''address_allocation_conflict''
                          ''payment request uniqueness constraint failed''
                          (pgViolation pg ''unique''))
                      else Inr row)))"

definition idempotencyRowOf :: "persistence_command \<Rightarrow> gval \<Rightarrow> idempotency_row" where
  "idempotencyRowOf c payload =
     \<lparr>idScopePrincipal = isPrincipalID (pcScope c), idScopeMethod = isHTTPMethod (pcScope c),
      idScopePath = isHTTPPath (pcScope c), idKey = pcKey c, idRequestHash = pcRequestHash c,
      idHashAlgorithm = pcHashAlgorithm c, idResourceID = pcResourceID c,
      idResponsePayload = payload, idCreatedAt = pcCreatedAt c,
      idExpiresAt = pcIdempotencyExpiresAt c\<rparr>"

definition insertIdempotencyRecord ::
  "pg \<Rightarrow> persistence_command \<Rightarrow> gval \<Rightarrow> db \<Rightarrow> idempotency_row res" where
  "insertIdempotencyRecord pg c payload s =
     (let failed = (\<lambda>e. Inl (dbError ''idempotency_record_insert_failed''
                              ''failed to insert idempotency record'' e))
      in case pgFault pg ''insert_idempotency'' (pcKey c) of
           Some e \<Rightarrow> failed e
         | None \<Rightarrow>
             if pcIdempotencyExpiresAt c < pcCreatedAt c + 24 * hour then
               failed (pgViolation pg ''idempotency_records_expires_minimum'')
             else if list_ex (sameKey (pcScope c) (pcKey c)) (dbIdempotency s) then
               Inl (keyConflict (pcKey c))
             else Inr (idempotencyRowOf c payload))"

definition bumpWalletNextIndex ::
  "pg \<Rightarrow> string \<Rightarrow> int \<Rightarrow> time \<Rightarrow> db \<Rightarrow> wallet_row list res" where
  "bumpWalletNextIndex pg wid prev updatedAt s =
     (let hit = (\<lambda>w. waID w = wid \<and> waNextIndex w = prev);
          failed = (\<lambda>code msg e. Inl (NewInternal code msg
                      [(''error'', GStr e), (''wallet_account_id'', GStr wid)]))
      in case pgFault pg ''bump'' wid of
           Some e \<Rightarrow> failed ''wallet_account_update_failed'' ''failed to advance wallet account index'' e
         | None \<Rightarrow>
             if \<exists>w \<in> set (dbWallets s). hit w \<and> waNextIndex w + 1 > max_int64 then
               failed ''wallet_account_update_failed'' ''failed to advance wallet account index''
                 (pgViolation pg ''bigint'')
             else case pgFault pg ''bump_rows'' wid of
                 Some e \<Rightarrow> failed ''wallet_account_update_result_failed''
                   ''failed to verify wallet account index update'' e
               | None \<Rightarrow>
                   if length (filter hit (dbWallets s)) \<noteq> 1 then
                     Inl (NewInternal ''wallet_account_index_conflict''
                       ''wallet account index update conflict'' [(''wallet_account_id'', GStr wid)])
                   else Inr (map (\<lambda>w. if hit w
                          then w\<lparr>waNextIndex := waNextIndex w + 1, waUpdatedAt := updatedAt\<rparr> else w)
                          (dbWallets s)))"

text \<open>
  The part after the two inserts. \<open>commitFailed\<close> stands for a commit that did not happen; the
  writes are then lost with the transaction.
\<close>

definition commitFailed :: "string \<Rightarrow> string \<Rightarrow> app_error" where
  "commitFailed msg e = dbError ''payment_request_tx_commit_failed'' msg e"

definition resourceOf :: "persistence_command \<Rightarrow> int \<Rightarrow> string \<Rightarrow> resource" where
  "resourceOf c idx address =
     \<lparr>rsID = pcResourceID c, rsStatus = pcStatus c, rsChain = pcChain c, rsNetwork = pcNetwork c,
      rsAsset = pcAsset c, rsExpectedAmountMinor = pcExpectedAmountMinor c,
      rsExpiresAt = pcExpiresAt c, rsCreatedAt = pcCreatedAt c,
      rsInstructions = \<lparr>piAddress = address, piScheme = ceAddressScheme (pcSnapshot c),
        piIndex = idx, piChain = ceChainID (pcSnapshot c),
        piStandard = ceTokenStandard (pcSnapshot c), piContract = ceTokenContract (pcSnapshot c),
        piDecimals = ceTokenDecimals (pcSnapshot c)\<rparr>\<rparr>"

definition raceLost ::
  "pg \<Rightarrow> (nat \<Rightarrow> db \<Rightarrow> db) \<Rightarrow> persistence_command \<Rightarrow> app_error \<Rightarrow> db \<Rightarrow> create_result res \<times> db" where
  "raceLost pg world c err s =
     (let s' = world 4 s
      in case loadReplayResource pg (pcScope c) (pcKey c) (pcRequestHash c) s' of
           Inl e \<Rightarrow> (Inl e, s')
         | Inr (Some r) \<Rightarrow> (Inr \<lparr>crResource = r, crReplayed = True\<rparr>, s')
         | Inr None \<Rightarrow> (Inl err, s'))"

definition commitCreation ::
  "pg \<Rightarrow> persistence_command \<Rightarrow> resource \<Rightarrow> request_row \<Rightarrow> idempotency_row \<Rightarrow> wallet_row list \<Rightarrow>
   db \<Rightarrow> create_result res \<times> db" where
  "commitCreation pg c resource row record wallets s =
     (case pgFault pg ''commit'' (pcKey c) of
        Some e \<Rightarrow> (Inl (commitFailed ''failed to commit payment request transaction'' e), s)
      | None \<Rightarrow>
          (Inr \<lparr>crResource = resource, crReplayed = False\<rparr>,
           s\<lparr>dbRequests := dbRequests s @ [row], dbIdempotency := dbIdempotency s @ [record],
             dbWallets := wallets\<rparr>))"

definition recordCreation ::
  "pg \<Rightarrow> (nat \<Rightarrow> db \<Rightarrow> db) \<Rightarrow> persistence_command \<Rightarrow> wallet_row \<Rightarrow> resolve_output \<Rightarrow> db \<Rightarrow>
   create_result res \<times> db" where
  "recordCreation pg world c w allocation s =
     (let s2 = world 2 s; resource = resourceOf c (waNextIndex w) (roAddress allocation)
      in case insertPaymentRequest pg c (waID w) (waNextIndex w) (roAddressCanonical allocation) s2 of
           Inl e \<Rightarrow> (Inl e, s2)
         | Inr row \<Rightarrow>
             (let s3 = world 3 s2
              in case insertIdempotencyRecord pg c (encodeResource resource) s3 of
                   Inl e \<Rightarrow>
                     if Code e = ''idempotency_key_conflict'' then raceLost pg world c e s3
                     else (Inl e, s3)
                 | Inr record \<Rightarrow>
                     (let s4 = world 4 s3
                      in case bumpWalletNextIndex pg (waID w) (waNextIndex w) (pcCreatedAt c) s4 of
                           Inl e \<Rightarrow> (Inl e, s4)
                         | Inr wallets \<Rightarrow> commitCreation pg c resource row record wallets s4)))"

definition resolveInputOf :: "persistence_command \<Rightarrow> wallet_row \<Rightarrow> resolve_input" where
  "resolveInputOf c w =
     \<lparr>riChain = pcChain c, riNetwork = pcNetwork c,
      riAddressScheme = ceAddressScheme (pcSnapshot c), riKeysetID = waKeysetID w,
      riDerivationPathTemplate = waDerivationPathTemplate w, riDerivationIndex = waNextIndex w,
      riChainID = ceChainID (pcSnapshot c)\<rparr>"

definition allocate ::
  "pg \<Rightarrow> (nat \<Rightarrow> db \<Rightarrow> db) \<Rightarrow> (resolve_input \<Rightarrow> resolve_output res) \<Rightarrow> persistence_command \<Rightarrow> db \<Rightarrow>
   create_result res \<times> db" where
  "allocate pg world resolve c s =
     (let s1 = world 1 s
      in case lockWallet pg (ceWalletAccountID (pcSnapshot c)) s1 of
           Inl e \<Rightarrow> (Inl e, s1)
         | Inr w \<Rightarrow>
             if \<not> waIsActive w then
               (Inl (NewInternal ''wallet_account_inactive'' ''wallet account is inactive''
                  [(''wallet_account_id'', GStr (waID w))]), s1)
             else if waChain w \<noteq> pcChain c \<or> waNetwork w \<noteq> pcNetwork c then
               (Inl (NewInternal ''asset_catalog_wallet_mismatch''
                  ''asset catalog mapping does not match wallet account chain/network''
                  [(''wallet_account_id'', GStr (waID w)), (''wallet_chain'', GStr (waChain w)),
                   (''wallet_network'', GStr (waNetwork w)), (''request_chain'', GStr (pcChain c)),
                   (''request_network'', GStr (pcNetwork c))]), s1)
             else case resolve (resolveInputOf c w) of
                 Inl e \<Rightarrow> (Inl e, s1)
               | Inr allocation \<Rightarrow> recordCreation pg world c w allocation s1)"

definition Create ::
  "pg \<Rightarrow> (nat \<Rightarrow> db \<Rightarrow> db) \<Rightarrow> (resolve_input \<Rightarrow> resolve_output res) option \<Rightarrow> persistence_command \<Rightarrow>
   db \<Rightarrow> create_result res \<times> db" where
  "Create pg world resolver c s =
     (case resolver of
        None \<Rightarrow> (Inl (NewInternal ''payment_address_resolver_missing''
                  ''payment address resolver is required'' []), s)
      | Some resolve \<Rightarrow>
          (case pgFault pg ''begin'' (pcKey c) of
             Some e \<Rightarrow> (Inl (dbError ''payment_request_tx_begin_failed''
               ''failed to start payment request transaction'' e), s)
           | None \<Rightarrow>
               (case findIdempotencyRecord pg ''find'' (pcScope c) (pcKey c) s of
                  Inl e \<Rightarrow> (Inl e, s)
                | Inr None \<Rightarrow> allocate pg world resolve c s
                | Inr (Some record) \<Rightarrow>
                    (case replayOf pg (pcKey c) (pcRequestHash c) record of
                       Inl e \<Rightarrow> (Inl e, s)
                     | Inr resource \<Rightarrow>
                         (case pgFault pg ''commit'' (pcKey c) of
                            Some e \<Rightarrow> (Inl (commitFailed
                              ''failed to commit idempotency replay transaction'' e), s)
                          | None \<Rightarrow> (Inr \<lparr>crResource = resource, crReplayed = True\<rparr>, s))))))"

subsection \<open>Read model\<close>

text \<open>\<^verbatim>\<open>read_model.go\<close>; \<open>keccak\<close> is the hash of the address checksum.\<close>

definition requestQueryFailed :: "string \<Rightarrow> string \<Rightarrow> string \<Rightarrow> app_error" where
  "requestQueryFailed msg k e =
     NewInternal ''payment_request_query_failed'' msg [(''error'', GStr e), (''id'', GStr k)]"

definition resourceOfRow :: "(string \<Rightarrow> nat list) \<Rightarrow> request_row \<Rightarrow> resource res" where
  "resourceOfRow keccak r =
     (let chain = ToLower (prChain r)
      in case tokenContractColumn
             (NewInternal ''payment_request_token_contract_invalid'' ''stored token contract is invalid''
                [(''id'', GStr (prID r))]) (prTokenContract r) of
           Inl e \<Rightarrow> Inl e
         | Inr contract \<Rightarrow>
             (case FormatAddressForResponse keccak chain (prAddressCanonical r) of
                Inl e \<Rightarrow> Inl e
              | Inr address \<Rightarrow>
                  Inr \<lparr>rsID = prID r, rsStatus = prStatus r, rsChain = chain,
                       rsNetwork = ToLower (prNetwork r), rsAsset = ToUpper (prAsset r),
                       rsExpectedAmountMinor = map_option FormatInt (prExpectedAmountMinor r),
                       rsExpiresAt = prExpiresAt r, rsCreatedAt = prCreatedAt r,
                       rsInstructions = \<lparr>piAddress = address, piScheme = prAddressScheme r,
                         piIndex = prDerivationIndex r, piChain = prChainID r,
                         piStandard = prTokenStandard r, piContract = contract,
                         piDecimals = prTokenDecimals r\<rparr>\<rparr>))"

definition GetByID :: "pg \<Rightarrow> (string \<Rightarrow> nat list) \<Rightarrow> string \<Rightarrow> db \<Rightarrow> resource option res" where
  "GetByID pg keccak k s =
     (case pgFault pg ''get'' k of
        Some e \<Rightarrow> Inl (requestQueryFailed ''failed to query payment request'' k e)
      | None \<Rightarrow>
          (case find (\<lambda>r. prID r = k) (dbRequests s) of
             None \<Rightarrow> Inr None
           | Some r \<Rightarrow>
               (case resourceOfRow keccak r of Inl e \<Rightarrow> Inl e | Inr x \<Rightarrow> Inr (Some x))))"

record settlement_resource =
  srEvidenceRef :: string
  srAmountMinor :: string
  srConfirmations :: int
  srBlockHeight :: "int option"
  srBlockHash :: "string option"
  srIsCanonical :: bool
  srMetadata :: details
  srFirstSeenAt :: time
  srLastSeenAt :: time
  srUpdatedAt :: time

definition settlementResourceOf :: "pg \<Rightarrow> settlement_row \<Rightarrow> settlement_resource" where
  "settlementResourceOf pg r =
     \<lparr>srEvidenceRef = TrimSpace (stEvidenceRef r),
      srAmountMinor = TrimSpace (FormatInt (stAmountMinor r)),
      srConfirmations = stConfirmations r, srBlockHeight = stBlockHeight r,
      srBlockHash = map_option TrimSpace (stBlockHash r), srIsCanonical = stIsCanonical r,
      srMetadata = decode_object (pgNumber pg) (stMetadata r),
      srFirstSeenAt = stFirstSeenAt r, srLastSeenAt = stLastSeenAt r,
      srUpdatedAt = stUpdatedAt r\<rparr>"

text \<open>The left join gives one row of nulls for a request without settlements.\<close>

definition ListSettlements :: "pg \<Rightarrow> string \<Rightarrow> db \<Rightarrow> (settlement_resource list \<times> bool) res" where
  "ListSettlements pg k s =
     (case pgFault pg ''list_settlements'' k of
        Some e \<Rightarrow> Inl (requestQueryFailed ''failed to query payment request settlements'' k e)
      | None \<Rightarrow>
          (let found = list_ex (\<lambda>r. prID r = k) (dbRequests s);
               rows = (if found then sort_key stFirstSeenAt (sort_key stEvidenceRef
                         (filter (\<lambda>r. stRequestID r = k) (dbSettlements s))) else [])
           in case pgFault pg ''list_settlements_rows'' k of
                Some e \<Rightarrow> Inl (requestQueryFailed ''failed while iterating payment request settlements'' k e)
              | None \<Rightarrow> Inr (map (settlementResourceOf pg) rows, found)))"

end
