(* ===== verification/CreateRequest.thy ===== *)
theory CreateRequest
  imports CreateStore
begin

text \<open>
  The use case that creates a payment request (\<^verbatim>\<open>create_payment_request_use_case.go\<close>,
  \<^verbatim>\<open>create_payment_request_input.go\<close>, \<^verbatim>\<open>create_payment_request_hashing.go\<close>), the use cases that
  read requests and assets, and the HTTP handlers in front of them.
\<close>

subsection \<open>Ports and parameters\<close>

record create_command =
  ccScope :: idempotency_scope
  ccKey :: string
  ccChain :: string
  ccNetwork :: string
  ccAsset :: string
  ccWebhookURL :: string
  ccExpectedAmountMinor :: "string option"
  ccExpiresInSeconds :: "int option"
  ccMetadata :: details

record derive_input =
  diChain :: string
  diNetwork :: string
  diAddressScheme :: string
  diKeysetID :: string
  diDerivationPathTemplate :: string
  diDerivationIndex :: int
  diChainID :: "int option"

record derived_address =
  daAddressRaw :: string
  daAddressScheme :: string
  daChainID :: "int option"

text \<open>A gateway may tell the mode it runs in.\<close>

record wallet_gateway =
  wgDerive :: "derive_input \<Rightarrow> derived_address res"
  wgMode :: "string option"

text \<open>
  What the use case holds, and what it takes from outside the repository: parsing and rendering
  of URLs, Keccak-256, SHA-256 in hexadecimal, the text of numbers that are not literals, random
  bytes (or the error of the source) for an identifier prefix, and the clock.
\<close>

record create_env =
  enCatalog :: "(db \<Rightarrow> catalog_entry list res) option"
  enRepository :: "((resolve_input \<Rightarrow> resolve_output res) option \<Rightarrow> persistence_command \<Rightarrow> db \<Rightarrow>
                      create_result res \<times> db) option"
  enWallet :: "wallet_gateway option"
  enAllowList :: "string list"
  enParse :: "string \<Rightarrow> url option"
  enRender :: "url \<Rightarrow> string"
  enKeccak :: "string \<Rightarrow> nat list"
  enDigest :: "string \<Rightarrow> string"
  enLeaf :: "gval \<Rightarrow> string"
  enRandom :: "string \<Rightarrow> string + nat list"
  enNow :: time

definition detectAllocationMode :: "wallet_gateway option \<Rightarrow> string" where
  "detectAllocationMode gateway =
     (case gateway of
        None \<Rightarrow> ''unknown''
      | Some g \<Rightarrow>
          (case wgMode g of
             None \<Rightarrow> ''unknown''
           | Some m \<Rightarrow>
               let mode = ToLower (TrimSpace m) in if mode = [] then ''unknown'' else mode))"

definition validateDependencies :: "create_env \<Rightarrow> app_error option" where
  "validateDependencies u =
     (if enCatalog u = None then
        Some (NewInternal ''asset_catalog_read_model_missing'' ''asset catalog read model is required'' [])
      else if enRepository u = None then
        Some (NewInternal ''payment_request_repository_missing''
          ''payment request repository is required'' [])
      else if enWallet u = None then
        Some (NewInternal ''wallet_allocation_gateway_missing''
          ''wallet allocation gateway is required'' [])
      else if enAllowList u = [] then
        Some (NewInternal ''webhook_url_allowlist_missing'' ''webhook url allowlist is required'' [])
      else None)"

subsection \<open>Identifiers\<close>

definition hex_string :: "nat list \<Rightarrow> string" where
  "hex_string bs = concat (map (\<lambda>b. [hex_char (b div 16 mod 16), hex_char (b mod 16)]) bs)"

definition generateID :: "create_env \<Rightarrow> string \<Rightarrow> string res" where
  "generateID u idPrefix =
     (case enRandom u idPrefix of
        Inl e \<Rightarrow> Inl (NewInternal ''id_generation_failed'' ''failed to generate random identifier''
          [(''error'', GStr e)])
      | Inr bytes \<Rightarrow> Inr (idPrefix @ ToLower (hex_string bytes)))"

subsection \<open>Idempotency scope\<close>

definition split_slash :: "string \<Rightarrow> string list" where
  "split_slash s = foldr (\<lambda>c parts. if c = CHR ''/'' then [] # parts
                            else (c # hd parts) # tl parts) s [[]]"

text \<open>\<^verbatim>\<open>path.Clean\<close> of a rooted path.\<close>

definition clean_component :: "string list \<Rightarrow> string \<Rightarrow> string list" where
  "clean_component acc part =
     (if part = [] \<or> part = ''.'' then acc
      else if part = ''..'' then butlast acc
      else acc @ [part])"

definition path_clean :: "string \<Rightarrow> string" where
  "path_clean s =
     (case foldl clean_component [] (split_slash s) of
        [] \<Rightarrow> ''/''
      | parts \<Rightarrow> concat (map (\<lambda>p. CHR ''/'' # p) parts))"

definition normalizePath :: "string \<Rightarrow> string" where
  "normalizePath raw = path_clean (''/'' @ dropWhile (\<lambda>c. c = CHR ''/'') (TrimSpace raw))"

definition normalizeIdempotencyScope :: "idempotency_scope \<Rightarrow> idempotency_scope" where
  "normalizeIdempotencyScope scope =
     (let principalID = TrimSpace (isPrincipalID scope);
          httpMethod = ToUpper (TrimSpace (isHTTPMethod scope));
          httpPath = TrimSpace (isHTTPPath scope)
      in \<lparr>isPrincipalID = (if principalID = [] then ''anonymous'' else principalID),
          isHTTPMethod = (if httpMethod = [] then ''POST'' else httpMethod),
          isHTTPPath = normalizePath (if httpPath = [] then ''/v1/payment-requests'' else httpPath)\<rparr>)"

subsection \<open>Normalising the command\<close>

definition normalizeMetadata :: "create_env \<Rightarrow> details \<Rightarrow> details res" where
  "normalizeMetadata u input =
     (if input = [] then Inr []
      else case json_marshal (enLeaf u) (GMap input) of
          None \<Rightarrow> Inl (invalid_request ''metadata must be valid JSON object'' (field ''metadata''))
        | Some encoded \<Rightarrow>
            if length encoded > 4096 then
              Inl (invalid_request ''metadata payload exceeds 4KB''
                (field ''metadata'' @ [(''max_bytes'', GInt 4096)]))
            else (case use_number (enLeaf u) (GMap input) of
                GMap normalized \<Rightarrow> Inr normalized | _ \<Rightarrow> Inr []))"

record normalized_input =
  niChain :: string
  niNetwork :: string
  niAsset :: string
  niWebhookURL :: string
  niExpectedAmountMinor :: "string option"
  niExpiresInSeconds :: "int option"
  niMetadata :: details
  niScope :: idempotency_scope
  niKey :: string

definition normalizeAmount :: "string option \<Rightarrow> string option res" where
  "normalizeAmount v =
     (case v of
        None \<Rightarrow> Inr None
      | Some raw \<Rightarrow>
          (case NormalizeExpectedAmountMinor raw of Inl e \<Rightarrow> Inl e | Inr a \<Rightarrow> Inr (Some a)))"

definition resolveKey :: "create_env \<Rightarrow> string \<Rightarrow> string res" where
  "resolveKey u raw =
     (let key = TrimSpace raw in if key = [] then generateID u ''auto_idem_'' else Inr key)"

definition normalizeCommand :: "create_env \<Rightarrow> create_command \<Rightarrow> normalized_input res" where
  "normalizeCommand u c =
     (case NormalizeChain (ccChain c) of Inl e \<Rightarrow> Inl e | Inr chain \<Rightarrow>
      (case NormalizeNetwork (ccNetwork c) of Inl e \<Rightarrow> Inl e | Inr network \<Rightarrow>
      (case NormalizeAsset (ccAsset c) of Inl e \<Rightarrow> Inl e | Inr asset \<Rightarrow>
      (case NormalizeWebhookURL (enParse u) (enRender u) (ccWebhookURL c) of
         Inl e \<Rightarrow> Inl e | Inr (webhookURL, webhookHost) \<Rightarrow>
       if \<not> IsWebhookHostAllowed webhookHost (enAllowList u) then
         Inl (NewValidation ''webhook_url_not_allowed'' ''webhook_url host is not allowlisted''
           (field ''webhook_url''))
       else
      (case normalizeAmount (ccExpectedAmountMinor c) of Inl e \<Rightarrow> Inl e | Inr amount \<Rightarrow>
      (case normalizeMetadata u (ccMetadata c) of Inl e \<Rightarrow> Inl e | Inr metadata \<Rightarrow>
      (case resolveKey u (ccKey c) of Inl e \<Rightarrow> Inl e | Inr key \<Rightarrow>
         Inr \<lparr>niChain = chain, niNetwork = network, niAsset = asset, niWebhookURL = webhookURL,
              niExpectedAmountMinor = amount, niExpiresInSeconds = ccExpiresInSeconds c,
              niMetadata = metadata, niScope = normalizeIdempotencyScope (ccScope c),
              niKey = key\<rparr>)))))))"

subsection \<open>Asset lookup\<close>

definition matchesTuple :: "string \<Rightarrow> string \<Rightarrow> string \<Rightarrow> catalog_entry \<Rightarrow> bool" where
  "matchesTuple chain network asset e =
     (ceChain e = chain \<and> ceNetwork e = network \<and> EqualFold (ceAsset e) asset)"

definition classifyUnsupportedTuple ::
  "catalog_entry list \<Rightarrow> string \<Rightarrow> string \<Rightarrow> string \<Rightarrow> app_error" where
  "classifyUnsupportedTuple entries chain network asset =
     (if \<not> list_ex (\<lambda>e. ceChain e = chain \<and> ceNetwork e = network) entries then
        NewValidation ''unsupported_network'' ''network is not supported for the selected chain''
          [(''chain'', GStr chain), (''network'', GStr network)]
      else
        NewValidation ''unsupported_asset''
          ''asset is not supported for the selected chain and network''
          [(''chain'', GStr chain), (''network'', GStr network), (''asset'', GStr asset)])"

definition loadAssetCatalogEntry ::
  "(db \<Rightarrow> catalog_entry list res) \<Rightarrow> string \<Rightarrow> string \<Rightarrow> string \<Rightarrow> db \<Rightarrow> catalog_entry res" where
  "loadAssetCatalogEntry catalog chain network asset s =
     (case catalog s of
        Inl e \<Rightarrow> Inl e
      | Inr entries \<Rightarrow>
          (case find (matchesTuple chain network asset) entries of
             None \<Rightarrow> Inl (classifyUnsupportedTuple entries chain network asset)
           | Some entry \<Rightarrow> Inr entry))"

subsection \<open>Request hash\<close>

definition hashPayload ::
  "string \<Rightarrow> string \<Rightarrow> string \<Rightarrow> string \<Rightarrow> string option \<Rightarrow> int \<Rightarrow> details \<Rightarrow> gval" where
  "hashPayload chain network asset webhookURL amount expires metadata =
     GMap ([(''chain'', GStr chain), (''network'', GStr network), (''asset'', GStr asset),
            (''webhook_url'', GStr webhookURL), (''expires_in_seconds'', GInt expires)] @
           optional ''expected_amount_minor'' GStr amount @
           (if metadata = [] then [] else [(''metadata'', GMap metadata)]))"

text \<open>The canonical writer has no error on the values a payload is made of.\<close>

definition hashCreateRequest :: "create_env \<Rightarrow> normalized_input \<Rightarrow> int \<Rightarrow> string" where
  "hashCreateRequest u i expires =
     enDigest u (writeCanonicalJSON (enLeaf u)
       (hashPayload (niChain i) (niNetwork i) (niAsset i) (niWebhookURL i)
          (niExpectedAmountMinor i) expires (niMetadata i)))"

definition buildPersistenceCommand ::
  "create_env \<Rightarrow> normalized_input \<Rightarrow> catalog_entry \<Rightarrow> persistence_command res" where
  "buildPersistenceCommand u i entry =
     (case ResolveExpiresInSeconds (niExpiresInSeconds i) (ceDefaultExpiresInSeconds entry) of
        Inl e \<Rightarrow> Inl e
      | Inr expires \<Rightarrow>
          (let createdAt = enNow u; expiresAt = createdAt + expires * second
           in case generateID u ''pr_'' of
                Inl e \<Rightarrow> Inl e
              | Inr resourceID \<Rightarrow>
                  Inr \<lparr>pcResourceID = resourceID, pcScope = niScope i, pcKey = niKey i,
                       pcRequestHash = hashCreateRequest u i expires, pcHashAlgorithm = ''sha256'',
                       pcStatus = statusString StatusPending, pcChain = niChain i,
                       pcNetwork = niNetwork i, pcAsset = niAsset i,
                       pcWebhookURL = niWebhookURL i,
                       pcExpectedAmountMinor = niExpectedAmountMinor i,
                       pcMetadata = niMetadata i, pcExpiresAt = expiresAt,
                       pcIdempotencyExpiresAt = ResolveIdempotencyExpiry createdAt expiresAt,
                       pcCreatedAt = createdAt, pcSnapshot = entry,
                       pcAllocationMode = detectAllocationMode (enWallet u)\<rparr>))"

subsection \<open>Resolving the address\<close>

definition deriveInputOf :: "resolve_input \<Rightarrow> derive_input" where
  "deriveInputOf i =
     \<lparr>diChain = riChain i, diNetwork = riNetwork i, diAddressScheme = riAddressScheme i,
      diKeysetID = riKeysetID i, diDerivationPathTemplate = riDerivationPathTemplate i,
      diDerivationIndex = riDerivationIndex i, diChainID = riChainID i\<rparr>"

definition chainMismatch :: "int option \<Rightarrow> int option \<Rightarrow> bool" where
  "chainMismatch expected actual =
     (case (expected, actual) of (Some e, Some a) \<Rightarrow> e \<noteq> a | _ \<Rightarrow> False)"

definition resolvePaymentAddress ::
  "create_env \<Rightarrow> wallet_gateway \<Rightarrow> resolve_input \<Rightarrow> resolve_output res" where
  "resolvePaymentAddress u gateway i =
     (case wgDerive gateway (deriveInputOf i) of
        Inl e \<Rightarrow> Inl e
      | Inr derived \<Rightarrow>
          if daAddressScheme derived \<noteq> [] \<and>
             \<not> EqualFold (daAddressScheme derived) (riAddressScheme i) then
            Inl (NewInternal ''invalid_configuration''
              ''wallet gateway returned incompatible address scheme''
              [(''expected_address_scheme'', GStr (riAddressScheme i)),
               (''actual_address_scheme'', GStr (daAddressScheme derived))])
          else if chainMismatch (riChainID i) (daChainID derived) then
            Inl (NewInternal ''invalid_configuration''
              ''wallet gateway returned incompatible chain id''
              [(''expected_chain_id'', GInt (the (riChainID i))),
               (''actual_chain_id'', GInt (the (daChainID derived)))])
          else
            (case NormalizeAddressForStorage (riChain i) (daAddressRaw derived) of
               Inl e \<Rightarrow> Inl e
             | Inr canonical \<Rightarrow>
                 (case FormatAddressForResponse (enKeccak u) (riChain i) canonical of
                    Inl e \<Rightarrow> Inl e
                  | Inr address \<Rightarrow> Inr \<lparr>roAddressCanonical = canonical, roAddress = address\<rparr>)))"

subsection \<open>Execute\<close>

definition createExecute ::
  "create_env \<Rightarrow> create_command \<Rightarrow> db \<Rightarrow> create_result res \<times> db" where
  "createExecute u c s =
     (case validateDependencies u of
        Some e \<Rightarrow> (Inl e, s)
      | None \<Rightarrow>
          (case normalizeCommand u c of
             Inl e \<Rightarrow> (Inl e, s)
           | Inr i \<Rightarrow>
               (case loadAssetCatalogEntry (the (enCatalog u)) (niChain i) (niNetwork i)
                       (niAsset i) s of
                  Inl e \<Rightarrow> (Inl e, s)
                | Inr entry \<Rightarrow>
                    (case buildPersistenceCommand u i entry of
                       Inl e \<Rightarrow> (Inl e, s)
                     | Inr command \<Rightarrow>
                         the (enRepository u)
                           (Some (resolvePaymentAddress u (the (enWallet u)))) command s))))"

subsection \<open>Queries\<close>

definition listAssets :: "(db \<Rightarrow> catalog_entry list res) option \<Rightarrow> db \<Rightarrow> catalog_entry list res" where
  "listAssets readModel s =
     (case readModel of
        None \<Rightarrow> Inl (NewInternal ''asset_catalog_read_model_missing''
          ''asset catalog read model is required'' [])
      | Some m \<Rightarrow> m s)"

definition readModelMissing :: app_error where
  "readModelMissing = NewInternal ''payment_request_read_model_missing''
     ''payment request read model is required'' []"

definition idRequired :: app_error where
  "idRequired = invalid_request ''payment request id is required'' (field ''id'')"

definition requestNotFound :: "string \<Rightarrow> app_error" where
  "requestNotFound k = NewNotFound ''payment_request_not_found'' ''payment request was not found''
     [(''id'', GStr k)]"

definition getPaymentRequest ::
  "(string \<Rightarrow> db \<Rightarrow> resource option res) option \<Rightarrow> string \<Rightarrow> db \<Rightarrow> resource res" where
  "getPaymentRequest readModel queryID s =
     (case readModel of
        None \<Rightarrow> Inl readModelMissing
      | Some getByID \<Rightarrow>
          (let k = TrimSpace queryID
           in if k = [] then Inl idRequired
              else case getByID k s of
                  Inl e \<Rightarrow> Inl e
                | Inr None \<Rightarrow> Inl (requestNotFound k)
                | Inr (Some r) \<Rightarrow> Inr r))"

definition getPaymentRequestSettlements ::
  "(string \<Rightarrow> db \<Rightarrow> (settlement_resource list \<times> bool) res) option \<Rightarrow> string \<Rightarrow> db \<Rightarrow>
   (string \<times> settlement_resource list) res" where
  "getPaymentRequestSettlements readModel queryID s =
     (case readModel of
        None \<Rightarrow> Inl readModelMissing
      | Some listSettlements \<Rightarrow>
          (let k = TrimSpace queryID
           in if k = [] then Inl idRequired
              else case listSettlements k s of
                  Inl e \<Rightarrow> Inl e
                | Inr (rows, found) \<Rightarrow>
                    if \<not> found then Inl (requestNotFound k) else Inr (k, rows)))"

subsection \<open>HTTP\<close>

text \<open>The status of an error response, and of the responses of the handlers.\<close>

fun errorStatus :: "err_type \<Rightarrow> int" where
  "errorStatus TypeValidation = 400"
| "errorStatus TypeNotFound = 404"
| "errorStatus TypeConflict = 409"
| "errorStatus TypeInternal = 500"

record http_response =
  hrStatus :: int
  hrHeaders :: "(string \<times> string) list"
  hrBody :: gval

definition writeAppError :: "app_error \<Rightarrow> http_response" where
  "writeAppError e =
     \<lparr>hrStatus = errorStatus (ErrType e), hrHeaders = [],
      hrBody = GMap [(''error'', GMap ([(''code'', GStr (Code e)), (''message'', GStr (Message e))] @
                (if Details e = [] then [] else [(''details'', GMap (Details e))])))]\<rparr>"

record create_payload =
  cpChain :: string
  cpNetwork :: string
  cpAsset :: string
  cpWebhookURL :: string
  cpExpectedAmountMinor :: "string option"
  cpExpiresInSeconds :: "int option"
  cpMetadata :: details

text \<open>
  \<open>decoded\<close> is what the JSON decoder makes of the body: the error of the first value, or the
  payload and whether the body ends after it.
\<close>

definition parseCreatePaymentRequestPayload ::
  "string + create_payload \<times> bool \<Rightarrow> create_payload res" where
  "parseCreatePaymentRequestPayload decoded =
     (case decoded of
        Inl e \<Rightarrow> Inl (invalid_request ''request body must be valid JSON'' [(''error'', GStr e)])
      | Inr (p, atEnd) \<Rightarrow>
          if \<not> atEnd then
            Inl (invalid_request ''request body must contain a single JSON object'' [])
          else if TrimSpace (cpWebhookURL p) = [] then
            Inl (invalid_request ''webhook_url is required'' (field ''webhook_url''))
          else Inr (p\<lparr>cpWebhookURL := TrimSpace (cpWebhookURL p)\<rparr>))"

definition createCommandOf ::
  "string \<Rightarrow> string \<Rightarrow> string \<Rightarrow> create_payload \<Rightarrow> create_command" where
  "createCommandOf principalID httpMethod key p =
     \<lparr>ccScope = \<lparr>isPrincipalID = TrimSpace principalID, isHTTPMethod = httpMethod,
        isHTTPPath = ''/v1/payment-requests''\<rparr>,
      ccKey = TrimSpace key, ccChain = cpChain p, ccNetwork = cpNetwork p, ccAsset = cpAsset p,
      ccWebhookURL = cpWebhookURL p, ccExpectedAmountMinor = cpExpectedAmountMinor p,
      ccExpiresInSeconds = cpExpiresInSeconds p, ccMetadata = cpMetadata p\<rparr>"

text \<open>The handler, with the use case \<open>execute\<close>.\<close>

definition CreatePaymentRequest ::
  "(create_command \<Rightarrow> db \<Rightarrow> create_result res \<times> db) \<Rightarrow> string \<Rightarrow> string \<Rightarrow> string \<Rightarrow>
   string + create_payload \<times> bool \<Rightarrow> db \<Rightarrow> http_response \<times> db" where
  "CreatePaymentRequest execute principalID httpMethod key decoded s =
     (case parseCreatePaymentRequestPayload decoded of
        Inl e \<Rightarrow> (writeAppError e, s)
      | Inr p \<Rightarrow>
          (case execute (createCommandOf principalID httpMethod key p) s of
             (Inl e, s') \<Rightarrow> (writeAppError e, s')
           | (Inr out, s') \<Rightarrow>
               (\<lparr>hrStatus = (if crReplayed out then 200 else 201),
                 hrHeaders = (''Location'', ''/v1/payment-requests/'' @ rsID (crResource out)) #
                   (if crReplayed out then [(''X-Idempotency-Replayed'', ''true'')] else []),
                 hrBody = encodeResource (crResource out)\<rparr>, s')))"

definition GetPaymentRequestHandler :: "(string \<Rightarrow> db \<Rightarrow> resource res) \<Rightarrow> string \<Rightarrow> db \<Rightarrow> http_response" where
  "GetPaymentRequestHandler execute k s =
     (case execute k s of
        Inl e \<Rightarrow> writeAppError e
      | Inr r \<Rightarrow> \<lparr>hrStatus = 200, hrHeaders = [], hrBody = encodeResource r\<rparr>)"

end
