(* ===== verification/OutboxOps.thy ===== *)
theory OutboxOps
  imports WebhookOutbox CreateRequest
begin

text \<open>
  The operators' side of the webhook outbox: the use cases \<^verbatim>\<open>requeue_webhook_dlq_event\<close>,
  \<^verbatim>\<open>cancel_webhook_outbox_event\<close>, \<^verbatim>\<open>list_webhook_dlq_events\<close> and
  \<^verbatim>\<open>get_webhook_outbox_overview\<close>, and the HTTP handlers with their admin authentication
  (\<^verbatim>\<open>webhook_outbox_controller.go\<close>). A handler takes the request's header values, the instant of
  the server and the tables.
\<close>

subsection \<open>Use cases\<close>

type_synonym 's requeue_port = "string \<Rightarrow> string \<Rightarrow> time \<Rightarrow> 's \<Rightarrow> mutation_result res \<times> 's"
type_synonym 's cancel_port = "string \<Rightarrow> string \<Rightarrow> string \<Rightarrow> time \<Rightarrow> 's \<Rightarrow> mutation_result res \<times> 's"

record requeue_output =
  rqEventID :: string
  rqDeliveryStatus :: string
  rqUpdatedAt :: time

record cancel_output =
  cnEventID :: string
  cnDeliveryStatus :: string
  cnLastError :: string
  cnUpdatedAt :: time

definition outboxRepositoryMissing :: app_error where
  "outboxRepositoryMissing =
     NewInternal ''webhook_outbox_repository_missing'' ''webhook outbox repository is required'' []"

definition outboxReadModelMissing :: app_error where
  "outboxReadModelMissing =
     NewInternal ''webhook_outbox_read_model_missing'' ''webhook outbox read model is required'' []"

text \<open>The checks both commands start with.\<close>

definition operatorCommand :: "string \<Rightarrow> string \<Rightarrow> app_error option" where
  "operatorCommand eventID operatorID =
     (if TrimSpace eventID = [] then
        Some (invalid_request ''event_id is required'' (field ''event_id''))
      else if TrimSpace operatorID = [] then
        Some (invalid_request ''x_principal_id is required'' (field ''x_principal_id''))
      else None)"

definition mutationOutcome :: "string \<Rightarrow> string \<Rightarrow> string \<Rightarrow> mutation_result \<Rightarrow> app_error option" where
  "mutationOutcome code msg eventID r =
     (if \<not> mrFound r then
        Some (NewNotFound ''webhook_outbox_event_not_found'' ''webhook outbox event was not found''
          [(''event_id'', GStr eventID)])
      else if \<not> mrUpdated r then
        Some (NewConflict code msg
          [(''event_id'', GStr eventID), (''delivery_status'', GStr (mrCurrentStatus r))])
      else None)"

definition requeueExecute ::
  "'s requeue_port option \<Rightarrow> time \<Rightarrow> string \<Rightarrow> string \<Rightarrow> time \<Rightarrow> 's \<Rightarrow> requeue_output res \<times> 's" where
  "requeueExecute repository clock eventID operatorID at s =
     (case repository of
        None \<Rightarrow> (Inl outboxRepositoryMissing, s)
      | Some requeue \<Rightarrow>
          (case operatorCommand eventID operatorID of
             Some e \<Rightarrow> (Inl e, s)
           | None \<Rightarrow>
               (let now = (if IsZero at then clock else at)
                in case requeue (TrimSpace eventID) (TrimSpace operatorID) now s of
                     (Inl e, s') \<Rightarrow> (Inl e, s')
                   | (Inr result, s') \<Rightarrow>
                       (case mutationOutcome ''webhook_outbox_event_not_requeueable''
                               ''webhook outbox event is not requeueable'' (TrimSpace eventID) result of
                          Some e \<Rightarrow> (Inl e, s')
                        | None \<Rightarrow>
                            (Inr \<lparr>rqEventID = TrimSpace eventID, rqDeliveryStatus = ''pending'',
                                  rqUpdatedAt = now\<rparr>, s')))))"

definition normalizeWebhookManualCancelReason :: "string \<Rightarrow> string" where
  "normalizeWebhookManualCancelReason reason =
     (let normalized = TrimSpace reason
      in if normalized = [] then ''manual_cancelled'' else ''manual_cancelled: '' @ normalized)"

definition cancelExecute ::
  "'s cancel_port option \<Rightarrow> time \<Rightarrow> string \<Rightarrow> string \<Rightarrow> string \<Rightarrow> time \<Rightarrow> 's \<Rightarrow> cancel_output res \<times> 's" where
  "cancelExecute repository clock eventID operatorID reason at s =
     (case repository of
        None \<Rightarrow> (Inl outboxRepositoryMissing, s)
      | Some cancel \<Rightarrow>
          (case operatorCommand eventID operatorID of
             Some e \<Rightarrow> (Inl e, s)
           | None \<Rightarrow>
               (let now = (if IsZero at then clock else at);
                    lastError = normalizeWebhookManualCancelReason reason
                in case cancel (TrimSpace eventID) (TrimSpace operatorID) lastError now s of
                     (Inl e, s') \<Rightarrow> (Inl e, s')
                   | (Inr result, s') \<Rightarrow>
                       (case mutationOutcome ''webhook_outbox_event_not_cancellable''
                               ''webhook outbox event is not cancellable'' (TrimSpace eventID) result of
                          Some e \<Rightarrow> (Inl e, s')
                        | None \<Rightarrow>
                            (Inr \<lparr>cnEventID = TrimSpace eventID, cnDeliveryStatus = ''failed'',
                                  cnLastError = lastError, cnUpdatedAt = now\<rparr>, s')))))"

definition listDLQExecute ::
  "(int \<Rightarrow> 's \<Rightarrow> dlq_event list res) option \<Rightarrow> int \<Rightarrow> 's \<Rightarrow> dlq_event list res" where
  "listDLQExecute readModel queryLimit s =
     (case readModel of
        None \<Rightarrow> Inl outboxReadModelMissing
      | Some listDLQ \<Rightarrow>
          (let limit = (if queryLimit = 0 then 50 else queryLimit)
           in if limit < 1 \<or> limit > 200 then
                Inl (invalid_request ''limit must be between 1 and 200'' (field ''limit''))
              else listDLQ limit s))"

definition overviewExecute ::
  "(time \<Rightarrow> 's \<Rightarrow> outbox_overview res) option \<Rightarrow> time \<Rightarrow> time \<Rightarrow> 's \<Rightarrow> outbox_overview res" where
  "overviewExecute readModel clock at s =
     (case readModel of
        None \<Rightarrow> Inl outboxReadModelMissing
      | Some getOverview \<Rightarrow> getOverview (if IsZero at then clock else at) s)"

subsection \<open>Authentication\<close>

definition cloneNonEmptyStrings :: "string list \<Rightarrow> string list" where
  "cloneNonEmptyStrings values = filter (\<lambda>v. v \<noteq> []) (map TrimSpace values)"

definition extractAdminToken :: "string \<Rightarrow> string" where
  "extractAdminToken header =
     (let authHeader = TrimSpace header
      in if length authHeader \<ge> 7 \<and> EqualFold (take 7 authHeader) ''Bearer ''
         then TrimSpace (drop 7 authHeader) else [])"

record auth_error =
  aeStatus :: int
  aeCode :: string
  aeMessage :: string

text \<open>The comparison takes constant time; its value is equality.\<close>

definition requireAdminAuth :: "string list \<Rightarrow> string \<Rightarrow> auth_error option" where
  "requireAdminAuth adminKeys header =
     (if adminKeys = [] then
        Some \<lparr>aeStatus = 503, aeCode = ''webhook_ops_auth_not_configured'',
              aeMessage = ''webhook ops authentication is not configured''\<rparr>
      else
        (let token = extractAdminToken header
         in if token = [] then
              Some \<lparr>aeStatus = 401, aeCode = ''unauthorized'',
                    aeMessage = ''admin authentication is required''\<rparr>
            else if list_ex (\<lambda>candidate. token = candidate) adminKeys then None
            else Some \<lparr>aeStatus = 401, aeCode = ''unauthorized'',
                       aeMessage = ''admin authentication failed''\<rparr>))"

definition writeAuthError :: "auth_error \<Rightarrow> http_response" where
  "writeAuthError e =
     \<lparr>hrStatus = aeStatus e, hrHeaders = [],
      hrBody = GMap [(''error'', GMap [(''code'', GStr (aeCode e)), (''message'', GStr (aeMessage e))])]\<rparr>"

subsection \<open>Handlers\<close>

text \<open>The use cases are functions of the command; \<open>None\<close> is a missing one.\<close>

record 's outbox_controller =
  ocOverview :: "(time \<Rightarrow> 's \<Rightarrow> outbox_overview res) option"
  ocListDLQ :: "(int \<Rightarrow> 's \<Rightarrow> dlq_event list res) option"
  ocRequeue :: "(string \<Rightarrow> string \<Rightarrow> time \<Rightarrow> 's \<Rightarrow> requeue_output res \<times> 's) option"
  ocCancel :: "(string \<Rightarrow> string \<Rightarrow> string \<Rightarrow> time \<Rightarrow> 's \<Rightarrow> cancel_output res \<times> 's) option"
  ocAdminKeys :: "string list"

definition okResponse :: "gval \<Rightarrow> http_response" where
  "okResponse body = \<lparr>hrStatus = 200, hrHeaders = [], hrBody = body\<rparr>"

definition encodeOverview :: "outbox_overview \<Rightarrow> gval" where
  "encodeOverview out =
     GMap ([(''pending_count'', GInt (ovPending out)), (''pending_ready_count'', GInt (ovPendingReady out)),
            (''retrying_count'', GInt (ovRetrying out)), (''failed_count'', GInt (ovFailed out)),
            (''delivered_count'', GInt (ovDelivered out))] @
           optional ''oldest_pending_created_at'' GTime (ovOldestPendingCreatedAt out) @
           optional ''oldest_pending_age_seconds'' GInt (ovOldestPendingAgeSec out))"

definition encodeDLQEvent :: "dlq_event \<Rightarrow> gval" where
  "encodeDLQEvent e =
     GMap ([(''event_id'', GStr (dqEventID e)), (''event_type'', GStr (dqEventType e)),
            (''payment_request_id'', GStr (dqPaymentRequestID e)),
            (''destination_url'', GStr (dqDestinationURL e)), (''attempts'', GInt (dqAttempts e)),
            (''max_attempts'', GInt (dqMaxAttempts e))] @
           optional ''last_error'' GStr (dqLastError e) @
           [(''created_at'', GTime (dqCreatedAt e)), (''updated_at'', GTime (dqUpdatedAt e))] @
           optional ''delivered_at'' GTime (dqDeliveredAt e))"

definition OverviewHandler :: "'s outbox_controller \<Rightarrow> string \<Rightarrow> time \<Rightarrow> 's \<Rightarrow> http_response" where
  "OverviewHandler c header now s =
     (case requireAdminAuth (ocAdminKeys c) header of
        Some e \<Rightarrow> writeAuthError e
      | None \<Rightarrow>
          (case ocOverview c of
             None \<Rightarrow> writeAppError (NewInternal ''webhook_outbox_overview_use_case_missing''
               ''webhook outbox overview use case is required'' [])
           | Some execute \<Rightarrow>
               (case execute now s of
                  Inl e \<Rightarrow> writeAppError e
                | Inr out \<Rightarrow> okResponse (encodeOverview out))))"

definition ListDLQHandler :: "'s outbox_controller \<Rightarrow> string \<Rightarrow> string \<Rightarrow> 's \<Rightarrow> http_response" where
  "ListDLQHandler c header rawLimit s =
     (case requireAdminAuth (ocAdminKeys c) header of
        Some e \<Rightarrow> writeAuthError e
      | None \<Rightarrow>
          (case ocListDLQ c of
             None \<Rightarrow> writeAppError (NewInternal ''webhook_outbox_dlq_use_case_missing''
               ''webhook outbox dlq use case is required'' [])
           | Some execute \<Rightarrow>
               (let raw = TrimSpace rawLimit
                in if raw \<noteq> [] \<and> snd (ParseInt raw) then
                     writeAppError (invalid_request ''limit must be an integer'' (field ''limit''))
                   else case execute (if raw = [] then 0 else fst (ParseInt raw)) s of
                       Inl e \<Rightarrow> writeAppError e
                     | Inr events \<Rightarrow>
                         okResponse (GMap [(''events'', GArr (map encodeDLQEvent events))]))))"

definition RequeueHandler ::
  "'s outbox_controller \<Rightarrow> string \<Rightarrow> string \<Rightarrow> string \<Rightarrow> time \<Rightarrow> 's \<Rightarrow> http_response \<times> 's" where
  "RequeueHandler c header operatorID eventID now s =
     (case requireAdminAuth (ocAdminKeys c) header of
        Some e \<Rightarrow> (writeAuthError e, s)
      | None \<Rightarrow>
          (case ocRequeue c of
             None \<Rightarrow> (writeAppError (NewInternal ''webhook_outbox_requeue_use_case_missing''
               ''webhook outbox requeue use case is required'' []), s)
           | Some execute \<Rightarrow>
               (case execute (TrimSpace eventID) (TrimSpace operatorID) now s of
                  (Inl e, s') \<Rightarrow> (writeAppError e, s')
                | (Inr out, s') \<Rightarrow>
                    (okResponse (GMap [(''event_id'', GStr (rqEventID out)),
                       (''delivery_status'', GStr (rqDeliveryStatus out)),
                       (''updated_at'', GTime (rqUpdatedAt out))]), s'))))"

text \<open>
  \<open>decoded\<close> is what the decoder makes of the body of a cancellation: \<open>None\<close> for an empty body.
\<close>

definition parseWebhookCancelPayload ::
  "(string + string \<times> bool) option \<Rightarrow> string res" where
  "parseWebhookCancelPayload decoded =
     (case decoded of
        None \<Rightarrow> Inr []
      | Some (Inl e) \<Rightarrow> Inl (invalid_request ''request body must be valid JSON'' [(''error'', GStr e)])
      | Some (Inr (reason, atEnd)) \<Rightarrow>
          if \<not> atEnd then
            Inl (invalid_request ''request body must contain a single JSON object'' [])
          else Inr (TrimSpace reason))"

definition CancelHandler ::
  "'s outbox_controller \<Rightarrow> string \<Rightarrow> string \<Rightarrow> string \<Rightarrow> (string + string \<times> bool) option \<Rightarrow> time \<Rightarrow> 's \<Rightarrow>
   http_response \<times> 's" where
  "CancelHandler c header operatorID eventID decoded now s =
     (case requireAdminAuth (ocAdminKeys c) header of
        Some e \<Rightarrow> (writeAuthError e, s)
      | None \<Rightarrow>
          (case ocCancel c of
             None \<Rightarrow> (writeAppError (NewInternal ''webhook_outbox_cancel_use_case_missing''
               ''webhook outbox cancel use case is required'' []), s)
           | Some execute \<Rightarrow>
               (case parseWebhookCancelPayload decoded of
                  Inl e \<Rightarrow> (writeAppError e, s)
                | Inr reason \<Rightarrow>
                    (case execute (TrimSpace eventID) (TrimSpace operatorID) reason now s of
                       (Inl e, s') \<Rightarrow> (writeAppError e, s')
                     | (Inr out, s') \<Rightarrow>
                         (okResponse (GMap [(''event_id'', GStr (cnEventID out)),
                            (''delivery_status'', GStr (cnDeliveryStatus out)),
                            (''last_error'', GStr (cnLastError out)),
                            (''updated_at'', GTime (cnUpdatedAt out))]), s')))))"

text \<open>The controller as the container wires it.\<close>

definition outboxController :: "pg \<Rightarrow> time \<Rightarrow> string list \<Rightarrow> db outbox_controller" where
  "outboxController pg clock keys =
     \<lparr>ocOverview = Some (overviewExecute (Some (GetOverview pg)) clock),
      ocListDLQ = Some (listDLQExecute (Some (ListDLQ pg))),
      ocRequeue = Some (requeueExecute (Some (RequeueFailedByEventID pg)) clock),
      ocCancel = Some (cancelExecute (Some (CancelByEventID pg)) clock),
      ocAdminKeys = cloneNonEmptyStrings keys\<rparr>"

end
