(* ===== verification/OutboxOpsProps.thy ===== *)
theory OutboxOpsProps
  imports OutboxOps
begin

text \<open>
  The operators' actions on the outbox are gated and exact: who may act, which status code every
  case gets, and what happens to the table.
\<close>

definition requeued :: "string \<Rightarrow> time \<Rightarrow> outbox_row \<Rightarrow> outbox_row" where
  "requeued operator at r =
     r\<lparr>oeDeliveryStatus := ''pending'', oeAttempts := 0, oeNextAttemptAt := at,
       oeLastError := None, oeDeliveredAt := None, oeLeaseOwner := None, oeLeaseUntil := None,
       oeManualLastAction := Some ''requeue'', oeManualLastActor := Some operator,
       oeManualLastAt := Some at, oeUpdatedAt := at\<rparr>"

definition cancelled :: "string \<Rightarrow> string \<Rightarrow> time \<Rightarrow> outbox_row \<Rightarrow> outbox_row" where
  "cancelled operator reason at r =
     r\<lparr>oeDeliveryStatus := ''failed'',
       oeLastError := Some (TrimSpace (normalizeWebhookManualCancelReason reason)),
       oeLeaseOwner := None, oeLeaseUntil := None, oeManualLastAction := Some ''cancel'',
       oeManualLastActor := Some operator, oeManualLastAt := Some at, oeUpdatedAt := at\<rparr>"

definition eventIn :: "string \<Rightarrow> string list \<Rightarrow> db \<Rightarrow> bool" where
  "eventIn eid statuses s =
     list_ex (\<lambda>r. oeEventID r = eid \<and> oeDeliveryStatus r \<in> set statuses) (dbOutbox s)"

definition knownEvent :: "string \<Rightarrow> db \<Rightarrow> bool" where
  "knownEvent eid s = list_ex (\<lambda>r. oeEventID r = eid) (dbOutbox s)"

text \<open>The status code of an action on an event that must be in one of \<open>statuses\<close>.\<close>

definition actionStatus ::
  "string list \<Rightarrow> string \<Rightarrow> string \<Rightarrow> string \<Rightarrow> bool \<Rightarrow> string option \<Rightarrow> string list \<Rightarrow> db \<Rightarrow> int" where
  "actionStatus keys header operator eid badBody fault statuses s =
     (if cloneNonEmptyStrings keys = [] then 503
      else if extractAdminToken header = [] \<or>
              \<not> list_ex (\<lambda>k. TrimSpace k = extractAdminToken header) keys then 401
      else if badBody \<or> TrimSpace eid = [] \<or> TrimSpace operator = [] then 400
      else if fault \<noteq> None then 500
      else if \<not> knownEvent (TrimSpace eid) s then 404
      else if \<not> eventIn (TrimSpace eid) statuses s then 409
      else 200)"

lemma auth_cases:
  "requireAdminAuth (cloneNonEmptyStrings keys) header =
     (if cloneNonEmptyStrings keys = [] then
        Some \<lparr>aeStatus = 503, aeCode = ''webhook_ops_auth_not_configured'',
              aeMessage = ''webhook ops authentication is not configured''\<rparr>
      else if extractAdminToken header = [] then
        Some \<lparr>aeStatus = 401, aeCode = ''unauthorized'',
              aeMessage = ''admin authentication is required''\<rparr>
      else if list_ex (\<lambda>k. TrimSpace k = extractAdminToken header) keys then None
      else Some \<lparr>aeStatus = 401, aeCode = ''unauthorized'',
                 aeMessage = ''admin authentication failed''\<rparr>)"
proof -
  have "extractAdminToken header \<noteq> [] \<Longrightarrow>
      list_ex (\<lambda>c. extractAdminToken header = c) (cloneNonEmptyStrings keys) =
      list_ex (\<lambda>k. TrimSpace k = extractAdminToken header) keys"
    unfolding cloneNonEmptyStrings_def list_ex_iff by auto (metis imageI)
  then show ?thesis by (auto simp: requireAdminAuth_def Let_def)
qed

lemma mutation_response:
  "mutationWithStatus pg stmt eid allowed change s =
     (case pgFault pg stmt eid of
        Some e \<Rightarrow> (Inl (updateFailed e), s)
      | None \<Rightarrow>
          (Inr \<lparr>mrFound = knownEvent eid s,
                mrUpdated = list_ex (\<lambda>r. oeEventID r = eid \<and> allowed (oeDeliveryStatus r)) (dbOutbox s),
                mrCurrentStatus = ToLower (TrimSpace
                  (case filter (\<lambda>r. oeEventID r = eid) (dbOutbox s) of [] \<Rightarrow> [] | r # _ \<Rightarrow> oeDeliveryStatus r))\<rparr>,
           s\<lparr>dbOutbox := map (\<lambda>r. if oeEventID r = eid \<and> allowed (oeDeliveryStatus r) then change r else r)
              (dbOutbox s)\<rparr>))"
  by (auto simp: mutationWithStatus_def Let_def knownEvent_def filter_empty_conv list_ex_iff
      split: option.split)

text \<open>An update that selects no row leaves the tables as they are.\<close>

lemma no_hit:
  assumes "\<not> list_ex p (dbOutbox s)"
  shows "s\<lparr>dbOutbox := map (\<lambda>r. if p r then f r else r) (dbOutbox s)\<rparr> = s"
proof -
  have "map (\<lambda>r. if p r then f r else r) (dbOutbox s) = dbOutbox s"
    using assms by (auto simp: list_ex_iff intro: map_idI)
  then show ?thesis by simp
qed

lemma unknown_no_hit: "\<not> knownEvent eid s \<Longrightarrow> \<not> list_ex (\<lambda>r. oeEventID r = eid \<and> q r) (dbOutbox s)"
  by (auto simp: knownEvent_def list_ex_iff)

definition resultStatus :: "'a res \<Rightarrow> int" where
  "resultStatus r = (case r of Inl e \<Rightarrow> errorStatus (ErrType e) | Inr _ \<Rightarrow> 200)"

lemma hrStatus_simps [simp]:
  "hrStatus (writeAppError e) = errorStatus (ErrType e)"
  "hrStatus (okResponse b) = 200" "hrStatus (writeAuthError a) = aeStatus a"
  by (simp_all add: writeAppError_def okResponse_def writeAuthError_def)

lemma errorStatus_simps [simp]:
  "errorStatus (ErrType (invalid_request m d)) = 400"
  "errorStatus (ErrType (NewNotFound c m d)) = 404"
  "errorStatus (ErrType (NewConflict c m d)) = 409"
  "errorStatus (ErrType (NewInternal c m d)) = 500"
  "errorStatus (ErrType (updateFailed e)) = 500"
  by (simp_all add: invalid_request_def updateFailed_def err_simps)

text \<open>A mutation and the outcome the use cases derive from it.\<close>

definition act :: "pg \<Rightarrow> string \<Rightarrow> string \<Rightarrow> string \<Rightarrow> string \<Rightarrow> (string \<Rightarrow> bool) \<Rightarrow> (outbox_row \<Rightarrow> outbox_row) \<Rightarrow> 'a \<Rightarrow>
    db \<Rightarrow> 'a res \<times> db" where
  "act pg stmt code msg eid allowed change out s =
     (case mutationWithStatus pg stmt eid allowed change s of
        (Inl e, s') \<Rightarrow> (Inl e, s')
      | (Inr result, s') \<Rightarrow>
          (case mutationOutcome code msg eid result of
             Some e \<Rightarrow> (Inl e, s')
           | None \<Rightarrow> (Inr out, s')))"

lemma act_cases:
  fixes eid :: string and s :: db and allowed :: "string \<Rightarrow> bool"
  defines "hit \<equiv> \<lambda>r. oeEventID r = eid \<and> allowed (oeDeliveryStatus r)"
  shows "resultStatus (fst (act pg stmt code msg eid allowed change out s)) =
      (if pgFault pg stmt eid \<noteq> None then 500 else if \<not> knownEvent eid s then 404
       else if \<not> list_ex hit (dbOutbox s) then 409 else 200) \<and>
    snd (act pg stmt code msg eid allowed change out s) =
      (if pgFault pg stmt eid = None \<and> list_ex hit (dbOutbox s)
       then s\<lparr>dbOutbox := map (\<lambda>r. if hit r then change r else r) (dbOutbox s)\<rparr> else s)"
proof (cases "pgFault pg stmt eid")
  case (Some e)
  then show ?thesis by (simp add: act_def mutation_response resultStatus_def)
next
  case None
  show ?thesis
  proof (cases "list_ex hit (dbOutbox s)")
    case True
    then have "knownEvent eid s" by (auto simp: hit_def knownEvent_def list_ex_iff)
    then show ?thesis using True None
      by (simp add: act_def mutation_response mutationOutcome_def resultStatus_def hit_def)
  next
    case False
    then show ?thesis using None no_hit [OF False, of change]
      by (simp add: act_def mutation_response mutationOutcome_def resultStatus_def hit_def)
  qed
qed

lemma requeueExecute_act:
  "requeueExecute (Some (RequeueFailedByEventID pg)) clock eid operator now s =
     (case operatorCommand eid operator of
        Some e \<Rightarrow> (Inl e, s)
      | None \<Rightarrow> act pg ''requeue'' ''webhook_outbox_event_not_requeueable''
          ''webhook outbox event is not requeueable'' (TrimSpace eid) (\<lambda>st. st = ''failed'')
          (requeued (TrimSpace operator) (if IsZero now then clock else now))
          \<lparr>rqEventID = TrimSpace eid, rqDeliveryStatus = ''pending'',
           rqUpdatedAt = (if IsZero now then clock else now)\<rparr> s)"
  by (simp add: requeueExecute_def act_def RequeueFailedByEventID_def requeued_def [abs_def] Let_def
      cong: option.case_cong)

lemma cancelExecute_act:
  "cancelExecute (Some (CancelByEventID pg)) clock eid operator reason now s =
     (case operatorCommand eid operator of
        Some e \<Rightarrow> (Inl e, s)
      | None \<Rightarrow> act pg ''cancel'' ''webhook_outbox_event_not_cancellable''
          ''webhook outbox event is not cancellable'' (TrimSpace eid)
          (\<lambda>st. st = ''pending'' \<or> st = ''failed'')
          (cancelled (TrimSpace operator) reason (if IsZero now then clock else now))
          \<lparr>cnEventID = TrimSpace eid, cnDeliveryStatus = ''failed'',
           cnLastError = normalizeWebhookManualCancelReason reason,
           cnUpdatedAt = (if IsZero now then clock else now)\<rparr> s)"
  by (simp add: cancelExecute_def act_def CancelByEventID_def cancelled_def [abs_def] Let_def
      cong: option.case_cong)

lemma operatorCommand_cases:
  "operatorCommand eid operator =
     (if TrimSpace eid = [] then Some (invalid_request ''event_id is required'' (field ''event_id''))
      else if TrimSpace operator = [] then
        Some (invalid_request ''x_principal_id is required'' (field ''x_principal_id''))
      else None)"
  by (rule operatorCommand_def)

text \<open>The handlers, once the caller is authenticated and the body is accepted.\<close>

lemma controller_simps:
  "ocRequeue (outboxController pg clock keys) = Some (requeueExecute (Some (RequeueFailedByEventID pg)) clock)"
  "ocCancel (outboxController pg clock keys) = Some (cancelExecute (Some (CancelByEventID pg)) clock)"
  "ocAdminKeys (outboxController pg clock keys) = cloneNonEmptyStrings keys"
  by (simp_all add: outboxController_def)

lemma RequeueHandler_open:
  assumes "requireAdminAuth (cloneNonEmptyStrings keys) header = None"
  shows "hrStatus (fst (RequeueHandler (outboxController pg clock keys) header operator eid now s)) =
      resultStatus (fst (requeueExecute (Some (RequeueFailedByEventID pg)) clock (TrimSpace eid)
        (TrimSpace operator) now s)) \<and>
    snd (RequeueHandler (outboxController pg clock keys) header operator eid now s) =
      snd (requeueExecute (Some (RequeueFailedByEventID pg)) clock (TrimSpace eid)
        (TrimSpace operator) now s)"
proof -
  obtain r s' where run: "requeueExecute (Some (RequeueFailedByEventID pg)) clock (TrimSpace eid)
      (TrimSpace operator) now s = (r, s')" by (rule prod.exhaust)
  then show ?thesis
    by (cases r) (simp_all only: RequeueHandler_def controller_simps assms option.case sum.case prod.case fst_conv
      snd_conv resultStatus_def hrStatus_simps)
qed

lemma CancelHandler_open:
  assumes "requireAdminAuth (cloneNonEmptyStrings keys) header = None"
    "parseWebhookCancelPayload body = Inr reason"
  shows "hrStatus (fst (CancelHandler (outboxController pg clock keys) header operator eid body now s)) =
      resultStatus (fst (cancelExecute (Some (CancelByEventID pg)) clock (TrimSpace eid)
        (TrimSpace operator) reason now s)) \<and>
    snd (CancelHandler (outboxController pg clock keys) header operator eid body now s) =
      snd (cancelExecute (Some (CancelByEventID pg)) clock (TrimSpace eid)
        (TrimSpace operator) reason now s)"
proof -
  obtain r s' where run: "cancelExecute (Some (CancelByEventID pg)) clock (TrimSpace eid)
      (TrimSpace operator) reason now s = (r, s')" by (rule prod.exhaust)
  then show ?thesis
    by (cases r) (simp_all only: CancelHandler_def controller_simps assms option.case sum.case prod.case fst_conv
      snd_conv resultStatus_def hrStatus_simps)
qed

lemma body_error:
  assumes "parseWebhookCancelPayload body = Inl e"
  shows "errorStatus (ErrType e) = 400"
proof -
  have "case parseWebhookCancelPayload body of Inl e \<Rightarrow> errorStatus (ErrType e) = 400 | Inr _ \<Rightarrow> True"
    by (simp add: parseWebhookCancelPayload_def split: option.split sum.split prod.split)
  then show ?thesis using assms by simp
qed

lemma actionStatus_auth:
  "case requireAdminAuth (cloneNonEmptyStrings keys) header of
     Some e \<Rightarrow> actionStatus keys header operator eid bad fault statuses s = aeStatus e \<and> aeStatus e \<noteq> 200
   | None \<Rightarrow> actionStatus keys header operator eid bad fault statuses s =
      (if bad \<or> TrimSpace eid = [] \<or> TrimSpace operator = [] then 400
       else if fault \<noteq> None then 500
       else if \<not> knownEvent (TrimSpace eid) s then 404
       else if \<not> eventIn (TrimSpace eid) statuses s then 409
       else 200)"
  unfolding auth_cases actionStatus_def by simp

lemma actionStatus_closed:
  assumes "requireAdminAuth (cloneNonEmptyStrings keys) header = Some e"
  shows "actionStatus keys header operator eid bad fault statuses s = aeStatus e \<and> aeStatus e \<noteq> 200"
  using actionStatus_auth [of keys header] unfolding assms option.case by blast

lemma actionStatus_open:
  assumes "requireAdminAuth (cloneNonEmptyStrings keys) header = None"
  shows "actionStatus keys header operator eid bad fault statuses s =
    (if bad \<or> TrimSpace eid = [] \<or> TrimSpace operator = [] then 400
     else if fault \<noteq> None then 500
     else if \<not> knownEvent (TrimSpace eid) s then 404
     else if \<not> eventIn (TrimSpace eid) statuses s then 409
     else 200)"
  using actionStatus_auth [of keys header] unfolding assms option.case by blast

text \<open>What is left of both proofs: the cases of the status against those of the mutation.\<close>

lemma action_summary:
  assumes "resultStatus (fst X) = (if fault \<noteq> None then 500 else if \<not> known then 404
       else if \<not> hit then 409 else 200) \<and>
    snd X = (if fault = None \<and> hit then t else s)"
    "\<not> known \<Longrightarrow> \<not> hit" "\<not> bad"
  shows "resultStatus (fst (case if eid = [] then Some (invalid_request m d)
        else if operator = [] then Some (invalid_request m' d') else None of
          None \<Rightarrow> X | Some e \<Rightarrow> (Inl e, s))) =
      (if bad \<or> eid = [] \<or> operator = [] then 400 else if fault \<noteq> None then 500
       else if \<not> known then 404 else if \<not> hit then 409 else 200) \<and>
    snd (case if eid = [] then Some (invalid_request m d)
        else if operator = [] then Some (invalid_request m' d') else None of
          None \<Rightarrow> X | Some e \<Rightarrow> (Inl e, s)) =
      (if (if bad \<or> eid = [] \<or> operator = [] then 400 else if fault \<noteq> None then 500
       else if \<not> known then 404 else if \<not> hit then 409 else 200) = (200 :: int) then t else s)"
proof (cases "eid = [] \<or> operator = []")
  case True
  then have "(case if eid = [] then Some (invalid_request m d)
        else if operator = [] then Some (invalid_request m' d') else None of
          None \<Rightarrow> X | Some e \<Rightarrow> (Inl e, s)) = (Inl (if eid = [] then invalid_request m d
            else invalid_request m' d'), s)"
    by auto
  then show ?thesis using True by (simp add: resultStatus_def)
next
  case False
  then have "(case if eid = [] then Some (invalid_request m d)
        else if operator = [] then Some (invalid_request m' d') else None of
          None \<Rightarrow> X | Some e \<Rightarrow> (Inl e, s)) = X"
    by simp
  moreover have "(fault = None \<and> hit) =
      ((if fault \<noteq> None then 500 else if \<not> known then 404 else if \<not> hit then 409 else 200) = (200 :: int))"
    using assms(2) by auto
  ultimately show ?thesis using False assms(1,3) by simp
qed

lemma requeue_handler:
  "hrStatus (fst (RequeueHandler (outboxController pg clock keys) header operator eid now s)) =
      actionStatus keys header operator eid False (pgFault pg ''requeue'' (TrimSpace eid)) [''failed''] s \<and>
   snd (RequeueHandler (outboxController pg clock keys) header operator eid now s) =
      (if actionStatus keys header operator eid False (pgFault pg ''requeue'' (TrimSpace eid)) [''failed''] s
          = 200 then s\<lparr>dbOutbox := map (\<lambda>r.
           if oeEventID r = TrimSpace eid \<and> oeDeliveryStatus r = ''failed''
           then requeued (TrimSpace operator) (if IsZero now then clock else now) r else r) (dbOutbox s)\<rparr>
       else s)"
proof (cases "requireAdminAuth (cloneNonEmptyStrings keys) header")
  case (Some e)
  then show ?thesis
    using actionStatus_closed [OF Some] by (simp add: RequeueHandler_def outboxController_def)
next
  case None
  have ev: "eventIn (TrimSpace eid) [''failed''] s =
      list_ex (\<lambda>r. oeEventID r = TrimSpace eid \<and> oeDeliveryStatus r = ''failed'') (dbOutbox s)"
    by (simp add: eventIn_def)
  have known: "\<not> knownEvent (TrimSpace eid) s \<Longrightarrow> \<not> eventIn (TrimSpace eid) [''failed''] s"
    unfolding ev by (rule unknown_no_hit)
  note known = known [unfolded ev]
  show ?thesis
    unfolding RequeueHandler_open [OF None, THEN conjunct1] RequeueHandler_open [OF None, THEN conjunct2]
      actionStatus_open [OF None] requeueExecute_act operatorCommand_cases
    unfolding ev TrimSpace_idem
    by (rule action_summary [OF act_cases [where allowed = "\<lambda>st. st = ''failed''"] known]) simp_all
qed

lemma cancel_handler:
  "hrStatus (fst (CancelHandler (outboxController pg clock keys) header operator eid body now s)) =
      actionStatus keys header operator eid (\<not> is_ok (parseWebhookCancelPayload body))
         (pgFault pg ''cancel'' (TrimSpace eid)) [''pending'', ''failed''] s \<and>
   snd (CancelHandler (outboxController pg clock keys) header operator eid body now s) =
      (if actionStatus keys header operator eid (\<not> is_ok (parseWebhookCancelPayload body))
         (pgFault pg ''cancel'' (TrimSpace eid)) [''pending'', ''failed''] s
          = 200 then s\<lparr>dbOutbox := map (\<lambda>r.
           if oeEventID r = TrimSpace eid \<and>
              (oeDeliveryStatus r = ''pending'' \<or> oeDeliveryStatus r = ''failed'')
           then cancelled (TrimSpace operator)
                  (case parseWebhookCancelPayload body of Inr reason \<Rightarrow> reason | Inl _ \<Rightarrow> [])
                  (if IsZero now then clock else now) r
           else r) (dbOutbox s)\<rparr> else s)"
proof (cases "requireAdminAuth (cloneNonEmptyStrings keys) header")
  case (Some e)
  then show ?thesis
    using actionStatus_closed [OF Some] by (simp add: CancelHandler_def outboxController_def)
next
  case None
  have ev: "eventIn (TrimSpace eid) [''pending'', ''failed''] s =
      list_ex (\<lambda>r. oeEventID r = TrimSpace eid \<and>
        (oeDeliveryStatus r = ''pending'' \<or> oeDeliveryStatus r = ''failed'')) (dbOutbox s)"
    by (simp add: eventIn_def)
  have known: "\<not> knownEvent (TrimSpace eid) s \<Longrightarrow> \<not> eventIn (TrimSpace eid) [''pending'', ''failed''] s"
    unfolding ev by (rule unknown_no_hit)
  note known = known [unfolded ev]
  show ?thesis
  proof (cases "parseWebhookCancelPayload body")
    case (Inl e)
    then show ?thesis
      using None body_error [OF Inl]
      by (simp add: CancelHandler_def outboxController_def actionStatus_open [OF None])
  next
    case (Inr reason)
    show ?thesis
      unfolding CancelHandler_open [OF None Inr, THEN conjunct1]
        CancelHandler_open [OF None Inr, THEN conjunct2]
        actionStatus_open [OF None] cancelExecute_act operatorCommand_cases
      unfolding ev Inr TrimSpace_idem sum.case
      by (rule action_summary [OF act_cases [where allowed = "\<lambda>st. st = ''pending'' \<or> st = ''failed''"] known])
        simp_all
  qed
qed

text \<open>
  C28. Operators' actions are gated and exact. A requeue or a cancellation is answered 503 when no
  admin key is configured, 401 without the bearer token of a configured key, 400 when the body,
  the event or the operator is missing or malformed, 500 on a database error, 404 for an unknown
  event and 409 for one in a status that does not allow it (a delivered event never; a pending
  one cannot be requeued); in all these cases the tables are unchanged. Otherwise the answer is
  200 and exactly the rows of that event in such a status are rewritten, with the operator, the
  action and the instant recorded.
\<close>

theorem operator_actions:
  "let c = outboxController pg clock keys;
       requeue = RequeueHandler c header operator eid now s;
       requeueStatus = actionStatus keys header operator eid False
         (pgFault pg ''requeue'' (TrimSpace eid)) [''failed''] s;
       cancel = CancelHandler c header operator eid body now s;
       cancelStatus = actionStatus keys header operator eid
         (\<not> is_ok (parseWebhookCancelPayload body))
         (pgFault pg ''cancel'' (TrimSpace eid)) [''pending'', ''failed''] s;
       at = (if IsZero now then clock else now)
   in hrStatus (fst requeue) = requeueStatus \<and>
      snd requeue =
        (if requeueStatus = 200 then s\<lparr>dbOutbox := map (\<lambda>r.
           if oeEventID r = TrimSpace eid \<and> oeDeliveryStatus r = ''failed''
           then requeued (TrimSpace operator) at r else r) (dbOutbox s)\<rparr> else s) \<and>
      hrStatus (fst cancel) = cancelStatus \<and>
      snd cancel =
        (if cancelStatus = 200 then s\<lparr>dbOutbox := map (\<lambda>r.
           if oeEventID r = TrimSpace eid \<and>
              (oeDeliveryStatus r = ''pending'' \<or> oeDeliveryStatus r = ''failed'')
           then cancelled (TrimSpace operator)
                  (case parseWebhookCancelPayload body of Inr reason \<Rightarrow> reason | Inl _ \<Rightarrow> []) at r
           else r) (dbOutbox s)\<rparr> else s)"
  unfolding Let_def using requeue_handler cancel_handler by blast

end
