(* ===== verification/CreationLemmas.thy ===== *)
theory CreationLemmas
  imports CreateRequest
begin

text \<open>
  Facts about the creation of a request: what each branch of the transaction leaves behind, the
  keys of the tables it keeps unique, the round trip of the stored response, and the contract of
  the repository on which the use case rests.
\<close>

subsection \<open>What other transactions have committed\<close>

primrec seen :: "(nat \<Rightarrow> db \<Rightarrow> db) \<Rightarrow> nat \<Rightarrow> db \<Rightarrow> db" where
  "seen world 0 s = s"
| "seen world (Suc k) s = world (Suc k) (seen world k s)"

lemma seen_1: "world (Suc 0) s = seen world (Suc 0) s"
  by simp

lemma seen_next:
  "world 2 (seen world (Suc 0) s) = seen world 2 s" "world 3 (seen world 2 s) = seen world 3 s"
  "world 4 (seen world 3 s) = seen world 4 s"
  by (simp_all add: numeral_eq_Suc)

declare seen.simps [simp del]

lemma seen_0 [simp]: "seen world 0 s = s"
  by (simp add: seen.simps)

subsection \<open>The branches of a creation\<close>

lemma raceLost_outcome:
  assumes "raceLost pg world c e (seen world 3 s) = (r, s')"
  shows "s' = seen world 4 s \<and> (case r of Inl _ \<Rightarrow> True | Inr x \<Rightarrow> crReplayed x)"
  using assms
  by (auto simp: raceLost_def Let_def seen_next [of world s] split: sum.splits option.splits)

definition stored :: "db \<Rightarrow> request_row \<Rightarrow> idempotency_row \<Rightarrow> wallet_row list \<Rightarrow> db" where
  "stored s row record wallets =
     s\<lparr>dbRequests := dbRequests s @ [row], dbIdempotency := dbIdempotency s @ [record],
       dbWallets := wallets\<rparr>"

lemma insertPaymentRequest_row:
  assumes "insertPaymentRequest pg c wid idx address s = Inr row"
  shows "(\<exists>amount. row = requestRowOf c wid idx address amount) \<and> requestChecks pg row \<and>
    \<not> list_ex (clashes row) (dbRequests s)"
  using assms
  by (auto simp: insertPaymentRequest_def Let_def split: option.split_asm if_split_asm)

lemma insertIdempotencyRecord_row:
  "insertIdempotencyRecord pg c payload s = Inr record \<Longrightarrow>
     record = idempotencyRowOf c payload \<and>
     pcIdempotencyExpiresAt c \<ge> pcCreatedAt c + 24 * hour \<and>
     \<not> list_ex (sameKey (pcScope c) (pcKey c)) (dbIdempotency s)"
  by (auto simp: insertIdempotencyRecord_def Let_def split: option.split_asm if_split_asm)

definition bumped :: "string \<Rightarrow> int \<Rightarrow> time \<Rightarrow> wallet_row list \<Rightarrow> wallet_row list" where
  "bumped wid prev at =
     map (\<lambda>w. if waID w = wid \<and> waNextIndex w = prev
              then w\<lparr>waNextIndex := waNextIndex w + 1, waUpdatedAt := at\<rparr> else w)"

lemma bumpWalletNextIndex_rows:
  "bumpWalletNextIndex pg wid prev at s = Inr wallets \<Longrightarrow>
     wallets = bumped wid prev at (dbWallets s) \<and>
     length (filter (\<lambda>w. waID w = wid \<and> waNextIndex w = prev) (dbWallets s)) = 1 \<and>
     prev < max_int64"
  by (auto simp: bumpWalletNextIndex_def bumped_def Let_def length_Suc_conv filter_eq_Cons_iff
      split: option.split_asm if_split_asm)

text \<open>A creation either adds its three writes to what the others committed, or nothing.\<close>

definition noTrace :: "(nat \<Rightarrow> db \<Rightarrow> db) \<Rightarrow> db \<Rightarrow> db \<Rightarrow> bool" where
  "noTrace world s s' = (\<exists>k\<le>4. s' = seen world k s)"

lemma noTrace_seen [intro]:
  "noTrace world s s" "noTrace world s (seen world (Suc 0) s)" "noTrace world s (seen world 2 s)"
  "noTrace world s (seen world 3 s)" "noTrace world s (seen world 4 s)"
proof -
  have "k \<le> 4 \<Longrightarrow> noTrace world s (seen world k s)" for k by (auto simp: noTrace_def)
  from this [of 0] this [of 1] this [of 2] this [of 3] this [of 4] seen_0 [of world s]
  show "noTrace world s s" "noTrace world s (seen world (Suc 0) s)" "noTrace world s (seen world 2 s)"
    "noTrace world s (seen world 3 s)" "noTrace world s (seen world 4 s)" by simp_all
qed

definition created ::
  "pg \<Rightarrow> (nat \<Rightarrow> db \<Rightarrow> db) \<Rightarrow> persistence_command \<Rightarrow> wallet_row \<Rightarrow> resolve_output \<Rightarrow> db \<Rightarrow>
   resource \<Rightarrow> db \<Rightarrow> bool" where
  "created pg world c w al s resource s' =
     (resource = resourceOf c (waNextIndex w) (roAddress al) \<and>
      (\<exists>row. insertPaymentRequest pg c (waID w) (waNextIndex w) (roAddressCanonical al)
               (seen world 2 s) = Inr row \<and>
             insertIdempotencyRecord pg c (encodeResource resource) (seen world 3 s) =
               Inr (idempotencyRowOf c (encodeResource resource)) \<and>
             bumpWalletNextIndex pg (waID w) (waNextIndex w) (pcCreatedAt c) (seen world 4 s) =
               Inr (bumped (waID w) (waNextIndex w) (pcCreatedAt c) (dbWallets (seen world 4 s))) \<and>
             s' = stored (seen world 4 s) row (idempotencyRowOf c (encodeResource resource))
               (bumped (waID w) (waNextIndex w) (pcCreatedAt c) (dbWallets (seen world 4 s)))))"

lemma recordCreation_outcome:
  assumes "recordCreation pg world c w al (seen world (Suc 0) s) = (r, s')"
  shows "case r of
           Inr x \<Rightarrow> if crReplayed x then noTrace world s s'
                    else created pg world c w al s (crResource x) s'
         | Inl _ \<Rightarrow> noTrace world s s'"
proof (cases "insertPaymentRequest pg c (waID w) (waNextIndex w) (roAddressCanonical al)
                (seen world 2 s)")
  case (Inl e)
  then show ?thesis using assms
    by (auto simp: recordCreation_def Let_def seen_next [of world s])
next
  case row: (Inr row)
  let ?res = "resourceOf c (waNextIndex w) (roAddress al)"
  show ?thesis
  proof (cases "insertIdempotencyRecord pg c (encodeResource ?res) (seen world 3 s)")
    case (Inl e)
    show ?thesis
    proof (cases "Code e = ''idempotency_key_conflict''")
      case True
      then have "raceLost pg world c e (seen world 3 s) = (r, s')"
        using assms row Inl by (simp add: recordCreation_def Let_def seen_next [of world s])
      from raceLost_outcome [OF this] show ?thesis by (cases r) (auto simp: noTrace_seen)
    next
      case False
      then show ?thesis using assms row Inl
        by (auto simp: recordCreation_def Let_def seen_next [of world s])
    qed
  next
    case entry: (Inr entry)
    then have rec: "entry = idempotencyRowOf c (encodeResource ?res)"
      using insertIdempotencyRecord_row by blast
    show ?thesis
    proof (cases "bumpWalletNextIndex pg (waID w) (waNextIndex w) (pcCreatedAt c) (seen world 4 s)")
      case (Inl e)
      then show ?thesis using assms row entry
        by (auto simp: recordCreation_def Let_def seen_next [of world s])
    next
      case (Inr wallets)
      then have "commitCreation pg c ?res row entry wallets (seen world 4 s) = (r, s')"
        using assms row entry by (simp add: recordCreation_def Let_def seen_next [of world s])
      moreover have "wallets = bumped (waID w) (waNextIndex w) (pcCreatedAt c)
                       (dbWallets (seen world 4 s))"
        using bumpWalletNextIndex_rows [OF Inr] by blast
      ultimately show ?thesis using row entry rec Inr
        by (auto simp: commitCreation_def created_def stored_def split: option.splits)
    qed
  qed
qed

lemma lockWallet_row:
  "lockWallet pg wid s = Inr w \<Longrightarrow>
     \<exists>v. find (\<lambda>w. waID w = wid) (dbWallets s) = Some v \<and>
         w = v\<lparr>waChain := ToLower (waChain v), waNetwork := ToLower (waNetwork v)\<rparr>"
  by (auto simp: lockWallet_def split: option.split_asm)

lemma allocate_outcome:
  assumes "allocate pg world resolve c s = (r, s')"
  shows "case r of
           Inr x \<Rightarrow>
             if crReplayed x then noTrace world s s'
             else \<exists>w al. lockWallet pg (ceWalletAccountID (pcSnapshot c)) (seen world (Suc 0) s) = Inr w \<and>
                    waIsActive w \<and> waChain w = pcChain c \<and> waNetwork w = pcNetwork c \<and>
                    resolve (resolveInputOf c w) = Inr al \<and>
                    created pg world c w al s (crResource x) s'
         | Inl _ \<Rightarrow> noTrace world s s'"
proof (cases "lockWallet pg (ceWalletAccountID (pcSnapshot c)) (seen world (Suc 0) s)")
  case (Inl e)
  then show ?thesis using assms by (auto simp: allocate_def Let_def seen_1 [of world s])
next
  case w: (Inr w)
  show ?thesis
  proof (cases "waIsActive w \<and> waChain w = pcChain c \<and> waNetwork w = pcNetwork c")
    case False
    then show ?thesis using assms w
      by (auto simp: allocate_def Let_def seen_1 [of world s] split: if_split_asm)
  next
    case ok: True
    show ?thesis
    proof (cases "resolve (resolveInputOf c w)")
      case (Inl e)
      then show ?thesis using assms w ok by (auto simp: allocate_def Let_def seen_1 [of world s])
    next
      case (Inr al)
      then have "recordCreation pg world c w al (seen world (Suc 0) s) = (r, s')"
        using assms w ok by (simp add: allocate_def Let_def seen_1 [of world s])
      from recordCreation_outcome [OF this] show ?thesis
        using w ok Inr by (auto split: sum.splits if_splits)
    qed
  qed
qed

lemma Create_outcome:
  assumes "Create pg world resolver c s = (r, s')"
  shows "case r of
           Inr x \<Rightarrow>
             if crReplayed x then noTrace world s s'
             else \<exists>resolve w al. resolver = Some resolve \<and>
                    find (sameKey (pcScope c) (pcKey c)) (dbIdempotency s) = None \<and>
                    lockWallet pg (ceWalletAccountID (pcSnapshot c)) (seen world (Suc 0) s) = Inr w \<and>
                    waIsActive w \<and> waChain w = pcChain c \<and> waNetwork w = pcNetwork c \<and>
                    resolve (resolveInputOf c w) = Inr al \<and>
                    created pg world c w al s (crResource x) s'
         | Inl _ \<Rightarrow> noTrace world s s'"
proof -
  consider (direct) "s' = s" "case r of Inr x \<Rightarrow> crReplayed x | Inl _ \<Rightarrow> True"
    | (alloc) resolve where "resolver = Some resolve"
        "find (sameKey (pcScope c) (pcKey c)) (dbIdempotency s) = None"
        "allocate pg world resolve c s = (r, s')"
    using assms
    by (auto simp: Create_def findIdempotencyRecord_def split: option.split_asm sum.split_asm)
  then show ?thesis
  proof cases
    case direct
    then show ?thesis by (auto split: sum.splits)
  next
    case alloc
    from allocate_outcome [OF alloc(3)] show ?thesis
      using alloc by (auto split: sum.splits if_splits)
  qed
qed


subsection \<open>The stored response\<close>

definition int64_opt :: "int option \<Rightarrow> bool" where
  "int64_opt v = (case v of None \<Rightarrow> True | Some i \<Rightarrow> is_int64 i)"

definition int64_resource :: "resource \<Rightarrow> bool" where
  "int64_resource r =
     (is_int64 (piIndex (rsInstructions r)) \<and> int64_opt (piChain (rsInstructions r)) \<and>
      int64_opt (piDecimals (rsInstructions r)))"

lemma lookup_optional [simp]:
  "lookup (optional k f v @ m) k' = (if k' = k \<and> v \<noteq> None then Some (f (the v)) else lookup m k')"
  "lookup (optional k f v) k' = (if k' = k \<and> v \<noteq> None then Some (f (the v)) else None)"
  by (auto simp: optional_def split: option.splits)

lemma decode_encodeInstructions:
  assumes "is_int64 (piIndex p)" "int64_opt (piChain p)" "int64_opt (piDecimals p)"
  shows "decodeInstructions (Some (encodeInstructions p)) = Some p"
  using assms
  by (cases "piChain p"; cases "piStandard p"; cases "piContract p"; cases "piDecimals p")
    (simp_all add: decodeInstructions_def encodeInstructions_def decode_string_def decode_int_def
      decode_string_ptr_def decode_int_ptr_def int64_opt_def)

lemma decode_encodeResource:
  assumes "int64_resource r"
  shows "decodeResource (encodeResource r) = Some r"
  using assms decode_encodeInstructions [of "rsInstructions r"]
  by (cases "rsExpectedAmountMinor r")
    (simp_all add: decodeResource_def encodeResource_def decode_string_def decode_string_ptr_def
      decode_time_def int64_resource_def)

subsection \<open>Keys\<close>

definition request_keys :: "request_row \<Rightarrow> (string \<times> int) \<times> (string \<times> string \<times> string)" where
  "request_keys r =
     ((prWalletAccountID r, prDerivationIndex r), prChain r, prNetwork r, prAddressCanonical r)"

definition idempotency_key :: "idempotency_row \<Rightarrow> string \<times> string \<times> string \<times> string" where
  "idempotency_key r = (idScopePrincipal r, idScopeMethod r, idScopePath r, idKey r)"

definition allocatedBelow :: "wallet_row list \<Rightarrow> request_row \<Rightarrow> bool" where
  "allocatedBelow wallets r =
     list_ex (\<lambda>w. waID w = prWalletAccountID r \<and> prDerivationIndex r < waNextIndex w) wallets"

definition keysOK :: "db \<Rightarrow> bool" where
  "keysOK s =
     (distinct (map waID (dbWallets s)) \<and>
      distinct (map prID (dbRequests s)) \<and>
      distinct (map (fst \<circ> request_keys) (dbRequests s)) \<and>
      distinct (map (snd \<circ> request_keys) (dbRequests s)) \<and>
      distinct (map idempotency_key (dbIdempotency s)) \<and>
      list_all (allocatedBelow (dbWallets s)) (dbRequests s))"

lemma bumped_ids: "map waID (bumped wid prev at ws) = map waID ws"
  by (simp add: bumped_def)

lemma bumped_allocated:
  "allocatedBelow ws r \<Longrightarrow> allocatedBelow (bumped wid prev at ws) r"
  by (induction ws) (auto simp: allocatedBelow_def bumped_def)

lemma bumped_new:
  assumes "w \<in> set ws" "waID w = wid" "waNextIndex w = prev"
    "prWalletAccountID r = wid" "prDerivationIndex r = prev"
  shows "allocatedBelow (bumped wid prev at ws) r"
  using assms by (induction ws) (auto simp: allocatedBelow_def bumped_def)

lemma clash_free:
  assumes "\<not> list_ex (clashes row) rows"
  shows "prID row \<notin> set (map prID rows)" "fst (request_keys row) \<notin> set (map (fst \<circ> request_keys) rows)"
    "snd (request_keys row) \<notin> set (map (snd \<circ> request_keys) rows)"
  using assms by (fastforce simp: list_ex_iff clashes_def request_keys_def)+

lemma idempotencyRowOf_key:
  "idempotency_key (idempotencyRowOf c p) =
     (isPrincipalID (pcScope c), isHTTPMethod (pcScope c), isHTTPPath (pcScope c), pcKey c)"
  by (simp add: idempotency_key_def idempotencyRowOf_def)

lemma key_free:
  assumes "\<not> list_ex (sameKey (pcScope c) (pcKey c)) rows"
  shows "idempotency_key (idempotencyRowOf c p) \<notin> set (map idempotency_key rows)"
  using assms by (auto simp: list_ex_iff sameKey_def idempotencyRowOf_def idempotency_key_def)

text \<open>
  What the locks of the server guarantee while a creation is under way: once the wallet row is
  locked its index stays, and once a row is inserted nobody else commits one with its keys.
\<close>

definition locksHeld :: "(nat \<Rightarrow> db \<Rightarrow> db) \<Rightarrow> persistence_command \<Rightarrow> db \<Rightarrow> request_row \<Rightarrow> bool" where
  "locksHeld world c s row =
     ((list_ex (clashes row) (dbRequests (seen world 4 s)) \<longrightarrow>
         list_ex (clashes row) (dbRequests (seen world 2 s))) \<and>
      (list_ex (sameKey (pcScope c) (pcKey c)) (dbIdempotency (seen world 4 s)) \<longrightarrow>
         list_ex (sameKey (pcScope c) (pcKey c)) (dbIdempotency (seen world 3 s))))"

lemma created_keys:
  assumes "created pg world c w al s resource s'" "keysOK (seen world 4 s)"
    "locksHeld world c s (last (dbRequests s'))"
  shows "keysOK s'"
proof -
  let ?s = "seen world 4 s"
  obtain row where row: "insertPaymentRequest pg c (waID w) (waNextIndex w) (roAddressCanonical al)
        (seen world 2 s) = Inr row"
    and key: "insertIdempotencyRecord pg c (encodeResource resource) (seen world 3 s) =
        Inr (idempotencyRowOf c (encodeResource resource))"
    and bump: "bumpWalletNextIndex pg (waID w) (waNextIndex w) (pcCreatedAt c) ?s =
        Inr (bumped (waID w) (waNextIndex w) (pcCreatedAt c) (dbWallets ?s))"
    and s': "s' = stored ?s row (idempotencyRowOf c (encodeResource resource))
        (bumped (waID w) (waNextIndex w) (pcCreatedAt c) (dbWallets ?s))"
    using assms(1) unfolding created_def by blast
  have "locksHeld world c s row" using assms(3) s' by (simp add: stored_def)
  then have free: "\<not> list_ex (clashes row) (dbRequests ?s)"
      "\<not> list_ex (sameKey (pcScope c) (pcKey c)) (dbIdempotency ?s)"
    using insertPaymentRequest_row [OF row] insertIdempotencyRecord_row [OF key]
    unfolding locksHeld_def by blast+
  obtain amount where r: "row = requestRowOf c (waID w) (waNextIndex w) (roAddressCanonical al) amount"
    using insertPaymentRequest_row [OF row] by blast
  have "filter (\<lambda>v. waID v = waID w \<and> waNextIndex v = waNextIndex w) (dbWallets ?s) \<noteq> []"
    using bumpWalletNextIndex_rows [OF bump] by auto
  then obtain v where "v \<in> set (dbWallets ?s)" "waID v = waID w" "waNextIndex v = waNextIndex w"
    by (auto simp: filter_empty_conv)
  then have "allocatedBelow (bumped (waID w) (waNextIndex w) (pcCreatedAt c) (dbWallets ?s)) row"
    by (rule bumped_new) (simp_all add: r requestRowOf_def)
  then show ?thesis
    using assms(2) clash_free [OF free(1)] key_free [OF free(2)]
    unfolding keysOK_def s' stored_def
    by (simp add: bumped_ids list_all_iff bumped_allocated)
qed


lemma Create_keys:
  assumes "Create pg world resolver c s = (r, s')" "list_all (\<lambda>k. keysOK (seen world k s)) [0..<5]"
    "locksHeld world c s (last (dbRequests s'))"
  shows "keysOK s'"
proof -
  have k: "k \<le> 4 \<Longrightarrow> keysOK (seen world k s)" for k
    using assms(2) by (auto simp: list_all_iff)
  have u: "noTrace world s s' \<Longrightarrow> keysOK s'" by (auto simp: noTrace_def k)
  have "created pg world c w al s x s' \<Longrightarrow> keysOK s'" for w al x
    using created_keys k assms(3) by blast
  then show ?thesis
    using Create_outcome [OF assms(1)] u by (auto split: sum.splits if_splits)
qed

subsection \<open>The repository as the use case sees it\<close>

text \<open>Without interleaving, an error or a replay leaves the tables alone.\<close>

definition alone :: "nat \<Rightarrow> db \<Rightarrow> db" where
  "alone k s = s"

lemma seen_alone [simp]: "seen alone k s = s"
  by (induction k) (simp_all add: seen.simps alone_def)

lemma noTrace_alone: "noTrace alone s s' \<longleftrightarrow> s' = s"
  by (auto simp: noTrace_def)

lemma locksHeld_alone: "locksHeld alone c s row"
  by (simp add: locksHeld_def)

locale request_creator =
  fixes create :: "(resolve_input \<Rightarrow> resolve_output res) \<Rightarrow> persistence_command \<Rightarrow> db \<Rightarrow>
                     create_result res \<times> db"
    and ok :: "db \<Rightarrow> bool"
  assumes rejected: "create f c s = (Inl e, s') \<Longrightarrow> s' = s"
    and replayed: "create f c s = (Inr x, s') \<Longrightarrow> crReplayed x \<Longrightarrow> s' = s"
    and fresh: "create f c s = (Inr x, s') \<Longrightarrow> \<not> crReplayed x \<Longrightarrow>
      \<exists>i out. f i = Inr out \<and> riChain i = pcChain c \<and> riDerivationIndex i \<ge> 0 \<and>
         crResource x = resourceOf c (riDerivationIndex i) (roAddress out)"
    and keeps: "ok s \<Longrightarrow> create f c s = (r, s') \<Longrightarrow> ok s'"
begin

lemma execute_cases:
  assumes "enRepository u = Some repo" "\<And>g. repo (Some g) = create g"
    "createExecute u c s = (r, s')"
  shows "(\<exists>e. r = Inl e) \<and> s' = s \<or>
    (\<exists>i entry command.
       normalizeCommand u c = Inr i \<and> enCatalog u \<noteq> None \<and> enWallet u \<noteq> None \<and>
       loadAssetCatalogEntry (the (enCatalog u)) (niChain i) (niNetwork i) (niAsset i) s = Inr entry \<and>
       buildPersistenceCommand u i entry = Inr command \<and>
       create (resolvePaymentAddress u (the (enWallet u))) command s = (r, s'))"
  using assms
  by (auto simp: createExecute_def validateDependencies_def
      split: option.split_asm if_split_asm sum.split_asm)

lemma execute_rejects:
  assumes "enRepository u = Some repo" "\<And>g. repo (Some g) = create g"
    "createExecute u c s = (Inl e, s')"
  shows "s' = s"
  using execute_cases [OF assms] rejected by blast

lemma execute_keeps:
  assumes "enRepository u = Some repo" "\<And>g. repo (Some g) = create g"
    "createExecute u c s = (r, s')" "ok s"
  shows "ok s'"
  using execute_cases [OF assms(1-3)] keeps assms(4) by blast

end

lemma created_fresh:
  assumes "Create pg world (Some f) c s = (Inr x, s')" "\<not> crReplayed x"
  shows "\<exists>i out. f i = Inr out \<and> riChain i = pcChain c \<and> riDerivationIndex i \<ge> 0 \<and>
     crResource x = resourceOf c (riDerivationIndex i) (roAddress out)"
proof -
  obtain w al where wal: "f (resolveInputOf c w) = Inr al" "created pg world c w al s (crResource x) s'"
    using Create_outcome [OF assms(1)] assms(2) by auto
  obtain row where row: "insertPaymentRequest pg c (waID w) (waNextIndex w) (roAddressCanonical al)
      (seen world 2 s) = Inr row" "crResource x = resourceOf c (waNextIndex w) (roAddress al)"
    using wal(2) unfolding created_def by blast
  have "waNextIndex w \<ge> 0"
    using insertPaymentRequest_row [OF row(1)] by (auto simp: requestChecks_def requestRowOf_def)
  then show ?thesis
    using wal(1) row(2) by (intro exI [of _ "resolveInputOf c w"] exI [of _ al])
      (simp add: resolveInputOf_def)
qed

interpretation creator: request_creator "\<lambda>f c s. Create pg alone (Some f) c s" keysOK
proof
  fix f c s e s' x r
  show "Create pg alone (Some f) c s = (Inl e, s') \<Longrightarrow> s' = s"
    using Create_outcome [of pg alone "Some f" c s "Inl e" s'] by (simp add: noTrace_alone)
  show "Create pg alone (Some f) c s = (Inr x, s') \<Longrightarrow> crReplayed x \<Longrightarrow> s' = s"
    using Create_outcome [of pg alone "Some f" c s "Inr x" s'] by (simp add: noTrace_alone)
  show "Create pg alone (Some f) c s = (Inr x, s') \<Longrightarrow> \<not> crReplayed x \<Longrightarrow>
      \<exists>i out. f i = Inr out \<and> riChain i = pcChain c \<and> riDerivationIndex i \<ge> 0 \<and>
         crResource x = resourceOf c (riDerivationIndex i) (roAddress out)"
    by (rule created_fresh)
  show "keysOK s \<Longrightarrow> Create pg alone (Some f) c s = (r, s') \<Longrightarrow> keysOK s'"
    using Create_keys [of pg alone "Some f" c s r s'] locksHeld_alone by (simp add: list_all_iff)
qed

end
