(* ===== verification/CreationProps.thy ===== *)
theory CreationProps
  imports CreationLemmas Examples
begin

text \<open>
  Properties of creating a payment request: nothing is half-written, a repeated request is
  answered from the stored response, an idempotency key creates at most one request, and no
  derivation index or address is handed out twice.
\<close>

subsection \<open>Examples\<close>

definition demo_entry :: catalog_entry where
  "demo_entry =
     \<lparr>ceChain = ''bitcoin'', ceNetwork = ''regtest'', ceAsset = ''BTC'', ceMinorUnit = ''sats'',
      ceDecimals = 8, ceAddressScheme = ''bip84_p2wpkh'', ceDefaultExpiresInSeconds = 3600,
      ceChainID = None, ceTokenStandard = None, ceTokenContract = None, ceTokenDecimals = None,
      ceWalletAccountID = ''wa''\<rparr>"

definition demo_wallet :: wallet_row where
  "demo_wallet =
     \<lparr>waID = ''wa'', waChain = ''bitcoin'', waNetwork = ''regtest'', waKeysetID = ''ks'',
      waDerivationPathTemplate = ''0/{index}'', waNextIndex = 4, waIsActive = True,
      waKeyMaterialHash = None, waKeyMaterialHashAlgo = None, waCreatedAt = 0,
      waUpdatedAt = 0\<rparr>"

definition demo_create :: "string \<Rightarrow> string \<Rightarrow> string \<Rightarrow> persistence_command" where
  "demo_create rid key hash =
     \<lparr>pcResourceID = rid,
      pcScope = \<lparr>isPrincipalID = ''shop'', isHTTPMethod = ''POST'',
        isHTTPPath = ''/v1/payment-requests''\<rparr>,
      pcKey = key, pcRequestHash = hash, pcHashAlgorithm = ''sha256'', pcStatus = ''pending'',
      pcChain = ''bitcoin'', pcNetwork = ''regtest'', pcAsset = ''BTC'',
      pcWebhookURL = ''https://shop.example'', pcExpectedAmountMinor = Some ''1000'',
      pcMetadata = [], pcExpiresAt = 3600 * second, pcIdempotencyExpiresAt = 7 * 24 * hour,
      pcCreatedAt = 0, pcSnapshot = demo_entry, pcAllocationMode = ''devtest''\<rparr>"

text \<open>An address that tells the index it was derived for.\<close>

definition demo_resolve :: "resolve_input \<Rightarrow> resolve_output res" where
  "demo_resolve i =
     Inr \<lparr>roAddressCanonical = ''bcrt1q'' @ FormatInt (riDerivationIndex i),
          roAddress = ''bcrt1q'' @ FormatInt (riDerivationIndex i)\<rparr>"

definition demo_wallets :: db where
  "demo_wallets = empty_db\<lparr>dbWallets := [demo_wallet]\<rparr>"

definition demo_created :: "create_result res \<times> db" where
  "demo_created = Create demo_pg alone (Some demo_resolve) (demo_create ''pr_1'' ''k'' ''h'') demo_wallets"

text \<open>A world in which another client commits a creation under the key before the insert.\<close>

definition demo_world :: "nat \<Rightarrow> db \<Rightarrow> db" where
  "demo_world k s =
     (if k = 3 then s\<lparr>dbIdempotency := dbIdempotency s @
        [idempotencyRowOf (demo_create ''pr_2'' ''k'' ''h'')
           (encodeResource (resourceOf (demo_create ''pr_2'' ''k'' ''h'') 9 ''bcrt1q9''))]\<rparr>
      else s)"

subsection \<open>Properties\<close>

lemma bumped_changes:
  assumes "v \<in> set ws" "waID v = wid" "waNextIndex v = prev"
  shows "bumped wid prev at ws \<noteq> ws"
  using assms by (induction ws) (auto simp: bumped_def dest: arg_cong [where f = waNextIndex])

lemma created_rows:
  assumes "created pg world c w al s resource s'"
  shows "resource = resourceOf c (waNextIndex w) (roAddress al) \<and>
    (\<exists>amount. s' = stored (seen world 4 s)
      (requestRowOf c (waID w) (waNextIndex w) (roAddressCanonical al) amount)
      (idempotencyRowOf c (encodeResource resource))
      (bumped (waID w) (waNextIndex w) (pcCreatedAt c) (dbWallets (seen world 4 s)))) \<and>
    bumped (waID w) (waNextIndex w) (pcCreatedAt c) (dbWallets (seen world 4 s)) \<noteq>
      dbWallets (seen world 4 s)"
proof -
  let ?s = "seen world 4 s"
  obtain row where row: "insertPaymentRequest pg c (waID w) (waNextIndex w) (roAddressCanonical al)
        (seen world 2 s) = Inr row"
    and bump: "bumpWalletNextIndex pg (waID w) (waNextIndex w) (pcCreatedAt c) ?s =
        Inr (bumped (waID w) (waNextIndex w) (pcCreatedAt c) (dbWallets ?s))"
    and rest: "resource = resourceOf c (waNextIndex w) (roAddress al)"
      "s' = stored ?s row (idempotencyRowOf c (encodeResource resource))
        (bumped (waID w) (waNextIndex w) (pcCreatedAt c) (dbWallets ?s))"
    using assms unfolding created_def by blast
  have "filter (\<lambda>v. waID v = waID w \<and> waNextIndex v = waNextIndex w) (dbWallets ?s) \<noteq> []"
    using bumpWalletNextIndex_rows [OF bump] by auto
  then have "bumped (waID w) (waNextIndex w) (pcCreatedAt c) (dbWallets ?s) \<noteq> dbWallets ?s"
    using bumped_changes by (auto simp: filter_empty_conv)
  then show ?thesis using insertPaymentRequest_row [OF row] rest by blast
qed

lemma find_append: "find P (xs @ ys) = (case find P xs of Some x \<Rightarrow> Some x | None \<Rightarrow> find P ys)"
  by (induction xs) auto

lemma created_record:
  assumes "created pg world c w al s resource s'"
    "find (sameKey (pcScope c) (pcKey c)) (dbIdempotency (seen world 4 s)) = None"
  shows "find (sameKey (pcScope c) (pcKey c)) (dbIdempotency s') =
    Some (idempotencyRowOf c (encodeResource resource))"
  using assms by (auto simp: created_def stored_def find_append sameKey_def idempotencyRowOf_def)

lemma replayOf_Inr:
  "replayOf pg key hash r = Inr resource \<Longrightarrow>
     idRequestHash r = hash \<and> decodeResource (idResponsePayload r) = Some resource"
  by (auto simp: replayOf_def split: if_split_asm option.split_asm)

text \<open>A replay answers from a record found first, or after the lost race.\<close>

lemma loadReplay_Inr:
  "loadReplayResource pg scope key hash s = Inr (Some resource) \<Longrightarrow>
     \<exists>r. find (sameKey scope key) (dbIdempotency s) = Some r \<and> idRequestHash r = hash \<and>
         decodeResource (idResponsePayload r) = Some resource"
  by (auto simp: loadReplayResource_def findIdempotencyRecord_def dest!: replayOf_Inr
      split: sum.split_asm option.split_asm)

lemma raceLost_replay:
  assumes "raceLost pg world c e (seen world 3 s) = (Inr x, s')"
  shows "\<exists>r. find (sameKey (pcScope c) (pcKey c)) (dbIdempotency (seen world 4 s)) = Some r \<and>
         idRequestHash r = pcRequestHash c \<and> decodeResource (idResponsePayload r) = Some (crResource x)"
  using assms loadReplay_Inr [of pg "pcScope c" "pcKey c" "pcRequestHash c" "seen world 4 s"]
  by (auto simp: raceLost_def Let_def seen_next [of world s] split: sum.split_asm option.split_asm)

lemma recordCreation_replay:
  assumes "recordCreation pg world c w al (seen world (Suc 0) s) = (Inr x, s')" "crReplayed x"
  shows "\<exists>r. find (sameKey (pcScope c) (pcKey c)) (dbIdempotency (seen world 4 s)) = Some r \<and>
         idRequestHash r = pcRequestHash c \<and> decodeResource (idResponsePayload r) = Some (crResource x)"
proof -
  have "\<exists>e. raceLost pg world c e (seen world 3 s) = (Inr x, s')"
    using assms
    by (auto simp: recordCreation_def commitCreation_def Let_def seen_next [of world s]
        split: sum.split_asm option.split_asm if_split_asm)
  then show ?thesis using raceLost_replay by blast
qed

lemma Create_replay:
  assumes "Create pg world resolver c s = (Inr x, s')" "crReplayed x"
  shows "\<exists>r. (find (sameKey (pcScope c) (pcKey c)) (dbIdempotency s) = Some r \<or>
          find (sameKey (pcScope c) (pcKey c)) (dbIdempotency s) = None \<and>
          find (sameKey (pcScope c) (pcKey c)) (dbIdempotency (seen world 4 s)) = Some r) \<and>
         idRequestHash r = pcRequestHash c \<and> decodeResource (idResponsePayload r) = Some (crResource x)"
proof -
  consider (first) r where "find (sameKey (pcScope c) (pcKey c)) (dbIdempotency s) = Some r"
        "replayOf pg (pcKey c) (pcRequestHash c) r = Inr (crResource x)"
    | (raced) w al where "find (sameKey (pcScope c) (pcKey c)) (dbIdempotency s) = None"
        "recordCreation pg world c w al (seen world (Suc 0) s) = (Inr x, s')"
    using assms
    by (auto simp: Create_def allocate_def Let_def findIdempotencyRecord_def seen_1 [of world s]
        split: option.split_asm sum.split_asm if_split_asm)
  then show ?thesis using replayOf_Inr recordCreation_replay assms(2) by cases blast+
qed

text \<open>
  C3. A creation is all or nothing under any interleaving with other transactions: on an error
  and on a replay the tables hold exactly what the others committed; otherwise they also hold
  the new request at the index the wallet row showed under its lock, the idempotency record with
  the response, and the wallet row moved on by one, and nothing else has changed.
\<close>

theorem create_all_or_nothing:
  "case Create pg world resolver c s of
     (Inl e, s') \<Rightarrow> noTrace world s s'
   | (Inr x, s') \<Rightarrow>
       if crReplayed x then noTrace world s s'
       else \<exists>w address amount.
         find (\<lambda>w. waID w = ceWalletAccountID (pcSnapshot c)) (dbWallets (seen world 1 s)) = Some w \<and>
         waIsActive w \<and>
         s' = stored (seen world 4 s)
                (requestRowOf c (waID w) (waNextIndex w) address amount)
                (idempotencyRowOf c (encodeResource (crResource x)))
                (bumped (waID w) (waNextIndex w) (pcCreatedAt c) (dbWallets (seen world 4 s))) \<and>
         bumped (waID w) (waNextIndex w) (pcCreatedAt c) (dbWallets (seen world 4 s)) \<noteq>
           dbWallets (seen world 4 s) \<and>
         rsID (crResource x) = pcResourceID c \<and>
         piIndex (rsInstructions (crResource x)) = waNextIndex w"
proof -
  obtain r s' where run: "Create pg world resolver c s = (r, s')" by (cases "Create pg world resolver c s")
  show ?thesis
  proof (cases "case r of Inr x \<Rightarrow> crReplayed x | Inl _ \<Rightarrow> True")
    case True
    then show ?thesis using Create_outcome [OF run] run by (auto split: sum.splits)
  next
    case False
    then obtain x where x: "r = Inr x" "\<not> crReplayed x" by (auto split: sum.splits)
    then obtain w al where w: "lockWallet pg (ceWalletAccountID (pcSnapshot c)) (seen world (Suc 0) s) = Inr w"
        "waIsActive w" "created pg world c w al s (crResource x) s'"
      using Create_outcome [OF run] by auto
    obtain v where v: "find (\<lambda>w. waID w = ceWalletAccountID (pcSnapshot c))
        (dbWallets (seen world (Suc 0) s)) = Some v"
      "w = v\<lparr>waChain := ToLower (waChain v), waNetwork := ToLower (waNetwork v)\<rparr>"
      using lockWallet_row [OF w(1)] by blast
    obtain amount where s': "s' = stored (seen world 4 s)
        (requestRowOf c (waID v) (waNextIndex v) (roAddressCanonical al) amount)
        (idempotencyRowOf c (encodeResource (crResource x)))
        (bumped (waID v) (waNextIndex v) (pcCreatedAt c) (dbWallets (seen world 4 s)))"
      using created_rows [OF w(3)] v(2) by auto
    have "crResource x = resourceOf c (waNextIndex v) (roAddress al)"
        "bumped (waID v) (waNextIndex v) (pcCreatedAt c) (dbWallets (seen world 4 s)) \<noteq>
           dbWallets (seen world 4 s)"
      using created_rows [OF w(3)] v(2) by simp_all
    then have "rsID (crResource x) = pcResourceID c"
        "piIndex (rsInstructions (crResource x)) = waNextIndex v"
        "bumped (waID v) (waNextIndex v) (pcCreatedAt c) (dbWallets (seen world 4 s)) \<noteq>
           dbWallets (seen world 4 s)"
      by (simp_all add: resourceOf_def)
    moreover have "waIsActive v" using w(2) v(2) by simp
    ultimately show ?thesis
      unfolding run x(1) using v(1) x(2) s' by auto
  qed
qed

lemma create_demo:
  "fst demo_created = Inr \<lparr>crResource = resourceOf (demo_create ''pr_1'' ''k'' ''h'') 4 ''bcrt1q4'',
     crReplayed = False\<rparr>"
  by code_simp

text \<open>
  C9. A repeated request is answered from the store: once a creation has succeeded, any later
  creation under the same scope and key returns the very same resource, marked as a replay, when
  the hash of the request is the same, and the key conflict when it is not. Either way it derives
  no address and changes no table, whatever happened to the tables meanwhile, as long as the
  record is there.
\<close>

theorem idempotent_replay:
  assumes "Create pg alone resolver c s = (Inr x, s')" "\<not> crReplayed x"
    "int64_resource (crResource x)"
    "pcScope c' = pcScope c" "pcKey c' = pcKey c"
    "find (sameKey (pcScope c) (pcKey c)) (dbIdempotency later) =
       find (sameKey (pcScope c) (pcKey c)) (dbIdempotency s')"
    "\<And>stmt. pgFault pg' stmt (pcKey c) = None"
  shows "Create pg' world (Some resolve) c' later =
    (if pcRequestHash c' = pcRequestHash c
     then (Inr \<lparr>crResource = crResource x, crReplayed = True\<rparr>, later)
     else (Inl (keyConflict (pcKey c)), later))"
proof -
  obtain w al where "find (sameKey (pcScope c) (pcKey c)) (dbIdempotency s) = None"
      "created pg alone c w al s (crResource x) s'"
    using Create_outcome [OF assms(1)] assms(2) by auto
  then have "find (sameKey (pcScope c) (pcKey c)) (dbIdempotency s') =
      Some (idempotencyRowOf c (encodeResource (crResource x)))"
    using created_record by fastforce
  then show ?thesis
    using assms(3-) decode_encodeResource [OF assms(3)]
    by (simp add: Create_def findIdempotencyRecord_def replayOf_def idempotencyRowOf_def)
qed

lemma idempotent_replay_witness:
  "Create demo_pg demo_world (Some demo_resolve) (demo_create ''pr_3'' ''k'' ''h'') (snd demo_created) =
     (Inr \<lparr>crResource = resourceOf (demo_create ''pr_1'' ''k'' ''h'') 4 ''bcrt1q4'', crReplayed = True\<rparr>,
      snd demo_created) \<and>
   Create demo_pg demo_world (Some demo_resolve) (demo_create ''pr_3'' ''k'' ''i'') (snd demo_created) =
     (Inl (keyConflict ''k''), snd demo_created)"
proof -
  let ?x = "\<lparr>crResource = resourceOf (demo_create ''pr_1'' ''k'' ''h'') 4 ''bcrt1q4'', crReplayed = False\<rparr>"
  have run: "Create demo_pg alone (Some demo_resolve) (demo_create ''pr_1'' ''k'' ''h'') demo_wallets =
      (Inr ?x, snd demo_created)"
    using create_demo by (simp add: demo_created_def prod_eq_iff)
  have "int64_resource (resourceOf (demo_create ''pr_1'' ''k'' ''h'') 4 ''bcrt1q4'')" by code_simp
  then show ?thesis
    using idempotent_replay [OF run, of "demo_create ''pr_3'' ''k'' ''h''" "snd demo_created" demo_pg
        demo_world demo_resolve]
      idempotent_replay [OF run, of "demo_create ''pr_3'' ''k'' ''i''" "snd demo_created" demo_pg
        demo_world demo_resolve]
    by (simp add: demo_create_def demo_pg_def)
qed

text \<open>
  C8. One idempotency key creates at most one request, whatever the interleaving: when a record
  for the key has been committed before the creation inserts its own, be it by a transaction
  that ran at the same time, the creation leaves no trace, and if it succeeds it returns the
  response of that record for the same request hash.
\<close>

theorem idempotency_key_race:
  assumes "find (sameKey (pcScope c) (pcKey c)) (dbIdempotency (seen world 3 s)) = Some other"
    "find (sameKey (pcScope c) (pcKey c)) (dbIdempotency (seen world 4 s)) = Some other"
    "case find (sameKey (pcScope c) (pcKey c)) (dbIdempotency s) of
       None \<Rightarrow> True | Some r \<Rightarrow> r = other"
  shows "case Create pg world resolver c s of
      (Inl e, s') \<Rightarrow> noTrace world s s'
    | (Inr x, s') \<Rightarrow>
        noTrace world s s' \<and> crReplayed x \<and> idRequestHash other = pcRequestHash c \<and>
        decodeResource (idResponsePayload other) = Some (crResource x)"
proof -
  obtain r s' where run: "Create pg world resolver c s = (r, s')" by (cases "Create pg world resolver c s")
  have "list_ex (sameKey (pcScope c) (pcKey c)) (dbIdempotency (seen world 3 s))"
    using find_None_iff [of "sameKey (pcScope c) (pcKey c)" "dbIdempotency (seen world 3 s)"]
    unfolding assms(1) list_ex_iff by blast
  then have no: "\<not> created pg world c w al s resource s'" for w al resource
    using insertIdempotencyRecord_row unfolding created_def by blast
  show ?thesis
  proof (cases r)
    case (Inl e)
    then show ?thesis using Create_outcome [OF run] run by simp
  next
    case (Inr x)
    then have rep: "crReplayed x" using Create_outcome [OF run] no by (simp split: if_split_asm)
    then have "noTrace world s s'" using Create_outcome [OF run] Inr by simp
    moreover have "idRequestHash other = pcRequestHash c \<and>
        decodeResource (idResponsePayload other) = Some (crResource x)"
      using Create_replay [OF run [unfolded Inr] rep] assms by (auto split: option.splits)
    ultimately show ?thesis using run Inr rep by simp
  qed
qed

lemma idempotency_key_race_witness:
  "case Create demo_pg demo_world (Some demo_resolve) (demo_create ''pr_1'' ''k'' ''h'') demo_wallets of
      (Inl e, s') \<Rightarrow> noTrace demo_world demo_wallets s'
    | (Inr x, s') \<Rightarrow>
        noTrace demo_world demo_wallets s' \<and> crReplayed x \<and>
        Some (crResource x) = Some (resourceOf (demo_create ''pr_2'' ''k'' ''h'') 9 ''bcrt1q9'')"
proof -
  let ?o = "idempotencyRowOf (demo_create ''pr_2'' ''k'' ''h'')
           (encodeResource (resourceOf (demo_create ''pr_2'' ''k'' ''h'') 9 ''bcrt1q9''))"
  let ?c = "demo_create ''pr_1'' ''k'' ''h''"
  have a: "find (sameKey (pcScope ?c) (pcKey ?c)) (dbIdempotency (seen demo_world 3 demo_wallets)) = Some ?o"
    by code_simp
  have b: "find (sameKey (pcScope ?c) (pcKey ?c)) (dbIdempotency (seen demo_world 4 demo_wallets)) = Some ?o"
    by code_simp
  have d: "decodeResource (idResponsePayload ?o) = Some (resourceOf (demo_create ''pr_2'' ''k'' ''h'') 9 ''bcrt1q9'')"
    by code_simp
  show ?thesis
    using idempotency_key_race [OF a b, of demo_pg "Some demo_resolve"] unfolding d
    by (auto simp: demo_wallets_def empty_db_def split: sum.splits)
qed

text \<open>
  C2. Allocation never repeats: if the tables have unique wallet, request, allocation, address
  and idempotency keys and every request sits below the next index of its wallet, then they do
  after a creation, interleaved with transactions that keep these keys and commit no row under a
  key the creation has already inserted.
\<close>

theorem allocation_unique:
  assumes "list_all (\<lambda>k. keysOK (seen world k s)) [0..<5]"
    "locksHeld world c s (last (dbRequests (snd (Create pg world resolver c s))))"
  shows "keysOK (snd (Create pg world resolver c s))"
  using Create_keys [of pg world resolver c s _ "snd (Create pg world resolver c s)"] assms
  by (metis prod.collapse)

lemma allocation_unique_witness:
  "keysOK (snd (Create demo_pg demo_world (Some demo_resolve) (demo_create ''pr_1'' ''j'' ''h'')
     demo_wallets)) \<and>
   length (dbRequests (snd (Create demo_pg demo_world (Some demo_resolve)
     (demo_create ''pr_1'' ''j'' ''h'') demo_wallets))) = 1"
proof -
  have "list_all (\<lambda>k. keysOK (seen demo_world k demo_wallets)) [0..<5]" by code_simp
  moreover have "locksHeld demo_world (demo_create ''pr_1'' ''j'' ''h'') demo_wallets
      (last (dbRequests (snd (Create demo_pg demo_world (Some demo_resolve)
         (demo_create ''pr_1'' ''j'' ''h'') demo_wallets))))" by code_simp
  ultimately show ?thesis
    using allocation_unique [of demo_world demo_wallets "demo_create ''pr_1'' ''j'' ''h''" demo_pg
      "Some demo_resolve"] by (intro conjI) (blast, code_simp)
qed

end
