(* ===== verification/ValueObjectProps.thy ===== *)
theory ValueObjectProps
  imports ValueObjects
begin

text \<open>
  Properties of the value objects: every normaliser settles its result in one step (a locale,
  interpreted on each of them), addresses survive the EIP-55 display form, and the webhook
  allow-list decides by exact or sub-domain match.
\<close>

subsection \<open>Normalisers\<close>

text \<open>What the code relies on when it normalises twice (on input and on stored values).\<close>

locale normaliser =
  fixes norm :: "string \<Rightarrow> string res"
  assumes settled: "norm s = Inr t \<Longrightarrow> norm t = Inr t"
begin

lemma settled_again: "norm s = Inr t \<Longrightarrow> norm t = Inr u \<Longrightarrow> u = t"
  using settled by fastforce

lemma normal_iff: "(\<exists>s. norm s = Inr t) \<longleftrightarrow> norm t = Inr t"
  using settled by blast

end

lemma class_match_visible:
  assumes "class_match p n m s" "\<And>c. p c \<Longrightarrow> visible c"
  shows "TrimSpace s = s"
  using assms by (intro TrimSpace_visible) (auto simp: class_match_def list_all_iff)

lemma class_match_lower:
  assumes "class_match p n m s" "\<And>c. p c \<Longrightarrow> \<not> is_upper c"
  shows "ToLower s = s"
  using assms by (intro ToLower_id) (auto simp: class_match_def list_all_iff)

lemma class_match_upper:
  assumes "class_match p n m s" "\<And>c. p c \<Longrightarrow> \<not> is_lower c"
  shows "ToUpper s = s"
  using assms by (intro ToUpper_id) (auto simp: class_match_def list_all_iff)

lemma literal_chars:
  "visible (CHR ''_'')" "\<not> is_upper (CHR ''_'')" "\<not> is_lower (CHR ''_'')"
  "\<not> is_upper (CHR ''-'')" "\<not> is_lower (CHR ''-'')"
  "visible (CHR ''0'')" "visible (CHR ''x'')"
  by (simp_all add: visible_def is_upper_def is_lower_def byte_of_def)

lemma case_visible: "is_lower c \<Longrightarrow> visible c \<and> \<not> is_upper c" "is_upper c \<Longrightarrow> visible c \<and> \<not> is_lower c"
  "is_digit c \<Longrightarrow> visible c \<and> \<not> is_upper c \<and> \<not> is_lower c"
  by (auto simp: visible_def is_lower_def is_upper_def is_digit_def)

lemma lowerNameChar_plain: "lowerNameChar c \<Longrightarrow> visible c \<and> \<not> is_upper c"
  unfolding lowerNameChar_def using case_visible literal_chars by auto

lemma upperNameChar_plain: "upperNameChar c \<Longrightarrow> visible c \<and> \<not> is_lower c"
  unfolding upperNameChar_def using case_visible literal_chars by auto

interpretation chain: normaliser NormalizeChain
proof
  fix s t
  assume "NormalizeChain s = Inr t"
  then have t: "t \<noteq> []" "class_match lowerNameChar 1 32 t"
    by (auto simp: NormalizeChain_def Let_def split: if_splits)
  have "TrimSpace t = t" "ToLower t = t"
    using t(2) lowerNameChar_plain by (blast intro: class_match_visible class_match_lower)+
  with t show "NormalizeChain t = Inr t" by (simp add: NormalizeChain_def)
qed

interpretation network: normaliser NormalizeNetwork
proof
  fix s t
  assume "NormalizeNetwork s = Inr t"
  then have t: "t \<noteq> []" "class_match lowerNameChar 1 32 t"
    by (auto simp: NormalizeNetwork_def Let_def split: if_splits)
  have "TrimSpace t = t" "ToLower t = t"
    using t(2) lowerNameChar_plain by (blast intro: class_match_visible class_match_lower)+
  with t show "NormalizeNetwork t = Inr t" by (simp add: NormalizeNetwork_def)
qed

interpretation asset: normaliser NormalizeAsset
proof
  fix s t
  assume "NormalizeAsset s = Inr t"
  then have t: "t \<noteq> []" "class_match upperNameChar 1 32 t"
    by (auto simp: NormalizeAsset_def Let_def split: if_splits)
  have "TrimSpace t = t" "ToUpper t = t"
    using t(2) upperNameChar_plain by (blast intro: class_match_visible class_match_upper)+
  with t show "NormalizeAsset t = Inr t" by (simp add: NormalizeAsset_def)
qed

interpretation amount: normaliser NormalizeExpectedAmountMinor
proof
  fix s t
  assume "NormalizeExpectedAmountMinor s = Inr t"
  then have t: "class_match is_digit 1 78 t"
    by (auto simp: NormalizeExpectedAmountMinor_def Let_def split: if_splits)
  have "TrimSpace t = t" using t is_digit_visible by (blast intro: class_match_visible)
  with t show "NormalizeExpectedAmountMinor t = Inr t" by (simp add: NormalizeExpectedAmountMinor_def)
qed

lemma isHexChar_lower: "isHexChar (lower_char c) = isHexChar c"
  by (auto simp: isHexChar_def byte_of_lower_char is_upper_def is_digit_def)

lemma class_match_ToLower: "(\<And>c. p (lower_char c) = p c) \<Longrightarrow> class_match p n m (ToLower s) = class_match p n m s"
  by (simp add: class_match_def ToLower_def list_all_iff)

lemma evm_split: "evmAddressPattern s \<longleftrightarrow> (\<exists>h. s = ''0x'' @ h \<and> class_match isHexChar 40 40 h)"
  by (auto simp: evmAddressPattern_def HasPrefix_iff)

lemma hex_visible: "isHexChar c \<Longrightarrow> visible c"
  by (auto simp: isHexChar_def visible_def is_digit_def)

lemma evm_trimmed: "class_match isHexChar 40 40 h \<Longrightarrow> TrimSpace (''0x'' @ h) = ''0x'' @ h"
  by (intro TrimSpace_visible)
    (auto simp: class_match_def list_all_iff literal_chars dest: hex_visible)

lemma ethereum_normal:
  assumes "class_match isHexChar 40 40 h"
  shows "NormalizeAddressForStorage ''ethereum'' (''0x'' @ h) = Inr (''0x'' @ ToLower h)"
  using evm_trimmed [OF assms] assms evm_split [of "''0x'' @ h"] TrimPrefix_append [of "''0x''" h]
  by (simp add: NormalizeAddressForStorage_def)

lemma ethereum_accepts:
  assumes "NormalizeAddressForStorage ''ethereum'' s = Inr t"
  obtains h where "TrimSpace s = ''0x'' @ h" "class_match isHexChar 40 40 h" "t = ''0x'' @ ToLower h"
proof -
  have e: "evmAddressPattern (TrimSpace s)" and t: "t = ''0x'' @ ToLower (TrimPrefix (TrimSpace s) ''0x'')"
    using assms by (auto simp: NormalizeAddressForStorage_def Let_def split: if_splits)
  obtain h where h: "TrimSpace s = ''0x'' @ h" "class_match isHexChar 40 40 h"
    using e unfolding evm_split by blast
  with t that show thesis using TrimPrefix_append [of "''0x''" h] by simp
qed

lemma hex_ToLower: "class_match isHexChar n m (ToLower h) = class_match isHexChar n m h"
  by (rule class_match_ToLower) (rule isHexChar_lower)

interpretation ethereum: normaliser "NormalizeAddressForStorage ''ethereum''"
proof
  fix s t
  assume "NormalizeAddressForStorage ''ethereum'' s = Inr t"
  then obtain h where "class_match isHexChar 40 40 h" "t = ''0x'' @ ToLower h"
    by (rule ethereum_accepts)
  then show "NormalizeAddressForStorage ''ethereum'' t = Inr t"
    using ethereum_normal [of "ToLower h"] hex_ToLower by simp
qed

interpretation token: normaliser NormalizeTokenContract
  by standard
    (auto simp: NormalizeTokenContract_def split: sum.splits dest: ethereum.settled)


lemma bech32_plain: "bech32Char c \<Longrightarrow> visible c \<and> \<not> is_upper c"
  by (auto simp: bech32Char_def visible_def is_upper_def byte_of_def)

lemma base58_plain: "base58Char c \<Longrightarrow> visible c"
  by (auto simp: base58Char_def visible_def byte_of_def)

text \<open>EIP-55 only changes the case of letters.\<close>

lemma checksum_lower: "lower_char (checksumChar hash i c) = lower_char c"
  by (simp add: checksumChar_def)

lemma checksum_lowers_back:
  "ToLower (map2 (checksumChar hash) [0..<length h] h) = ToLower h"
  by (rule nth_equalityI) (simp_all add: ToLower_def checksum_lower)

lemma checksum_normal:
  assumes "ToEIP55Checksum keccak s = Inr t"
  obtains h where "t = ''0x'' @ h" "class_match isHexChar 40 40 h"
    "''0x'' @ ToLower h = ''0x'' @ ToLower (TrimSpace (TrimPrefix s ''0x''))"
proof -
  define n where "n = ''0x'' @ ToLower (TrimSpace (TrimPrefix s ''0x''))"
  have e: "evmAddressPattern n"
    and t: "t = ''0x'' @ map2 (checksumChar (keccak (TrimPrefix n ''0x'')))
                  [0..<length (TrimPrefix n ''0x'')] (TrimPrefix n ''0x'')"
    using assms by (auto simp: ToEIP55Checksum_def Let_def n_def split: if_splits)
  obtain g where g: "n = ''0x'' @ g" "class_match isHexChar 40 40 g"
    using e unfolding evm_split by blast
  define h where "h = map2 (checksumChar (keccak g)) [0..<length g] g"
  have low: "ToLower h = ToLower g" unfolding h_def by (rule checksum_lowers_back)
  have "class_match isHexChar 40 40 h" using g(2) hex_ToLower [of 40 40 h] hex_ToLower [of 40 40 g] low by simp
  moreover have "t = ''0x'' @ h" using t g(1) TrimPrefix_append [of "''0x''" g] by (simp add: h_def)
  moreover have "''0x'' @ ToLower h = n" using g(1) low by (auto simp: n_def)
  ultimately show thesis using that unfolding n_def by blast
qed


interpretation bitcoin: normaliser "NormalizeAddressForStorage ''bitcoin''"
proof
  fix s t
  assume "NormalizeAddressForStorage ''bitcoin'' s = Inr t"
  then show "NormalizeAddressForStorage ''bitcoin'' t = Inr t"
    unfolding NormalizeAddressForStorage_def Let_def by (auto split: if_splits)
qed

lemma storage_chains:
  "NormalizeAddressForStorage chain s = Inr t \<Longrightarrow> chain = ''ethereum'' \<or> chain = ''bitcoin''"
  by (auto simp: NormalizeAddressForStorage_def Let_def split: if_splits)

lemma storage_settled:
  "NormalizeAddressForStorage chain s = Inr t \<Longrightarrow> NormalizeAddressForStorage chain t = Inr t"
  using storage_chains ethereum.settled bitcoin.settled by blast

lemma hostMatches_iff:
  "hostMatches h pattern \<longleftrightarrow>
     (let p = normalizedHost pattern
      in p \<noteq> [] \<and>
         (if HasPrefix p ''*.'' then \<exists>sub suf. p = ''*.'' @ suf \<and> suf \<noteq> [] \<and> h = sub @ ''.'' @ suf
          else h = p))"
proof (cases "HasPrefix (normalizedHost pattern) ''*.''")
  case True
  then obtain suf where "normalizedHost pattern = ''*.'' @ suf" unfolding HasPrefix_iff by blast
  then show ?thesis
    using TrimPrefix_append [of "''*.''" suf] True
    by (auto simp: hostMatches_def HasSuffix_iff)
next
  case False
  then show ?thesis by (auto simp: hostMatches_def Let_def)
qed

lemma allowed_append [simp]:
  "IsWebhookHostAllowed host (ps @ qs) = (IsWebhookHostAllowed host ps \<or> IsWebhookHostAllowed host qs)"
  by (auto simp: IsWebhookHostAllowed_def Let_def)

text \<open>
  C37. Storing an address is settled by one normalisation: the canonical address is accepted
  again and unchanged. The EIP-55 form shown to clients differs from the canonical form in the
  case of letters only, whatever the hash is, and a client that sends it back reaches the same
  stored address.
\<close>

theorem address_round_trip:
  assumes "NormalizeAddressForStorage chain raw = Inr canonical"
  shows "NormalizeAddressForStorage chain canonical = Inr canonical \<and>
    (\<exists>shown. FormatAddressForResponse keccak chain canonical = Inr shown \<and>
       ToLower shown = ToLower canonical \<and>
       NormalizeAddressForStorage chain shown = Inr canonical)"
proof (cases "chain = ''ethereum''")
  case True
  obtain h where h: "class_match isHexChar 40 40 h" "canonical = ''0x'' @ ToLower h"
    using assms unfolding True by (rule ethereum_accepts)
  have vis: "TrimSpace (ToLower h) = ToLower h"
    using h(1) hex_ToLower [of 40 40 h] hex_visible by (blast intro: class_match_visible)
  have "evmAddressPattern canonical" using h hex_ToLower by (auto simp: evm_split)
  then obtain shown where shown: "ToEIP55Checksum keccak canonical = Inr shown"
    using TrimPrefix_append [of "''0x''" "ToLower h"] vis h(2)
    by (auto simp: ToEIP55Checksum_def Let_def)
  obtain g where g: "shown = ''0x'' @ g" "class_match isHexChar 40 40 g"
    "''0x'' @ ToLower g = ''0x'' @ ToLower (TrimSpace (TrimPrefix canonical ''0x''))"
    using shown by (rule checksum_normal)
  have "''0x'' @ ToLower g = canonical"
    using g(3) TrimPrefix_append [of "''0x''" "ToLower h"] vis h(2) by simp
  then show ?thesis
    using storage_settled [OF assms] shown g(1) ethereum_normal [OF g(2)] True
    by (auto simp: FormatAddressForResponse_def)
next
  case False
  then have "chain = ''bitcoin''" using storage_chains [OF assms] by blast
  then show ?thesis
    using storage_settled [OF assms] by (simp add: FormatAddressForResponse_def)
qed

lemma address_round_trip_witness:
  "\<exists>shown. FormatAddressForResponse (\<lambda>_. replicate 32 165) ''ethereum''
     ''0x52908400098527886e0f7030069857d2e4169ee7'' = Inr shown \<and>
     NormalizeAddressForStorage ''ethereum'' shown = Inr ''0x52908400098527886e0f7030069857d2e4169ee7''"
proof -
  have "NormalizeAddressForStorage ''ethereum'' ''  0x52908400098527886E0F7030069857D2E4169EE7 ''
    = Inr ''0x52908400098527886e0f7030069857d2e4169ee7''" by code_simp
  from address_round_trip [OF this, of "\<lambda>_. replicate 32 165"] show ?thesis by blast
qed

text \<open>
  The webhook allow-list is exactly the union of its patterns: a host passes when, without
  case, surrounding white space and one trailing dot, it equals a pattern, or when it ends in a
  dot and the suffix of a wildcard pattern; the suffix itself does not pass by the wildcard, and
  neither does a host that merely ends in the same letters. Extending the list never revokes a
  host, and the empty list admits none.
\<close>

theorem allow_list_decision:
  "(IsWebhookHostAllowed host allowlist \<longleftrightarrow>
      normalizedHost host \<noteq> [] \<and>
      list_ex (\<lambda>pattern. let p = normalizedHost pattern
         in p \<noteq> [] \<and>
            (if HasPrefix p ''*.''
             then \<exists>sub suf. p = ''*.'' @ suf \<and> suf \<noteq> [] \<and> normalizedHost host = sub @ ''.'' @ suf
             else normalizedHost host = p)) allowlist) \<and>
   \<not> (normalizedHost apex = ''*.'' @ normalizedHost host \<and> IsWebhookHostAllowed host [apex]) \<and>
   (IsWebhookHostAllowed host (allowlist @ others) \<longleftrightarrow>
      IsWebhookHostAllowed host allowlist \<or> IsWebhookHostAllowed host others) \<and>
   \<not> IsWebhookHostAllowed host []"
proof -
  have w: "\<not> (normalizedHost apex = ''*.'' @ normalizedHost host \<and> IsWebhookHostAllowed host [apex])"
    using TrimPrefix_append [of "''*.''" "normalizedHost host"]
    by (auto simp: IsWebhookHostAllowed_def hostMatches_def HasSuffix_iff Let_def)
  have e: "\<not> IsWebhookHostAllowed host []" by (simp add: IsWebhookHostAllowed_def Let_def)
  have "IsWebhookHostAllowed host allowlist \<longleftrightarrow>
      normalizedHost host \<noteq> [] \<and> list_ex (hostMatches (normalizedHost host)) allowlist"
    by (simp add: IsWebhookHostAllowed_def Let_def)
  then show ?thesis
    unfolding hostMatches_iff using w e allowed_append by blast
qed

end
