(* ===== verification/RequestProps.thy ===== *)
theory RequestProps
  imports CreationProps ValueObjectProps
begin

text \<open>
  The creation as the clients see it: what an accepted request contains, that it can be read back,
  and what its idempotency hash stands for.
\<close>

subsection \<open>What the steps of the use case establish\<close>




lemma normalizeCommand_fields:
  assumes "normalizeCommand u c = Inr i"
  shows "NormalizeChain (ccChain c) = Inr (niChain i) \<and> NormalizeNetwork (ccNetwork c) = Inr (niNetwork i) \<and>
    NormalizeAsset (ccAsset c) = Inr (niAsset i) \<and>
    normalizeAmount (ccExpectedAmountMinor c) = Inr (niExpectedAmountMinor i) \<and>
    normalizeMetadata u (ccMetadata c) = Inr (niMetadata i) \<and>
    niExpiresInSeconds i = ccExpiresInSeconds c \<and> niScope i = normalizeIdempotencyScope (ccScope c) \<and>
    (\<exists>host. NormalizeWebhookURL (enParse u) (enRender u) (ccWebhookURL c) = Inr (niWebhookURL i, host) \<and>
       IsWebhookHostAllowed host (enAllowList u))"
  using assms unfolding normalizeCommand_def
  by (auto split: sum.split_asm prod.split_asm if_split_asm)

lemma resolveExpires_range:
  "ResolveExpiresInSeconds requested d = Inr v \<Longrightarrow>
     isExpiryInRange v \<and> v = (case requested of None \<Rightarrow> d | Some w \<Rightarrow> w)"
  by (auto simp: ResolveExpiresInSeconds_def split: if_split_asm option.split_asm)

lemma buildPersistenceCommand_fields:
  assumes "buildPersistenceCommand u i entry = Inr command"
  shows "pcChain command = niChain i \<and> pcNetwork command = niNetwork i \<and> pcAsset command = niAsset i \<and>
    pcExpectedAmountMinor command = niExpectedAmountMinor i \<and> pcSnapshot command = entry \<and>
    pcStatus command = ''pending'' \<and> pcCreatedAt command = enNow u \<and> pcScope command = niScope i \<and>
    pcKey command = niKey i \<and> pcMetadata command = niMetadata i \<and>
    pcWebhookURL command = niWebhookURL i \<and>
    (\<exists>v. ResolveExpiresInSeconds (niExpiresInSeconds i) (ceDefaultExpiresInSeconds entry) = Inr v \<and>
       pcExpiresAt command = enNow u + v * second \<and>
       pcRequestHash command = hashCreateRequest u i v) \<and>
    (\<exists>bytes. pcResourceID command = ''pr_'' @ ToLower (hex_string bytes))"
  using assms unfolding buildPersistenceCommand_def generateID_def
  by (auto simp: Let_def split: sum.split_asm)










subsection \<open>The row of a new request\<close>

lemma insertPaymentRequest_amount:
  assumes "insertPaymentRequest pg c wid idx address s = Inr row"
  shows "\<exists>amount. row = requestRowOf c wid idx address amount \<and>
    amount = (case pcExpectedAmountMinor c of None \<Rightarrow> None | Some a \<Rightarrow> pgNumeric pg a) \<and>
    (amount = None) = (pcExpectedAmountMinor c = None) \<and> requestChecks pg row \<and>
    \<not> list_ex (clashes row) (dbRequests s)"
proof -
  have "case insertPaymentRequest pg c wid idx address s of Inl _ \<Rightarrow> True
    | Inr row \<Rightarrow> (\<exists>amount. row = requestRowOf c wid idx address amount \<and>
    amount = (case pcExpectedAmountMinor c of None \<Rightarrow> None | Some a \<Rightarrow> pgNumeric pg a) \<and>
    (amount = None) = (pcExpectedAmountMinor c = None) \<and> requestChecks pg row \<and>
    \<not> list_ex (clashes row) (dbRequests s))"
    by (auto simp: insertPaymentRequest_def Let_def split: option.split)
  then show ?thesis unfolding assms sum.case .
qed


lemma execute_created:
  assumes "enRepository u = Some (Create pg alone)" "createExecute u c s = (Inr x, s')"
    "\<not> crReplayed x"
  shows "\<exists>i entry command w al row.
    normalizeCommand u c = Inr i \<and>
    loadAssetCatalogEntry (the (enCatalog u)) (niChain i) (niNetwork i) (niAsset i) s = Inr entry \<and>
    buildPersistenceCommand u i entry = Inr command \<and>
    resolvePaymentAddress u (the (enWallet u)) (resolveInputOf command w) = Inr al \<and>
    crResource x = resourceOf command (waNextIndex w) (roAddress al) \<and>
    insertPaymentRequest pg command (waID w) (waNextIndex w) (roAddressCanonical al) s = Inr row \<and>
    dbRequests s' = dbRequests s @ [row]"
proof -
  have "\<exists>i entry command.
       normalizeCommand u c = Inr i \<and>
       loadAssetCatalogEntry (the (enCatalog u)) (niChain i) (niNetwork i) (niAsset i) s = Inr entry \<and>
       buildPersistenceCommand u i entry = Inr command \<and>
       Create pg alone (Some (resolvePaymentAddress u (the (enWallet u)))) command s = (Inr x, s')"
    using creator.execute_cases [OF assms(1) refl assms(2)] by blast
  then obtain i entry command where parts: "normalizeCommand u c = Inr i"
      "loadAssetCatalogEntry (the (enCatalog u)) (niChain i) (niNetwork i) (niAsset i) s = Inr entry"
      "buildPersistenceCommand u i entry = Inr command"
      "Create pg alone (Some (resolvePaymentAddress u (the (enWallet u)))) command s = (Inr x, s')"
    by blast
  obtain w al where w: "resolvePaymentAddress u (the (enWallet u)) (resolveInputOf command w) = Inr al"
      "created pg alone command w al s (crResource x) s'"
    using Create_outcome [OF parts(4)] assms(3) by auto
  obtain row where "insertPaymentRequest pg command (waID w) (waNextIndex w) (roAddressCanonical al) s = Inr row"
      "dbRequests s' = dbRequests s @ [row]"
    using w(2) unfolding created_def stored_def by auto
  then show ?thesis using parts w unfolding created_def by blast
qed

subsection \<open>Examples\<close>

text \<open>
  A deployment that derives bech32 addresses for one bitcoin wallet. Parsing and rendering of
  URLs only know the one address the example uses.
\<close>

definition demo_catalog :: catalog_row where
  "demo_catalog =
     \<lparr>caChain = ''bitcoin'', caNetwork = ''regtest'', caAsset = ''BTC'', caWalletAccountID = ''wa'',
      caMinorUnit = ''sats'', caDecimals = 8, caAddressScheme = ''bip84_p2wpkh'', caChainID = None,
      caTokenStandard = None, caTokenContract = None, caTokenDecimals = None,
      caDefaultExpiresInSeconds = 3600, caEnabled = True\<rparr>"

definition demo_shop :: db where
  "demo_shop = demo_wallets\<lparr>dbCatalog := [demo_catalog]\<rparr>"

definition demo_url :: url where
  "demo_url =
     \<lparr>urlScheme = ''https'', urlUser = None, urlHost = ''Shop.example'', urlHostname = ''Shop.example'',
      urlPort = [], urlPath = ''/hook'', urlRawQuery = [], urlFragment = []\<rparr>"

definition demo_env :: create_env where
  "demo_env =
     \<lparr>enCatalog = Some (ListEnabled demo_pg), enRepository = Some (Create demo_pg alone),
      enWallet = Some \<lparr>
       wgDerive = (\<lambda>i. Inr \<lparr>daAddressRaw = ''BCRT1QQQQQQQQQQQ'' @ FormatInt (diDerivationIndex i),
        daAddressScheme = ''bip84_p2wpkh'', daChainID = None\<rparr>), wgMode = Some ''devtest''\<rparr>,
      enAllowList = [''*.example''], enParse = (\<lambda>s. if s = ''https://Shop.example/hook'' then Some demo_url else None),
      enRender = (\<lambda>u. urlScheme u @ ''://'' @ urlHost u @ urlPath u),
      enKeccak = (\<lambda>_. replicate 32 0), enDigest = (\<lambda>s. s), enLeaf = (\<lambda>_. []),
      enRandom = (\<lambda>_. Inr [1, 35]), enNow = 5 * second\<rparr>"

definition demo_order :: create_command where
  "demo_order =
     \<lparr>ccScope = \<lparr>isPrincipalID = ''shop'', isHTTPMethod = ''POST'', isHTTPPath = ''/v1/payment-requests''\<rparr>,
      ccKey = ''k'', ccChain = '' Bitcoin'', ccNetwork = ''RegTest'', ccAsset = ''btc'',
      ccWebhookURL = ''https://Shop.example/hook'', ccExpectedAmountMinor = Some ''0100'',
      ccExpiresInSeconds = Some 600, ccMetadata = []\<rparr>"

definition demo_response :: create_result where
  "demo_response =
     \<lparr>crResource =
        \<lparr>rsID = ''pr_0123'', rsStatus = ''pending'', rsChain = ''bitcoin'', rsNetwork = ''regtest'',
         rsAsset = ''BTC'', rsExpectedAmountMinor = Some ''0100'', rsExpiresAt = 605 * second,
         rsCreatedAt = 5 * second,
         rsInstructions = \<lparr>piAddress = ''bcrt1qqqqqqqqqqq4'', piScheme = ''bip84_p2wpkh'', piIndex = 4,
           piChain = None, piStandard = None, piContract = None, piDecimals = None\<rparr>\<rparr>,
      crReplayed = False\<rparr>"

lemma demo_env_parts:
  "enRepository demo_env = Some (Create demo_pg alone)" "enCatalog demo_env = Some (ListEnabled demo_pg)"
  by (simp_all add: demo_env_def)

lemma order_demo: "fst (createExecute demo_env demo_order demo_shop) = Inr demo_response"
  by code_simp

lemma order_run:
  "createExecute demo_env demo_order demo_shop =
     (Inr demo_response, snd (createExecute demo_env demo_order demo_shop))"
  using order_demo by (simp add: prod_eq_iff)

subsection \<open>Properties\<close>

text \<open>
  C24. What an accepted request contains: the normalised chain, network, asset and amount of the
  command, an asset the catalog lists, the status pending, the instant of the clock, an expiry
  between one minute and thirty days later that is the requested one when there is one, and a
  webhook URL whose host the allow-list admits.
\<close>

theorem accepted_request:
  assumes "enRepository u = Some (Create pg alone)" "enCatalog u = Some (ListEnabled pg)"
    "createExecute u c s = (Inr x, s')" "\<not> crReplayed x"
  shows "NormalizeChain (ccChain c) = Inr (rsChain (crResource x)) \<and>
    NormalizeNetwork (ccNetwork c) = Inr (rsNetwork (crResource x)) \<and>
    NormalizeAsset (ccAsset c) = Inr (rsAsset (crResource x)) \<and>
    normalizeAmount (ccExpectedAmountMinor c) = Inr (rsExpectedAmountMinor (crResource x)) \<and>
    rsStatus (crResource x) = ''pending'' \<and> rsCreatedAt (crResource x) = enNow u \<and>
    (\<exists>entry v. loadAssetCatalogEntry (ListEnabled pg) (rsChain (crResource x))
        (rsNetwork (crResource x)) (rsAsset (crResource x)) s = Inr entry \<and>
       v = (case ccExpiresInSeconds c of None \<Rightarrow> ceDefaultExpiresInSeconds entry | Some w \<Rightarrow> w) \<and>
       60 \<le> v \<and> v \<le> 2592000 \<and> rsExpiresAt (crResource x) = enNow u + v * second) \<and>
    (\<exists>url host. NormalizeWebhookURL (enParse u) (enRender u) (ccWebhookURL c) = Inr (url, host) \<and>
       IsWebhookHostAllowed host (enAllowList u) \<and>
       prWebhookURL (last (dbRequests s')) = Some url)"
proof -
  obtain i entry command w al row where p: "normalizeCommand u c = Inr i"
    "loadAssetCatalogEntry (the (enCatalog u)) (niChain i) (niNetwork i) (niAsset i) s = Inr entry"
    "buildPersistenceCommand u i entry = Inr command"
    "resolvePaymentAddress u (the (enWallet u)) (resolveInputOf command w) = Inr al"
    "crResource x = resourceOf command (waNextIndex w) (roAddress al)"
    "insertPaymentRequest pg command (waID w) (waNextIndex w) (roAddressCanonical al) s = Inr row"
    "dbRequests s' = dbRequests s @ [row]"
    using execute_created [OF assms(1,3,4)] by blast
  have url: "prWebhookURL row = Some (pcWebhookURL command)"
    using insertPaymentRequest_amount [OF p(6)] by (auto simp: requestRowOf_def)
  obtain v where v: "ResolveExpiresInSeconds (niExpiresInSeconds i) (ceDefaultExpiresInSeconds entry) = Inr v"
      "pcExpiresAt command = enNow u + v * second"
    using buildPersistenceCommand_fields [OF p(3)] by blast
  note f = normalizeCommand_fields [OF p(1)] buildPersistenceCommand_fields [OF p(3)]
  have "60 \<le> v \<and> v \<le> 2592000 \<and>
      v = (case ccExpiresInSeconds c of None \<Rightarrow> ceDefaultExpiresInSeconds entry | Some w \<Rightarrow> w)"
    using resolveExpires_range [OF v(1)] f(1) by (simp add: isExpiryInRange_def)
  moreover have "loadAssetCatalogEntry (ListEnabled pg) (niChain i) (niNetwork i) (niAsset i) s = Inr entry"
    using p(2) assms(2) by simp
  ultimately show ?thesis
    using f v(2) p(7) url by (simp add: p(5) resourceOf_def)
qed

lemma accepted_request_witness:
  "NormalizeChain '' Bitcoin'' = Inr ''bitcoin'' \<and> rsExpiresAt (crResource demo_response) = 605 * second \<and>
   prWebhookURL (last (dbRequests (snd (createExecute demo_env demo_order demo_shop)))) =
     Some ''https://shop.example/hook''"
proof -
  have "NormalizeWebhookURL (enParse demo_env) (enRender demo_env) (ccWebhookURL demo_order) =
      Inr (''https://shop.example/hook'', ''shop.example'')" by code_simp
  then show ?thesis
    using accepted_request [OF demo_env_parts order_run]
    by (simp add: demo_response_def demo_order_def)
qed



end
