(* ===== verification/Radix.thy ===== *)
theory Radix
  imports GoStrings
begin

text \<open>
  Positional notation: the digits of a number in a base, and the number of a digit string. The
  conversions of \<^verbatim>\<open>math/big\<close> (base 256) and of Base58 rest on it.
\<close>

fun radix_digits :: "nat \<Rightarrow> nat \<Rightarrow> nat list" where
  "radix_digits b n = (if b \<le> 1 \<or> n = 0 then [] else n mod b # radix_digits b (n div b))"

declare radix_digits.simps [simp del]

definition radix_value :: "nat \<Rightarrow> nat list \<Rightarrow> nat" where
  "radix_value b ds = foldl (\<lambda>a d. a * b + d) 0 ds"

lemma radix_value_Nil [simp]: "radix_value b [] = 0"
  by (simp add: radix_value_def)

lemma radix_value_snoc [simp]: "radix_value b (ds @ [d]) = radix_value b ds * b + d"
  by (simp add: radix_value_def)

lemma radix_value_zeros: "radix_value b (replicate n 0 @ ds) = radix_value b ds"
  by (induction n) (simp_all add: radix_value_def)

locale radix =
  fixes b :: nat
  assumes base: "1 < b"
begin

lemma digits_Nil: "radix_digits b 0 = []"
  by (simp add: radix_digits.simps)

lemma digits_step: "0 < n \<Longrightarrow> radix_digits b n = n mod b # radix_digits b (n div b)"
  using base by (subst radix_digits.simps) simp

lemma digits_less: "d \<in> set (radix_digits b n) \<Longrightarrow> d < b"
proof (induction n rule: less_induct)
  case (less n)
  show ?case
  proof (cases "n = 0")
    case False
    then have "n div b < n" using base by simp
    from less(1) [OF this] show ?thesis using less(2) False base by (auto simp: digits_step)
  qed (use less(2) in \<open>simp add: digits_Nil\<close>)
qed

lemma value_digits: "radix_value b (rev (radix_digits b n)) = n"
proof (induction n rule: less_induct)
  case (less n)
  then show ?case
    using base by (cases "n = 0") (simp_all add: digits_Nil digits_step)
qed

lemma digits_top: "n \<noteq> 0 \<Longrightarrow> radix_digits b n \<noteq> [] \<and> last (radix_digits b n) \<noteq> 0"
proof (induction n rule: less_induct)
  case (less n)
  show ?case
  proof (cases "n < b")
    case True
    then show ?thesis using less by (simp add: digits_step digits_Nil)
  next
    case False
    then have "n div b \<noteq> 0" using base by (simp add: div_eq_0_iff)
    then show ?thesis using less base by (simp add: digits_step)
  qed
qed

lemma digits_value:
  "\<forall>d \<in> set ds. d < b \<Longrightarrow> rev (radix_digits b (radix_value b ds)) = dropWhile (\<lambda>d. d = 0) ds"
proof (induction ds rule: rev_induct)
  case Nil
  then show ?case by (simp add: digits_Nil)
next
  case (snoc d ds)
  then have d: "d < b" and IH: "rev (radix_digits b (radix_value b ds)) = dropWhile (\<lambda>d. d = 0) ds"
    by simp_all
  show ?case
  proof (cases "radix_value b ds * b + d = 0")
    case True
    then have "d = 0" "radix_value b ds = 0" using base by simp_all
    then have "dropWhile (\<lambda>d. d = 0) ds = []" using IH by (simp add: digits_Nil)
    then show ?thesis
      using \<open>d = 0\<close> \<open>radix_value b ds = 0\<close> by (simp add: digits_Nil dropWhile_append)
  next
    case False
    have "radix_digits b (radix_value b ds * b + d) = d # radix_digits b (radix_value b ds)"
      using digits_step [of "radix_value b ds * b + d"] False d by simp
    moreover have "dropWhile (\<lambda>d. d = 0) (ds @ [d]) = dropWhile (\<lambda>d. d = 0) ds @ [d]"
    proof (cases "dropWhile (\<lambda>d. d = 0) ds = []")
      case True
      then have "radix_digits b (radix_value b ds) = []" using IH by (metis rev_is_Nil_conv)
      then have "radix_value b ds = 0" using digits_top by blast
      then have "d \<noteq> 0" using False by simp
      then show ?thesis using True by (simp add: dropWhile_append dropWhile_eq_Nil_conv)
    next
      case False
      then show ?thesis by (auto simp: dropWhile_append dropWhile_eq_Nil_conv)
    qed
    ultimately show ?thesis using IH by simp
  qed
qed

lemma value_bound: "\<forall>d \<in> set ds. d < b \<Longrightarrow> radix_value b ds < b ^ length ds"
proof (induction ds rule: rev_induct)
  case (snoc d ds)
  then have "radix_value b ds + 1 \<le> b ^ length ds" "d < b" by simp_all
  then have "(radix_value b ds + 1) * b \<le> b ^ length ds * b" by (intro mult_right_mono) simp_all
  then show ?case using \<open>d < b\<close> by (simp add: algebra_simps)
qed simp

lemma digits_length: "n < b ^ k \<Longrightarrow> length (radix_digits b n) \<le> k"
proof (induction k arbitrary: n)
  case 0
  then show ?case by (simp add: digits_Nil)
next
  case (Suc k)
  then have "n div b < b ^ k" using base by (simp add: less_mult_imp_div_less mult.commute)
  then show ?case using Suc by (cases "n = 0") (simp_all add: digits_Nil digits_step)
qed

end

text \<open>The leading zeros of a list and what follows them.\<close>

lemma zeros_split: "xs = replicate (length (takeWhile (\<lambda>x. x = z) xs)) z @ dropWhile (\<lambda>x. x = z) xs"
proof -
  have "takeWhile (\<lambda>x. x = z) xs = replicate (length (takeWhile (\<lambda>x. x = z) xs)) z"
    by (induction xs) auto
  then show ?thesis by (metis takeWhile_dropWhile_id)
qed

subsection \<open>Bytes\<close>

interpretation base256: radix 256
  by unfold_locales simp

text \<open>\<^verbatim>\<open>big.Int.SetBytes\<close> and \<^verbatim>\<open>big.Int.Bytes\<close>, for the numbers that are not negative.\<close>

definition SetBytes :: "byte list \<Rightarrow> nat" where
  "SetBytes bs = radix_value 256 (map unat bs)"

definition Bytes :: "nat \<Rightarrow> byte list" where
  "Bytes n = map of_nat (rev (radix_digits 256 n))"

lemma unat_byte_less: "unat (w :: byte) < 256"
  using unsigned_less [of w] by simp

lemma SetBytes_Bytes [simp]: "SetBytes (Bytes n) = n"
proof -
  have "map (unat \<circ> (of_nat :: nat \<Rightarrow> byte)) (rev (radix_digits 256 n)) = rev (radix_digits 256 n)"
    using base256.digits_less by (intro map_idI) (auto simp: unat_of_nat)
  then show ?thesis using base256.value_digits by (simp add: SetBytes_def Bytes_def)
qed

lemma Bytes_SetBytes: "Bytes (SetBytes bs) = dropWhile (\<lambda>w. w = 0) bs"
proof -
  have "rev (radix_digits 256 (SetBytes bs)) = dropWhile (\<lambda>d. d = 0) (map unat bs)"
    unfolding SetBytes_def by (rule base256.digits_value) (auto simp: unat_byte_less)
  also have "\<dots> = map unat (dropWhile (\<lambda>w. w = 0) bs)"
    by (simp add: dropWhile_map comp_def unat_eq_zero)
  finally show ?thesis by (simp add: Bytes_def comp_def)
qed

lemma SetBytes_bound: "SetBytes bs < 256 ^ length bs"
  using base256.value_bound [of "map unat bs"] by (simp add: SetBytes_def unat_byte_less)

lemma Bytes_length: "n < 256 ^ k \<Longrightarrow> length (Bytes n) \<le> k"
  using base256.digits_length by (simp add: Bytes_def)

lemma SetBytes_zeros: "SetBytes (replicate n 0 @ bs) = SetBytes bs"
  by (simp add: SetBytes_def radix_value_zeros)

lemma Bytes_top: "Bytes n = [] \<or> hd (Bytes n) \<noteq> 0"
proof (cases "n = 0")
  case False
  let ?d = "last (radix_digits 256 n)"
  have d: "radix_digits 256 n \<noteq> []" "?d \<noteq> 0" "?d < 256"
    using base256.digits_top [OF False] base256.digits_less [of "last (radix_digits 256 n)" n] by simp_all
  then have "unat (of_nat ?d :: byte) \<noteq> 0" by (simp add: unat_of_nat)
  then have "(of_nat ?d :: byte) \<noteq> 0" by (simp only: unat_eq_zero not_False_eq_True)
  then show ?thesis using d(1) by (simp add: Bytes_def hd_map hd_rev)
qed (simp add: Bytes_def base256.digits_Nil)

end
