(* ===== verification/Base58.thy ===== *)
theory Base58
  imports Radix
begin

text \<open>
  Base58 and Base58Check (\<^verbatim>\<open>walletkeys/base58check.go\<close>). SHA-256 is a parameter.
\<close>

subsection \<open>Error texts\<close>

definition hex_digit :: "nat \<Rightarrow> char" where
  "hex_digit d = ''0123456789abcdef'' ! (d mod 16)"

text \<open>The verb \<^verbatim>\<open>%q\<close> of \<^verbatim>\<open>fmt\<close> on a byte, taken as a code point below 256.\<close>

definition quote_byte :: "char \<Rightarrow> string" where
  "quote_byte c =
     (let n = byte_of c; q = char_of (39 :: nat); bs = char_of (92 :: nat) in
      [q] @
      (if c = q \<or> c = bs then [bs, c]
       else if 32 \<le> n \<and> n < 127 then [c]
       else if n = 7 then bs # ''a'' else if n = 8 then bs # ''b'' else if n = 12 then bs # ''f''
       else if n = 10 then bs # ''n'' else if n = 13 then bs # ''r'' else if n = 9 then bs # ''t''
       else if n = 11 then bs # ''v''
       else if n < 128 then bs # ''x'' @ [hex_digit (n div 16), hex_digit n]
       else if n \<le> 160 \<or> n = 173 then bs # ''u00'' @ [hex_digit (n div 16), hex_digit n]
       else [char_of (192 + n div 64), char_of (128 + n mod 64)]) @ [q])"

subsection \<open>Base58\<close>

definition base58Alphabet :: string where
  "base58Alphabet = ''123456789ABCDEFGHJKLMNPQRSTUVWXYZabcdefghijkmnopqrstuvwxyz''"

text \<open>The first position of a character in the alphabet.\<close>

fun alphabetIndex :: "string \<Rightarrow> char \<Rightarrow> nat \<Rightarrow> nat option" where
  "alphabetIndex [] ch j = None"
| "alphabetIndex (a # as) ch j = (if a = ch then Some j else alphabetIndex as ch (j + 1))"

fun decodeLoop :: "nat \<Rightarrow> string \<Rightarrow> string + nat" where
  "decodeLoop v [] = Inr v"
| "decodeLoop v (ch # rest) =
     (case alphabetIndex base58Alphabet ch 0 of
        None \<Rightarrow> Inl (''invalid base58 character: '' @ quote_byte ch)
      | Some i \<Rightarrow> decodeLoop (v * 58 + i) rest)"

definition decodeBase58 :: "string \<Rightarrow> string + byte list" where
  "decodeBase58 input =
     (case decodeLoop 0 input of
        Inl e \<Rightarrow> Inl e
      | Inr v \<Rightarrow>
          Inr (replicate (length (takeWhile (\<lambda>c. c = CHR ''1'') input)) 0 @ Bytes v))"

text \<open>The digits come out least significant first, then one character per leading zero.\<close>

definition encodeBase58 :: "byte list \<Rightarrow> string" where
  "encodeBase58 input =
     rev (map (\<lambda>d. base58Alphabet ! d) (radix_digits 58 (SetBytes input)) @
          replicate (length (takeWhile (\<lambda>w. w = 0) input)) (CHR ''1''))"

subsection \<open>Base58Check\<close>

definition checksum4 :: "(byte list \<Rightarrow> byte list) \<Rightarrow> byte list \<Rightarrow> byte list" where
  "checksum4 sha payload = take 4 (sha (sha payload))"

definition decodeBase58Check :: "(byte list \<Rightarrow> byte list) \<Rightarrow> string \<Rightarrow> string + byte list" where
  "decodeBase58Check sha input =
     (case decodeBase58 input of
        Inl e \<Rightarrow> Inl e
      | Inr decoded \<Rightarrow>
          if length decoded < 4 then Inl ''base58check payload too short''
          else
            (let payload = take (length decoded - 4) decoded;
                 checksum = drop (length decoded - 4) decoded
             in if checksum \<noteq> checksum4 sha payload then Inl ''base58check checksum mismatch''
                else Inr payload))"

definition encodeBase58Check :: "(byte list \<Rightarrow> byte list) \<Rightarrow> byte list \<Rightarrow> string" where
  "encodeBase58Check sha payload = encodeBase58 (payload @ checksum4 sha payload)"

subsection \<open>The alphabet\<close>

interpretation base58: radix 58
  by unfold_locales simp

lemma alphabet_facts: "length base58Alphabet = 58" "distinct base58Alphabet"
  "base58Alphabet ! 0 = CHR ''1''"
  by (simp_all add: base58Alphabet_def)

lemma alphabetIndex_nth:
  "distinct as \<Longrightarrow> i < length as \<Longrightarrow> alphabetIndex as (as ! i) j = Some (j + i)"
  by (induction as "as ! i" j arbitrary: i rule: alphabetIndex.induct)
    (auto simp: nth_Cons split: nat.splits)

lemma alphabetIndex_Some:
  "alphabetIndex as c j = Some i \<Longrightarrow> j \<le> i \<and> i - j < length as \<and> as ! (i - j) = c"
proof (induction as c j rule: alphabetIndex.induct)
  case (2 a as ch j)
  then show ?case by (auto simp: nth_Cons' Suc_diff_Suc split: if_split_asm)
qed simp

lemma digit_char:
  assumes "i < 58" shows "alphabetIndex base58Alphabet (base58Alphabet ! i) 0 = Some i"
  using alphabetIndex_nth [of base58Alphabet i 0] assms by (simp add: alphabet_facts)

lemma char_digit: "alphabetIndex base58Alphabet c 0 = Some i \<Longrightarrow> i < 58 \<and> base58Alphabet ! i = c"
  using alphabetIndex_Some [of base58Alphabet c 0 i] by (simp add: alphabet_facts)

lemma one_digit: "i < 58 \<Longrightarrow> base58Alphabet ! i = CHR ''1'' \<longleftrightarrow> i = 0"
  using nth_eq_iff_index_eq [OF alphabet_facts(2), of i 0] alphabet_facts by simp

text \<open>Decoding computes the value of the digits.\<close>

lemma decodeLoop_digits:
  "\<forall>i \<in> set ds. i < 58 \<Longrightarrow>
     decodeLoop v (map (\<lambda>d. base58Alphabet ! d) ds) = Inr (foldl (\<lambda>a d. a * 58 + d) v ds)"
  by (induction ds arbitrary: v) (simp_all add: digit_char)

lemma decodeLoop_Inr:
  "decodeLoop v s = Inr w \<Longrightarrow>
     \<exists>ds. s = map (\<lambda>d. base58Alphabet ! d) ds \<and> (\<forall>i \<in> set ds. i < 58) \<and>
          w = foldl (\<lambda>a d. a * 58 + d) v ds"
proof (induction v s rule: decodeLoop.induct)
  case (2 v ch rest)
  then obtain i where i: "alphabetIndex base58Alphabet ch 0 = Some i" "decodeLoop (v * 58 + i) rest = Inr w"
    by (auto split: option.split_asm)
  then obtain ds where "rest = map (\<lambda>d. base58Alphabet ! d) ds" "\<forall>i \<in> set ds. i < 58"
      "w = foldl (\<lambda>a d. a * 58 + d) (v * 58 + i) ds"
    using 2(1) by blast
  then show ?case using char_digit [OF i(1)] by (intro exI [of _ "i # ds"]) auto
qed simp

lemma decode_digits:
  assumes "\<forall>i \<in> set ds. i < 58"
  shows "decodeBase58 (map (\<lambda>d. base58Alphabet ! d) ds) =
    Inr (replicate (length (takeWhile (\<lambda>d. d = 0) ds)) 0 @ Bytes (radix_value 58 ds))"
proof -
  have "takeWhile (\<lambda>c. c = CHR ''1'') (map (\<lambda>d. base58Alphabet ! d) ds) =
      map (\<lambda>d. base58Alphabet ! d) (takeWhile (\<lambda>d. d = 0) ds)"
    using assms by (induction ds) (auto simp: one_digit)
  then show ?thesis
    using decodeLoop_digits [OF assms, of 0] by (simp add: decodeBase58_def radix_value_def)
qed

subsection \<open>Round trips\<close>

lemma encode_as_digits:
  "encodeBase58 bs = map (\<lambda>d. base58Alphabet ! d)
     (replicate (length (takeWhile (\<lambda>w. w = 0) bs)) 0 @ rev (radix_digits 58 (SetBytes bs)))"
  by (simp add: encodeBase58_def rev_map alphabet_facts)

lemma takeWhile_zeros:
  fixes ds :: "'a :: zero list"
  assumes "ds = [] \<or> hd ds \<noteq> 0"
  shows "takeWhile (\<lambda>d. d = 0) (replicate n 0 @ ds) = replicate n 0"
    "dropWhile (\<lambda>d. d = 0) (replicate n 0 @ ds) = ds"
  using assms by (induction n; cases ds; simp)+

lemma digits_head: "rev (radix_digits 58 n) = [] \<or> hd (rev (radix_digits 58 n)) \<noteq> 0"
  using base58.digits_top [of n] base58.digits_Nil by (cases "n = 0") (auto simp: hd_rev)

lemma decode_encode: "decodeBase58 (encodeBase58 bs) = Inr bs"
proof -
  let ?z = "length (takeWhile (\<lambda>w. w = 0) bs)" and ?ds = "rev (radix_digits 58 (SetBytes bs))"
  have "decodeBase58 (encodeBase58 bs) =
      Inr (replicate ?z 0 @ Bytes (radix_value 58 (replicate ?z 0 @ ?ds)))"
    unfolding encode_as_digits
    by (subst decode_digits) (auto simp: takeWhile_zeros [OF digits_head] dest: base58.digits_less)
  also have "radix_value 58 (replicate ?z 0 @ ?ds) = SetBytes bs"
    by (simp add: radix_value_zeros base58.value_digits)
  also have "replicate ?z 0 @ Bytes (SetBytes bs) = bs"
    unfolding Bytes_SetBytes by (rule zeros_split [symmetric])
  finally show ?thesis .
qed

lemma encode_decode:
  assumes "decodeBase58 s = Inr bs"
  shows "encodeBase58 bs = s"
proof -
  obtain v where "decodeLoop 0 s = Inr v" using assms by (auto simp: decodeBase58_def split: sum.split_asm)
  then obtain ds where ds: "s = map (\<lambda>d. base58Alphabet ! d) ds" "\<forall>i \<in> set ds. i < 58"
    using decodeLoop_Inr by blast
  let ?z = "length (takeWhile (\<lambda>d. d = 0) ds)"
  have bs: "bs = replicate ?z 0 @ Bytes (radix_value 58 ds)"
    using decode_digits [OF ds(2)] assms ds(1) by simp
  have "rev (radix_digits 58 (SetBytes bs)) = dropWhile (\<lambda>d. d = 0) ds"
    using base58.digits_value [OF ds(2)] by (simp add: bs SetBytes_zeros)
  moreover have "length (takeWhile (\<lambda>w. w = 0) bs) = ?z"
    by (simp add: bs takeWhile_zeros [OF Bytes_top])
  ultimately show ?thesis
    using zeros_split [of ds 0] unfolding encode_as_digits ds(1) by simp
qed

lemma checksum_length:
  "\<forall>x. length (sha x) = 32 \<Longrightarrow> length (checksum4 sha payload) = 4"
  by (simp add: checksum4_def)

lemma check_round_trip:
  assumes "\<forall>x. length (sha x) = 32"
  shows "decodeBase58Check sha (encodeBase58Check sha payload) = Inr payload"
  using checksum_length [OF assms, of payload]
  by (simp add: decodeBase58Check_def encodeBase58Check_def decode_encode)

lemma check_decoded:
  assumes "decodeBase58Check sha s = Inr payload"
  shows "encodeBase58Check sha payload = s"
proof -
  obtain d where d: "decodeBase58 s = Inr d" "take (length d - 4) d = payload"
      "drop (length d - 4) d = checksum4 sha payload"
    using assms by (auto simp: decodeBase58Check_def Let_def split: sum.split_asm if_split_asm)
  then have "payload @ checksum4 sha payload = d" by (metis append_take_drop_id)
  then show ?thesis using encode_decode [OF d(1)] by (simp add: encodeBase58Check_def)
qed

end
