(* ===== verification/Bech32.thy ===== *)
theory Bech32
  imports Base58
begin

unbundle bit_operations_syntax

text \<open>
  Bech32 (\<^verbatim>\<open>walletkeys/bech32.go\<close>): the checksum, the regrouping of bits and the SegWit address.
  The 32-bit checksum is a word; \<^verbatim>\<open>uint\<close> is a 64-bit word.
\<close>

subsection \<open>Definitions\<close>

definition bech32Charset :: string where
  "bech32Charset = ''qpzry9x8gf2tvdw0s3jn54khce6mua7l''"

definition bech32Generator :: "32 word list" where
  "bech32Generator = [0x3b6a57b2, 0x26508e6d, 0x1ea119fa, 0x3d4233dd, 0x2a1462b3]"

definition polymodTop :: "32 word \<Rightarrow> 32 word \<Rightarrow> 32 word" where
  "polymodTop high chk =
     foldl (\<lambda>c i. if drop_bit i high AND 1 = 1 then c XOR bech32Generator ! i else c) chk [0..<5]"

definition polymodStep :: "32 word \<Rightarrow> byte \<Rightarrow> 32 word" where
  "polymodStep chk value =
     (let high = drop_bit 25 chk
      in polymodTop high (push_bit 5 (chk AND 0x1ffffff) XOR ucast value))"

definition bech32Polymod :: "byte list \<Rightarrow> 32 word" where
  "bech32Polymod values = foldl polymodStep 1 values"

definition char_byte :: "char \<Rightarrow> byte" where
  "char_byte c = of_nat (byte_of c)"

definition bech32HRPExpand :: "string \<Rightarrow> byte list" where
  "bech32HRPExpand hrp =
     map (\<lambda>c. drop_bit 5 (char_byte c)) hrp @ [0] @ map (\<lambda>c. char_byte c AND 31) hrp"

definition bech32CreateChecksum :: "string \<Rightarrow> byte list \<Rightarrow> byte list" where
  "bech32CreateChecksum hrp data =
     (let polymod = bech32Polymod (bech32HRPExpand hrp @ data @ [0, 0, 0, 0, 0, 0]) XOR 1
      in map (\<lambda>i. ucast (drop_bit (5 * (5 - i)) polymod AND 31)) [0..<6])"

definition bech32Encode :: "string \<Rightarrow> byte list \<Rightarrow> string + string" where
  "bech32Encode hrp data =
     (if hrp = [] then Inl ''bech32 hrp is empty''
      else
        (let h = ToLower hrp; combined = data @ bech32CreateChecksum h data
         in if list_ex (\<lambda>v. 32 \<le> v) combined then Inl ''bech32 value out of range''
            else Inr (h @ ''1'' @ map (\<lambda>v. bech32Charset ! unat v) combined)))"

text \<open>
  The groups that can be cut off: \<open>bits\<close> is the number of pending bits. A group size of zero,
  which no caller passes, divides by zero before the loop.
\<close>

function emit :: "64 word \<Rightarrow> nat \<Rightarrow> nat \<Rightarrow> byte list \<times> nat" where
  "emit accumulator bits toBits =
     (if toBits = 0 \<or> bits < toBits then ([], bits)
      else
        (let rest = bits - toBits; (out, n) = emit accumulator rest toBits
         in (ucast (drop_bit rest accumulator AND (2 ^ toBits - 1)) # out, n)))"
  by pat_completeness auto
termination by (relation "measure (\<lambda>(_, bits, _). bits)") auto

declare emit.simps [simp del]

fun convertLoop :: "64 word \<Rightarrow> nat \<Rightarrow> byte list \<Rightarrow> nat \<Rightarrow> nat \<Rightarrow> string + byte list \<times> 64 word \<times> nat" where
  "convertLoop accumulator bits [] fromBits toBits = Inr ([], accumulator, bits)"
| "convertLoop accumulator bits (value # data) fromBits toBits =
     (if drop_bit fromBits (ucast value :: 64 word) \<noteq> 0 then Inl ''value out of range''
      else
        (let acc = push_bit fromBits accumulator OR ucast value;
             (out, n) = emit acc (bits + fromBits) toBits
         in case convertLoop acc n data fromBits toBits of
              Inl e \<Rightarrow> Inl e
            | Inr (rest, acc', n') \<Rightarrow> Inr (out @ rest, acc', n')))"

definition convertBits :: "byte list \<Rightarrow> nat \<Rightarrow> nat \<Rightarrow> bool \<Rightarrow> string + byte list" where
  "convertBits data fromBits toBits pad =
     (if toBits = 0 then Inl ''runtime error: integer divide by zero''
      else case convertLoop 0 0 data fromBits toBits of
        Inl e \<Rightarrow> Inl e
      | Inr (out, accumulator, bits) \<Rightarrow>
          (let last = push_bit (toBits - bits) accumulator AND (2 ^ toBits - 1)
           in if pad then Inr (if bits > 0 then out @ [ucast last] else out)
              else if bits \<ge> fromBits \<or> last \<noteq> 0 then Inl ''invalid padding''
              else Inr out))"

definition encodeSegWitAddress :: "string \<Rightarrow> byte \<Rightarrow> byte list \<Rightarrow> string + string" where
  "encodeSegWitAddress hrp witnessVersion witnessProgram =
     (if witnessVersion > 16 then Inl ''witness version out of range''
      else case convertBits witnessProgram 8 5 True of
        Inl e \<Rightarrow> Inl e
      | Inr converted \<Rightarrow> bech32Encode hrp (witnessVersion # converted))"

subsection \<open>The checksum\<close>

text \<open>The step on a zero value is linear over exclusive or, and stays below 30 bits.\<close>

definition polymodShift :: "32 word \<Rightarrow> 32 word" where
  "polymodShift chk = polymodStep chk 0"

definition generatorTerm :: "32 word \<Rightarrow> nat \<Rightarrow> 32 word" where
  "generatorTerm chk i = (if bit chk (25 + i) then bech32Generator ! i else 0)"

lemma odd_shift: "drop_bit i (w :: 'a :: len word) AND 1 = 1 \<longleftrightarrow> bit w i"
  by (simp add: and_one_eq bit_iff_odd_drop_bit mod_2_eq_odd)

lemma polymodTop_terms:
  "polymodTop (drop_bit 25 chk) c = c XOR generatorTerm chk 0 XOR generatorTerm chk 1 XOR
     generatorTerm chk 2 XOR generatorTerm chk 3 XOR generatorTerm chk 4"
proof -
  have "[0..<5] = [0, 1, 2, 3, 4 :: nat]" by (simp add: upt_rec)
  moreover have "(if p then c XOR g else c) = c XOR (if p then g else (0 :: 32 word))" for p c g
    by simp
  ultimately show ?thesis
    unfolding polymodTop_def generatorTerm_def odd_shift bit_drop_bit_eq comp_def
    by (simp only: foldl.simps xor.assoc)
qed

lemma generatorTerm_xor: "generatorTerm (a XOR b) i = generatorTerm a i XOR generatorTerm b i"
  by (simp add: generatorTerm_def bit_xor_iff)

lemma polymodStep_split: "polymodStep chk v = polymodShift chk XOR ucast v"
  unfolding polymodShift_def polymodStep_def Let_def polymodTop_terms by (simp add: ac_simps)

lemma and_xor_word: "(a XOR b) AND c = (a AND c) XOR (b AND (c :: 32 word))"
  by (rule bit_word_eqI) (auto simp: bit_and_iff bit_xor_iff)

lemma push_xor_word: "push_bit n (a XOR b) = push_bit n a XOR push_bit n (b :: 32 word)"
  by (rule bit_word_eqI) (auto simp: bit_push_bit_iff bit_xor_iff)

lemma polymodShift_xor: "polymodShift (a XOR b) = polymodShift a XOR polymodShift b"
  unfolding polymodShift_def polymodStep_def Let_def polymodTop_terms generatorTerm_xor
  by (simp add: and_xor_word push_xor_word ac_simps)

text \<open>Words below \<open>2 ^ n\<close>.\<close>

definition below :: "nat \<Rightarrow> 32 word \<Rightarrow> bool" where
  "below n w = (\<forall>k. n \<le> k \<longrightarrow> \<not> bit w k)"

lemma below_xor: "below n a \<Longrightarrow> below n b \<Longrightarrow> below n (a XOR b)"
  by (simp add: below_def bit_xor_iff)

lemma below_mono: "below n a \<Longrightarrow> n \<le> m \<Longrightarrow> below m a"
  by (simp add: below_def)

lemma below_push: "below n a \<Longrightarrow> below (n + k) (push_bit k a)"
  by (auto simp: below_def bit_push_bit_iff)

lemma below_less: "w < 2 ^ n \<Longrightarrow> n < 32 \<Longrightarrow> below n w"
  using less_mask_eq [of w n] unfolding take_bit_eq_mask [symmetric] below_def
  by (metis bit_take_bit_iff not_less)

lemma low25: "w AND 0x1ffffff = take_bit 25 (w :: 32 word)"
  unfolding take_bit_eq_mask mask_eq_exp_minus_1 by simp

lemma polymodShift_small: "below 25 w \<Longrightarrow> polymodShift w = push_bit 5 w"
proof -
  assume b: "below 25 w"
  have "generatorTerm w i = 0" for i using b by (simp add: generatorTerm_def below_def)
  moreover have "w AND 0x1ffffff = w"
  proof (rule bit_word_eqI)
    show "bit (w AND 0x1ffffff) n = bit w n" for n
      using b by (auto simp: low25 bit_take_bit_iff below_def not_le)
  qed
  ultimately show ?thesis by (simp add: polymodShift_def polymodStep_def Let_def polymodTop_terms)
qed

lemma below_polymodShift: "below 30 (polymodShift w)"
proof -
  have "below 30 (bech32Generator ! i)" if "i < 5" for i
  proof -
    have "\<forall>g \<in> set bech32Generator. g < 2 ^ 30" by (simp add: bech32Generator_def)
    moreover have "bech32Generator ! i \<in> set bech32Generator"
      using that by (intro nth_mem) (simp add: bech32Generator_def)
    ultimately show ?thesis by (intro below_less) simp_all
  qed
  then have terms: "below 30 (generatorTerm w i)" if "i < 5" for i
    using that by (simp add: generatorTerm_def below_def)
  have "below (25 + 5) (push_bit 5 (take_bit 25 w))"
    by (rule below_push) (simp add: below_def bit_take_bit_iff)
  then have shifted: "below 30 (push_bit 5 (take_bit 25 w))" by simp
  show ?thesis
    unfolding polymodShift_def polymodStep_def Let_def polymodTop_terms low25
    by (intro below_xor shifted terms) (simp_all add: below_def)
qed

text \<open>Six values below 32 that follow the data are packed into the checksum.\<close>

lemma polymod_six:
  assumes "\<forall>k \<in> {k0, k1, k2, k3, k4, k5}. below 5 (ucast k)"
  shows "foldl polymodStep s [k0, k1, k2, k3, k4, k5] =
    foldl polymodStep s [0, 0, 0, 0, 0, 0] XOR push_bit 25 (ucast k0) XOR push_bit 20 (ucast k1) XOR
    push_bit 15 (ucast k2) XOR push_bit 10 (ucast k3) XOR push_bit 5 (ucast k4) XOR ucast k5"
proof -
  have p: "polymodShift (push_bit n (ucast k)) = push_bit (n + 5) (ucast k)"
    if "n \<le> 20" "k \<in> {k0, k1, k2, k3, k4, k5}" for n k
  proof -
    have "below (5 + n) (push_bit n (ucast k))" using assms that(2) by (blast intro: below_push)
    then have "below 25 (push_bit n (ucast k))" by (rule below_mono) (use that(1) in simp)
    then show ?thesis by (simp add: polymodShift_small push_bit_push_bit add.commute)
  qed
  have q: "polymodShift (ucast k) = push_bit 5 (ucast k)" if "k \<in> {k0, k1, k2, k3, k4, k5}" for k
    using p [of 0 k] that by simp
  have z: "polymodStep c 0 = polymodShift c" for c by (simp add: polymodShift_def)
  show ?thesis
    by (simp add: z polymodStep_split [of _ k0] polymodStep_split [of _ k1] polymodStep_split [of _ k2]
        polymodStep_split [of _ k3] polymodStep_split [of _ k4] polymodStep_split [of _ k5]
        polymodShift_xor p q ac_simps)
qed

lemma chunk_bit:
  assumes "n < 32"
  shows "bit (push_bit a (drop_bit a w AND 31)) n \<longleftrightarrow> a \<le> n \<and> n < a + 5 \<and> bit (w :: 32 word) n"
proof -
  have m: "x AND 31 = take_bit 5 x" for x :: "32 word"
    unfolding take_bit_eq_mask mask_eq_exp_minus_1 by simp
  show ?thesis
    using assms unfolding m bit_push_bit_iff bit_take_bit_iff bit_drop_bit_eq comp_def
    by (cases "a \<le> n") auto
qed

lemma pack_chunks:
  assumes "below 30 w"
  shows "push_bit 25 (drop_bit 25 w AND 31) XOR push_bit 20 (drop_bit 20 w AND 31) XOR
    push_bit 15 (drop_bit 15 w AND 31) XOR push_bit 10 (drop_bit 10 w AND 31) XOR
    push_bit 5 (drop_bit 5 w AND 31) XOR push_bit 0 (drop_bit 0 w AND 31) = w"
proof (rule bit_word_eqI)
  fix n assume "n < LENGTH(32)"
  then have n: "n < 32" by simp
  consider "n < 5" | "5 \<le> n" "n < 10" | "10 \<le> n" "n < 15" | "15 \<le> n" "n < 20" | "20 \<le> n" "n < 25" |
    "25 \<le> n" "n < 30" | "30 \<le> n" by linarith
  then show "bit (push_bit 25 (drop_bit 25 w AND 31) XOR push_bit 20 (drop_bit 20 w AND 31) XOR
    push_bit 15 (drop_bit 15 w AND 31) XOR push_bit 10 (drop_bit 10 w AND 31) XOR
    push_bit 5 (drop_bit 5 w AND 31) XOR push_bit 0 (drop_bit 0 w AND 31)) n = bit w n"
    unfolding bit_xor_iff chunk_bit [OF n]
    by cases (use assms in \<open>auto simp: below_def\<close>)
qed

lemma byte_below: "v < 32 \<Longrightarrow> below 5 (ucast (v :: byte))"
proof -
  assume "v < 32"
  then have "take_bit 5 v = v" using less_mask_eq [of v 5] by (simp add: take_bit_eq_mask)
  then show ?thesis unfolding below_def bit_unsigned_iff by (metis bit_take_bit_iff not_less)
qed

lemma below_polymod: "vs \<noteq> [] \<Longrightarrow> \<forall>v \<in> set vs. v < 32 \<Longrightarrow> below 30 (foldl polymodStep s vs)"
proof (induction vs rule: rev_induct)
  case (snoc v vs)
  then have "below 5 (ucast v :: 32 word)" by (simp add: byte_below)
  then show ?case
    using below_xor [OF below_polymodShift below_mono] by (simp add: polymodStep_split)
qed simp

lemma chunk_small: "below 5 (ucast (ucast (w AND 31 :: 32 word) :: byte))"
  "ucast (ucast (w AND 31 :: 32 word) :: byte) = (w AND 31 :: 32 word)"
proof -
  have m: "w AND 31 = take_bit 5 w"
    unfolding take_bit_eq_mask mask_eq_exp_minus_1 by simp
  show e: "ucast (ucast (w AND 31) :: byte) = (w AND 31 :: 32 word)"
    unfolding m by (rule bit_word_eqI) (auto simp: bit_take_bit_iff bit_unsigned_iff)
  show "below 5 (ucast (ucast (w AND 31) :: byte))"
    unfolding e unfolding m by (simp add: below_def bit_take_bit_iff)
qed

text \<open>With its checksum appended, a data part has the polynomial value one.\<close>

lemma checksum_verifies:
  "bech32Polymod (bech32HRPExpand hrp @ data @ bech32CreateChecksum hrp data) = 1"
proof -
  let ?s = "foldl polymodStep 1 (bech32HRPExpand hrp @ data)"
  let ?P = "foldl polymodStep ?s [0, 0, 0, 0, 0, 0] XOR 1"
  let ?k = "\<lambda>j. ucast (drop_bit j ?P AND 31) :: byte"
  have "[0..<6] = [0, 1, 2, 3, 4, 5 :: nat]" by (simp add: upt_rec)
  then have cs: "bech32CreateChecksum hrp data = [?k 25, ?k 20, ?k 15, ?k 10, ?k 5, ?k 0]"
    by (simp add: bech32CreateChecksum_def Let_def bech32Polymod_def)
  have "below 30 ?P"
    by (intro below_xor below_polymod) (simp_all add: below_less)
  then have "bech32Polymod (bech32HRPExpand hrp @ data @ bech32CreateChecksum hrp data) =
      foldl polymodStep ?s [0, 0, 0, 0, 0, 0] XOR ?P"
    unfolding cs bech32Polymod_def append_assoc [symmetric] foldl_append
    apply (subst polymod_six)
    subgoal using chunk_small by blast
    unfolding chunk_small using pack_chunks [of ?P] by simp
  then show ?thesis by (simp add: xor.assoc [symmetric])
qed

subsection \<open>Regrouping of bits\<close>

text \<open>The bits of a value, most significant first, and the pending bits of an accumulator.\<close>

definition bits_of :: "nat \<Rightarrow> 'a :: len word \<Rightarrow> bool list" where
  "bits_of n w = map (bit w) (rev [0..<n])"

definition stream :: "nat \<Rightarrow> byte list \<Rightarrow> bool list" where
  "stream n vs = concat (map (bits_of n) vs)"

lemma length_bits_of [simp]: "length (bits_of n w) = n"
  by (simp add: bits_of_def)

lemma stream_simps [simp]:
  "stream n [] = []" "stream n (v # vs) = bits_of n v @ stream n vs"
  "stream n (vs @ ws) = stream n vs @ stream n ws"
  by (simp_all add: stream_def)

lemma length_stream [simp]: "length (stream n vs) = n * length vs"
  by (induction vs) simp_all

lemma bits_of_eqI: "(\<And>i. i < n \<Longrightarrow> bit v i = bit w i) \<Longrightarrow> bits_of n v = bits_of n w"
  by (simp add: bits_of_def)

lemma bits_of_split: "bits_of (m + n) w = map (bit w) (rev [n..<m + n]) @ bits_of n w"
proof -
  have "[0..<m + n] = [0..<n] @ [n..<m + n]" using upt_add_eq_append [of 0 n m] by (simp add: add.commute)
  then show ?thesis by (simp add: bits_of_def)
qed

lemma bits_of_chunk:
  assumes "t \<le> 8" "rest + t \<le> 64"
  shows "bits_of t (ucast (drop_bit rest (acc :: 64 word) AND (2 ^ t - 1)) :: byte) =
    map (bit acc) (rev [rest..<t + rest])"
proof -
  have "[rest..<t + rest] = map (\<lambda>i. i + rest) [0..<t]" by (simp add: map_add_upt)
  then show ?thesis
    using assms
    by (auto simp: bits_of_def mask_eq_exp_minus_1 [symmetric] bit_unsigned_iff bit_and_iff bit_mask_iff
        bit_drop_bit_eq rev_map add.commute)
qed

lemma emit_stream:
  "emit acc bits t = (out, n) \<Longrightarrow> 0 < t \<Longrightarrow> t \<le> 8 \<Longrightarrow> bits \<le> 64 \<Longrightarrow>
     n < t \<and> bits_of bits acc = stream t out @ bits_of n acc"
proof (induction acc bits t arbitrary: out rule: emit.induct)
  case (1 acc bits t)
  show ?case
  proof (cases "bits < t")
    case True
    then show ?thesis using 1(2) by (simp add: emit.simps [of acc bits t])
  next
    case False
    then obtain out' where e: "emit acc (bits - t) t = (out', n)"
        "out = ucast (drop_bit (bits - t) acc AND (2 ^ t - 1)) # out'"
      using 1(2,3) by (auto simp: emit.simps [of acc bits t] Let_def split: prod.split_asm)
    have "n < t \<and> bits_of (bits - t) acc = stream t out' @ bits_of n acc"
      using 1(1) [OF _ refl e(1)] False 1(3-5) by simp
    moreover have "bits_of bits acc = map (bit acc) (rev [bits - t..<bits]) @ bits_of (bits - t) acc"
      using bits_of_split [of t "bits - t" acc] False by simp
    ultimately show ?thesis
      using bits_of_chunk [of t "bits - t" acc] False 1(4,5) by (simp add: e(2))
  qed
qed

lemma bits_of_push:
  fixes acc :: "64 word" and v :: byte
  assumes "n + f \<le> 64" "drop_bit f (ucast v :: 64 word) = 0"
  shows "bits_of (n + f) (push_bit f acc OR ucast v) = bits_of n acc @ bits_of f v"
proof -
  have high: "\<not> bit v i" if "f \<le> i" for i
  proof -
    have "bit (drop_bit f (ucast v :: 64 word)) (i - f) = False" by (simp only: assms(2) bit_0_eq bot_apply bot_bool_def)
    then show ?thesis using that bit_imp_le_length [of v i] by (auto simp: bit_drop_bit_eq bit_unsigned_iff)
  qed
  have "[f..<n + f] = map (\<lambda>i. i + f) [0..<n]" by (simp add: map_add_upt)
  then have "map (bit (push_bit f acc OR ucast v)) (rev [f..<n + f]) = bits_of n acc"
    using assms(1) high
    by (auto simp: bits_of_def bit_or_iff bit_push_bit_iff bit_unsigned_iff rev_map)
  moreover have "bits_of f (push_bit f acc OR ucast v) = bits_of f v"
    unfolding bits_of_def using assms(1)
    by (auto simp: bit_or_iff bit_push_bit_iff bit_unsigned_iff)
  ultimately show ?thesis by (simp add: bits_of_split)
qed

lemma convertLoop_stream:
  "convertLoop acc bits data f t = Inr (out, acc', n) \<Longrightarrow> 0 < t \<Longrightarrow> t \<le> 8 \<Longrightarrow> f \<le> 8 \<Longrightarrow>
     bits < t \<Longrightarrow> n < t \<and> bits_of bits acc @ stream f data = stream t out @ bits_of n acc'"
proof (induction acc bits data f t arbitrary: out rule: convertLoop.induct)
  case (2 acc bits v data f t)
  let ?acc = "push_bit f acc OR ucast v"
  obtain first m where e: "emit ?acc (bits + f) t = (first, m)" by fastforce
  obtain rest where r: "drop_bit f (ucast v :: 64 word) = 0" "out = first @ rest"
      "convertLoop ?acc m data f t = Inr (rest, acc', n)"
    using 2(2) e by (auto simp: Let_def split: if_split_asm sum.split_asm)
  have m: "m < t" "bits_of (bits + f) ?acc = stream t first @ bits_of m ?acc"
    using emit_stream [OF e] 2(3-6) by simp_all
  have "n < t \<and> bits_of m ?acc @ stream f data = stream t rest @ bits_of n acc'"
    using 2(1) [OF _ refl e [symmetric] refl r(3)] r(1) m(1) 2(3-5) by simp
  moreover have "bits_of (bits + f) ?acc = bits_of bits acc @ bits_of f v"
    using r(1) 2(4-6) by (intro bits_of_push) simp_all
  ultimately show ?case using m(2) r(2) by (metis append_assoc stream_simps(2,3))
qed simp

lemma convertLoop_total:
  "\<forall>v \<in> set data. drop_bit f (ucast v :: 64 word) = 0 \<Longrightarrow> \<exists>r. convertLoop acc bits data f t = Inr r"
  by (induction acc bits data f t rule: convertLoop.induct) (fastforce simp: Let_def split: prod.split)+

lemma bits_of_ucast: "t \<le> 8 \<Longrightarrow> bits_of t (ucast (w :: 64 word) :: byte) = bits_of t w"
  by (auto simp: bits_of_def bit_unsigned_iff)

lemma low_all:
  fixes acc :: "64 word"
  assumes "n < t" "t \<le> 8"
  shows "bits_of t (ucast (push_bit (t - n) acc AND (2 ^ t - 1)) :: byte) =
      bits_of n acc @ replicate (t - n) False"
    "push_bit (t - n) acc AND (2 ^ t - 1) = 0 \<longleftrightarrow> bits_of n acc = replicate n False"
proof -
  have m: "push_bit (t - n) acc AND (2 ^ t - 1) = take_bit t (push_bit (t - n) acc)"
    by (simp add: take_bit_eq_mask mask_eq_exp_minus_1)
  have b: "bit (push_bit (t - n) acc AND (2 ^ t - 1)) i \<longleftrightarrow> i < t \<and> t - n \<le> i \<and> bit acc (i - (t - n))" for i
    unfolding m using assms by (auto simp: bit_take_bit_iff bit_push_bit_iff)
  have "[t - n..<t] = map (\<lambda>i. i + (t - n)) [0..<n]"
    using assms map_add_upt [of "t - n" n] by simp
  then have "map (bit (push_bit (t - n) acc AND (2 ^ t - 1))) (rev [t - n..<t]) = bits_of n acc"
    using assms(1) by (auto simp: bits_of_def b rev_map)
  moreover have "bits_of (t - n) (push_bit (t - n) acc AND (2 ^ t - 1)) = replicate (t - n) False"
    using assms(1) by (intro nth_equalityI) (auto simp: bits_of_def b rev_nth)
  ultimately have "bits_of t (push_bit (t - n) acc AND (2 ^ t - 1)) = bits_of n acc @ replicate (t - n) False"
    using bits_of_split [of n "t - n" "push_bit (t - n) acc AND (2 ^ t - 1)"] assms(1) by simp
  then show "bits_of t (ucast (push_bit (t - n) acc AND (2 ^ t - 1)) :: byte) =
      bits_of n acc @ replicate (t - n) False"
    using assms(2) by (simp add: bits_of_ucast)
  have "push_bit (t - n) acc AND (2 ^ t - 1) = 0 \<longleftrightarrow> (\<forall>i. \<not> (i < t \<and> t - n \<le> i \<and> bit acc (i - (t - n))))"
    unfolding bit_eq_iff b using assms(2) by auto
  also have "\<dots> \<longleftrightarrow> (\<forall>i < n. \<not> bit acc i)"
  proof (intro iffI allI impI notI)
    fix i assume "\<forall>i. \<not> (i < t \<and> t - n \<le> i \<and> bit acc (i - (t - n)))" "i < n" "bit acc i"
    then show False using assms(1) by (auto dest!: spec [of _ "i + (t - n)"])
  qed (use assms(1) in auto)
  also have "\<dots> \<longleftrightarrow> bits_of n acc = replicate n False"
  proof -
    have "bits_of n acc = replicate n False \<longleftrightarrow> (\<forall>x \<in> set (bits_of n acc). x = False)"
      using replicate_eqI [of "bits_of n acc" n False] by auto
    then show ?thesis by (auto simp: bits_of_def)
  qed
  finally show "push_bit (t - n) acc AND (2 ^ t - 1) = 0 \<longleftrightarrow> bits_of n acc = replicate n False" .
qed

text \<open>Regrouping with padding keeps the bits and appends fewer than one group of zeros.\<close>

lemma convertBits_pad:
  assumes "0 < t" "t \<le> 8" "f \<le> 8" "convertBits data f t True = Inr out"
  shows "\<exists>k < t. stream t out = stream f data @ replicate k False"
proof -
  obtain out' acc n where l: "convertLoop 0 0 data f t = Inr (out', acc, n)"
    "out = (if n > 0 then out' @ [ucast (push_bit (t - n) acc AND (2 ^ t - 1))] else out')"
    using assms(1,4) by (auto simp: convertBits_def Let_def split: sum.split_asm)
  have s: "n < t" "stream f data = stream t out' @ bits_of n acc"
    using convertLoop_stream [OF l(1)] assms by (simp_all add: bits_of_def)
  show ?thesis
  proof (cases "n > 0")
    case True
    then show ?thesis using s low_all(1) [OF s(1) assms(2), of acc] assms(1)
      by (intro exI [of _ "t - n"]) (simp add: l(2))
  next
    case False
    then show ?thesis using s assms(1) by (intro exI [of _ 0]) (simp add: l(2) bits_of_def)
  qed
qed

lemma bits_of_inj: "bits_of 8 v = bits_of 8 w \<Longrightarrow> v = (w :: byte)"
proof (rule bit_word_eqI)
  fix i assume "bits_of 8 v = bits_of 8 w" "i < LENGTH(8)"
  then show "bit v i = bit w i" unfolding bits_of_def map_eq_conv by simp
qed

lemma stream_inj: "stream 8 vs = stream 8 ws \<Longrightarrow> vs = ws"
proof (induction vs arbitrary: ws)
  case Nil
  then have "length (stream 8 ws) = 0" by simp
  then show ?case by simp
next
  case (Cons v vs)
  then have "length (stream 8 ws) = 8 * Suc (length vs)" by (metis length_stream length_Cons)
  then obtain w ws' where "ws = w # ws'" by (cases ws) auto
  then show ?case using Cons bits_of_inj by simp
qed

lemma byte_fits: "drop_bit 8 (ucast (v :: byte) :: 64 word) = 0"
  by (rule bit_word_eqI) (auto simp: bit_drop_bit_eq bit_unsigned_iff dest: bit_imp_le_length)

text \<open>Bytes can always be regrouped into fives, and the way bytes restores them.\<close>

lemma convert_8_5: "\<exists>out. convertBits data 8 5 True = Inr out"
proof -
  obtain r where "convertLoop 0 0 data 8 5 = Inr r"
    using convertLoop_total [of data 8 0 0 5] byte_fits by blast
  then show ?thesis by (auto simp: convertBits_def Let_def split: prod.split)
qed

lemma emit_small: "emit acc bits t = (out, n) \<Longrightarrow> t = 5 \<Longrightarrow> \<forall>v \<in> set out. v < 32"
proof (induction acc bits t arbitrary: out rule: emit.induct)
  case (1 acc bits t)
  have m: "ucast (w AND 31 :: 64 word) < (32 :: byte)" for w
  proof -
    have "ucast (w AND 31) = (ucast w AND 31 :: byte)"
      by (simp add: unsigned_and_eq)
    also have "\<dots> < 32" using and_mask_less_size [of 5 "ucast w :: byte"] by (simp add: word_size mask_eq_exp_minus_1)
    finally show ?thesis .
  qed
  then show ?case
    using 1 by (auto simp: emit.simps [of acc bits 5] Let_def split: prod.split_asm if_split_asm)
qed

lemma emit_one: "emit w 5 5 = ([ucast (w AND 31)], 0)"
  by (simp add: emit.simps [of _ 5 5] emit.simps [of _ 0 5])

lemma convertLoop_small:
  "convertLoop acc bits data f t = Inr (out, acc', n) \<Longrightarrow> t = 5 \<Longrightarrow> \<forall>v \<in> set out. v < 32"
  by (induction acc bits data f t arbitrary: out rule: convertLoop.induct)
    (auto simp: Let_def dest!: emit_small [OF _ refl] split: if_split_asm sum.split_asm prod.split_asm)

lemma convert_8_5_small:
  assumes "convertBits data 8 5 True = Inr out" shows "\<forall>v \<in> set out. v < 32"
proof -
  have "ucast (w AND 31 :: 64 word) < (32 :: byte)" for w
    by (rule bspec [OF emit_small [OF emit_one refl]]) simp
  then show ?thesis
    using assms convertLoop_small by (fastforce simp: convertBits_def Let_def split: sum.split_asm prod.split_asm if_split_asm)
qed

lemma convertBits_round_trip:
  assumes "convertBits data 8 5 True = Inr out"
  shows "convertBits out 5 8 False = Inr data"
proof -
  obtain k where k: "k < 5" "stream 5 out = stream 8 data @ replicate k False"
    using convertBits_pad [OF _ _ _ assms] by auto
  have "drop_bit 5 (ucast v :: 64 word) = 0" if "v < 32" for v :: byte
  proof -
    have "take_bit 5 v = v" using less_mask_eq [of v 5] that by (simp add: take_bit_eq_mask)
    then have "\<not> bit v i" if "5 \<le> i" for i using that by (metis bit_take_bit_iff not_less)
    then show ?thesis by (intro bit_word_eqI) (auto simp: bit_drop_bit_eq bit_unsigned_iff)
  qed
  then obtain bytes acc n where l: "convertLoop 0 0 out 5 8 = Inr (bytes, acc, n)"
    using convertLoop_total [of out 5 0 0 8] convert_8_5_small [OF assms] by auto
  have s: "n < 8" "stream 5 out = stream 8 bytes @ bits_of n acc"
    using convertLoop_stream [OF l] by (simp_all add: bits_of_def)
  have "8 * length data + k = 8 * length bytes + n"
    using arg_cong [OF s(2), of length] k(2) by simp
  then have eq: "length data = length bytes" "n = k" using s(1) k(1) by presburger+
  have "stream 8 data @ replicate k False = stream 8 bytes @ bits_of n acc" using s(2) k(2) by simp
  then have "stream 8 data = stream 8 bytes" "bits_of n acc = replicate n False"
    using eq by (simp_all add: append_eq_append_conv)
  then show ?thesis
    using l s(1) k(1) eq low_all(2) [OF s(1), of acc] stream_inj
    by (auto simp: convertBits_def Let_def)
qed

subsection \<open>The reference decoder\<close>

text \<open>
  Decoding as BIP 173 specifies it: the characters after the separator are values, the whole has
  polynomial value one, and the last six values are the checksum; a SegWit address holds the
  version and the program, regrouped into bytes without padding left over.
\<close>

fun charsetValues :: "string \<Rightarrow> byte list option" where
  "charsetValues [] = Some []"
| "charsetValues (c # s) =
     (case (alphabetIndex bech32Charset c 0, charsetValues s) of
        (Some i, Some vs) \<Rightarrow> Some (of_nat i # vs)
      | _ \<Rightarrow> None)"

definition bech32Decode :: "string \<Rightarrow> string \<Rightarrow> byte list option" where
  "bech32Decode hrp s =
     (if \<not> HasPrefix s (hrp @ ''1'') then None
      else case charsetValues (drop (length hrp + 1) s) of
        None \<Rightarrow> None
      | Some vs \<Rightarrow>
          if length vs < 6 \<or> bech32Polymod (bech32HRPExpand hrp @ vs) \<noteq> 1 then None
          else Some (take (length vs - 6) vs))"

definition segwitDecode :: "string \<Rightarrow> string \<Rightarrow> (byte \<times> byte list) option" where
  "segwitDecode hrp s =
     (case bech32Decode hrp s of
        Some (v # vs) \<Rightarrow>
          (case convertBits vs 5 8 False of Inr program \<Rightarrow> Some (v, program) | Inl _ \<Rightarrow> None)
      | _ \<Rightarrow> None)"

lemma charset_facts: "length bech32Charset = 32" "distinct bech32Charset"
  by (simp_all add: bech32Charset_def)

lemma byte_lt_unat: "v < 32 \<longleftrightarrow> unat (v :: byte) < 32"
  by (simp add: word_less_nat_alt)

lemma charsetValues_nth:
  "\<forall>v \<in> set vs. v < 32 \<Longrightarrow> charsetValues (map (\<lambda>v. bech32Charset ! unat v) vs) = Some vs"
  by (induction vs) (simp_all add: byte_lt_unat alphabetIndex_nth charset_facts)

lemma checksum_values: "length (bech32CreateChecksum hrp data) = 6"
  "\<forall>v \<in> set (bech32CreateChecksum hrp data). v < 32"
proof -
  have "ucast (w AND 31 :: 32 word) < (32 :: byte)" for w
  proof -
    have "ucast (w AND 31) = (ucast w AND 31 :: byte)" by (simp add: unsigned_and_eq)
    also have "\<dots> < 32"
      using and_mask_less_size [of 5 "ucast w :: byte"] by (simp add: word_size mask_eq_exp_minus_1)
    finally show ?thesis .
  qed
  then show "\<forall>v \<in> set (bech32CreateChecksum hrp data). v < 32"
    by (simp add: bech32CreateChecksum_def Let_def)
qed (simp add: bech32CreateChecksum_def Let_def)

lemma bech32_decodes:
  assumes "hrp \<noteq> []" "\<forall>v \<in> set data. v < 32"
  shows "\<exists>s. bech32Encode hrp data = Inr s \<and> bech32Decode (ToLower hrp) s = Some data \<and>
    s = ToLower hrp @ ''1'' @ map (\<lambda>v. bech32Charset ! unat v)
      (data @ bech32CreateChecksum (ToLower hrp) data)"
proof -
  let ?h = "ToLower hrp"
  let ?vs = "data @ bech32CreateChecksum ?h data"
  have small: "\<forall>v \<in> set ?vs. v < 32" using assms(2) checksum_values(2) by auto
  then have "\<not> list_ex (\<lambda>v. 32 \<le> v) ?vs" by (auto simp: list_ex_iff not_le)
  then have enc: "bech32Encode hrp data = Inr (?h @ ''1'' @ map (\<lambda>v. bech32Charset ! unat v) ?vs)"
    using assms(1) unfolding bech32Encode_def Let_def by simp
  have "bech32Decode ?h (?h @ ''1'' @ map (\<lambda>v. bech32Charset ! unat v) ?vs) = Some data"
    using checksum_verifies [of ?h data] charsetValues_nth [OF small] checksum_values(1) [of ?h data]
    by (simp add: bech32Decode_def HasPrefix_def)
  then show ?thesis using enc by blast
qed

lemma segwit_decodes:
  assumes "hrp \<noteq> []" "version \<le> 16"
  shows "\<exists>s vs. encodeSegWitAddress hrp version program = Inr s \<and>
    segwitDecode (ToLower hrp) s = Some (version, program) \<and>
    convertBits program 8 5 True = Inr vs \<and>
    s = ToLower hrp @ ''1'' @ map (\<lambda>v. bech32Charset ! unat v)
      ((version # vs) @ bech32CreateChecksum (ToLower hrp) (version # vs)) \<and>
    (\<forall>v \<in> set vs. v < 32)"
proof -
  obtain vs where vs: "convertBits program 8 5 True = Inr vs" using convert_8_5 by blast
  have small: "\<forall>v \<in> set (version # vs). v < 32"
    using convert_8_5_small [OF vs] assms(2) by (auto simp: word_le_nat_alt word_less_nat_alt)
  obtain s where s: "bech32Encode hrp (version # vs) = Inr s"
      "bech32Decode (ToLower hrp) s = Some (version # vs)"
      "s = ToLower hrp @ ''1'' @ map (\<lambda>v. bech32Charset ! unat v)
        ((version # vs) @ bech32CreateChecksum (ToLower hrp) (version # vs))"
    using bech32_decodes [OF assms(1) small] by blast
  have "\<not> version > 16" using assms(2) by simp
  then show ?thesis
    using s vs small convertBits_round_trip [OF vs]
    by (auto simp: encodeSegWitAddress_def segwitDecode_def)
qed

lemma convert_8_5_length:
  assumes "convertBits data 8 5 True = Inr out"
  shows "8 * length data \<le> 5 * length out" "5 * length out < 8 * length data + 5"
proof -
  obtain k where k: "k < 5" "stream 5 out = stream 8 data @ replicate k False"
    using convertBits_pad [OF _ _ _ assms] by auto
  have "5 * length out = 8 * length data + k"
    using arg_cong [OF k(2), of length] by simp
  then show "8 * length data \<le> 5 * length out" "5 * length out < 8 * length data + 5"
    using k(1) by simp_all
qed

end
