(* ===== verification/Ripemd160.thy ===== *)
theory Ripemd160
  imports GoStrings
begin

unbundle bit_operations_syntax

text \<open>
  RIPEMD-160 (\<^verbatim>\<open>walletkeys/ripemd160.go\<close>): the digest with its buffer of an unfinished block,
  as the code keeps it. \<open>None\<close> is the panic of \<^verbatim>\<open>checkSum\<close>.
\<close>

subsection \<open>Tables\<close>

definition ripemd160N :: "nat list" where
  "ripemd160N =
    [0, 1, 2, 3, 4, 5, 6, 7, 8, 9, 10, 11, 12, 13, 14, 15,
     7, 4, 13, 1, 10, 6, 15, 3, 12, 0, 9, 5, 2, 14, 11, 8,
     3, 10, 14, 4, 9, 15, 8, 1, 2, 7, 0, 6, 13, 11, 5, 12,
     1, 9, 11, 10, 0, 8, 12, 4, 13, 3, 7, 15, 14, 5, 6, 2,
     4, 0, 5, 9, 7, 12, 2, 10, 14, 1, 3, 8, 11, 6, 15, 13]"

definition ripemd160R :: "nat list" where
  "ripemd160R =
    [11, 14, 15, 12, 5, 8, 7, 9, 11, 13, 14, 15, 6, 7, 9, 8,
     7, 6, 8, 13, 11, 9, 7, 15, 7, 12, 15, 9, 11, 7, 13, 12,
     11, 13, 6, 7, 14, 9, 13, 15, 14, 8, 13, 6, 5, 12, 7, 5,
     11, 12, 14, 15, 14, 15, 9, 8, 9, 14, 5, 6, 8, 6, 5, 12,
     9, 15, 5, 11, 6, 8, 13, 12, 5, 12, 13, 14, 11, 8, 5, 6]"

definition ripemd160NPrime :: "nat list" where
  "ripemd160NPrime =
    [5, 14, 7, 0, 9, 2, 11, 4, 13, 6, 15, 8, 1, 10, 3, 12,
     6, 11, 3, 7, 0, 13, 5, 10, 14, 15, 8, 12, 4, 9, 1, 2,
     15, 5, 1, 3, 7, 14, 6, 9, 11, 8, 12, 2, 10, 0, 4, 13,
     8, 6, 4, 1, 3, 11, 15, 0, 5, 12, 2, 13, 9, 7, 10, 14,
     12, 15, 10, 4, 1, 5, 8, 7, 6, 2, 13, 14, 0, 3, 9, 11]"

definition ripemd160RPrime :: "nat list" where
  "ripemd160RPrime =
    [8, 9, 9, 11, 13, 15, 15, 5, 7, 7, 8, 11, 14, 14, 12, 6,
     9, 13, 15, 7, 12, 8, 9, 11, 7, 7, 12, 7, 6, 15, 13, 11,
     9, 7, 15, 11, 8, 6, 6, 14, 12, 13, 5, 14, 13, 13, 7, 5,
     15, 5, 8, 11, 14, 14, 6, 14, 6, 9, 12, 9, 12, 5, 15, 8,
     8, 5, 12, 9, 12, 5, 14, 6, 8, 13, 6, 5, 15, 13, 11, 11]"

subsection \<open>One block\<close>

type_synonym line = "32 word \<times> 32 word \<times> 32 word \<times> 32 word \<times> 32 word"

record digest =
  dgS :: line
  dgX :: "byte list"
  dgNx :: nat
  dgTc :: "64 word"

text \<open>
  One step of a line: \<open>f\<close> is the value of the step's function and \<open>k\<close> its constant.
\<close>

definition lineStep :: "32 word \<Rightarrow> 32 word \<Rightarrow> 32 word \<Rightarrow> nat \<Rightarrow> line \<Rightarrow> line" where
  "lineStep f m k r l =
     (case l of (a, b, c, d, e) \<Rightarrow>
        (let alpha = word_rotl r (a + f + m + k) + e; beta = word_rotl 10 c
         in (e, alpha, b, beta, d)))"

text \<open>The five loops of the code, each with its pair of functions and constants.\<close>

definition step0 :: "32 word list \<Rightarrow> nat \<Rightarrow> line \<times> line \<Rightarrow> line \<times> line" where
  "step0 x i ls =
     (case ls of ((a, b, c, d, e), (aa, bb, cc, dd, ee)) \<Rightarrow>
       (lineStep (b XOR c XOR d) (x ! (ripemd160N ! i)) 0 (ripemd160R ! i) (a, b, c, d, e),
        lineStep (bb XOR (cc OR NOT dd)) (x ! (ripemd160NPrime ! i)) 0x50a28be6
          (ripemd160RPrime ! i) (aa, bb, cc, dd, ee)))"

definition step1 :: "32 word list \<Rightarrow> nat \<Rightarrow> line \<times> line \<Rightarrow> line \<times> line" where
  "step1 x i ls =
     (case ls of ((a, b, c, d, e), (aa, bb, cc, dd, ee)) \<Rightarrow>
       (lineStep ((b AND c) OR (NOT b AND d)) (x ! (ripemd160N ! i)) 0x5a827999
          (ripemd160R ! i) (a, b, c, d, e),
        lineStep ((bb AND dd) OR (cc AND NOT dd)) (x ! (ripemd160NPrime ! i)) 0x5c4dd124
          (ripemd160RPrime ! i) (aa, bb, cc, dd, ee)))"

definition step2 :: "32 word list \<Rightarrow> nat \<Rightarrow> line \<times> line \<Rightarrow> line \<times> line" where
  "step2 x i ls =
     (case ls of ((a, b, c, d, e), (aa, bb, cc, dd, ee)) \<Rightarrow>
       (lineStep ((b OR NOT c) XOR d) (x ! (ripemd160N ! i)) 0x6ed9eba1
          (ripemd160R ! i) (a, b, c, d, e),
        lineStep ((bb OR NOT cc) XOR dd) (x ! (ripemd160NPrime ! i)) 0x6d703ef3
          (ripemd160RPrime ! i) (aa, bb, cc, dd, ee)))"

definition step3 :: "32 word list \<Rightarrow> nat \<Rightarrow> line \<times> line \<Rightarrow> line \<times> line" where
  "step3 x i ls =
     (case ls of ((a, b, c, d, e), (aa, bb, cc, dd, ee)) \<Rightarrow>
       (lineStep ((b AND d) OR (c AND NOT d)) (x ! (ripemd160N ! i)) 0x8f1bbcdc
          (ripemd160R ! i) (a, b, c, d, e),
        lineStep ((bb AND cc) OR (NOT bb AND dd)) (x ! (ripemd160NPrime ! i)) 0x7a6d76e9
          (ripemd160RPrime ! i) (aa, bb, cc, dd, ee)))"

definition step4 :: "32 word list \<Rightarrow> nat \<Rightarrow> line \<times> line \<Rightarrow> line \<times> line" where
  "step4 x i ls =
     (case ls of ((a, b, c, d, e), (aa, bb, cc, dd, ee)) \<Rightarrow>
       (lineStep (b XOR (c OR NOT d)) (x ! (ripemd160N ! i)) 0xa953fd4e
          (ripemd160R ! i) (a, b, c, d, e),
        lineStep (bb XOR cc XOR dd) (x ! (ripemd160NPrime ! i)) 0
          (ripemd160RPrime ! i) (aa, bb, cc, dd, ee)))"

text \<open>The sixteen little-endian words of a block.\<close>

definition blockWords :: "byte list \<Rightarrow> 32 word list" where
  "blockWords p =
     map (\<lambda>i. ucast (p ! (4 * i)) OR push_bit 8 (ucast (p ! (4 * i + 1))) OR
              push_bit 16 (ucast (p ! (4 * i + 2))) OR push_bit 24 (ucast (p ! (4 * i + 3)))) [0..<16]"

definition compress :: "line \<Rightarrow> byte list \<Rightarrow> line" where
  "compress s p =
     (let x = blockWords p;
          ls = fold (step0 x) [0..<16] (s, s);
          ls = fold (step1 x) [16..<32] ls;
          ls = fold (step2 x) [32..<48] ls;
          ls = fold (step3 x) [48..<64] ls;
          ls = fold (step4 x) [64..<80] ls
      in case (s, ls) of
           ((s0, s1, s2, s3, s4), (a, b, c, d, e), (aa, bb, cc, dd, ee)) \<Rightarrow>
             (s1 + c + dd, s2 + d + ee, s3 + e + aa, s4 + a + bb, s0 + b + cc))"

text \<open>The whole blocks of the input, and the number of bytes taken.\<close>

function ripemd160Block :: "digest \<Rightarrow> byte list \<Rightarrow> digest \<times> nat" where
  "ripemd160Block d p =
     (if 64 \<le> length p then
        (let (d', n) = ripemd160Block (d\<lparr>dgS := compress (dgS d) (take 64 p)\<rparr>) (drop 64 p)
         in (d', n + 64))
      else (d, 0))"
  by pat_completeness auto
termination by (relation "measure (\<lambda>(_, p). length p)") auto

declare ripemd160Block.simps [simp del]

subsection \<open>The digest\<close>

definition newRIPEMD160Digest :: digest where
  "newRIPEMD160Digest =
     \<lparr>dgS = (0x67452301, 0xefcdab89, 0x98badcfe, 0x10325476, 0xc3d2e1f0),
      dgX = replicate 64 0, dgNx = 0, dgTc = 0\<rparr>"

text \<open>\<^verbatim>\<open>copy\<close> into the buffer from a position on.\<close>

definition bufferAt :: "nat \<Rightarrow> byte list \<Rightarrow> byte list \<Rightarrow> byte list" where
  "bufferAt k p x = take k x @ p @ drop (k + length p) x"

text \<open>The unfinished block is filled up first, and consumed when it is full.\<close>

definition fillBuffer :: "digest \<Rightarrow> byte list \<Rightarrow> digest \<times> byte list" where
  "fillBuffer d p =
     (if dgNx d > 0 then
        (let n = min (length p) (64 - dgNx d);
             d = d\<lparr>dgX := bufferAt (dgNx d) (take n p) (dgX d), dgNx := dgNx d + n\<rparr>;
             d = (if dgNx d = 64 then (fst (ripemd160Block d (dgX d)))\<lparr>dgNx := 0\<rparr> else d)
         in (d, drop n p))
      else (d, p))"

definition Write :: "digest \<Rightarrow> byte list \<Rightarrow> digest" where
  "Write d p =
     (let (d, p) = fillBuffer (d\<lparr>dgTc := dgTc d + of_nat (length p)\<rparr>) p;
          (d, n) = ripemd160Block d p;
          p = drop n p
      in if p \<noteq> [] then d\<lparr>dgX := bufferAt 0 p (dgX d), dgNx := min 64 (length p)\<rparr> else d)"

definition le_bytes :: "nat \<Rightarrow> 'a :: len word \<Rightarrow> byte list" where
  "le_bytes n w = map (\<lambda>i. ucast (drop_bit (8 * i) w)) [0..<n]"

definition checkSum :: "digest \<Rightarrow> byte list option" where
  "checkSum d0 =
     (let tc = dgTc d0;
          r = unat (tc mod 64);
          d = Write d0 (0x80 # replicate ((if r < 56 then 56 - r else 64 + 56 - r) - 1) 0);
          d = Write d (le_bytes 8 (push_bit 3 tc))
      in if dgNx d \<noteq> 0 then None
         else case dgS d of (s0, s1, s2, s3, s4) \<Rightarrow>
           Some (concat (map (le_bytes 4) [s0, s1, s2, s3, s4])))"

definition ripemd160Sum :: "byte list \<Rightarrow> byte list option" where
  "ripemd160Sum input = checkSum (Write newRIPEMD160Digest input)"

subsection \<open>The reference\<close>

text \<open>
  The definition of the hash: one function, constant, word and rotation per step, on a message
  padded with a one bit, zeros and its length in bits.
\<close>

definition refF :: "nat \<Rightarrow> 32 word \<Rightarrow> 32 word \<Rightarrow> 32 word \<Rightarrow> 32 word" where
  "refF j x y z =
     (if j < 16 then x XOR y XOR z
      else if j < 32 then (x AND y) OR (NOT x AND z)
      else if j < 48 then (x OR NOT y) XOR z
      else if j < 64 then (x AND z) OR (y AND NOT z)
      else x XOR (y OR NOT z))"

definition refK :: "nat \<Rightarrow> 32 word" where
  "refK j = [0, 0x5a827999, 0x6ed9eba1, 0x8f1bbcdc, 0xa953fd4e] ! (j div 16)"

definition refKPrime :: "nat \<Rightarrow> 32 word" where
  "refKPrime j = [0x50a28be6, 0x5c4dd124, 0x6d703ef3, 0x7a6d76e9, 0] ! (j div 16)"

definition refStep :: "32 word list \<Rightarrow> nat \<Rightarrow> line \<times> line \<Rightarrow> line \<times> line" where
  "refStep x j ls =
     (case ls of ((a, b, c, d, e), (aa, bb, cc, dd, ee)) \<Rightarrow>
       (lineStep (refF j b c d) (x ! (ripemd160N ! j)) (refK j) (ripemd160R ! j) (a, b, c, d, e),
        lineStep (refF (79 - j) bb cc dd) (x ! (ripemd160NPrime ! j)) (refKPrime j)
          (ripemd160RPrime ! j) (aa, bb, cc, dd, ee)))"

definition refCompress :: "line \<Rightarrow> byte list \<Rightarrow> line" where
  "refCompress s p =
     (case (s, fold (refStep (blockWords p)) [0..<80] (s, s)) of
        ((s0, s1, s2, s3, s4), (a, b, c, d, e), (aa, bb, cc, dd, ee)) \<Rightarrow>
          (s1 + c + dd, s2 + d + ee, s3 + e + aa, s4 + a + bb, s0 + b + cc))"

definition refPad :: "byte list \<Rightarrow> byte list" where
  "refPad m =
     m @ 0x80 # replicate ((119 - length m mod 64) mod 64) 0 @
     le_bytes 8 (of_nat (8 * length m) :: 64 word)"

function refBlocks :: "byte list \<Rightarrow> byte list list" where
  "refBlocks m = (if length m < 64 then [] else take 64 m # refBlocks (drop 64 m))"
  by pat_completeness auto
termination by (relation "measure length") auto

declare refBlocks.simps [simp del]

definition refOutput :: "line \<Rightarrow> byte list" where
  "refOutput s = (case s of (s0, s1, s2, s3, s4) \<Rightarrow> concat (map (le_bytes 4) [s0, s1, s2, s3, s4]))"

definition refRipemd160 :: "byte list \<Rightarrow> byte list" where
  "refRipemd160 m = refOutput (foldl refCompress (dgS newRIPEMD160Digest) (refBlocks (refPad m)))"

subsection \<open>The five loops are the eighty steps\<close>

lemma steps:
  "i \<in> set [0..<16] \<Longrightarrow> step0 x i = refStep x i"
  "i \<in> set [16..<32] \<Longrightarrow> step1 x i = refStep x i"
  "i \<in> set [32..<48] \<Longrightarrow> step2 x i = refStep x i"
  "i \<in> set [48..<64] \<Longrightarrow> step3 x i = refStep x i"
  "i \<in> set [64..<80] \<Longrightarrow> step4 x i = refStep x i"
proof -
  have d: "i div 16 = k" if "16 * k \<le> i" "i < 16 * (k + 1)" for k
    using that by (intro div_nat_eqI) simp_all
  show "i \<in> set [0..<16] \<Longrightarrow> step0 x i = refStep x i"
    using d [of 0] by (intro ext) (auto simp: step0_def refStep_def refF_def refK_def refKPrime_def)
  show "i \<in> set [16..<32] \<Longrightarrow> step1 x i = refStep x i"
    using d [of 1] by (intro ext) (auto simp: step1_def refStep_def refF_def refK_def refKPrime_def)
  show "i \<in> set [32..<48] \<Longrightarrow> step2 x i = refStep x i"
    using d [of 2] by (intro ext) (auto simp: step2_def refStep_def refF_def refK_def refKPrime_def)
  show "i \<in> set [48..<64] \<Longrightarrow> step3 x i = refStep x i"
    using d [of 3] by (intro ext) (auto simp: step3_def refStep_def refF_def refK_def refKPrime_def)
  show "i \<in> set [64..<80] \<Longrightarrow> step4 x i = refStep x i"
    using d [of 4] by (intro ext) (auto simp: step4_def refStep_def refF_def refK_def refKPrime_def)
qed

lemma upt_glue: "a \<le> b \<Longrightarrow> b \<le> c \<Longrightarrow> [a..<c] = [a..<b] @ [b..<c]"
  by (metis le_add_diff_inverse upt_add_eq_append)

lemma compress_ref: "compress s p = refCompress s p"
proof -
  note glue = upt_glue [of 0 16 80] upt_glue [of 16 32 80] upt_glue [of 32 48 80] upt_glue [of 48 64 80]
  have "[0..<80] = [0..<16] @ [16..<32] @ [32..<48] @ [48..<64] @ [64..<80 :: nat]"
    using glue by (simp del: upt_rec_numeral)
  note upt = this
  have c: "fold (step0 x) [0..<16] ls = fold (refStep x) [0..<16] ls"
    "fold (step1 x) [16..<32] ls = fold (refStep x) [16..<32] ls"
    "fold (step2 x) [32..<48] ls = fold (refStep x) [32..<48] ls"
    "fold (step3 x) [48..<64] ls = fold (refStep x) [48..<64] ls"
    "fold (step4 x) [64..<80] ls = fold (refStep x) [64..<80] ls" for x ls
    by (rule fold_cong [OF refl refl], erule steps)+
  show ?thesis
    unfolding compress_def refCompress_def Let_def c upt fold_append comp_def ..
qed

subsection \<open>The buffer\<close>

text \<open>What a byte string leaves: the chain value of its whole blocks, and the rest.\<close>

function absorb :: "line \<Rightarrow> byte list \<Rightarrow> line \<times> byte list" where
  "absorb s p = (if 64 \<le> length p then absorb (compress s (take 64 p)) (drop 64 p) else (s, p))"
  by pat_completeness auto
termination by (relation "measure (\<lambda>(_, p). length p)") auto

declare absorb.simps [simp del]

lemma absorb_short: "length p < 64 \<Longrightarrow> absorb s p = (s, p)"
  by (simp add: absorb.simps)

lemma absorb_rest: "length (snd (absorb s p)) = length p mod 64"
  by (induction s p rule: absorb.induct) (subst absorb.simps, auto simp: le_mod_geq)

lemma absorb_append: "absorb s (m @ p) = (case absorb s m of (s', r) \<Rightarrow> absorb s' (r @ p))"
proof (induction s m rule: absorb.induct)
  case (1 s m)
  show ?case
  proof (cases "64 \<le> length m")
    case True
    then show ?thesis using 1 by (simp add: absorb.simps [of s "m @ p"] absorb.simps [of s m])
  next
    case False
    then show ?thesis by (simp add: absorb_short)
  qed
qed

lemma absorb_blocks: "fst (absorb s p) = foldl compress s (refBlocks p)"
  by (induction s p rule: absorb.induct) (subst absorb.simps, subst refBlocks.simps, auto)

lemma Block_absorb:
  "ripemd160Block d p = (d\<lparr>dgS := fst (absorb (dgS d) p)\<rparr>, length p - length (snd (absorb (dgS d) p))) \<and>
   drop (length p - length (snd (absorb (dgS d) p))) p = snd (absorb (dgS d) p)"
proof (induction d p rule: ripemd160Block.induct)
  case (1 d p)
  show ?case
  proof (cases "64 \<le> length p")
    case True
    let ?d = "d\<lparr>dgS := compress (dgS d) (take 64 p)\<rparr>"
    have e: "absorb (dgS d) p = absorb (dgS ?d) (drop 64 p)" using True by (simp add: absorb.simps [of "dgS d" p])
    have "length (snd (absorb (dgS ?d) (drop 64 p))) \<le> length p - 64"
      using absorb_rest [of "dgS ?d" "drop 64 p"] by simp
    then show ?thesis
      using 1 [OF True] True unfolding e by (simp add: ripemd160Block.simps [of d p] Let_def add.commute)
  next
    case False
    then show ?thesis by (simp add: ripemd160Block.simps [of d p] absorb_short)
  qed
qed

text \<open>A digest stands for the bytes written to it.\<close>

definition stands :: "digest \<Rightarrow> byte list \<Rightarrow> bool" where
  "stands d m \<longleftrightarrow> absorb (dgS newRIPEMD160Digest) m = (dgS d, take (dgNx d) (dgX d)) \<and>
     length (dgX d) = 64 \<and> dgNx d < 64 \<and> dgTc d = of_nat (length m)"

lemma stands_new: "stands newRIPEMD160Digest []"
  by (simp add: stands_def absorb_short newRIPEMD160Digest_def)

lemma bufferAt_take: "k + length p \<le> length x \<Longrightarrow> take (k + length p) (bufferAt k p x) = take k x @ p"
  by (simp add: bufferAt_def)

lemma length_bufferAt: "k + length p \<le> length x \<Longrightarrow> length (bufferAt k p x) = length x"
  by (simp add: bufferAt_def)

text \<open>Filling the buffer loses nothing: what follows is absorbed as if it followed the rest.\<close>

lemma fillBuffer_absorb:
  assumes "length (dgX d) = 64" "dgNx d < 64" "fillBuffer d p = (d', p')"
  shows "absorb (dgS d) (take (dgNx d) (dgX d) @ p) = absorb (dgS d') (take (dgNx d') (dgX d') @ p') \<and>
    length (dgX d') = 64 \<and> dgTc d' = dgTc d \<and> (dgNx d' = 0 \<or> p' = []) \<and> dgNx d' < 64"
proof (cases "dgNx d > 0")
  case False
  then show ?thesis using assms by (simp add: fillBuffer_def)
next
  case True
  let ?n = "min (length p) (64 - dgNx d)"
  let ?X = "bufferAt (dgNx d) (take ?n p) (dgX d)"
  have len: "dgNx d + length (take ?n p) \<le> length (dgX d)" using assms(1,2) by simp
  have X: "length ?X = 64" using length_bufferAt [OF len] assms(1) by simp
  have pre: "take (dgNx d + ?n) ?X = take (dgNx d) (dgX d) @ take ?n p"
    using bufferAt_take [OF len] by simp
  show ?thesis
  proof (cases "dgNx d + ?n = 64")
    case full: True
    let ?d = "d\<lparr>dgX := ?X, dgNx := dgNx d + ?n\<rparr>"
    have w: "take 64 (take (dgNx d) (dgX d) @ p) = ?X" "drop 64 (take (dgNx d) (dgX d) @ p) = drop ?n p"
      "64 \<le> length (take (dgNx d) (dgX d) @ p)"
      using pre X full assms(1) by (auto simp: min_def split: if_split_asm)
    have "fst (ripemd160Block ?d ?X) = ?d\<lparr>dgS := compress (dgS d) ?X\<rparr>"
      using X by (simp add: ripemd160Block.simps [of _ ?X] ripemd160Block.simps [of _ "[]"])
    then have "d' = d\<lparr>dgX := ?X, dgNx := 0, dgS := compress (dgS d) ?X\<rparr>" "p' = drop ?n p"
      using assms(3) True full by (auto simp: fillBuffer_def Let_def)
    then show ?thesis using X w by (simp add: absorb.simps [of "dgS d" "take (dgNx d) (dgX d) @ p"])
  next
    case short: False
    then have "?n = length p" "dgNx d + ?n < 64" using assms(2) by (auto simp: min_def split: if_split_asm)
    then show ?thesis
      using assms(3) True short pre X by (auto simp: fillBuffer_def Let_def)
  qed
qed

lemma Write_stands: "stands d m \<Longrightarrow> stands (Write d p) (m @ p)"
proof -
  assume d: "stands d m"
  let ?d = "d\<lparr>dgTc := dgTc d + of_nat (length p)\<rparr>"
  obtain d1 p1 where f: "fillBuffer ?d p = (d1, p1)" by fastforce
  have c: "length (dgX ?d) = 64" "dgNx ?d < 64" using d by (simp_all add: stands_def)
  note fill = fillBuffer_absorb [OF c f]
  let ?a = "absorb (dgS d1) p1"
  let ?d2 = "d1\<lparr>dgS := fst ?a\<rparr>"
  have W: "Write d p = (if snd ?a \<noteq> [] then ?d2\<lparr>dgX := bufferAt 0 (snd ?a) (dgX d1),
      dgNx := min 64 (length (snd ?a))\<rparr> else ?d2)"
    unfolding Write_def f Let_def prod.case Block_absorb [of d1 p1, THEN conjunct1]
      Block_absorb [of d1 p1, THEN conjunct2] by simp
  have "absorb (dgS newRIPEMD160Digest) (m @ p) = absorb (dgS d1) (take (dgNx d1) (dgX d1) @ p1)"
    using d fill by (simp add: stands_def absorb_append [of _ m])
  moreover have "absorb (dgS d1) (take (dgNx d1) (dgX d1) @ p1) =
      (dgS (Write d p), take (dgNx (Write d p)) (dgX (Write d p))) \<and>
      length (dgX (Write d p)) = 64 \<and> dgNx (Write d p) < 64"
  proof (cases "p1 = []")
    case True
    then show ?thesis using fill by (simp add: W absorb_short)
  next
    case False
    then have nx: "dgNx d1 = 0" using fill by simp
    have r: "length (snd ?a) < 64" using absorb_rest [of "dgS d1" p1] by simp
    then show ?thesis
      using nx fill bufferAt_take [of 0 "snd ?a" "dgX d1"] length_bufferAt [of 0 "snd ?a" "dgX d1"]
      by (simp add: W prod_eq_iff)
  qed
  moreover have "dgTc (Write d p) = of_nat (length (m @ p))"
    using d fill by (simp add: W stands_def)
  ultimately show ?thesis by (simp add: stands_def)
qed

lemma pad_zeros: "(r :: nat) < 64 \<Longrightarrow> (if r < 56 then 56 - r else 64 + 56 - r) - 1 = (119 - r) mod 64"
  by (simp add: mod_if [of "119 - r"])

lemma refPad_length: "length (refPad m) mod 64 = 0"
proof -
  obtain q r where q: "length m = 64 * q + r" "r < 64" "length m mod 64 = r"
    using mult_div_mod_eq [of 64 "length m"] by (metis mod_less_divisor zero_less_numeral)
  have "length m + 1 + (119 - r) mod 64 + 8 = 64 * (if r < 56 then q + 1 else q + 2)"
    unfolding pad_zeros [OF q(2), symmetric] using q(1,2) by simp
  moreover have "length (refPad m) = length m + 1 + (119 - r) mod 64 + 8"
    using q(3) by (simp add: refPad_def le_bytes_def)
  ultimately show ?thesis by (simp only: mod_mult_self1_is_0)
qed

lemma ripemd160_reference: "ripemd160Sum m = Some (refRipemd160 m)"
proof -
  let ?d = "Write newRIPEMD160Digest m"
  let ?r = "unat (dgTc ?d mod 64)"
  let ?one = "0x80 # replicate ((if ?r < 56 then 56 - ?r else 64 + 56 - ?r) - 1) (0 :: byte)"
  let ?len = "le_bytes 8 (push_bit 3 (dgTc ?d))"
  let ?e = "Write (Write ?d ?one) ?len"
  have d: "stands ?d m" using Write_stands [OF stands_new] by simp
  have e: "stands ?e ((m @ ?one) @ ?len)" by (intro Write_stands d)
  have tc: "dgTc ?d = of_nat (length m)" using d by (simp add: stands_def)
  have r: "?r = length m mod 64"
  proof -
    have "(2 :: nat) ^ 64 = 64 * 2 ^ 58" by simp
    then have "length m mod 2 ^ 64 mod 64 = length m mod 64" by (metis mod_mult_right_eq mod_mod_cancel dvd_triv_left)
    then show ?thesis by (simp add: tc unat_mod unat_of_nat)
  qed
  have "?len = le_bytes 8 (of_nat (8 * length m) :: 64 word)"
    by (simp add: tc push_bit_eq_mult mult.commute)
  then have pad: "(m @ ?one) @ ?len = refPad m"
    unfolding refPad_def r by (simp only: pad_zeros [OF mod_less_divisor] append.simps append_assoc zero_less_numeral)
  have "dgNx ?e = 0"
    using e absorb_rest [of "dgS newRIPEMD160Digest" "refPad m"] refPad_length [of m] unfolding pad
    by (auto simp: stands_def)
  moreover have "dgS ?e = foldl refCompress (dgS newRIPEMD160Digest) (refBlocks (refPad m))"
    using e absorb_blocks [of "dgS newRIPEMD160Digest" "refPad m"] unfolding pad
    by (simp add: stands_def compress_ref [abs_def])
  ultimately show ?thesis
    by (simp add: ripemd160Sum_def checkSum_def Let_def refRipemd160_def refOutput_def split: prod.split)
qed

text \<open>A published test value.\<close>

lemma ripemd160_vector:
  "ripemd160Sum [0x61, 0x62, 0x63] =
     Some [0x8e, 0xb2, 0x08, 0xf7, 0xe0, 0x5d, 0x98, 0x7a, 0x9b, 0x04, 0x4a, 0x8e, 0x98, 0xc6, 0xb0,
           0x87, 0xf1, 0x5a, 0x0b, 0xfc]"
  by code_simp

lemma ripemd160_length: "length (the (ripemd160Sum m)) = 20"
  by (simp add: ripemd160_reference refRipemd160_def refOutput_def le_bytes_def split: prod.split)

end
