(* ===== verification/Secp256k1.thy ===== *)
theory Secp256k1
  imports Radix
begin

text \<open>
  Arithmetic on the curve secp256k1 (\<^verbatim>\<open>walletkeys/secp256k1.go\<close>). A \<^verbatim>\<open>big.Int\<close> is an integer.
  Of \<^verbatim>\<open>math/big\<close>: \<^verbatim>\<open>Mod\<close> is Euclidean, \<^verbatim>\<open>ModInverse\<close> gives the inverse between zero and the
  modulus or nil, \<^verbatim>\<open>Exp\<close> is modular exponentiation.
\<close>

subsection \<open>Integers modulo the field prime\<close>

definition secp256k1P :: int where
  "secp256k1P = 0xfffffffffffffffffffffffffffffffffffffffffffffffffffffffefffffc2f"

definition secp256k1N :: int where
  "secp256k1N = 0xfffffffffffffffffffffffffffffffebaaedce6af48a03bbfd25e8cd0364141"

fun egcd :: "nat \<Rightarrow> nat \<Rightarrow> int \<times> int \<times> int" where
  "egcd a b =
     (if b = 0 then (int a, 1, 0)
      else (case egcd b (a mod b) of (g, x, y) \<Rightarrow> (g, y, x - int (a div b) * y)))"

declare egcd.simps [simp del]

definition ModInverse :: "int \<Rightarrow> int \<Rightarrow> int option" where
  "ModInverse v n =
     (case egcd (nat v) (nat n) of (g, x, _) \<Rightarrow> if g = 1 then Some (x mod n) else None)"

function modExp :: "int \<Rightarrow> nat \<Rightarrow> int \<Rightarrow> int" where
  "modExp b e n =
     (if e = 0 then 1 mod n
      else (let h = modExp b (e div 2) n; s = h * h mod n
            in if e mod 2 = 1 then s * b mod n else s))"
  by pat_completeness auto
termination by (relation "measure (\<lambda>(_, e, _). e)") auto

declare modExp.simps [simp del]

definition fieldNormalize :: "int \<Rightarrow> int" where
  "fieldNormalize v = v mod secp256k1P"

definition fieldAdd :: "int \<Rightarrow> int \<Rightarrow> int" where
  "fieldAdd a b = fieldNormalize (a + b)"

definition fieldSub :: "int \<Rightarrow> int \<Rightarrow> int" where
  "fieldSub a b = fieldNormalize (a - b)"

definition fieldMul :: "int \<Rightarrow> int \<Rightarrow> int" where
  "fieldMul a b = fieldNormalize (a * b)"

definition fieldInv :: "int \<Rightarrow> int option" where
  "fieldInv v = ModInverse (fieldNormalize v) secp256k1P"

definition secp256k1SqrtExponent :: nat where
  "secp256k1SqrtExponent = nat ((secp256k1P + 1) div 4)"

subsection \<open>Points\<close>

text \<open>The point at infinity has no coordinates.\<close>

datatype curve_point = Infinity | Point int int

definition secp256k1G :: curve_point where
  "secp256k1G =
     Point 0x79be667ef9dcbbac55a06295ce870b07029bfcdb2dce28d959f2815b16f81798
       0x483ada7726a3c4655da4fbfc0e1108a8fd17b448a68554199c47d08ffb10d4b8"

fun pointDouble :: "curve_point \<Rightarrow> curve_point" where
  "pointDouble Infinity = Infinity"
| "pointDouble (Point x y) =
     (if y = 0 then Infinity
      else
        (let numerator = fieldMul 3 (fieldMul x x)
         in case fieldInv (fieldMul 2 y) of
              None \<Rightarrow> Infinity
            | Some denominatorInv \<Rightarrow>
                (let slope = fieldMul numerator denominatorInv;
                     x3 = fieldSub (fieldMul slope slope) (fieldMul 2 x);
                     y3 = fieldSub (fieldMul slope (fieldSub x x3)) y
                 in Point x3 y3)))"

fun pointAdd :: "curve_point \<Rightarrow> curve_point \<Rightarrow> curve_point" where
  "pointAdd Infinity right = right"
| "pointAdd left Infinity = left"
| "pointAdd (Point x1 y1) (Point x2 y2) =
     (if x1 = x2 then
        (if fieldAdd y1 y2 = 0 then Infinity else pointDouble (Point x1 y1))
      else
        (let numerator = fieldSub y2 y1
         in case fieldInv (fieldSub x2 x1) of
              None \<Rightarrow> Infinity
            | Some denominatorInv \<Rightarrow>
                (let slope = fieldMul numerator denominatorInv;
                     x3 = fieldSub (fieldSub (fieldMul slope slope) x1) x2;
                     y3 = fieldSub (fieldMul slope (fieldSub x1 x3)) y1
                 in Point x3 y3)))"

text \<open>Double and add, from the most significant bit on.\<close>

definition scalarBit :: "curve_point \<Rightarrow> byte \<Rightarrow> nat \<Rightarrow> curve_point \<Rightarrow> curve_point" where
  "scalarBit addend byteValue bi result =
     (let doubled = pointDouble result
      in if bit byteValue bi then pointAdd doubled addend else doubled)"

definition scalarMult :: "curve_point \<Rightarrow> byte list \<Rightarrow> curve_point" where
  "scalarMult addend scalar =
     fold (\<lambda>byteValue. fold (scalarBit addend byteValue) [7, 6, 5, 4, 3, 2, 1, 0]) scalar Infinity"

definition scalarMultBase :: "byte list \<Rightarrow> curve_point" where
  "scalarMultBase scalar = scalarMult secp256k1G scalar"

subsection \<open>Public keys\<close>

definition parseCompressedPublicKey :: "byte list \<Rightarrow> string + curve_point" where
  "parseCompressedPublicKey raw =
     (if length raw \<noteq> 33 then Inl ''compressed public key must be 33 bytes''
      else if hd raw \<noteq> 0x02 \<and> hd raw \<noteq> 0x03 then Inl ''compressed public key prefix is invalid''
      else
        (let x = int (SetBytes (tl raw))
         in if secp256k1P \<le> x then Inl ''public key x coordinate out of range''
            else
              (let rhs = fieldAdd (fieldMul (fieldMul x x) x) 7;
                   y = modExp rhs secp256k1SqrtExponent secp256k1P
               in if fieldMul y y \<noteq> rhs then Inl ''public key is not on secp256k1 curve''
                  else
                    Inr (Point x (if odd y \<noteq> (hd raw = 0x03) then fieldSub secp256k1P y else y)))))"

text \<open>\<^verbatim>\<open>copy\<close> to the end of a zeroed array; a number of more bytes does not fit.\<close>

definition paddedTo :: "nat \<Rightarrow> byte list \<Rightarrow> byte list" where
  "paddedTo n bs = replicate (n - length bs) 0 @ bs"

definition serializeCompressedPublicKey :: "curve_point \<Rightarrow> string + byte list" where
  "serializeCompressedPublicKey p =
     (case p of
        Infinity \<Rightarrow> Inl ''cannot serialize point at infinity''
      | Point x y \<Rightarrow> Inr ((if even y then 0x02 else 0x03) # paddedTo 32 (Bytes (nat x))))"

definition serializeUncompressedPublicKey :: "curve_point \<Rightarrow> string + byte list" where
  "serializeUncompressedPublicKey p =
     (case p of
        Infinity \<Rightarrow> Inl ''cannot serialize point at infinity''
      | Point x y \<Rightarrow> Inr (0x04 # paddedTo 32 (Bytes (nat x)) @ paddedTo 32 (Bytes (nat y))))"

subsection \<open>The field operations\<close>

lemma P_pos: "0 < secp256k1P" "1 < secp256k1P"
  by (simp_all add: secp256k1P_def)

lemma egcd_bezout: "egcd a b = (g, x, y) \<Longrightarrow> int a * x + int b * y = g"
proof (induction a b arbitrary: g x y rule: egcd.induct)
  case (1 a b)
  show ?case
  proof (cases "b = 0")
    case True
    then show ?thesis using 1(2) by (simp add: egcd.simps)
  next
    case False
    obtain g' x' y' where e: "egcd b (a mod b) = (g', x', y')" by (cases "egcd b (a mod b)")
    then have "g = g'" "x = y'" "y = x' - int (a div b) * y'"
      using 1(2) False by (auto simp: egcd.simps [of a b])
    moreover have "int b * x' + int (a mod b) * y' = g'" using 1(1) [OF False e] .
    moreover have "int a = int (a mod b) + int b * int (a div b)"
      by (metis add.commute mult_div_mod_eq of_nat_add of_nat_mult)
    then have "int a * y' + int b * (x' - int (a div b) * y') = int b * x' + int (a mod b) * y'"
      by (simp add: algebra_simps)
    ultimately show ?thesis by simp
  qed
qed

lemma ModInverse_inverse:
  assumes "ModInverse v n = Some i" "0 \<le> v" "0 < n"
  shows "v * i mod n = 1 mod n"
proof -
  obtain x y where e: "egcd (nat v) (nat n) = (1, x, y)" "i = x mod n"
    using assms(1) by (auto simp: ModInverse_def split: prod.split_asm if_split_asm)
  have "v * x + n * y = 1" using egcd_bezout [OF e(1)] assms by simp
  then have "(v * x + n * y) mod n = 1 mod n" by simp
  then show ?thesis by (simp add: e(2) mod_mult_right_eq)
qed

lemma modExp_power: "modExp b e n = b ^ e mod n"
proof (induction b e n rule: modExp.induct)
  case (1 b e n)
  show ?case
  proof (cases "e = 0")
    case False
    have "b ^ e = (b ^ (e div 2) * b ^ (e div 2)) * (if e mod 2 = 1 then b else 1)"
    proof (cases "even e")
      case True
      then show ?thesis by (auto elim!: evenE simp: power_even_eq power2_eq_square)
    next
      case False
      then show ?thesis by (auto elim!: oddE simp: power_even_eq power2_eq_square)
    qed
    then show ?thesis
      using 1 False by (simp add: modExp.simps [of b e n] Let_def mod_simps)
  qed (simp add: modExp.simps)
qed

lemma fieldInv_inverse: "fieldInv v = Some i \<Longrightarrow> v * i mod secp256k1P = 1"
  using ModInverse_inverse [of "fieldNormalize v" secp256k1P i] P_pos
  by (simp add: fieldInv_def fieldNormalize_def mod_mult_left_eq)

subsection \<open>The curve\<close>

text \<open>The points of the curve with reduced coordinates.\<close>

fun on_curve :: "curve_point \<Rightarrow> bool" where
  "on_curve Infinity = True"
| "on_curve (Point x y) =
     (0 \<le> x \<and> x < secp256k1P \<and> 0 \<le> y \<and> y < secp256k1P \<and>
      (y * y - (x * x * x + 7)) mod secp256k1P = 0)"

text \<open>
  Where a line of slope \<open>l\<close> through a point of the curve meets it again. The inverse \<open>i\<close> of the
  divisor of the slope cancels it.
\<close>

lemma chord_identity:
  fixes p :: int
  assumes "p dvd y1 * y1 - (x1 * x1 * x1 + 7)" "p dvd y2 * y2 - (x2 * x2 * x2 + 7)"
    "p dvd l * (x2 - x1) - (y2 - y1)" "p dvd (x2 - x1) * i - 1"
    "x3 = l * l - x1 - x2" "y3 = l * (x1 - x3) - y1"
  shows "p dvd y3 * y3 - (x3 * x3 * x3 + 7)"
proof -
  let ?h1 = "y1 * y1 - (x1 * x1 * x1 + 7)" and ?h2 = "y2 * y2 - (x2 * x2 * x2 + 7)"
  let ?h3 = "l * (x2 - x1) - (y2 - y1)" and ?d = "x2 - x1"
  let ?b = "2 * l * y1 + x2 * x3 - 2 * x1 * x1 - x1 * x2 - x1 * x3"
  have "?d * ?b = ?h2 - ?h1 + ?h3 * (2 * y1 + 2 * l * ?d - ?h3)"
    unfolding assms(5) by (simp add: algebra_simps)
  then have "p dvd ?d * ?b" using assms(1-3) by (metis dvd_add dvd_diff dvd_mult2)
  moreover have "?b = i * (?d * ?b) - ?b * (?d * i - 1)" by (simp add: algebra_simps)
  ultimately have "p dvd ?b" using assms(4) by (metis dvd_diff dvd_mult)
  moreover have "y3 * y3 - (x3 * x3 * x3 + 7) = ?h1 + (x3 - x1) * ?b"
    unfolding assms(5,6) by (simp add: algebra_simps)
  ultimately show ?thesis using assms(1) by (metis dvd_add dvd_mult)
qed

lemma tangent_identity:
  fixes p :: int
  assumes "p dvd y * y - (x * x * x + 7)" "p dvd l * (2 * y) - 3 * (x * x)"
    "x3 = l * l - 2 * x" "y3 = l * (x - x3) - y"
  shows "p dvd y3 * y3 - (x3 * x3 * x3 + 7)"
proof -
  have "y3 * y3 - (x3 * x3 * x3 + 7) =
      (y * y - (x * x * x + 7)) + (x3 - x) * (l * (2 * y) - 3 * (x * x))"
    unfolding assms(3,4) by (simp add: algebra_simps)
  then show ?thesis using assms(1,2) by (metis dvd_add dvd_mult)
qed

subsection \<open>Congruence\<close>

definition eqm :: "int \<Rightarrow> int \<Rightarrow> bool" where
  "eqm a b \<longleftrightarrow> a mod secp256k1P = b mod secp256k1P"

lemma eqm_refl: "eqm a a"
  by (simp add: eqm_def)

lemma eqm_trans: "eqm a b \<Longrightarrow> eqm b c \<Longrightarrow> eqm a c"
  by (simp add: eqm_def)

lemma eqm_sym: "eqm a b \<Longrightarrow> eqm b a"
  by (simp add: eqm_def)

lemma eqm_dvd: "eqm a b \<longleftrightarrow> secp256k1P dvd a - b"
  by (simp add: eqm_def mod_eq_dvd_iff)

lemma eqm_ops:
  "eqm a a' \<Longrightarrow> eqm b b' \<Longrightarrow> eqm (a + b) (a' + b')"
  "eqm a a' \<Longrightarrow> eqm b b' \<Longrightarrow> eqm (a - b) (a' - b')"
  "eqm a a' \<Longrightarrow> eqm b b' \<Longrightarrow> eqm (a * b) (a' * b')"
  unfolding eqm_def by (fact mod_add_cong mod_diff_cong mod_mult_cong)+

lemma eqm_normalize: "eqm a b \<Longrightarrow> eqm (fieldNormalize a) b"
  by (simp add: eqm_def fieldNormalize_def)

lemma eqm_field:
  "eqm a a' \<Longrightarrow> eqm b b' \<Longrightarrow> eqm (fieldAdd a b) (a' + b')"
  "eqm a a' \<Longrightarrow> eqm b b' \<Longrightarrow> eqm (fieldSub a b) (a' - b')"
  "eqm a a' \<Longrightarrow> eqm b b' \<Longrightarrow> eqm (fieldMul a b) (a' * b')"
  unfolding fieldAdd_def fieldSub_def fieldMul_def by (intro eqm_normalize eqm_ops; assumption)+

lemma field_range:
  "0 \<le> fieldAdd a b \<and> fieldAdd a b < secp256k1P" "0 \<le> fieldSub a b \<and> fieldSub a b < secp256k1P"
  "0 \<le> fieldMul a b \<and> fieldMul a b < secp256k1P"
  using P_pos by (simp_all add: fieldAdd_def fieldSub_def fieldMul_def fieldNormalize_def)

lemma on_curve_eqm:
  "on_curve (Point x y) \<longleftrightarrow>
     0 \<le> x \<and> x < secp256k1P \<and> 0 \<le> y \<and> y < secp256k1P \<and> eqm (y * y) (x * x * x + 7)"
  by (simp add: eqm_dvd mod_eq_0_iff_dvd)

lemma on_curve_reduced:
  assumes "secp256k1P dvd Y * Y - (X * X * X + 7)" "eqm x3 X" "eqm y3 Y"
    "0 \<le> x3 \<and> x3 < secp256k1P" "0 \<le> y3 \<and> y3 < secp256k1P"
  shows "on_curve (Point x3 y3)"
proof -
  have "eqm (y3 * y3) (Y * Y)" by (intro eqm_ops assms)
  moreover have "eqm (X * X * X + 7) (x3 * x3 * x3 + 7)"
    by (rule eqm_sym, intro eqm_ops assms eqm_refl)
  moreover have "eqm (Y * Y) (X * X * X + 7)" using assms(1) by (simp add: eqm_dvd)
  ultimately show ?thesis using assms(4,5) eqm_trans unfolding on_curve_eqm by blast
qed

lemma slope_cancels:
  assumes "fieldInv v = Some i" "eqm v d"
  shows "eqm (fieldMul n i * d) n" "eqm (d * i) 1"
proof -
  have "eqm (v * i) 1" using fieldInv_inverse [OF assms(1)] P_pos by (simp add: eqm_def)
  then show e: "eqm (d * i) 1" using assms(2) by (meson eqm_ops(3) eqm_refl eqm_sym eqm_trans)
  have "eqm (fieldMul n i * d) (n * i * d)" by (intro eqm_ops eqm_field eqm_refl)
  moreover have "n * i * d = n * (d * i)" by simp
  moreover have "eqm (n * (d * i)) (n * 1)" by (intro eqm_ops eqm_refl e)
  ultimately show "eqm (fieldMul n i * d) n" by (metis eqm_trans mult.right_neutral)
qed

lemma pointDouble_on_curve: "on_curve p \<Longrightarrow> on_curve (pointDouble p)"
proof (cases p)
  case (Point x y)
  assume oc: "on_curve p"
  show ?thesis
  proof (cases "y = 0 \<or> fieldInv (fieldMul 2 y) = None")
    case True
    then show ?thesis using Point by (auto split: option.split)
  next
    case False
    then obtain i where i: "fieldInv (fieldMul 2 y) = Some i" "y \<noteq> 0" by auto
    define l where "l = fieldMul (fieldMul 3 (fieldMul x x)) i"
    have "eqm (l * (2 * y)) (fieldMul 3 (fieldMul x x))"
      unfolding l_def by (rule slope_cancels(1) [OF i(1)]) (intro eqm_field eqm_refl)
    moreover have "eqm (fieldMul 3 (fieldMul x x)) (3 * (x * x))" by (intro eqm_field eqm_refl)
    ultimately have l: "secp256k1P dvd l * (2 * y) - 3 * (x * x)" using eqm_trans by (simp only: flip: eqm_dvd)
    let ?X = "l * l - 2 * x"
    let ?Y = "l * (x - ?X) - y"
    have "secp256k1P dvd y * y - (x * x * x + 7)"
      using oc Point by (simp only: on_curve_eqm eqm_dvd)
    then have "on_curve (Point (fieldSub (fieldMul l l) (fieldMul 2 x))
        (fieldSub (fieldMul l (fieldSub x (fieldSub (fieldMul l l) (fieldMul 2 x)))) y))"
      by (intro on_curve_reduced [OF tangent_identity [OF _ l refl refl]] field_range eqm_field eqm_refl)
    then show ?thesis using i Point by (simp add: l_def [symmetric] Let_def)
  qed
qed simp

lemma pointAdd_on_curve: "on_curve p \<Longrightarrow> on_curve q \<Longrightarrow> on_curve (pointAdd p q)"
proof (induction p q rule: pointAdd.induct)
  case (3 x1 y1 x2 y2)
  show ?case
  proof (cases "x1 = x2 \<or> fieldInv (fieldSub x2 x1) = None")
    case True
    then show ?thesis using pointDouble_on_curve [OF 3(1)] by (auto simp del: pointDouble.simps split: option.split)
  next
    case False
    then obtain i where i: "fieldInv (fieldSub x2 x1) = Some i" "x1 \<noteq> x2" by auto
    define l where "l = fieldMul (fieldSub y2 y1) i"
    have e: "eqm (fieldSub x2 x1) (x2 - x1)" by (intro eqm_field eqm_refl)
    have "eqm (l * (x2 - x1)) (fieldSub y2 y1)" unfolding l_def by (rule slope_cancels(1) [OF i(1) e])
    moreover have "eqm (fieldSub y2 y1) (y2 - y1)" by (intro eqm_field eqm_refl)
    ultimately have l: "secp256k1P dvd l * (x2 - x1) - (y2 - y1)" using eqm_trans by (simp only: flip: eqm_dvd)
    have d: "secp256k1P dvd (x2 - x1) * i - 1" using slope_cancels(2) [OF i(1) e] by (simp only: eqm_dvd)
    have "secp256k1P dvd y1 * y1 - (x1 * x1 * x1 + 7)" "secp256k1P dvd y2 * y2 - (x2 * x2 * x2 + 7)"
      using 3 by (simp_all only: on_curve_eqm eqm_dvd)
    then have "on_curve (Point (fieldSub (fieldSub (fieldMul l l) x1) x2)
        (fieldSub (fieldMul l (fieldSub x1 (fieldSub (fieldSub (fieldMul l l) x1) x2))) y1))"
      by (intro on_curve_reduced [OF chord_identity [OF _ _ l d refl refl]] field_range eqm_field eqm_refl)
    then show ?thesis using i by (simp add: l_def [symmetric] Let_def)
  qed
qed simp_all

lemma on_curve_G: "on_curve secp256k1G"
  by code_simp

lemma scalarBit_on_curve: "on_curve q \<Longrightarrow> on_curve r \<Longrightarrow> on_curve (scalarBit q w i r)"
  by (simp add: scalarBit_def Let_def pointDouble_on_curve pointAdd_on_curve)

lemma fold_on_curve:
  "(\<And>x r. on_curve r \<Longrightarrow> on_curve (f x r)) \<Longrightarrow> on_curve r \<Longrightarrow> on_curve (fold f xs r)"
  by (induction xs arbitrary: r) simp_all

lemma scalarMult_on_curve: "on_curve q \<Longrightarrow> on_curve (scalarMult q scalar)"
  unfolding scalarMult_def by (intro fold_on_curve scalarBit_on_curve) simp_all

subsection \<open>Keys\<close>

lemma padded_SetBytes: "length bs = n \<Longrightarrow> paddedTo n (Bytes (SetBytes bs)) = bs"
proof -
  assume n: "length bs = n"
  let ?z = "length (takeWhile (\<lambda>w. w = 0) bs)" and ?r = "dropWhile (\<lambda>w. w = 0) bs"
  have "?z + length ?r = length bs" by (metis length_append takeWhile_dropWhile_id)
  then have "n - length ?r = ?z" using n by simp
  then show ?thesis using zeros_split [of bs 0] by (simp add: paddedTo_def Bytes_SetBytes)
qed

lemma P_below: "secp256k1P < 256 ^ 32"
  by (simp add: secp256k1P_def)

lemma padded_length: "n < 256 ^ k \<Longrightarrow> length (paddedTo k (Bytes n)) = k"
  using Bytes_length [of n k] by (simp add: paddedTo_def)

lemma coordinate_length:
  "0 \<le> x \<Longrightarrow> x < secp256k1P \<Longrightarrow> length (paddedTo 32 (Bytes (nat x))) = 32"
  using P_below by (intro padded_length) (simp add: nat_less_iff)

lemma SetBytes_padded: "SetBytes (paddedTo k (Bytes n)) = n"
  by (simp add: paddedTo_def SetBytes_zeros)

text \<open>Negation flips the parity of a coordinate that is not zero.\<close>

lemma negated_coordinate:
  assumes "0 \<le> y" "y < secp256k1P"
  shows "eqm (fieldSub secp256k1P y * fieldSub secp256k1P y) (y * y)"
    "y \<noteq> 0 \<Longrightarrow> odd (fieldSub secp256k1P y) \<longleftrightarrow> even y"
proof -
  have "eqm (fieldSub secp256k1P y) (0 - y)"
    by (intro eqm_field eqm_refl) (simp add: eqm_def)
  then have "eqm (fieldSub secp256k1P y * fieldSub secp256k1P y) ((0 - y) * (0 - y))" by (intro eqm_ops)
  then show "eqm (fieldSub secp256k1P y * fieldSub secp256k1P y) (y * y)" by simp
  assume "y \<noteq> 0"
  then have "fieldSub secp256k1P y = secp256k1P - y"
    unfolding fieldSub_def fieldNormalize_def using assms by (intro mod_pos_pos_trivial) simp_all
  moreover have "odd secp256k1P" by (simp add: secp256k1P_def)
  ultimately show "odd (fieldSub secp256k1P y) \<longleftrightarrow> even y" by simp
qed

lemma parsed_point:
  assumes "parseCompressedPublicKey raw = Inr p"
  shows "\<exists>x y. p = Point x y \<and> on_curve p \<and> x = int (SetBytes (tl raw)) \<and> length raw = 33 \<and>
    (hd raw = 2 \<or> hd raw = 3) \<and> (y = 0 \<or> odd y = (hd raw = 3))"
proof -
  define x where "x = int (SetBytes (tl raw))"
  define rhs where "rhs = fieldAdd (fieldMul (fieldMul x x) x) 7"
  define y where "y = modExp rhs secp256k1SqrtExponent secp256k1P"
  have p: "length raw = 33" "hd raw = 2 \<or> hd raw = 3" "x < secp256k1P" "fieldMul y y = rhs"
    "p = Point x (if odd y \<noteq> (hd raw = 3) then fieldSub secp256k1P y else y)" "0 \<le> x"
    using assms by (auto simp: parseCompressedPublicKey_def Let_def x_def y_def rhs_def split: if_split_asm)
  have y: "0 \<le> y" "y < secp256k1P" using P_pos by (simp_all add: y_def modExp_power)
  have "eqm (y * y) rhs" using eqm_field(3) [OF eqm_refl eqm_refl, of y y] eqm_sym p(4) by metis
  moreover have "eqm rhs (x * x * x + 7)" unfolding rhs_def by (intro eqm_field eqm_refl)
  ultimately have c: "eqm (y * y) (x * x * x + 7)" by (rule eqm_trans)
  note neg = negated_coordinate [OF y]
  show ?thesis
  proof (cases "odd y \<noteq> (hd raw = 3)")
    case True
    have "eqm (fieldSub secp256k1P y * fieldSub secp256k1P y) (x * x * x + 7)"
      using neg(1) c by (rule eqm_trans)
    then have "on_curve p" using p True field_range(2) by (simp add: on_curve_eqm del: on_curve.simps)
    moreover have "y = 0 \<Longrightarrow> fieldSub secp256k1P y = 0" by (simp add: fieldSub_def fieldNormalize_def)
    ultimately show ?thesis using p(1,2,5) True neg(2) unfolding x_def [symmetric] by auto
  next
    case False
    then have "on_curve p" using p y c by (simp add: on_curve_eqm del: on_curve.simps)
    then show ?thesis using p(1,2,5) False unfolding x_def [symmetric] by auto
  qed
qed

lemma serialize_parsed:
  assumes "parseCompressedPublicKey raw = Inr (Point x y)" "y \<noteq> 0"
  shows "serializeCompressedPublicKey (Point x y) = Inr raw"
proof -
  have p: "x = int (SetBytes (tl raw))" "length raw = 33" "hd raw = 2 \<or> hd raw = 3" "odd y = (hd raw = 3)"
    using parsed_point [OF assms(1)] assms(2) by auto
  have "raw = hd raw # tl raw" using p(2) by (cases raw) auto
  moreover have "paddedTo 32 (Bytes (nat x)) = tl raw" using padded_SetBytes [of "tl raw" 32] p(1,2) by simp
  ultimately show ?thesis using p(3,4) by (auto simp: serializeCompressedPublicKey_def)
qed

lemma serialized_key:
  assumes "on_curve p" "serializeCompressedPublicKey p = Inr raw"
  shows "\<exists>x y. p = Point x y \<and> length raw = 33 \<and> (hd raw = 2 \<or> hd raw = 3) \<and>
    int (SetBytes (tl raw)) = x \<and> odd y = (hd raw = 3)"
proof (cases p)
  case (Point x y)
  then show ?thesis
    using assms coordinate_length [of x]
    by (auto simp: serializeCompressedPublicKey_def SetBytes_padded split: if_split_asm)
qed (use assms in \<open>simp add: serializeCompressedPublicKey_def\<close>)

end
