(* ===== verification/Bip32.thy ===== *)
theory Bip32
  imports Base58 Bech32 Ripemd160 Secp256k1
begin

text \<open>
  Extended public keys, their derivation and their addresses (\<^verbatim>\<open>walletkeys/bip32.go\<close>,
  \<^verbatim>\<open>walletkeys/errors.go\<close>). SHA-256, HMAC-SHA512 and Keccak-256 are parameters.
\<close>

subsection \<open>Errors and hash functions\<close>

datatype error_code =
    CodeInvalidKeyMaterialFormat
  | CodeInvalidConfiguration
  | CodeUnsupportedTarget
  | CodeDerivationFailed

record key_error =
  keCode :: error_code
  keMessage :: string
  keCause :: "string option"

definition wrapKeyError :: "error_code \<Rightarrow> string \<Rightarrow> string option \<Rightarrow> key_error" where
  "wrapKeyError code message cause = \<lparr>keCode = code, keMessage = message, keCause = cause\<rparr>"

record hashes =
  hsSHA256 :: "byte list \<Rightarrow> byte list"
  hsHMACSHA512 :: "byte list \<Rightarrow> byte list \<Rightarrow> byte list"
  hsKeccak256 :: "byte list \<Rightarrow> byte list"

text \<open>The lengths of the digests.\<close>

definition digestLengths :: "hashes \<Rightarrow> bool" where
  "digestLengths h \<longleftrightarrow> (\<forall>x. length (hsSHA256 h x) = 32) \<and>
     (\<forall>k x. length (hsHMACSHA512 h k x) = 64) \<and> (\<forall>x. length (hsKeccak256 h x) = 32)"

subsection \<open>Big-endian words\<close>

definition Uint32 :: "byte list \<Rightarrow> 32 word" where
  "Uint32 b =
     ucast (b ! 3) OR push_bit 8 (ucast (b ! 2)) OR push_bit 16 (ucast (b ! 1)) OR
     push_bit 24 (ucast (b ! 0))"

definition PutUint32 :: "32 word \<Rightarrow> byte list" where
  "PutUint32 v = [ucast (drop_bit 24 v), ucast (drop_bit 16 v), ucast (drop_bit 8 v), ucast v]"

subsection \<open>Extended public keys\<close>

definition versionXPub :: "32 word" where "versionXPub = 0x0488b21e"
definition versionTPub :: "32 word" where "versionTPub = 0x043587cf"
definition versionVPub :: "32 word" where "versionVPub = 0x045f1cf6"

record extended_public_key =
  xkVersion :: "32 word"
  xkDepth :: byte
  xkParentFingerprint :: "32 word"
  xkChildNumber :: "32 word"
  xkChainCode :: "byte list"
  xkPublicKeyCompressed :: "byte list"

definition ParseExtendedPublicKey :: "hashes \<Rightarrow> string \<Rightarrow> key_error + extended_public_key" where
  "ParseExtendedPublicKey h serialized =
     (let bad = (\<lambda>msg cause. Inl (wrapKeyError CodeInvalidKeyMaterialFormat msg cause)) in
      case decodeBase58Check (hsSHA256 h) (TrimSpace serialized) of
        Inl e \<Rightarrow> bad ''invalid extended public key encoding'' (Some e)
      | Inr payload \<Rightarrow>
          if length payload \<noteq> 78 then bad ''invalid extended public key payload length'' None
          else
            (let version = Uint32 (take 4 payload);
                 keyData = take 33 (drop 45 payload)
             in if version \<noteq> versionXPub \<and> version \<noteq> versionTPub \<and> version \<noteq> versionVPub then
                  bad ''unsupported extended public key version'' None
                else if length keyData \<noteq> 33 \<or> (hd keyData \<noteq> 0x02 \<and> hd keyData \<noteq> 0x03) then
                  bad ''extended public key data is invalid'' None
                else
                  (case parseCompressedPublicKey keyData of
                     Inl e \<Rightarrow> bad ''extended public key point is invalid'' (Some e)
                   | Inr _ \<Rightarrow>
                       Inr \<lparr>xkVersion = version, xkDepth = payload ! 4,
                            xkParentFingerprint = Uint32 (take 4 (drop 5 payload)),
                            xkChildNumber = Uint32 (take 4 (drop 9 payload)),
                            xkChainCode = take 32 (drop 13 payload),
                            xkPublicKeyCompressed = keyData\<rparr>)))"

definition Serialize :: "hashes \<Rightarrow> extended_public_key \<Rightarrow> string" where
  "Serialize h key =
     encodeBase58Check (hsSHA256 h)
       (PutUint32 (xkVersion key) @ [xkDepth key] @ PutUint32 (xkParentFingerprint key) @
        PutUint32 (xkChildNumber key) @ xkChainCode key @ xkPublicKeyCompressed key)"

definition NormalizeBitcoinKeyset ::
  "hashes \<Rightarrow> string \<Rightarrow> key_error + extended_public_key \<times> string" where
  "NormalizeBitcoinKeyset h raw =
     (case ParseExtendedPublicKey h raw of
        Inl e \<Rightarrow> Inl e
      | Inr key \<Rightarrow>
          if xkVersion key = versionTPub then Inr (key, Serialize h key)
          else if xkVersion key = versionVPub then
            (let key = key\<lparr>xkVersion := versionTPub\<rparr> in Inr (key, Serialize h key))
          else Inl (wrapKeyError CodeInvalidKeyMaterialFormat
            ''bitcoin keyset must use tpub or vpub'' None))"

definition NormalizeEVMKeyset ::
  "hashes \<Rightarrow> string \<Rightarrow> key_error + extended_public_key \<times> string" where
  "NormalizeEVMKeyset h raw =
     (case ParseExtendedPublicKey h raw of
        Inl e \<Rightarrow> Inl e
      | Inr key \<Rightarrow>
          if xkVersion key = versionXPub then Inr (key, Serialize h key)
          else if xkVersion key = versionTPub then
            (let key = key\<lparr>xkVersion := versionXPub\<rparr> in Inr (key, Serialize h key))
          else Inl (wrapKeyError CodeInvalidKeyMaterialFormat
            ''evm keyset must use xpub or tpub'' None))"

definition ValidateAccountLevelPolicy :: "extended_public_key \<Rightarrow> key_error option" where
  "ValidateAccountLevelPolicy key =
     (if xkDepth key \<noteq> 3 then
        Some (wrapKeyError CodeInvalidConfiguration
          ''extended public key depth must be 3 (account-level)'' None)
      else if xkChildNumber key < 0x80000000 then
        Some (wrapKeyError CodeInvalidConfiguration
          ''extended public key child number must be hardened account index'' None)
      else None)"

subsection \<open>Derivation\<close>

definition ValidateDerivationPathTemplate :: "string \<Rightarrow> key_error option" where
  "ValidateDerivationPathTemplate template =
     (let trimmed = TrimSpace template; lower = ToLower trimmed in
      if Contains trimmed [char_of (39 :: nat)] \<or> Contains lower ''h'' then
        Some (wrapKeyError CodeInvalidConfiguration
          ''derivation path template must not contain hardened segments'' None)
      else if trimmed \<noteq> ''0/{index}'' then
        Some (wrapKeyError CodeInvalidConfiguration
          ''derivation path template must be exactly 0/{index}'' None)
      else None)"

text \<open>\<open>the\<close> is total here: the digest never panics.\<close>

definition hash160 :: "hashes \<Rightarrow> byte list \<Rightarrow> byte list" where
  "hash160 h input = the (ripemd160Sum (hsSHA256 h input))"

definition fingerprint :: "hashes \<Rightarrow> byte list \<Rightarrow> 32 word" where
  "fingerprint h compressedPublicKey = Uint32 (take 4 (hash160 h compressedPublicKey))"

definition deriveChildNonHardened ::
  "hashes \<Rightarrow> extended_public_key \<Rightarrow> 32 word \<Rightarrow> key_error + extended_public_key" where
  "deriveChildNonHardened h parent childIndex =
     (if 0x80000000 \<le> childIndex then
        Inl (wrapKeyError CodeInvalidConfiguration
          ''hardened child derivation is not allowed for public key derivation'' None)
      else case parseCompressedPublicKey (xkPublicKeyCompressed parent) of
        Inl e \<Rightarrow> Inl (wrapKeyError CodeInvalidKeyMaterialFormat ''parent public key is invalid'' (Some e))
      | Inr parentPoint \<Rightarrow>
          (let payload = xkPublicKeyCompressed parent @ PutUint32 childIndex;
               digest = hsHMACSHA512 h (xkChainCode parent) payload;
               il = take 32 digest;
               ir = drop 32 digest;
               ilInt = int (SetBytes il)
           in if ilInt = 0 \<or> secp256k1N \<le> ilInt then
                Inl (wrapKeyError CodeDerivationFailed
                  ''child derivation produced invalid scalar'' None)
              else
                (let childPoint = pointAdd parentPoint (scalarMultBase il)
                 in if childPoint = Infinity then
                      Inl (wrapKeyError CodeDerivationFailed
                        ''child derivation produced point at infinity'' None)
                    else case serializeCompressedPublicKey childPoint of
                      Inl e \<Rightarrow> Inl (wrapKeyError CodeDerivationFailed
                        ''failed to serialize child public key'' (Some e))
                    | Inr compressed \<Rightarrow>
                        Inr \<lparr>xkVersion = xkVersion parent, xkDepth = xkDepth parent + 1,
                             xkParentFingerprint = fingerprint h (xkPublicKeyCompressed parent),
                             xkChildNumber = childIndex, xkChainCode = ir,
                             xkPublicKeyCompressed = compressed\<rparr>)))"

text \<open>The index is an \<^verbatim>\<open>int64\<close>.\<close>

definition DeriveKeyByTemplate ::
  "hashes \<Rightarrow> extended_public_key \<Rightarrow> string \<Rightarrow> int \<Rightarrow> key_error + extended_public_key" where
  "DeriveKeyByTemplate h key template index =
     (case ValidateDerivationPathTemplate template of
        Some e \<Rightarrow> Inl e
      | None \<Rightarrow>
          if index < 0 then
            Inl (wrapKeyError CodeInvalidConfiguration ''derivation index must be non-negative'' None)
          else if index > 2147483647 then
            Inl (wrapKeyError CodeDerivationFailed
              ''derivation index exceeds non-hardened BIP32 range'' None)
          else (case deriveChildNonHardened h key 0 of
              Inl e \<Rightarrow> Inl e
            | Inr childZero \<Rightarrow> deriveChildNonHardened h childZero (of_int index)))"

subsection \<open>Addresses\<close>

definition bitcoinHRP :: "string \<Rightarrow> key_error + string" where
  "bitcoinHRP network =
     (let n = ToLower (TrimSpace network) in
      if n = ''regtest'' then Inr ''bcrt''
      else if n = ''testnet'' then Inr ''tb''
      else if n = ''mainnet'' then Inr ''bc''
      else Inl (wrapKeyError CodeUnsupportedTarget ''unsupported bitcoin network'' None))"

definition DeriveBitcoinP2WPKHAddress ::
  "hashes \<Rightarrow> extended_public_key \<Rightarrow> string \<Rightarrow> string \<Rightarrow> int \<Rightarrow> key_error + string" where
  "DeriveBitcoinP2WPKHAddress h key network template index =
     (if xkVersion key \<noteq> versionTPub then
        Inl (wrapKeyError CodeInvalidKeyMaterialFormat
          ''bitcoin derivation expects normalized tpub key'' None)
      else case DeriveKeyByTemplate h key template index of
        Inl e \<Rightarrow> Inl e
      | Inr child \<Rightarrow>
          (let pubKeyHash = hash160 h (xkPublicKeyCompressed child)
           in case bitcoinHRP network of
                Inl e \<Rightarrow> Inl e
              | Inr hrp \<Rightarrow>
                  (case encodeSegWitAddress hrp 0 pubKeyHash of
                     Inl e \<Rightarrow> Inl (wrapKeyError CodeDerivationFailed
                       ''failed to encode segwit address'' (Some e))
                   | Inr address \<Rightarrow> Inr (ToLower address))))"

text \<open>The verb \<^verbatim>\<open>%x\<close> on bytes.\<close>

definition hex_bytes :: "byte list \<Rightarrow> string" where
  "hex_bytes bs = concat (map (\<lambda>w. [hex_digit (unat w div 16), hex_digit (unat w)]) bs)"

definition DeriveEVMAddress ::
  "hashes \<Rightarrow> extended_public_key \<Rightarrow> string \<Rightarrow> int \<Rightarrow> key_error + string" where
  "DeriveEVMAddress h key template index =
     (if xkVersion key \<noteq> versionXPub then
        Inl (wrapKeyError CodeInvalidKeyMaterialFormat
          ''evm derivation expects normalized xpub key'' None)
      else case DeriveKeyByTemplate h key template index of
        Inl e \<Rightarrow> Inl e
      | Inr child \<Rightarrow>
          (case parseCompressedPublicKey (xkPublicKeyCompressed child) of
             Inl e \<Rightarrow> Inl (wrapKeyError CodeDerivationFailed
               ''failed to parse derived public key'' (Some e))
           | Inr point \<Rightarrow>
               (case serializeUncompressedPublicKey point of
                  Inl e \<Rightarrow> Inl (wrapKeyError CodeDerivationFailed
                    ''failed to serialize uncompressed public key'' (Some e))
                | Inr uncompressed \<Rightarrow>
                    Inr (''0x'' @ hex_bytes (drop 12 (hsKeccak256 h (tl uncompressed)))))))"

subsection \<open>Keys survive their text\<close>

lemma Uint32_Put [simp]: "Uint32 (PutUint32 v) = v"
proof (rule bit_word_eqI)
  fix n assume "n < LENGTH(32)"
  then have "n < 32" by simp
  then consider "n < 8" | "8 \<le> n" "n < 16" | "16 \<le> n" "n < 24" | "24 \<le> n" "n < 32" by linarith
  then show "bit (Uint32 (PutUint32 v)) n = bit v n"
    by cases (auto simp: Uint32_def PutUint32_def bit_or_iff bit_push_bit_iff bit_unsigned_iff bit_drop_bit_eq)
qed

lemma Put_Uint32: "length b = 4 \<Longrightarrow> PutUint32 (Uint32 b) = b"
proof -
  assume "length b = 4"
  then obtain w0 w1 w2 w3 where b: "b = [w0, w1, w2, w3]"
    by (auto simp: length_Suc_conv eval_nat_numeral)
  have "n < 8 \<Longrightarrow> bit (ucast (drop_bit 24 (Uint32 b)) :: byte) n = bit w0 n"
    "n < 8 \<Longrightarrow> bit (ucast (drop_bit 16 (Uint32 b)) :: byte) n = bit w1 n"
    "n < 8 \<Longrightarrow> bit (ucast (drop_bit 8 (Uint32 b)) :: byte) n = bit w2 n"
    "n < 8 \<Longrightarrow> bit (ucast (Uint32 b) :: byte) n = bit w3 n" for n
    by (auto simp: b Uint32_def bit_or_iff bit_push_bit_iff bit_unsigned_iff bit_drop_bit_eq
        dest: bit_imp_le_length)
  then have "ucast (drop_bit 24 (Uint32 b)) = w0" "ucast (drop_bit 16 (Uint32 b)) = w1"
    "ucast (drop_bit 8 (Uint32 b)) = w2" "ucast (Uint32 b) = w3"
    by (auto intro!: bit_word_eqI)
  then show ?thesis unfolding PutUint32_def b by simp
qed

lemma length_PutUint32 [simp]: "length (PutUint32 v) = 4"
  by (simp add: PutUint32_def)

text \<open>
  A key whose arrays have their lengths and whose public key is a point of the curve in
  compressed form.
\<close>

definition well_formed :: "extended_public_key \<Rightarrow> bool" where
  "well_formed key \<longleftrightarrow> length (xkChainCode key) = 32 \<and> length (xkPublicKeyCompressed key) = 33 \<and>
     (hd (xkPublicKeyCompressed key) = 2 \<or> hd (xkPublicKeyCompressed key) = 3) \<and>
     (\<exists>y. on_curve (Point (int (SetBytes (tl (xkPublicKeyCompressed key)))) y))"

definition knownVersion :: "32 word \<Rightarrow> bool" where
  "knownVersion v \<longleftrightarrow> v = versionXPub \<or> v = versionTPub \<or> v = versionVPub"

lemma payload_parts:
  assumes "length payload = 78"
  shows "payload = take 4 payload @ [payload ! 4] @ take 4 (drop 5 payload) @ take 4 (drop 9 payload) @
    take 32 (drop 13 payload) @ take 33 (drop 45 payload)"
proof -
  have a: "drop k payload = take n (drop k payload) @ drop (k + n) payload" for k n
    by (metis add.commute append_take_drop_id drop_drop)
  have "payload = take 4 payload @ drop 4 payload" by simp
  also have "drop 4 payload = payload ! 4 # drop 5 payload"
    using Cons_nth_drop_Suc [of 4 payload] assms by simp
  finally show ?thesis
    using a [of 5 4] a [of 9 4] a [of 13 32] a [of 45 33] assms by simp
qed

lemma parsed_key:
  assumes "ParseExtendedPublicKey h s = Inr key"
  shows "Serialize h key = TrimSpace s \<and> well_formed key \<and> knownVersion (xkVersion key)"
proof -
  obtain payload p where q: "decodeBase58Check (hsSHA256 h) (TrimSpace s) = Inr payload"
    "length payload = 78" "parseCompressedPublicKey (take 33 (drop 45 payload)) = Inr p"
    "knownVersion (Uint32 (take 4 payload))"
    "key = \<lparr>xkVersion = Uint32 (take 4 payload), xkDepth = payload ! 4,
       xkParentFingerprint = Uint32 (take 4 (drop 5 payload)),
       xkChildNumber = Uint32 (take 4 (drop 9 payload)),
       xkChainCode = take 32 (drop 13 payload), xkPublicKeyCompressed = take 33 (drop 45 payload)\<rparr>"
    using assms
    by (auto simp: ParseExtendedPublicKey_def Let_def knownVersion_def split: sum.split_asm if_split_asm)
  have "Serialize h key = encodeBase58Check (hsSHA256 h) payload"
    unfolding Serialize_def q(5) using payload_parts [OF q(2)] q(2) by (simp add: Put_Uint32)
  moreover have "well_formed key"
    using parsed_point [OF q(3)] q(2) by (auto simp: well_formed_def q(5))
  ultimately show ?thesis using check_decoded [OF q(1)] q(4) by (simp add: q(5))
qed

text \<open>The text of a key has no white space.\<close>

lemma alphabet_visible: "c \<in> set base58Alphabet \<Longrightarrow> visible c"
  by (auto simp: base58Alphabet_def visible_def byte_of_def)

lemma encoded_visible: "\<forall>c \<in> set (encodeBase58 bs). visible c"
proof -
  have v: "\<forall>d \<in> set ds. d < 58 \<Longrightarrow> \<forall>c \<in> set (map (\<lambda>d. base58Alphabet ! d) ds). visible c" for ds
    using alphabet_visible nth_mem alphabet_facts(1) by auto
  show ?thesis unfolding encode_as_digits by (rule v) (auto dest: base58.digits_less)
qed

lemma serialized_key_parses:
  assumes "\<forall>x. length (hsSHA256 h x) = 32" "well_formed key" "knownVersion (xkVersion key)"
  shows "ParseExtendedPublicKey h (Serialize h key) =
    (case parseCompressedPublicKey (xkPublicKeyCompressed key) of
       Inl e \<Rightarrow> Inl (wrapKeyError CodeInvalidKeyMaterialFormat ''extended public key point is invalid'' (Some e))
     | Inr _ \<Rightarrow> Inr key)"
proof -
  have "TrimSpace (Serialize h key) = Serialize h key"
    unfolding Serialize_def encodeBase58Check_def
    by (rule TrimSpace_visible) (use encoded_visible in blast)
  then have "decodeBase58Check (hsSHA256 h) (TrimSpace (Serialize h key)) =
      Inr (PutUint32 (xkVersion key) @ [xkDepth key] @ PutUint32 (xkParentFingerprint key) @
        PutUint32 (xkChildNumber key) @ xkChainCode key @ xkPublicKeyCompressed key)"
    unfolding Serialize_def by (simp only: check_round_trip [OF assms(1)])
  then show ?thesis
    using assms(2,3)
    by (auto simp: ParseExtendedPublicKey_def Let_def well_formed_def knownVersion_def nth_append
        split: sum.split)
qed

subsection \<open>Derived keys\<close>

lemma derived_child:
  assumes "digestLengths h" "deriveChildNonHardened h parent i = Inr key"
  shows "well_formed key \<and> xkVersion key = xkVersion parent \<and> xkDepth key = xkDepth parent + 1 \<and>
    xkChildNumber key = i \<and> i < 0x80000000 \<and>
    xkParentFingerprint key = fingerprint h (xkPublicKeyCompressed parent)"
proof -
  let ?digest = "hsHMACSHA512 h (xkChainCode parent) (xkPublicKeyCompressed parent @ PutUint32 i)"
  obtain p raw where q: "i < 0x80000000" "parseCompressedPublicKey (xkPublicKeyCompressed parent) = Inr p"
    "serializeCompressedPublicKey (pointAdd p (scalarMultBase (take 32 ?digest))) = Inr raw"
    "key = \<lparr>xkVersion = xkVersion parent, xkDepth = xkDepth parent + 1,
       xkParentFingerprint = fingerprint h (xkPublicKeyCompressed parent), xkChildNumber = i,
       xkChainCode = drop 32 ?digest, xkPublicKeyCompressed = raw\<rparr>"
    using assms(2)
    by (auto simp: deriveChildNonHardened_def Let_def not_le split: if_split_asm sum.split_asm)
  have oc: "on_curve (pointAdd p (scalarMultBase (take 32 ?digest)))"
    using parsed_point [OF q(2)] scalarMult_on_curve [OF on_curve_G] pointAdd_on_curve
    unfolding scalarMultBase_def by blast
  then obtain x y where xy: "pointAdd p (scalarMultBase (take 32 ?digest)) = Point x y" "length raw = 33"
      "hd raw = 2 \<or> hd raw = 3" "int (SetBytes (tl raw)) = x"
    using serialized_key [OF oc q(3)] by blast
  have "length (drop 32 ?digest) = 32" using assms(1) by (simp add: digestLengths_def)
  then show ?thesis using oc xy q(1) by (auto simp: q(4) well_formed_def)
qed

lemma derived_key:
  assumes "digestLengths h" "DeriveKeyByTemplate h key template index = Inr child"
  shows "well_formed child \<and> xkVersion child = xkVersion key \<and> xkDepth child = xkDepth key + 2 \<and>
    xkChildNumber child = of_int index \<and> 0 \<le> index \<and> index < 2 ^ 31 \<and>
    TrimSpace template = ''0/{index}''"
proof -
  obtain zero where z: "deriveChildNonHardened h key 0 = Inr zero"
    "deriveChildNonHardened h zero (of_int index) = Inr child" "0 \<le> index" "index \<le> 2147483647"
    "TrimSpace template = ''0/{index}''"
    using assms(2)
    by (auto simp: DeriveKeyByTemplate_def ValidateDerivationPathTemplate_def Let_def not_less
        split: option.split_asm if_split_asm sum.split_asm)
  show ?thesis
    using derived_child [OF assms(1) z(1)] derived_child [OF assms(1) z(2)] z(3-5) by simp
qed

lemma hash160_length: "length (hash160 h x) = 20"
  by (simp add: hash160_def ripemd160_length)

lemma bitcoin_address:
  assumes "DeriveBitcoinP2WPKHAddress h key network template index = Inr address"
  shows "\<exists>child hrp (vs :: byte list). DeriveKeyByTemplate h key template index = Inr child \<and>
    bitcoinHRP network = Inr hrp \<and>
    segwitDecode hrp address = Some (0, hash160 h (xkPublicKeyCompressed child)) \<and>
    address = hrp @ ''1'' @ map (\<lambda>v. bech32Charset ! unat v) vs \<and> length vs = 39 \<and>
    (\<forall>v \<in> set vs. v < 32)"
proof -
  obtain child hrp a where q: "DeriveKeyByTemplate h key template index = Inr child"
    "bitcoinHRP network = Inr hrp" "encodeSegWitAddress hrp 0 (hash160 h (xkPublicKeyCompressed child)) = Inr a"
    "address = ToLower a"
    using assms by (auto simp: DeriveBitcoinP2WPKHAddress_def Let_def split: if_split_asm sum.split_asm)
  have hrp: "hrp \<noteq> []" "ToLower hrp = hrp"
    using q(2) by (auto simp: bitcoinHRP_def Let_def split: if_split_asm intro!: ToLower_id
        simp: is_upper_def byte_of_def)
  obtain s vs where sv: "encodeSegWitAddress hrp 0 (hash160 h (xkPublicKeyCompressed child)) = Inr s"
    "segwitDecode hrp s = Some (0, hash160 h (xkPublicKeyCompressed child))"
    "convertBits (hash160 h (xkPublicKeyCompressed child)) 8 5 True = Inr vs"
    "s = hrp @ ''1'' @ map (\<lambda>v. bech32Charset ! unat v) ((0 # vs) @ bech32CreateChecksum hrp (0 # vs))"
    "\<forall>v \<in> set vs. v < 32"
    using segwit_decodes [OF hrp(1), of 0] hrp(2) by (metis word_zero_le)
  let ?ws = "(0 # vs) @ bech32CreateChecksum hrp (0 # vs)"
  have "length vs = 32"
    using convert_8_5_length [OF sv(3)] by (simp add: hash160_length)
  then have len: "length ?ws = 39" by (simp add: checksum_values)
  have small: "\<forall>v \<in> set ?ws. v < 32" using sv(5) checksum_values(2) by auto
  have "\<not> is_upper c" if "c \<in> set bech32Charset" for c
    using that by (auto simp: bech32Charset_def is_upper_def byte_of_def)
  then have "ToLower (map (\<lambda>v. bech32Charset ! unat v) ?ws) = map (\<lambda>v. bech32Charset ! unat v) ?ws"
    using small charset_facts(1) by (intro ToLower_id) (auto simp: byte_lt_unat intro!: nth_mem)
  moreover have "ToLower ''1'' = ''1''" by code_simp
  ultimately have "ToLower s = s" unfolding sv(4) using hrp(2) by (simp del: map_append)
  then have a: "address = s" using q(3,4) sv(1) by simp
  show ?thesis
    unfolding a
    by (intro exI [of _ child] exI [of _ hrp] exI [of _ ?ws] conjI q(1,2) sv(2,4) len small)
qed

lemma evm_address:
  assumes "digestLengths h" "DeriveEVMAddress h key template index = Inr address"
  shows "\<exists>digest. address = ''0x'' @ hex_bytes digest \<and> length digest = 20"
  using assms
  by (fastforce simp: DeriveEVMAddress_def digestLengths_def split: if_split_asm sum.split_asm)

end
