(* ===== verification/WalletGateway.thy ===== *)
theory WalletGateway
  imports Bip32 CreateRequest
begin

text \<open>
  The wallet gateways the creation of a payment request derives addresses with
  (\<^verbatim>\<open>wallet/devtest/gateway.go\<close>, \<^verbatim>\<open>wallet/prod/gateway.go\<close>), and the command that checks a
  keyset against its first address (\<^verbatim>\<open>cmd/keysetverify/main.go\<close>).
\<close>

subsection \<open>The gateway for development and tests\<close>

text \<open>
  The keysets are the entries of the configuration's map in the order the loop meets them; of
  identifiers that agree up to white space the last one counts.
\<close>

record gateway =
  gwAllowMainnet :: bool
  gwKeysets :: "(string \<times> string) list"

definition NewGateway :: "bool \<Rightarrow> (string \<times> string) list \<Rightarrow> gateway" where
  "NewGateway allowMainnet keysets =
     \<lparr>gwAllowMainnet = allowMainnet,
      gwKeysets = map (\<lambda>(k, v). (TrimSpace k, TrimSpace v)) (filter (\<lambda>(k, v). TrimSpace k \<noteq> []) keysets)\<rparr>"

definition codeString :: "error_code \<Rightarrow> string" where
  "codeString c =
     (case c of
        CodeInvalidKeyMaterialFormat \<Rightarrow> ''invalid_key_material_format''
      | CodeInvalidConfiguration \<Rightarrow> ''invalid_configuration''
      | CodeUnsupportedTarget \<Rightarrow> ''unsupported_allocator_target''
      | CodeDerivationFailed \<Rightarrow> ''address_derivation_failed'')"

definition mapKeyError :: "key_error \<Rightarrow> app_error" where
  "mapKeyError e =
     (let details = (''reason'', GStr (keMessage e)) #
            (case keCause e of None \<Rightarrow> [] | Some cause \<Rightarrow> [(''cause'', GStr cause)])
      in if keCode e = CodeUnsupportedTarget
         then NewValidation (codeString (keCode e)) (keMessage e) details
         else NewInternal (codeString (keCode e)) (keMessage e) details)"

definition resolveEVMChainID :: "string \<Rightarrow> int option \<Rightarrow> int res" where
  "resolveEVMChainID network inputChainID =
     (if network = ''mainnet'' then Inr 1
      else case inputChainID of
        Some v \<Rightarrow>
          if v \<le> 0 then
            Inl (NewInternal ''invalid_configuration''
              ''wallet allocation requires positive chain_id for non-mainnet ethereum network''
              [(''network'', GStr network), (''chain_id'', GInt v)])
          else Inr v
      | None \<Rightarrow>
          Inl (NewInternal ''invalid_configuration''
            ''wallet allocation requires chain_id for non-mainnet ethereum network''
            [(''network'', GStr network)]))"

text \<open>The key of a keyset: normalised, and at the level of an account.\<close>

definition accountKey :: "(key_error + extended_public_key \<times> string) \<Rightarrow> key_error + extended_public_key" where
  "accountKey normalized =
     (case normalized of
        Inl e \<Rightarrow> Inl e
      | Inr (key, _) \<Rightarrow>
          (case ValidateAccountLevelPolicy key of Some e \<Rightarrow> Inl e | None \<Rightarrow> Inr key))"

definition deriveBitcoin ::
  "hashes \<Rightarrow> string \<Rightarrow> string \<Rightarrow> string \<Rightarrow> derive_input \<Rightarrow> derived_address res" where
  "deriveBitcoin h rawKey network addressScheme i =
     (if addressScheme \<noteq> ''bip84_p2wpkh'' then
        Inl (NewInternal ''invalid_configuration''
          ''bitcoin address scheme is not allowed for devtest allocator''
          [(''address_scheme'', GStr (diAddressScheme i)), (''chain'', GStr (diChain i))])
      else if network \<noteq> ''regtest'' \<and> network \<noteq> ''testnet'' \<and> network \<noteq> ''mainnet'' then
        Inl (NewValidation ''unsupported_allocator_target''
          ''unsupported bitcoin network for devtest allocator'' [(''network'', GStr network)])
      else
        (case accountKey (NormalizeBitcoinKeyset h rawKey) of
           Inl e \<Rightarrow> Inl (mapKeyError e)
         | Inr key \<Rightarrow>
             (case DeriveBitcoinP2WPKHAddress h key network (diDerivationPathTemplate i)
                     (diDerivationIndex i) of
                Inl e \<Rightarrow> Inl (mapKeyError e)
              | Inr address \<Rightarrow>
                  Inr \<lparr>daAddressRaw = address, daAddressScheme = diAddressScheme i,
                       daChainID = None\<rparr>)))"

definition deriveEVM ::
  "hashes \<Rightarrow> string \<Rightarrow> string \<Rightarrow> string \<Rightarrow> derive_input \<Rightarrow> derived_address res" where
  "deriveEVM h rawKey network addressScheme i =
     (if addressScheme \<noteq> ''evm_bip44'' then
        Inl (NewInternal ''invalid_configuration''
          ''ethereum address scheme is not allowed for devtest allocator''
          [(''address_scheme'', GStr (diAddressScheme i)), (''chain'', GStr (diChain i))])
      else if network \<noteq> ''sepolia'' \<and> network \<noteq> ''local'' \<and> network \<noteq> ''mainnet'' then
        Inl (NewValidation ''unsupported_allocator_target''
          ''unsupported ethereum network for devtest allocator'' [(''network'', GStr network)])
      else
        (case accountKey (NormalizeEVMKeyset h rawKey) of
           Inl e \<Rightarrow> Inl (mapKeyError e)
         | Inr key \<Rightarrow>
             (case DeriveEVMAddress h key (diDerivationPathTemplate i) (diDerivationIndex i) of
                Inl e \<Rightarrow> Inl (mapKeyError e)
              | Inr address \<Rightarrow>
                  (case resolveEVMChainID network (diChainID i) of
                     Inl e \<Rightarrow> Inl e
                   | Inr chainID \<Rightarrow>
                       Inr \<lparr>daAddressRaw = address, daAddressScheme = diAddressScheme i,
                            daChainID = Some chainID\<rparr>))))"

definition DeriveAddress :: "hashes \<Rightarrow> gateway \<Rightarrow> derive_input \<Rightarrow> derived_address res" where
  "DeriveAddress h g i =
     (let chain = ToLower (TrimSpace (diChain i));
          network = ToLower (TrimSpace (diNetwork i));
          addressScheme = ToLower (TrimSpace (diAddressScheme i))
      in if network = ''mainnet'' \<and> \<not> gwAllowMainnet g then
           Inl (NewValidation ''mainnet_allocation_blocked''
             ''devtest mode blocks mainnet allocations by default''
             [(''chain'', GStr chain), (''network'', GStr network)])
         else
           (case map_of (rev (gwKeysets g)) (TrimSpace (diKeysetID i)) of
              Some rawKey \<Rightarrow>
                if TrimSpace rawKey = [] then
                  Inl (NewInternal ''invalid_configuration''
                    ''keyset_id is not configured for devtest wallet allocation''
                    [(''keyset_id'', GStr (diKeysetID i)), (''chain'', GStr chain),
                     (''network'', GStr network)])
                else if chain = ''bitcoin'' then deriveBitcoin h rawKey network addressScheme i
                else if chain = ''ethereum'' then deriveEVM h rawKey network addressScheme i
                else Inl (NewValidation ''unsupported_allocator_target''
                  ''unsupported chain for wallet allocation'' [(''chain'', GStr chain)])
            | None \<Rightarrow>
                Inl (NewInternal ''invalid_configuration''
                  ''keyset_id is not configured for devtest wallet allocation''
                  [(''keyset_id'', GStr (diKeysetID i)), (''chain'', GStr chain),
                   (''network'', GStr network)])))"

definition devtestGateway :: "hashes \<Rightarrow> gateway \<Rightarrow> wallet_gateway" where
  "devtestGateway h g = \<lparr>wgDerive = DeriveAddress h g, wgMode = Some ''devtest''\<rparr>"

subsection \<open>The production gateway\<close>

definition prodGateway :: wallet_gateway where
  "prodGateway =
     \<lparr>wgDerive = (\<lambda>_. Inl (NewInternal ''wallet_allocation_not_implemented''
        ''production wallet allocation gateway is not configured'' [])), wgMode = Some ''prod''\<rparr>"

subsection \<open>Checking a keyset\<close>

record verify_input =
  viChain :: string
  viNetwork :: string
  viAddressScheme :: string
  viKeysetID :: string
  viExtendedPublicKey :: string
  viExpectedAddress :: string

record verify_result =
  vrMatch :: bool
  vrChain :: string
  vrNetwork :: string
  vrAddressScheme :: string
  vrKeysetID :: string
  vrDerivationIndex :: int
  vrExpectedAddress :: string
  vrDerivedAddress :: string
  vrReason :: string
  vrErrorCode :: string

definition deriveIndexZero ::
  "hashes \<Rightarrow> string \<Rightarrow> string \<Rightarrow> string \<Rightarrow> string \<Rightarrow> key_error + string" where
  "deriveIndexZero h chain network addressScheme rawKey =
     (if chain = ''bitcoin'' then
        (if addressScheme \<noteq> ''bip84_p2wpkh'' then
           Inl (wrapKeyError CodeInvalidConfiguration
             ''bitcoin address scheme must be bip84_p2wpkh'' None)
         else case accountKey (NormalizeBitcoinKeyset h rawKey) of
           Inl e \<Rightarrow> Inl e
         | Inr key \<Rightarrow> DeriveBitcoinP2WPKHAddress h key network ''0/{index}'' 0)
      else if chain = ''ethereum'' then
        (if addressScheme \<noteq> ''evm_bip44'' then
           Inl (wrapKeyError CodeInvalidConfiguration
             ''ethereum address scheme must be evm_bip44'' None)
         else if network \<noteq> ''sepolia'' \<and> network \<noteq> ''local'' \<and> network \<noteq> ''mainnet'' then
           Inl (wrapKeyError CodeUnsupportedTarget ''unsupported ethereum network'' None)
         else case accountKey (NormalizeEVMKeyset h rawKey) of
           Inl e \<Rightarrow> Inl e
         | Inr key \<Rightarrow> DeriveEVMAddress h key ''0/{index}'' 0)
      else Inl (wrapKeyError CodeUnsupportedTarget ''unsupported chain'' None))"

definition normalizeAddressForCompare :: "string \<Rightarrow> string" where
  "normalizeAddressForCompare address = ToLower (TrimSpace address)"

definition mapKeyErrorCode :: "key_error \<Rightarrow> string" where
  "mapKeyErrorCode e =
     (case keCode e of
        CodeInvalidKeyMaterialFormat \<Rightarrow> ''invalid_key_material_format''
      | CodeInvalidConfiguration \<Rightarrow> ''invalid_configuration''
      | CodeUnsupportedTarget \<Rightarrow> ''unsupported_target''
      | CodeDerivationFailed \<Rightarrow> ''address_derivation_failed'')"

text \<open>The result and the exit code of the command.\<close>

definition verifyIndexZero :: "hashes \<Rightarrow> verify_input \<Rightarrow> verify_result \<times> int" where
  "verifyIndexZero h i =
     (let chain = ToLower (TrimSpace (viChain i));
          network = ToLower (TrimSpace (viNetwork i));
          addressScheme = ToLower (TrimSpace (viAddressScheme i));
          extendedPublicKey = TrimSpace (viExtendedPublicKey i);
          expectedAddress = TrimSpace (viExpectedAddress i);
          result = \<lparr>vrMatch = False, vrChain = chain, vrNetwork = network,
            vrAddressScheme = addressScheme, vrKeysetID = TrimSpace (viKeysetID i),
            vrDerivationIndex = 0, vrExpectedAddress = expectedAddress, vrDerivedAddress = [],
            vrReason = [], vrErrorCode = []\<rparr>
      in if chain = [] \<or> network = [] \<or> addressScheme = [] \<or> extendedPublicKey = [] \<or>
            expectedAddress = [] then
           (result\<lparr>vrReason := ''missing required fields: chain, network, address-scheme, extended-public-key, expected-address'',
              vrErrorCode := ''invalid_input''\<rparr>, 2)
         else
           (case deriveIndexZero h chain network addressScheme extendedPublicKey of
              Inl e \<Rightarrow>
                (result\<lparr>vrReason := keMessage e, vrErrorCode := mapKeyErrorCode e\<rparr>, 2)
            | Inr derivedAddress \<Rightarrow>
                (let normalizedExpected = normalizeAddressForCompare expectedAddress;
                     normalizedDerived = normalizeAddressForCompare derivedAddress;
                     result = result\<lparr>vrDerivedAddress := normalizedDerived\<rparr>
                 in if normalizedExpected \<noteq> normalizedDerived then
                      (result\<lparr>vrReason := ''derived index-0 address does not match expected address'',
                         vrErrorCode := ''address_mismatch''\<rparr>, 3)
                    else (result\<lparr>vrMatch := True\<rparr>, 0))))"

end
