(* ===== verification/WalletProps.thy ===== *)
theory WalletProps
  imports WalletGateway ValueObjectProps
begin

text \<open>
  Properties of the wallet keys: texts of keys and addresses decode to what they stand for, the
  hash is the specified one, points stay on the curve, and the gateway's addresses are accepted.
\<close>

subsection \<open>A key for the examples\<close>

lemma egcd_divides: "egcd a b = (g, x, y) \<Longrightarrow> g dvd int a \<and> g dvd int b \<and> 0 \<le> g"
proof (induction a b arbitrary: g x y rule: egcd.induct)
  case (1 a b)
  show ?case
  proof (cases "b = 0")
    case True
    then show ?thesis using 1(2) by (simp add: egcd.simps)
  next
    case False
    obtain x' y' where e: "egcd b (a mod b) = (g, x', y')"
      using 1(2) False by (auto simp: egcd.simps [of a b] split: prod.split_asm)
    then have "g dvd int b" "g dvd int (a mod b)" "0 \<le> g" using 1(1) [OF False e] by simp_all
    moreover have "int a = int b * int (a div b) + int (a mod b)"
      by (metis mult_div_mod_eq of_nat_add of_nat_mult)
    ultimately show ?thesis by (metis dvd_add dvd_mult2)
  qed
qed

lemma fieldInv_exists:
  assumes "v * i mod secp256k1P = 1"
  shows "\<exists>j. fieldInv v = Some j"
proof -
  let ?v = "fieldNormalize v"
  obtain g x y where e: "egcd (nat ?v) (nat secp256k1P) = (g, x, y)" by (cases "egcd (nat ?v) (nat secp256k1P)")
  have "0 \<le> ?v" using P_pos by (simp add: fieldNormalize_def)
  then have g: "g dvd ?v" "g dvd secp256k1P" "0 \<le> g" using egcd_divides [OF e] P_pos by simp_all
  have "?v * i mod secp256k1P = 1" using assms by (simp add: fieldNormalize_def mod_mult_left_eq)
  then have "?v * i = 1 + secp256k1P * (?v * i div secp256k1P)" by (metis mod_mult_div_eq add.commute)
  then have "1 = ?v * i - secp256k1P * (?v * i div secp256k1P)" by simp
  then have "g dvd 1" using g(1,2) by (metis dvd_diff dvd_mult2)
  then have "g = 1" using g(3) by (metis abs_of_nonneg zdvd1_eq)
  then show ?thesis using e by (simp add: fieldInv_def ModInverse_def)
qed

text \<open>A point of the curve whose second coordinate is one.\<close>

definition demo_x :: int where
  "demo_x = 0x1fe1e5ef3fceb5c135ab7741333ce5a6e80d68167653f6b2b24bcbcfaaaff507"

definition demo_key :: extended_public_key where
  "demo_key =
     \<lparr>xkVersion = versionXPub, xkDepth = 3, xkParentFingerprint = 0, xkChildNumber = 0x80000000,
      xkChainCode = replicate 32 0, xkPublicKeyCompressed = 3 # paddedTo 32 (Bytes (nat demo_x))\<rparr>"

text \<open>Digests of the right lengths; the HMAC always yields the scalar one.\<close>

definition demo_hashes :: hashes where
  "demo_hashes =
     \<lparr>hsSHA256 = (\<lambda>x. replicate 32 (of_nat (length x))),
      hsHMACSHA512 = (\<lambda>k x. replicate 31 0 @ 1 # replicate 32 7),
      hsKeccak256 = (\<lambda>x. replicate 32 (of_nat (length x)))\<rparr>"

lemma demo_lengths: "digestLengths demo_hashes"
  "\<forall>x. length (hsSHA256 demo_hashes x) = 32"
  by (simp_all add: digestLengths_def demo_hashes_def)

lemma demo_range: "0 \<le> demo_x" "demo_x < secp256k1P"
  by (simp_all add: demo_x_def secp256k1P_def)

lemma demo_parses: "parseCompressedPublicKey (xkPublicKeyCompressed demo_key) = Inr (Point demo_x 1)"
proof -
  have len: "length (paddedTo 32 (Bytes (nat demo_x))) = 32"
    using demo_range by (rule coordinate_length)
  have rhs: "fieldAdd (fieldMul (fieldMul demo_x demo_x) demo_x) 7 = 1" by code_simp
  have y: "modExp 1 e secp256k1P = 1" for e using P_pos by (simp add: modExp_power)
  have "fieldMul 1 1 = 1" using P_pos by (simp add: fieldMul_def fieldNormalize_def)
  then show ?thesis
    using demo_range len y
    by (simp add: parseCompressedPublicKey_def demo_key_def Let_def SetBytes_padded rhs)
qed

lemma demo_well_formed: "well_formed demo_key"
proof -
  have "length (xkChainCode demo_key) = 32" by (simp add: demo_key_def)
  moreover have "on_curve (Point (int (SetBytes (tl (xkPublicKeyCompressed demo_key)))) 1)"
    "length (xkPublicKeyCompressed demo_key) = 33" "hd (xkPublicKeyCompressed demo_key) = 3"
    using parsed_point [OF demo_parses] by (auto simp: demo_key_def simp del: on_curve.simps)
  ultimately show ?thesis unfolding well_formed_def by blast
qed

lemma demo_scalar: "scalarMultBase (replicate 31 0 @ [1]) = secp256k1G"
  by code_simp

lemma demo_derives: "\<exists>key. deriveChildNonHardened demo_hashes demo_key 5 = Inr key"
proof -
  let ?gx = "0x79be667ef9dcbbac55a06295ce870b07029bfcdb2dce28d959f2815b16f81798 :: int"
  let ?i = "0x4fd1cacc954c9cdcd04ec65674bedbbd12e501224737b8b79b9fe71753904280 :: int"
  have "fieldSub ?gx demo_x * ?i mod secp256k1P = 1" by code_simp
  then obtain j where "fieldInv (fieldSub ?gx demo_x) = Some j" using fieldInv_exists by blast
  moreover have "demo_x \<noteq> ?gx" by (simp add: demo_x_def)
  ultimately obtain x y where p: "pointAdd (Point demo_x 1) secp256k1G = Point x y"
    by (simp add: secp256k1G_def Let_def)
  have "SetBytes (replicate 31 0 @ [1]) = 1"
    by (simp only: SetBytes_zeros) (simp add: SetBytes_def radix_value_def)
  then show ?thesis
    using demo_parses demo_scalar p
    by (simp add: deriveChildNonHardened_def Let_def demo_hashes_def secp256k1N_def
        serializeCompressedPublicKey_def)
qed

subsection \<open>Properties\<close>

text \<open>
  Base58Check loses nothing: decoding an encoded payload returns it, and a text that decodes
  is the encoding of its payload.
\<close>

theorem base58check_round_trip:
  assumes "\<forall>x. length (sha x) = 32"
  shows "decodeBase58Check sha (encodeBase58Check sha payload) = Inr payload \<and>
    (case decodeBase58Check sha s of Inl _ \<Rightarrow> True | Inr p \<Rightarrow> encodeBase58Check sha p = s)"
  using check_round_trip [OF assms] check_decoded by (auto split: sum.split)

lemma base58check_round_trip_witness:
  "decodeBase58Check (hsSHA256 demo_hashes) (encodeBase58Check (hsSHA256 demo_hashes) [0, 5]) = Inr [0, 5]"
  using base58check_round_trip [OF demo_lengths(2), of "[0, 5]"] by blast

lemma parsed_again:
  assumes "\<forall>x. length (hsSHA256 h x) = 32" "ParseExtendedPublicKey h s = Inr key" "knownVersion v"
  shows "ParseExtendedPublicKey h (Serialize h (key\<lparr>xkVersion := v\<rparr>)) = Inr (key\<lparr>xkVersion := v\<rparr>)"
proof -
  have k: "well_formed key" using parsed_key [OF assms(2)] by simp
  then have w: "well_formed (key\<lparr>xkVersion := v\<rparr>)" by (simp add: well_formed_def)
  obtain p where "parseCompressedPublicKey (xkPublicKeyCompressed key) = Inr p"
    using assms(2)
    by (auto simp: ParseExtendedPublicKey_def Let_def split: sum.split_asm if_split_asm)
  then show ?thesis using serialized_key_parses [OF assms(1) w] assms(3) by simp
qed

text \<open>
  C34. Extended keys survive their text: a text that parses is, up to surrounding white space, the
  serialisation of the key, and the serialisation parses to the key again; a normalised keyset
  has the version of its chain and is its own normal form.
\<close>

theorem extended_key_round_trip:
  assumes "\<forall>x. length (hsSHA256 h x) = 32"
  shows "(case ParseExtendedPublicKey h s of
      Inl _ \<Rightarrow> True
    | Inr key \<Rightarrow> Serialize h key = TrimSpace s \<and> ParseExtendedPublicKey h (Serialize h key) = Inr key) \<and>
   (case NormalizeBitcoinKeyset h s of
      Inl _ \<Rightarrow> True
    | Inr (key, text) \<Rightarrow>
        xkVersion key = versionTPub \<and> NormalizeBitcoinKeyset h text = Inr (key, text)) \<and>
   (case NormalizeEVMKeyset h s of
      Inl _ \<Rightarrow> True
    | Inr (key, text) \<Rightarrow>
        xkVersion key = versionXPub \<and> NormalizeEVMKeyset h text = Inr (key, text))"
proof (cases "ParseExtendedPublicKey h s")
  case (Inl e)
  then show ?thesis by (simp add: NormalizeBitcoinKeyset_def NormalizeEVMKeyset_def)
next
  case (Inr key)
  have v: "knownVersion versionTPub" "knownVersion versionXPub" "versionVPub \<noteq> versionTPub"
    "versionTPub \<noteq> versionXPub" "versionVPub \<noteq> versionXPub"
    by (simp_all add: knownVersion_def versionTPub_def versionXPub_def versionVPub_def)
  note again = parsed_again [OF assms Inr]
  have same: "key\<lparr>xkVersion := xkVersion key\<rparr> = key" by simp
  show ?thesis
    using parsed_key [OF Inr] again [OF v(1)] again [OF v(2)] again [of "xkVersion key"] same v(3-5)
    by (auto simp: Inr NormalizeBitcoinKeyset_def NormalizeEVMKeyset_def Let_def)
qed

lemma extended_key_round_trip_witness:
  "ParseExtendedPublicKey demo_hashes (Serialize demo_hashes demo_key) = Inr demo_key \<and>
   (case NormalizeEVMKeyset demo_hashes (Serialize demo_hashes demo_key) of
      Inl _ \<Rightarrow> False
    | Inr (key, text) \<Rightarrow> NormalizeEVMKeyset demo_hashes text = Inr (key, text))"
proof -
  have v: "xkVersion demo_key = versionXPub" by (simp add: demo_key_def)
  then have p: "ParseExtendedPublicKey demo_hashes (Serialize demo_hashes demo_key) = Inr demo_key"
    using serialized_key_parses [OF demo_lengths(2) demo_well_formed] demo_parses
    by (simp add: knownVersion_def)
  then have "NormalizeEVMKeyset demo_hashes (Serialize demo_hashes demo_key) =
      Inr (demo_key, Serialize demo_hashes demo_key)"
    using v by (simp add: NormalizeEVMKeyset_def)
  then show ?thesis
    using extended_key_round_trip [OF demo_lengths(2), of "Serialize demo_hashes demo_key"] p by simp
qed

text \<open>
  C33. A SegWit address decodes: for a version up to 16 every witness program is encoded, and the
  decoder of BIP 173 reads the version and the program back from the address.
\<close>

theorem segwit_round_trip:
  assumes "hrp \<noteq> []" "version \<le> 16"
  shows "case encodeSegWitAddress hrp version program of
      Inl _ \<Rightarrow> False
    | Inr address \<Rightarrow> segwitDecode (ToLower hrp) address = Some (version, program)"
  using segwit_decodes [OF assms, of program] by auto

lemma segwit_round_trip_witness:
  "segwitDecode ''bc'' ''bc1qw508d6qejxtdg4y5r3zarvary0c5xw7kv8f3t4'' =
     Some (0, [0x75, 0x1e, 0x76, 0xe8, 0x19, 0x91, 0x96, 0xd4, 0x54, 0x94, 0x1c, 0x45, 0xd1, 0xb3,
       0xa3, 0x23, 0xf1, 0x43, 0x3b, 0xd6])"
proof -
  let ?p = "[0x75, 0x1e, 0x76, 0xe8, 0x19, 0x91, 0x96, 0xd4, 0x54, 0x94, 0x1c, 0x45, 0xd1, 0xb3,
       0xa3, 0x23, 0xf1, 0x43, 0x3b, 0xd6] :: byte list"
  have "encodeSegWitAddress ''bc'' 0 ?p = Inr ''bc1qw508d6qejxtdg4y5r3zarvary0c5xw7kv8f3t4''"
    by code_simp
  moreover have "ToLower ''bc'' = ''bc''" by code_simp
  ultimately show ?thesis using segwit_round_trip [of "''bc''" 0 ?p] by simp
qed

text \<open>
  C35. The incremental RIPEMD-160, with its block buffer and its five unrolled loops, computes the
  hash as specified on every message, and never panics.
\<close>

theorem ripemd160_is_specified: "ripemd160Sum message = Some (refRipemd160 message)"
  by (rule ripemd160_reference)

text \<open>
  The point operations stay on the curve: doubling, adding and multiplying points of the curve
  with reduced coordinates give points of the curve with reduced coordinates.
\<close>

theorem points_stay_on_curve:
  assumes "on_curve p" "on_curve q"
  shows "on_curve (pointDouble p) \<and> on_curve (pointAdd p q) \<and> on_curve (scalarMult p scalar) \<and>
    on_curve (scalarMultBase scalar)"
  using assms on_curve_G
  by (simp add: pointDouble_on_curve pointAdd_on_curve scalarMult_on_curve scalarMultBase_def)

lemma points_stay_on_curve_witness:
  "on_curve (pointAdd secp256k1G (pointDouble secp256k1G))"
proof -
  have "on_curve (pointDouble secp256k1G)"
    using points_stay_on_curve [OF on_curve_G on_curve_G] by blast
  then show ?thesis using points_stay_on_curve [OF on_curve_G] by blast
qed

text \<open>
  C23. Derived keys are keys: whatever is derived from a parent has a chain code of 32 bytes and a
  compressed point of the curve as public key, the version of the parent, the next depth, the
  child number asked for, never a hardened one, and the parent's fingerprint. A derivation by the
  account template goes two levels down, to the index.
\<close>

theorem derived_keys_well_formed:
  assumes "digestLengths h"
  shows "(case deriveChildNonHardened h parent i of
      Inl _ \<Rightarrow> True
    | Inr key \<Rightarrow> well_formed key \<and> xkVersion key = xkVersion parent \<and>
        xkDepth key = xkDepth parent + 1 \<and> xkChildNumber key = i \<and> i < 0x80000000 \<and>
        xkParentFingerprint key = fingerprint h (xkPublicKeyCompressed parent)) \<and>
   (case DeriveKeyByTemplate h parent template index of
      Inl _ \<Rightarrow> True
    | Inr key \<Rightarrow> well_formed key \<and> xkVersion key = xkVersion parent \<and>
        xkDepth key = xkDepth parent + 2 \<and> xkChildNumber key = of_int index \<and> 0 \<le> index \<and>
        index < 2 ^ 31 \<and> TrimSpace template = ''0/{index}'')"
  using derived_child [OF assms] derived_key [OF assms] by (auto split: sum.split)

lemma derived_keys_well_formed_witness:
  "\<exists>key. deriveChildNonHardened demo_hashes demo_key 5 = Inr key \<and> well_formed key \<and> xkDepth key = 4"
proof -
  obtain key where "deriveChildNonHardened demo_hashes demo_key 5 = Inr key" using demo_derives by blast
  moreover have "xkDepth demo_key = 3" by (simp add: demo_key_def)
  ultimately show ?thesis
    using derived_keys_well_formed [OF demo_lengths(1), of demo_key 5] by simp
qed

subsection \<open>Addresses of the gateway\<close>







lemma NewGateway_lookup:
  assumes "TrimSpace k \<noteq> []"
  shows "map_of (rev (gwKeysets (NewGateway allow [(k, v)]))) (TrimSpace k) = Some (TrimSpace v)"
  using assms by (simp add: NewGateway_def)

lemma DeriveAddress_cases:
  assumes "DeriveAddress h g i = Inr d"
  shows "(gwAllowMainnet g \<or> ToLower (TrimSpace (diNetwork i)) \<noteq> ''mainnet'') \<and>
    daAddressScheme d = diAddressScheme i \<and>
    (\<exists>raw key. map_of (rev (gwKeysets g)) (TrimSpace (diKeysetID i)) = Some raw \<and>
      (ToLower (TrimSpace (diChain i)) = ''bitcoin'' \<and> daChainID d = None \<and>
         ToLower (TrimSpace (diAddressScheme i)) = ''bip84_p2wpkh'' \<and>
         accountKey (NormalizeBitcoinKeyset h raw) = Inr key \<and>
         DeriveBitcoinP2WPKHAddress h key (ToLower (TrimSpace (diNetwork i)))
           (diDerivationPathTemplate i) (diDerivationIndex i) = Inr (daAddressRaw d) \<or>
       ToLower (TrimSpace (diChain i)) = ''ethereum'' \<and>
         daChainID d = (if ToLower (TrimSpace (diNetwork i)) = ''mainnet'' then Some 1 else diChainID i) \<and>
         ToLower (TrimSpace (diAddressScheme i)) = ''evm_bip44'' \<and>
         accountKey (NormalizeEVMKeyset h raw) = Inr key \<and>
         DeriveEVMAddress h key (diDerivationPathTemplate i) (diDerivationIndex i) = Inr (daAddressRaw d)))"
  using assms
  by (fastforce simp: DeriveAddress_def Let_def deriveBitcoin_def deriveEVM_def resolveEVMChainID_def
      split: if_split_asm option.split_asm sum.split_asm)




subsection \<open>The keyset check\<close>

lemma bitcoin_network:
  assumes "DeriveBitcoinP2WPKHAddress h key network template index = Inr a"
  shows "ToLower (TrimSpace network) \<in> {''regtest'', ''testnet'', ''mainnet''}"
  using assms
  by (auto simp: DeriveBitcoinP2WPKHAddress_def bitcoinHRP_def Let_def split: if_split_asm sum.split_asm)

lemma index_zero_derived:
  assumes "TrimSpace k \<noteq> []" "0 < chainID" "TrimSpace raw \<noteq> []"
  shows "deriveIndexZero h (ToLower (TrimSpace chain)) (ToLower (TrimSpace network))
      (ToLower (TrimSpace scheme)) (TrimSpace raw) = Inr a \<longleftrightarrow>
    (\<exists>d. DeriveAddress h (NewGateway True [(k, raw)])
       \<lparr>diChain = chain, diNetwork = network, diAddressScheme = scheme, diKeysetID = k,
        diDerivationPathTemplate = ''0/{index}'', diDerivationIndex = 0, diChainID = Some chainID\<rparr> = Inr d \<and>
       daAddressRaw d = a)"
proof -
  have g: "gwAllowMainnet (NewGateway True [(k, raw)])"
    "map_of (rev (gwKeysets (NewGateway True [(k, raw)]))) (TrimSpace k) = Some (TrimSpace raw)"
    using assms(1) by (simp_all add: NewGateway_def)
  show ?thesis
  proof (cases "ToLower (TrimSpace chain) = ''bitcoin''")
    case True
    then show ?thesis
      using g assms(3)
      by (auto simp: deriveIndexZero_def DeriveAddress_def deriveBitcoin_def Let_def
          dest: bitcoin_network split: sum.split if_split_asm sum.split_asm)
  next
    case False
    then show ?thesis
      using g assms(2,3)
      by (auto simp: deriveIndexZero_def DeriveAddress_def deriveEVM_def Let_def resolveEVMChainID_def
          split: sum.split if_split_asm sum.split_asm)
  qed
qed

text \<open>
  The keyset check tells what the gateway would do: it exits with 0 exactly if an address is
  expected and the gateway, configured with that key alone, derives for index 0 of the account
  template an address that equals the expected one up to case and surrounding white space.
\<close>

theorem keyset_check_agrees:
  assumes "TrimSpace (viKeysetID vi) \<noteq> []" "0 < chainID"
  shows "snd (verifyIndexZero h vi) = 0 \<longleftrightarrow>
    TrimSpace (viExpectedAddress vi) \<noteq> [] \<and>
    (\<exists>d. DeriveAddress h (NewGateway True [(viKeysetID vi, viExtendedPublicKey vi)])
       \<lparr>diChain = viChain vi, diNetwork = viNetwork vi, diAddressScheme = viAddressScheme vi,
        diKeysetID = viKeysetID vi, diDerivationPathTemplate = ''0/{index}'', diDerivationIndex = 0,
        diChainID = Some chainID\<rparr> = Inr d \<and>
       ToLower (TrimSpace (daAddressRaw d)) = ToLower (TrimSpace (viExpectedAddress vi)))"
proof (cases "TrimSpace (viExtendedPublicKey vi) = []")
  case True
  then have "DeriveAddress h (NewGateway True [(viKeysetID vi, viExtendedPublicKey vi)]) i \<noteq> Inr d"
    if "diKeysetID i = viKeysetID vi" for i d
    using assms(1) that by (auto simp: DeriveAddress_def NewGateway_def Let_def)
  then show ?thesis using True by (simp add: verifyIndexZero_def Let_def)
next
  case False
  note eq = index_zero_derived [OF assms False, of h "viChain vi" "viNetwork vi" "viAddressScheme vi"]
  have "deriveIndexZero h [] n s r \<noteq> Inr a" "deriveIndexZero h c [] s r \<noteq> Inr a"
    "deriveIndexZero h c n [] r \<noteq> Inr a" for c n s r a
    using bitcoin_network [where network = "[]"]
    by (auto simp: deriveIndexZero_def split: sum.split if_split_asm sum.split_asm)
  then have "snd (verifyIndexZero h vi) = 0 \<longleftrightarrow> TrimSpace (viExpectedAddress vi) \<noteq> [] \<and>
    (\<exists>a. deriveIndexZero h (ToLower (TrimSpace (viChain vi))) (ToLower (TrimSpace (viNetwork vi)))
      (ToLower (TrimSpace (viAddressScheme vi))) (TrimSpace (viExtendedPublicKey vi)) = Inr a \<and>
      ToLower (TrimSpace (viExpectedAddress vi)) = ToLower (TrimSpace a))"
    using False
    by (cases "deriveIndexZero h (ToLower (TrimSpace (viChain vi))) (ToLower (TrimSpace (viNetwork vi)))
      (ToLower (TrimSpace (viAddressScheme vi))) (TrimSpace (viExtendedPublicKey vi))")
      (auto simp: verifyIndexZero_def Let_def normalizeAddressForCompare_def)
  then show ?thesis unfolding eq by auto
qed

lemma keyset_check_agrees_witness:
  "snd (verifyIndexZero demo_hashes
     \<lparr>viChain = '' Bitcoin'', viNetwork = ''regtest'', viAddressScheme = ''bip84_p2wpkh'', viKeysetID = ''ks'',
      viExtendedPublicKey = Serialize demo_hashes demo_key, viExpectedAddress = ''bcrt1q''\<rparr>) \<noteq> 0"
proof -
  let ?v = "\<lparr>viChain = '' Bitcoin'', viNetwork = ''regtest'', viAddressScheme = ''bip84_p2wpkh'',
      viKeysetID = ''ks'', viExtendedPublicKey = Serialize demo_hashes demo_key, viExpectedAddress = ''bcrt1q''\<rparr>"
  have t: "TrimSpace ''ks'' = ''ks''" "ToLower (TrimSpace '' Bitcoin'') = ''bitcoin''" by code_simp+
  have v: "xkVersion demo_key = versionXPub" "versionXPub \<noteq> versionTPub" "versionXPub \<noteq> versionVPub"
    by (simp_all add: demo_key_def versionXPub_def versionTPub_def versionVPub_def)
  have p: "ParseExtendedPublicKey demo_hashes (Serialize demo_hashes demo_key) = Inr demo_key"
    using serialized_key_parses [OF demo_lengths(2) demo_well_formed] demo_parses v(1)
    by (simp add: knownVersion_def)
  have "TrimSpace (Serialize demo_hashes demo_key) = Serialize demo_hashes demo_key"
    using parsed_key [OF p] by simp
  then have "\<not> is_ok (accountKey (NormalizeBitcoinKeyset demo_hashes (TrimSpace (Serialize demo_hashes demo_key))))"
    using p v by (simp add: NormalizeBitcoinKeyset_def accountKey_def)
  then have "DeriveAddress demo_hashes (NewGateway True [(''ks'', Serialize demo_hashes demo_key)]) i \<noteq> Inr d"
    if "diChain i = '' Bitcoin''" "diKeysetID i = ''ks''" for i d
    using that t by (auto simp: NewGateway_def dest!: DeriveAddress_cases)
  then show ?thesis using keyset_check_agrees [of ?v 1 demo_hashes] t(1) by simp
qed

end
