(* ===== verification/ObserverPolicies.thy ===== *)
theory ObserverPolicies
  imports ReconcilePorts Json
begin

text \<open>
  What both chain observers share (\<^verbatim>\<open>amount_utils.go\<close>, \<^verbatim>\<open>threshold_policy.go\<close> and
  \<^verbatim>\<open>confirmation_policy.go\<close> of \<^verbatim>\<open>chainobserver/devtest\<close>): amounts and hexadecimal
  quantities, the thresholds an amount has to reach, the confirmations it needs, and what
  comes of an HTTP request. The locale at the end states what the gateway relies on: how an
  observer decides.
\<close>

subsection \<open>Amounts\<close>

definition observationFailed :: "string \<Rightarrow> details \<Rightarrow> app_error" where
  "observationFailed msg ds = NewInternal ''chain_observation_failed'' msg ds"

definition parseExpectedThreshold :: "string option \<Rightarrow> int res" where
  "parseExpectedThreshold expectedAmountMinor =
     (case expectedAmountMinor of
        None \<Rightarrow> Inr 1
      | Some raw \<Rightarrow>
          (let trimmed = TrimSpace raw
           in if trimmed = [] then Inr 1
              else case parse_big trimmed of
                  Some v \<Rightarrow>
                    if v < 0 then Inl (NewValidation ''invalid_request''
                      ''expected_amount_minor must be a non-negative integer''
                      [(''expected_amount_minor'', GStr trimmed)])
                    else Inr v
                | None \<Rightarrow> Inl (NewValidation ''invalid_request''
                    ''expected_amount_minor must be a non-negative integer''
                    [(''expected_amount_minor'', GStr trimmed)])))"

text \<open>\<^verbatim>\<open>big.Int.SetString(s, 16)\<close> and \<^verbatim>\<open>big.Int.Text(16)\<close>.\<close>

definition hex_val :: "char \<Rightarrow> nat option" where
  "hex_val c =
     (let b = byte_of c
      in if 48 \<le> b \<and> b \<le> 57 then Some (b - 48)
         else if 97 \<le> b \<and> b \<le> 102 then Some (b - 87)
         else if 65 \<le> b \<and> b \<le> 70 then Some (b - 55)
         else None)"

fun hex_digits :: "nat \<Rightarrow> string \<Rightarrow> nat option" where
  "hex_digits n [] = Some n"
| "hex_digits n (c # s) =
     (case hex_val c of None \<Rightarrow> None | Some d \<Rightarrow> hex_digits (16 * n + d) s)"

definition parse_hex :: "string \<Rightarrow> int option" where
  "parse_hex s =
     (let (neg, ds) = (if HasPrefix s ''-'' then (True, drop 1 s)
                       else if HasPrefix s ''+'' then (False, drop 1 s) else (False, s))
      in if ds = [] then None
         else map_option (\<lambda>n. if neg then - int n else int n) (hex_digits 0 ds))"

fun hex_text :: "nat \<Rightarrow> string" where
  "hex_text n = (if n < 16 then [hex_char n] else hex_text (n div 16) @ [hex_char (n mod 16)])"

declare hex_text.simps [simp del]

text \<open>The quantity a decoded JSON string denotes.\<close>

definition parseHexText :: "string \<Rightarrow> int res" where
  "parseHexText hexValue =
     (let trimmed = TrimSpace hexValue
      in if trimmed = [] then Inl (observationFailed ''hex quantity is empty'' [])
         else
           (let body = (if HasPrefix trimmed ''0x'' \<or> HasPrefix trimmed ''0X'' then drop 2 trimmed
                        else trimmed);
                digits = (if body = [] then ''0'' else body)
            in case parse_hex digits of
                 None \<Rightarrow> Inl (observationFailed ''invalid hex quantity'' [(''value'', GStr hexValue)])
               | Some v \<Rightarrow> Inr v))"

definition parseHexQuantity :: "(string \<Rightarrow> string + string) \<Rightarrow> string \<Rightarrow> int res" where
  "parseHexQuantity decodeString raw =
     (case decodeString raw of
        Inl e \<Rightarrow> Inl (observationFailed ''failed to parse hex quantity'' [(''error'', GStr e)])
      | Inr hexValue \<Rightarrow> parseHexText hexValue)"

text \<open>Encoding a text as JSON and decoding it again repairs its UTF-8.\<close>

definition parseHexQuantityString :: "string \<Rightarrow> int res" where
  "parseHexQuantityString v = parseHexText (utf8_repair (TrimSpace v))"

definition normalizeHexAddress :: "string \<Rightarrow> string" where
  "normalizeHexAddress raw =
     (let trimmed = ToLower (TrimSpace raw)
      in if HasPrefix trimmed ''0x'' then trimmed else ''0x'' @ trimmed)"

definition normalizedOptionalHex :: "string \<Rightarrow> string option" where
  "normalizedOptionalHex raw =
     (let trimmed = ToLower (TrimSpace raw)
      in if trimmed = [] then None
         else if HasPrefix trimmed ''0x'' then Some trimmed else Some (''0x'' @ trimmed))"

definition recipientTopicFromAddress :: "string \<Rightarrow> string" where
  "recipientTopicFromAddress address =
     (let n = TrimPrefix (normalizeHexAddress address) ''0x'';
          n = (if length n > 40 then drop (length n - 40) n else n);
          n = (if length n < 40 then replicate (40 - length n) (CHR ''0'') @ n else n)
      in ''0x000000000000000000000000'' @ n)"

subsection \<open>Policies\<close>

record threshold_policy =
  tpDetectedBPS :: int
  tpConfirmedBPS :: int

definition newThresholdPolicy :: "int \<Rightarrow> int \<Rightarrow> int \<Rightarrow> int \<Rightarrow> threshold_policy" where
  "newThresholdPolicy rawDetected rawConfirmed defaultDetected defaultConfirmed =
     (let detected = (if rawDetected \<le> 0 then defaultDetected else rawDetected);
          confirmed = (if rawConfirmed \<le> 0 then defaultConfirmed else rawConfirmed);
          confirmed = (if confirmed > 10000 then 10000 else confirmed);
          detected = (if detected > confirmed then confirmed else detected)
      in \<lparr>tpDetectedBPS = detected, tpConfirmedBPS = confirmed\<rparr>)"

definition thresholdBPSAmount :: "int \<Rightarrow> int \<Rightarrow> int" where
  "thresholdBPSAmount expected bps =
     (let product = expected * bps; quotient = quot product 10000
      in if product - quotient * 10000 > 0 then quotient + 1 else quotient)"

definition detectedRequired :: "threshold_policy \<Rightarrow> int \<Rightarrow> int" where
  "detectedRequired p expected = thresholdBPSAmount expected (tpDetectedBPS p)"

definition confirmedRequired :: "threshold_policy \<Rightarrow> int \<Rightarrow> int" where
  "confirmedRequired p expected = thresholdBPSAmount expected (tpConfirmedBPS p)"

record confirmation_policy =
  cpBtcBusinessMin :: int
  cpBtcFinalityMin :: int
  cpEvmBusinessMin :: int
  cpEvmFinalityMin :: int

text \<open>Both chains fill in and order their two minima in the same way.\<close>

definition businessMin :: "int \<Rightarrow> int \<Rightarrow> int" where
  "businessMin raw dflt = (if raw \<le> 0 then dflt else raw)"

definition finalityMin :: "int \<Rightarrow> int \<Rightarrow> int" where
  "finalityMin raw business =
     (let f = (if raw \<le> 0 then business else raw) in if f < business then business else f)"

definition newConfirmationPolicy ::
  "int \<Rightarrow> int \<Rightarrow> int \<Rightarrow> int \<Rightarrow> int \<Rightarrow> int \<Rightarrow> confirmation_policy" where
  "newConfirmationPolicy rawBTCBusiness rawBTCFinality rawEVMBusiness rawEVMFinality
       defaultBTC defaultEVM =
     (let btc = businessMin rawBTCBusiness defaultBTC; evm = businessMin rawEVMBusiness defaultEVM
      in \<lparr>cpBtcBusinessMin = btc, cpBtcFinalityMin = finalityMin rawBTCFinality btc,
          cpEvmBusinessMin = evm, cpEvmFinalityMin = finalityMin rawEVMFinality evm\<rparr>)"

subsection \<open>Requests\<close>

text \<open>What comes of an HTTP request, with a decoded body.\<close>

datatype 'b http_answer =
    RequestError string
  | TransportError string
  | NotOK int
  | DecodeError string
  | Body 'b

text \<open>The errors of a request, with the words for its subject.\<close>

definition answerOf ::
  "string \<Rightarrow> string \<Rightarrow> string \<Rightarrow> string \<Rightarrow> string \<Rightarrow> 'b http_answer \<Rightarrow> 'b res" where
  "answerOf network build query status decode a =
     (case a of
        RequestError e \<Rightarrow> Inl (observationFailed build [(''error'', GStr e), (''network'', GStr network)])
      | TransportError e \<Rightarrow> Inl (observationFailed query [(''error'', GStr e), (''network'', GStr network)])
      | NotOK code \<Rightarrow>
          Inl (observationFailed status [(''status_code'', GInt code), (''network'', GStr network)])
      | DecodeError e \<Rightarrow> Inl (observationFailed decode [(''error'', GStr e), (''network'', GStr network)])
      | Body b \<Rightarrow> Inr b)"

subsection \<open>How an observer decides\<close>

text \<open>
  The amount of the canonical evidence with at least \<open>n\<close> confirmations, and the decision the
  code documents: confirmed and final by the confirmed amounts, detected by the amount seen.
\<close>

definition evidenceAmount :: "evidence \<Rightarrow> int" where
  "evidenceAmount ev = (case parse_big (TrimSpace (evAmountMinor ev)) of None \<Rightarrow> 0 | Some v \<Rightarrow> v)"

definition settledAmount :: "int \<Rightarrow> evidence list \<Rightarrow> int" where
  "settledAmount n evs =
     sum_list (map evidenceAmount
       (filter (\<lambda>ev. evIsCanonical ev \<and> n \<le> evConfirmations ev) evs))"

definition decides_by ::
  "threshold_policy \<Rightarrow> int \<Rightarrow> int \<Rightarrow> int \<Rightarrow> observe_output \<Rightarrow> bool" where
  "decides_by tp business finality expected ob =
     (obConfirmed ob = (confirmedRequired tp expected \<le> settledAmount business (obSettlements ob)) \<and>
      obFinalityReached ob =
        (confirmedRequired tp expected \<le> settledAmount finality (obSettlements ob)) \<and>
      (\<exists>seen. obObservedAmount ob = FormatInt seen \<and>
         obDetected ob = (\<not> obConfirmed ob \<and> detectedRequired tp expected \<le> seen)))"

lemma evidenceAmount_FormatInt: "evAmountMinor ev = FormatInt v \<Longrightarrow> evidenceAmount ev = v"
  by (simp add: evidenceAmount_def)

lemma settledAmount_Nil [simp]: "settledAmount n [] = 0"
  by (simp add: settledAmount_def)

lemma settledAmount_snoc:
  "settledAmount n (evs @ [ev]) = settledAmount n evs +
     (if evIsCanonical ev \<and> n \<le> evConfirmations ev then evidenceAmount ev else 0)"
  by (simp add: settledAmount_def)

lemma settledAmount_antimono:
  assumes "\<And>ev. ev \<in> set evs \<Longrightarrow> 0 \<le> evidenceAmount ev" and "m \<le> n"
  shows "settledAmount n evs \<le> settledAmount m evs"
  using assms(1)
proof (induction evs)
  case (Cons ev evs)
  then have "settledAmount n evs \<le> settledAmount m evs" and "0 \<le> evidenceAmount ev" by auto
  then show ?case using assms(2) by (simp add: settledAmount_def)
qed simp

text \<open>
  The interface of the gateway's observers (\<^verbatim>\<open>paymentObserver\<close>): every observation of a
  supported payment follows the decision, with minima that are ordered.
\<close>

locale payment_observer =
  fixes observe :: "observe_input \<Rightarrow> int \<Rightarrow> observe_output res"
    and thresholds :: threshold_policy
    and business :: int
    and finality :: int
  assumes decision:
      "observe i expected = Inr ob \<Longrightarrow> obSupported ob \<Longrightarrow>
         decides_by thresholds business finality expected ob"
    and minima: "business \<le> finality"
begin

lemma never_both:
  assumes "observe i expected = Inr ob" and "obSupported ob"
  shows "\<not> (obDetected ob \<and> obConfirmed ob)"
  using decision [OF assms] by (auto simp: decides_by_def)

lemma confirmed_iff:
  assumes "observe i expected = Inr ob" and "obSupported ob"
  shows "obConfirmed ob \<longleftrightarrow>
    confirmedRequired thresholds expected \<le> settledAmount business (obSettlements ob)"
  using decision [OF assms] by (auto simp: decides_by_def)

lemma final_is_confirmed:
  assumes "observe i expected = Inr ob" and "obSupported ob"
    and "\<And>ev. ev \<in> set (obSettlements ob) \<Longrightarrow> 0 \<le> evidenceAmount ev"
    and "obFinalityReached ob"
  shows "obConfirmed ob"
proof -
  have "settledAmount finality (obSettlements ob) \<le> settledAmount business (obSettlements ob)"
    by (rule settledAmount_antimono [OF assms(3) minima])
  with decision [OF assms(1,2)] assms(4) show ?thesis by (auto simp: decides_by_def)
qed

end

end
