(* ===== verification/BitcoinObserver.thy ===== *)
theory BitcoinObserver
  imports ObserverPolicies
begin

text \<open>
  The observer of bitcoin over an Esplora endpoint (\<^verbatim>\<open>bitcoin_observer.go\<close>). What the
  endpoint answers is a parameter, with the decoding of the bodies.
\<close>

record address_stats =
  asChainFunded :: int
  asMempoolFunded :: int

record address_utxo =
  auTxID :: string
  auVout :: int
  auValue :: int
  auConfirmed :: bool
  auBlockHeight :: int
  auBlockHash :: string

text \<open>The endpoints, by URL; \<open>esPathEscape\<close> is \<^verbatim>\<open>url.PathEscape\<close>.\<close>

record esplora =
  esStats :: "string \<Rightarrow> address_stats http_answer"
  esUTXOs :: "string \<Rightarrow> address_utxo list http_answer"
  esTip :: "string \<Rightarrow> string http_answer"
  esPathEscape :: "string \<Rightarrow> string"

record bitcoin_observer =
  boBaseURL :: string
  boThresholds :: threshold_policy
  boConfirmations :: confirmation_policy

definition newBitcoinObserver ::
  "string \<Rightarrow> threshold_policy \<Rightarrow> confirmation_policy \<Rightarrow> bitcoin_observer" where
  "newBitcoinObserver baseURL thresholds confirmations =
     \<lparr>boBaseURL = TrimRightSet (TrimSpace baseURL) ''/'',
      boThresholds = thresholds, boConfirmations = confirmations\<rparr>"

definition fetchAddressStats :: "bitcoin_observer \<Rightarrow> esplora \<Rightarrow> string \<Rightarrow> string \<Rightarrow> address_stats res" where
  "fetchAddressStats ob h address network =
     answerOf network ''failed to build bitcoin observation request''
       ''failed to query bitcoin observation endpoint''
       ''bitcoin observation endpoint returned non-200 status''
       ''failed to decode bitcoin observation payload''
       (esStats h (boBaseURL ob @ ''/address/'' @ esPathEscape h address))"

definition fetchAddressUTXOs ::
  "bitcoin_observer \<Rightarrow> esplora \<Rightarrow> string \<Rightarrow> string \<Rightarrow> address_utxo list res" where
  "fetchAddressUTXOs ob h address network =
     answerOf network ''failed to build bitcoin utxo request''
       ''failed to query bitcoin utxo endpoint'' ''bitcoin utxo endpoint returned non-200 status''
       ''failed to decode bitcoin utxo payload''
       (esUTXOs h (boBaseURL ob @ ''/address/'' @ esPathEscape h address @ ''/utxo''))"

text \<open>\<open>parseError\<close> is the text of the error of \<^verbatim>\<open>strconv.ParseInt\<close>.\<close>

definition fetchTipHeight ::
  "bitcoin_observer \<Rightarrow> esplora \<Rightarrow> (string \<Rightarrow> string) \<Rightarrow> string \<Rightarrow> int res" where
  "fetchTipHeight ob h parseError network =
     (case answerOf network ''failed to build bitcoin tip-height request''
          ''failed to query bitcoin tip-height endpoint''
          ''bitcoin tip-height endpoint returned non-200 status''
          ''failed to read bitcoin tip-height response'' (esTip h (boBaseURL ob @ ''/blocks/tip/height'')) of
        Inl e \<Rightarrow> Inl e
      | Inr body \<Rightarrow>
          (let (parsed, bad) = ParseInt (TrimSpace body)
           in if bad then
                Inl (observationFailed ''failed to parse bitcoin tip-height response''
                  [(''error'', GStr (parseError (TrimSpace body))), (''network'', GStr network)])
              else if parsed < 0 then
                Inl (observationFailed ''bitcoin tip-height response is negative''
                  [(''network'', GStr network)])
              else Inr parsed))"

definition utxoConfirmations :: "int \<Rightarrow> address_utxo \<Rightarrow> int" where
  "utxoConfirmations tipHeight u =
     (if auConfirmed u \<and> auBlockHeight u > 0 then
        (let c = tipHeight - auBlockHeight u + 1 in if c < 0 then 0 else c)
      else 0)"

definition utxoEvidence :: "int \<Rightarrow> nat \<Rightarrow> address_utxo \<Rightarrow> evidence" where
  "utxoEvidence tipHeight index u =
     \<lparr>evRef = (if TrimSpace (auTxID u) \<noteq> [] then TrimSpace (auTxID u) @ '':'' @ FormatInt (auVout u)
               else ''btc:utxo:'' @ FormatInt (int index) @ '':'' @ FormatInt (auBlockHeight u) @ '':'' @
                 FormatInt (auValue u)),
      evAmountMinor = FormatInt (auValue u), evConfirmations = utxoConfirmations tipHeight u,
      evIsCanonical = True,
      evBlockHeight = (if auBlockHeight u > 0 then Some (auBlockHeight u) else None),
      evBlockHash = (if TrimSpace (auBlockHash u) \<noteq> [] then Some (TrimSpace (auBlockHash u)) else None),
      evMetadata = [(''source'', GStr ''utxo'')]\<rparr>"

text \<open>The amounts are added up with the evidence, entry by entry.\<close>

definition utxoStep ::
  "confirmation_policy \<Rightarrow> int \<Rightarrow> nat \<times> address_utxo \<Rightarrow> int \<times> int \<times> evidence list \<Rightarrow>
   int \<times> int \<times> evidence list" where
  "utxoStep cp tipHeight iu acc =
     (case (iu, acc) of ((index, u), (confirmedAmount, finalityAmount, settlements)) \<Rightarrow>
        (let c = utxoConfirmations tipHeight u
         in (if c \<ge> cpBtcBusinessMin cp then confirmedAmount + auValue u else confirmedAmount,
             if c \<ge> cpBtcFinalityMin cp then finalityAmount + auValue u else finalityAmount,
             settlements @ [utxoEvidence tipHeight index u])))"

text \<open>What is made of the answers.\<close>

definition bitcoinDecision ::
  "bitcoin_observer \<Rightarrow> string \<Rightarrow> address_stats \<Rightarrow> int \<Rightarrow> address_utxo list \<Rightarrow> int \<Rightarrow> observe_output" where
  "bitcoinDecision ob network stats tipHeight utxos expected =
     (let tp = boThresholds ob; cp = boConfirmations ob;
          detectedAmount = wrap64 (asChainFunded stats + asMempoolFunded stats);
          (confirmedAmount, finalityAmount, settlements) =
            fold (utxoStep cp tipHeight) (zip [0..<length utxos] utxos) (0, 0, []);
          cReq = confirmedRequired tp expected; dReq = detectedRequired tp expected;
          confirmed = (confirmedAmount \<ge> cReq);
          finalityReached = (finalityAmount \<ge> cReq);
          detected = (\<not> confirmed \<and> detectedAmount \<ge> dReq)
      in \<lparr>obSupported = True, obObservedAmount = FormatInt detectedAmount,
             obDetected = detected, obConfirmed = confirmed,
             obFinalityReached = finalityReached, obSource = ''btc_esplora'',
             obDetails =
               [(''confirmed_amount_minor'', GStr (FormatInt confirmedAmount)),
                (''finality_amount_minor'', GStr (FormatInt finalityAmount)),
                (''mempool_amount_minor'', GStr (FormatInt (asMempoolFunded stats))),
                (''network'', GStr network),
                (''detected_threshold_bps'', GInt (tpDetectedBPS tp)),
                (''confirmed_threshold_bps'', GInt (tpConfirmedBPS tp)),
                (''detected_required_minor'', GStr (FormatInt dReq)),
                (''confirmed_required_minor'', GStr (FormatInt cReq)),
                (''btc_business_min_confirmations'', GInt (cpBtcBusinessMin cp)),
                (''btc_finality_min_confirmations'', GInt (cpBtcFinalityMin cp)),
                (''tip_height'', GInt tipHeight),
                (''settlement_item_count'', GInt (int (length settlements)))],
             obSettlements = settlements\<rparr>)"

definition bitcoinObserve ::
  "bitcoin_observer \<Rightarrow> esplora \<Rightarrow> (string \<Rightarrow> string) \<Rightarrow> observe_input \<Rightarrow> int \<Rightarrow> observe_output res" where
  "bitcoinObserve ob h parseError i expected =
     (if boBaseURL ob = [] then Inr unsupported_observation
      else
        (let network = ToLower (TrimSpace (oiNetwork i)); address = TrimSpace (oiAddressCanonical i)
         in case fetchAddressStats ob h address network of
              Inl e \<Rightarrow> Inl e
            | Inr stats \<Rightarrow>
                (case fetchTipHeight ob h parseError network of
                   Inl e \<Rightarrow> Inl e
                 | Inr tipHeight \<Rightarrow>
                     (case fetchAddressUTXOs ob h address network of
                        Inl e \<Rightarrow> Inl e
                      | Inr utxos \<Rightarrow>
                          Inr (bitcoinDecision ob network stats tipHeight utxos expected)))))"

subsection \<open>The amounts of an observation\<close>

lemma utxo_fold:
  "\<exists>evs. fold (utxoStep cp tip) ius (0, 0, []) =
     (settledAmount (cpBtcBusinessMin cp) evs, settledAmount (cpBtcFinalityMin cp) evs, evs) \<and>
   evs = map (\<lambda>(index, u). utxoEvidence tip index u) ius"
proof (induction ius rule: rev_induct)
  case (snoc iu ius)
  have "evidenceAmount (utxoEvidence tip n u) = auValue u" for n u
    by (simp add: utxoEvidence_def evidenceAmount_FormatInt)
  moreover have "evIsCanonical (utxoEvidence tip n u)"
    and "evConfirmations (utxoEvidence tip n u) = utxoConfirmations tip u" for n u
    by (simp_all add: utxoEvidence_def)
  ultimately show ?case using snoc
    by (cases iu) (auto simp: utxoStep_def Let_def settledAmount_snoc)
qed simp

lemma bitcoinDecision_decides:
  "decides_by (boThresholds ob) (cpBtcBusinessMin (boConfirmations ob))
    (cpBtcFinalityMin (boConfirmations ob)) expected
    (bitcoinDecision ob network stats tip utxos expected)"
proof -
  obtain evs where "fold (utxoStep (boConfirmations ob) tip)
      (zip [0..<length utxos] utxos) (0, 0, []) =
      (settledAmount (cpBtcBusinessMin (boConfirmations ob)) evs,
       settledAmount (cpBtcFinalityMin (boConfirmations ob)) evs, evs)"
    using utxo_fold by metis
  then show ?thesis by (auto simp: bitcoinDecision_def decides_by_def Let_def)
qed

lemma bitcoinObserve_decides:
  assumes "bitcoinObserve ob h perr i expected = Inr out" and "obSupported out"
  shows "decides_by (boThresholds ob) (cpBtcBusinessMin (boConfirmations ob))
    (cpBtcFinalityMin (boConfirmations ob)) expected out"
  using assms
  by (auto simp: bitcoinObserve_def Let_def unsupported_observation_def bitcoinDecision_decides
      split: if_splits sum.splits)

end
