(* ===== verification/EvmObserver.thy ===== *)
theory EvmObserver
  imports ObserverPolicies
begin

text \<open>
  The observer of ethereum over JSON-RPC (\<^verbatim>\<open>rpc_client.go\<close> and \<^verbatim>\<open>evm_observer.go\<close>):
  the calls, the scan of every block for transfers of ether, the transfer logs of a token
  contract, and the decision. What the node answers to a request during one observation is a
  parameter, and so is the decoding of the JSON texts it answers with.
\<close>

subsection \<open>JSON-RPC\<close>

record rpc_error =
  reCode :: int
  reMessage :: string

text \<open>The raw text of the result, empty when the reply has none.\<close>

record rpc_response =
  rrResult :: string
  rrError :: "rpc_error option"

record evm_transaction =
  etHash :: string
  etTo :: string
  etValue :: string
  etBlockNumber :: string
  etBlockHash :: string

record evm_block =
  ebHash :: string
  ebNumber :: string
  ebTransactions :: "evm_transaction list"

record transfer_log =
  tlRemoved :: bool
  tlTransactionHash :: string
  tlLogIndex :: string
  tlBlockNumber :: string
  tlBlockHash :: string
  tlData :: string

text \<open>
  A node: what comes of posting a request body to a URL, and \<^verbatim>\<open>json.Unmarshal\<close> into a text, a
  block, the status of a receipt and a list of logs (the text of the error, or the value).
\<close>

record evm_node =
  enPost :: "string \<Rightarrow> gval \<Rightarrow> rpc_response http_answer"
  enText :: "string \<Rightarrow> string + string"
  enBlock :: "string \<Rightarrow> string + evm_block"
  enReceipt :: "string \<Rightarrow> string + string"
  enLogs :: "string \<Rightarrow> string + transfer_log list"

definition rpcRequest :: "string \<Rightarrow> gval list \<Rightarrow> gval" where
  "rpcRequest method params =
     GMap [(''jsonrpc'', GStr ''2.0''), (''id'', GInt 1), (''method'', GStr method),
           (''params'', GArr params)]"

text \<open>The parameters of the calls are texts, truth values and maps of them: they always encode.\<close>

definition Call :: "evm_node \<Rightarrow> string \<Rightarrow> string \<Rightarrow> gval list \<Rightarrow> string res" where
  "Call node rpcURL method params =
     (case enPost node rpcURL (rpcRequest method params) of
        RequestError e \<Rightarrow> Inl (observationFailed ''failed to build rpc request''
          [(''error'', GStr e), (''method'', GStr method)])
      | TransportError e \<Rightarrow> Inl (observationFailed ''failed to call rpc endpoint''
          [(''error'', GStr e), (''method'', GStr method)])
      | NotOK code \<Rightarrow> Inl (observationFailed ''rpc endpoint returned non-200 status''
          [(''status_code'', GInt code), (''method'', GStr method)])
      | DecodeError e \<Rightarrow> Inl (observationFailed ''failed to decode rpc response''
          [(''error'', GStr e), (''method'', GStr method)])
      | Body r \<Rightarrow>
          (case rrError r of
             Some e \<Rightarrow> Inl (observationFailed ''rpc endpoint returned error''
               [(''method'', GStr method), (''rpc_error'', GStr (reMessage e)),
                (''rpc_code'', GInt (reCode e))])
           | None \<Rightarrow> Inr (rrResult r)))"

text \<open>A result that is absent or \<^verbatim>\<open>null\<close> gives the value \<open>none\<close> instead of being decoded.\<close>

definition isNull :: "string \<Rightarrow> bool" where
  "isNull result = (TrimSpace result = [] \<or> TrimSpace result = ''null'')"

subsection \<open>The observer and its calls\<close>

record evm_observer =
  voRPCURLs :: "(string \<times> string) list"
  voThresholds :: threshold_policy
  voConfirmations :: confirmation_policy

text \<open>The configured URLs come in the order in which the map is traversed.\<close>

fun normalizeRPCURLs :: "(string \<times> string) list \<Rightarrow> (string \<times> string) list \<Rightarrow> (string \<times> string) list" where
  "normalizeRPCURLs [] normalized = normalized"
| "normalizeRPCURLs ((network, rawURL) # raw) normalized =
     (let normalizedNetwork = ToLower (TrimSpace network); normalizedURL = TrimSpace rawURL
      in if normalizedNetwork = [] \<or> normalizedURL = [] then normalizeRPCURLs raw normalized
         else normalizeRPCURLs raw (assoc_put normalizedNetwork normalizedURL normalized))"

definition newEVMObserver ::
  "(string \<times> string) list \<Rightarrow> threshold_policy \<Rightarrow> confirmation_policy \<Rightarrow> evm_observer" where
  "newEVMObserver rawRPCURLs thresholds confirmations =
     \<lparr>voRPCURLs = normalizeRPCURLs rawRPCURLs [], voThresholds = thresholds,
      voConfirmations = confirmations\<rparr>"

definition latestBlockNumber :: "evm_node \<Rightarrow> string \<Rightarrow> int res" where
  "latestBlockNumber node rpcURL =
     (case Call node rpcURL ''eth_blockNumber'' [] of
        Inl e \<Rightarrow> Inl e
      | Inr result \<Rightarrow> parseHexQuantity (enText node) result)"

definition blockTagFromHeight :: "int \<Rightarrow> string" where
  "blockTagFromHeight height = (if height < 0 then ''0x0'' else ''0x'' @ hex_text (nat height))"

definition fetchBlockWithTransactions ::
  "evm_node \<Rightarrow> string \<Rightarrow> string \<Rightarrow> evm_block option res" where
  "fetchBlockWithTransactions node rpcURL blockTag =
     (case Call node rpcURL ''eth_getBlockByNumber'' [GStr blockTag, GBool True] of
        Inl e \<Rightarrow> Inl e
      | Inr result \<Rightarrow>
          if isNull result then Inr None
          else (case enBlock node result of
                  Inl e \<Rightarrow> Inl (observationFailed ''failed to decode block payload''
                    [(''error'', GStr e), (''block_tag'', GStr blockTag)])
                | Inr block \<Rightarrow> Inr (Some block)))"

definition transactionSucceeded :: "evm_node \<Rightarrow> string \<Rightarrow> string \<Rightarrow> bool res" where
  "transactionSucceeded node rpcURL txHash =
     (case Call node rpcURL ''eth_getTransactionReceipt'' [GStr txHash] of
        Inl e \<Rightarrow> Inl e
      | Inr result \<Rightarrow>
          if isNull result then Inr False
          else (case enReceipt node result of
                  Inl e \<Rightarrow> Inl (observationFailed ''failed to decode transaction receipt''
                    [(''error'', GStr e), (''tx_hash'', GStr txHash)])
                | Inr status \<Rightarrow>
                    (case parseHexQuantityString status of
                       Inl e \<Rightarrow> Inl e
                     | Inr v \<Rightarrow> Inr (v > 0))))"

definition erc20TransferTopic0 :: string where
  "erc20TransferTopic0 = ''0xddf252ad1be2c89b69c2b068fc378daa952ba7f163c4a11628f55a4df523b3ef''"

definition fetchERC20TransferLogs ::
  "evm_node \<Rightarrow> string \<Rightarrow> string \<Rightarrow> string \<Rightarrow> int \<Rightarrow> transfer_log list res" where
  "fetchERC20TransferLogs node rpcURL tokenContract recipient startBlock =
     (case Call node rpcURL ''eth_getLogs''
        [GMap [(''fromBlock'', GStr (blockTagFromHeight startBlock)), (''toBlock'', GStr ''latest''),
               (''address'', GStr tokenContract),
               (''topics'', GArr [GStr erc20TransferTopic0, GNil,
                  GStr (recipientTopicFromAddress recipient)])]] of
        Inl e \<Rightarrow> Inl e
      | Inr result \<Rightarrow>
          if isNull result then Inr []
          else (case enLogs node result of
                  Inl e \<Rightarrow> Inl (observationFailed ''failed to decode transfer logs''
                    [(''error'', GStr e), (''contract'', GStr tokenContract)])
                | Inr logs \<Rightarrow> Inr logs))"

definition confirmationCount :: "int \<Rightarrow> int \<Rightarrow> int" where
  "confirmationCount latest block =
     (let diff = latest - block + 1
      in if diff < 0 then 0 else if \<not> is_int64 diff then max_int64 else diff)"

definition int64PointerFromBigInt :: "int \<Rightarrow> int option" where
  "int64PointerFromBigInt v = (if is_int64 v then Some v else None)"

definition blockNumberFromTx :: "evm_transaction \<Rightarrow> evm_block option \<Rightarrow> int option \<Rightarrow> int res" where
  "blockNumberFromTx tx block fallback =
     (case parseHexQuantityString (etBlockNumber tx) of
        Inr parsed \<Rightarrow> Inr parsed
      | Inl _ \<Rightarrow>
          (case (case block of None \<Rightarrow> None
                 | Some b \<Rightarrow> (case parseHexQuantityString (ebNumber b) of
                                Inr parsed \<Rightarrow> Some parsed | Inl _ \<Rightarrow> None)) of
             Some parsed \<Rightarrow> Inr parsed
           | None \<Rightarrow>
               (case fallback of
                  Some h \<Rightarrow> Inr h
                | None \<Rightarrow> Inl (observationFailed
                    ''unable to resolve block number for transaction'' []))))"

definition blockHashFromTx :: "evm_transaction \<Rightarrow> evm_block option \<Rightarrow> string option" where
  "blockHashFromTx tx block =
     (case normalizedOptionalHex (etBlockHash tx) of
        Some h \<Rightarrow> Some h
      | None \<Rightarrow> (case block of None \<Rightarrow> None | Some b \<Rightarrow> normalizedOptionalHex (ebHash b)))"

subsection \<open>Transfers of ether\<close>

text \<open>One transaction of a block: skipped (\<open>None\<close>), counted, or an error.\<close>

definition ethTransaction ::
  "evm_node \<Rightarrow> string \<Rightarrow> string \<Rightarrow> int \<Rightarrow> int \<Rightarrow> evm_block \<Rightarrow> int \<Rightarrow> evm_transaction \<Rightarrow>
   evidence option res" where
  "ethTransaction node rpcURL recipient latestBlock height block index tx =
     (let txHash = ToLower (TrimSpace (etHash tx))
      in if txHash = [] then Inr None
         else if normalizeHexAddress (etTo tx) \<noteq> recipient then Inr None
         else case parseHexQuantityString (etValue tx) of
             Inl e \<Rightarrow> Inl e
           | Inr v \<Rightarrow>
               if v \<le> 0 then Inr None
               else case transactionSucceeded node rpcURL txHash of
                   Inl e \<Rightarrow> Inl e
                 | Inr success \<Rightarrow>
                     if \<not> success then Inr None
                     else case blockNumberFromTx tx (Some block) (Some height) of
                         Inl e \<Rightarrow> Inl e
                       | Inr blockNumber \<Rightarrow>
                           Inr (Some \<lparr>evRef = txHash, evAmountMinor = FormatInt v,
                             evConfirmations = confirmationCount latestBlock blockNumber,
                             evIsCanonical = True,
                             evBlockHeight = int64PointerFromBigInt blockNumber,
                             evBlockHash = blockHashFromTx tx (Some block),
                             evMetadata = [(''source'', GStr ''eth_transfer''),
                               (''block_tag'', GStr (blockTagFromHeight height)),
                               (''tx_list_index'', GInt index)]\<rparr>))"

fun ethTransactions ::
  "evm_node \<Rightarrow> string \<Rightarrow> string \<Rightarrow> int \<Rightarrow> int \<Rightarrow> evm_block \<Rightarrow> int \<Rightarrow> evm_transaction list \<Rightarrow>
   evidence list \<Rightarrow> evidence list res" where
  "ethTransactions node rpcURL recipient latestBlock height block index [] settlements =
     Inr settlements"
| "ethTransactions node rpcURL recipient latestBlock height block index (tx # txs) settlements =
     (case ethTransaction node rpcURL recipient latestBlock height block index tx of
        Inl e \<Rightarrow> Inl e
      | Inr None \<Rightarrow>
          ethTransactions node rpcURL recipient latestBlock height block (index + 1) txs settlements
      | Inr (Some ev) \<Rightarrow>
          ethTransactions node rpcURL recipient latestBlock height block (index + 1) txs
            (settlements @ [ev]))"

text \<open>The loop over the heights, from \<open>height\<close> up to the latest block.\<close>

function ethBlocks ::
  "evm_node \<Rightarrow> string \<Rightarrow> string \<Rightarrow> int \<Rightarrow> int \<Rightarrow> evidence list \<Rightarrow> evidence list res" where
  "ethBlocks node rpcURL recipient latestBlock height settlements =
     (if height \<le> latestBlock then
        (case fetchBlockWithTransactions node rpcURL (blockTagFromHeight height) of
           Inl e \<Rightarrow> Inl e
         | Inr None \<Rightarrow> ethBlocks node rpcURL recipient latestBlock (height + 1) settlements
         | Inr (Some block) \<Rightarrow>
             (case ethTransactions node rpcURL recipient latestBlock height block 0
                     (ebTransactions block) settlements of
                Inl e \<Rightarrow> Inl e
              | Inr settlements' \<Rightarrow>
                  ethBlocks node rpcURL recipient latestBlock (height + 1) settlements'))
      else Inr settlements)"
  by pat_completeness auto
termination
  by (relation "measure (\<lambda>(node, url, recipient, latest, height, s). nat (latest + 1 - height))") auto

declare ethBlocks.simps [simp del]

definition observeETHTransfers ::
  "evm_node \<Rightarrow> string \<Rightarrow> string \<Rightarrow> int \<Rightarrow> int \<Rightarrow> evidence list res" where
  "observeETHTransfers node rpcURL recipient latestBlock startBlock =
     ethBlocks node rpcURL recipient latestBlock startBlock []"

subsection \<open>Transfers of a token\<close>

definition transferEvidence :: "string \<Rightarrow> int \<Rightarrow> transfer_log \<Rightarrow> evidence option res" where
  "transferEvidence normalizedContract latestBlock log =
     (let txHash = ToLower (TrimSpace (tlTransactionHash log))
      in if txHash = [] then Inr None
         else case parseHexQuantityString (tlLogIndex log) of
             Inl e \<Rightarrow> Inl e
           | Inr logIndex \<Rightarrow>
               (case parseHexQuantityString (tlData log) of
                  Inl e \<Rightarrow> Inl e
                | Inr amount \<Rightarrow>
                    if amount \<le> 0 then Inr None
                    else case parseHexQuantityString (tlBlockNumber log) of
                        Inl e \<Rightarrow> Inl e
                      | Inr blockNumber \<Rightarrow>
                          Inr (Some \<lparr>evRef = txHash @ '':'' @ FormatInt logIndex,
                            evAmountMinor = FormatInt amount,
                            evConfirmations = confirmationCount latestBlock blockNumber,
                            evIsCanonical = (\<not> tlRemoved log),
                            evBlockHeight = int64PointerFromBigInt blockNumber,
                            evBlockHash = normalizedOptionalHex (tlBlockHash log),
                            evMetadata = [(''source'', GStr ''erc20_transfer''),
                              (''token_contract'', GStr normalizedContract),
                              (''log_index'', GStr (FormatInt logIndex))]\<rparr>)))"

fun transferEvidences ::
  "string \<Rightarrow> int \<Rightarrow> transfer_log list \<Rightarrow> evidence list \<Rightarrow> evidence list res" where
  "transferEvidences normalizedContract latestBlock [] settlements = Inr settlements"
| "transferEvidences normalizedContract latestBlock (log # logs) settlements =
     (case transferEvidence normalizedContract latestBlock log of
        Inl e \<Rightarrow> Inl e
      | Inr None \<Rightarrow> transferEvidences normalizedContract latestBlock logs settlements
      | Inr (Some ev) \<Rightarrow>
          transferEvidences normalizedContract latestBlock logs (settlements @ [ev]))"

definition observeERC20Transfers ::
  "evm_node \<Rightarrow> string \<Rightarrow> string \<Rightarrow> string \<Rightarrow> int \<Rightarrow> int \<Rightarrow> evidence list res" where
  "observeERC20Transfers node rpcURL tokenContract recipient latestBlock startBlock =
     (let normalizedContract = normalizeHexAddress tokenContract
      in case fetchERC20TransferLogs node rpcURL normalizedContract recipient startBlock of
           Inl e \<Rightarrow> Inl e
         | Inr logs \<Rightarrow> transferEvidences normalizedContract latestBlock logs [])"

subsection \<open>The observation\<close>

definition aggregateStep ::
  "confirmation_policy \<Rightarrow> evidence \<Rightarrow> int \<times> int \<times> int \<Rightarrow> int \<times> int \<times> int" where
  "aggregateStep cp ev acc =
     (case acc of (latestAmount, confirmedAmount, finalityAmount) \<Rightarrow>
        if \<not> evIsCanonical ev then acc
        else case parse_big (TrimSpace (evAmountMinor ev)) of
            None \<Rightarrow> acc
          | Some amount \<Rightarrow>
              if amount < 0 then acc
              else (latestAmount + amount,
                    if evConfirmations ev \<ge> cpEvmBusinessMin cp then confirmedAmount + amount
                    else confirmedAmount,
                    if evConfirmations ev \<ge> cpEvmFinalityMin cp then finalityAmount + amount
                    else finalityAmount))"

definition aggregateAmounts :: "confirmation_policy \<Rightarrow> evidence list \<Rightarrow> int \<times> int \<times> int" where
  "aggregateAmounts cp settlements = fold (aggregateStep cp) settlements (0, 0, 0)"

text \<open>The evidence of an asset; \<open>None\<close> for a token without a contract.\<close>

definition evmEvidence ::
  "evm_node \<Rightarrow> observe_input \<Rightarrow> string \<Rightarrow> int \<Rightarrow> evidence list option res" where
  "evmEvidence node i rpcURL latestBlock =
     (let normalizedAddress = normalizeHexAddress (oiAddressCanonical i)
      in if ToUpper (TrimSpace (oiAsset i)) = ''ETH'' then
           map_sum id Some (observeETHTransfers node rpcURL normalizedAddress latestBlock 0)
         else case oiTokenContract i of
             None \<Rightarrow> Inr None
           | Some contract \<Rightarrow>
               if TrimSpace contract = [] then Inr None
               else map_sum id Some (observeERC20Transfers node rpcURL (TrimSpace contract)
                      normalizedAddress latestBlock 0))"

definition evmDecision ::
  "evm_observer \<Rightarrow> observe_input \<Rightarrow> string \<Rightarrow> int \<Rightarrow> int \<Rightarrow> evidence list \<Rightarrow> observe_output" where
  "evmDecision ob i network latestBlock expected settlements =
     (let tp = voThresholds ob; cp = voConfirmations ob;
          (latestAmount, confirmedAmount, finalityAmount) = aggregateAmounts cp settlements;
          cReq = confirmedRequired tp expected; dReq = detectedRequired tp expected;
          confirmed = (confirmedAmount \<ge> cReq);
          finalityReached = (finalityAmount \<ge> cReq);
          detected = (\<not> confirmed \<and> latestAmount \<ge> dReq)
      in \<lparr>obSupported = True, obObservedAmount = FormatInt latestAmount,
          obDetected = detected, obConfirmed = confirmed, obFinalityReached = finalityReached,
          obSource = ''evm_rpc'',
          obDetails =
            [(''network'', GStr network),
             (''asset'', GStr (ToUpper (TrimSpace (oiAsset i)))),
             (''detected_threshold_bps'', GInt (tpDetectedBPS tp)),
             (''confirmed_threshold_bps'', GInt (tpConfirmedBPS tp)),
             (''detected_required_minor'', GStr (FormatInt dReq)),
             (''confirmed_required_minor'', GStr (FormatInt cReq)),
             (''evm_business_min_confirmations'', GInt (cpEvmBusinessMin cp)),
             (''evm_finality_min_confirmations'', GInt (cpEvmFinalityMin cp)),
             (''latest_amount_minor'', GStr (FormatInt latestAmount)),
             (''confirmed_amount_minor'', GStr (FormatInt confirmedAmount)),
             (''finality_amount_minor'', GStr (FormatInt finalityAmount)),
             (''settlement_item_count'', GInt (int (length settlements))),
             (''scan_start_block'', GStr (FormatInt 0)),
             (''scan_latest_block'', GStr (FormatInt latestBlock)),
             (''scan_scope'', GStr ''full_history'')],
          obSettlements = settlements\<rparr>)"

definition evmObserve ::
  "evm_observer \<Rightarrow> evm_node \<Rightarrow> observe_input \<Rightarrow> int \<Rightarrow> observe_output res" where
  "evmObserve ob node i expected =
     (let network = ToLower (TrimSpace (oiNetwork i))
      in case lookup (voRPCURLs ob) network of
           None \<Rightarrow> Inr unsupported_observation
         | Some rpcURL \<Rightarrow>
             if TrimSpace rpcURL = [] then Inr unsupported_observation
             else case latestBlockNumber node rpcURL of
                 Inl e \<Rightarrow> Inl e
               | Inr latestBlock \<Rightarrow>
                   (case evmEvidence node i rpcURL latestBlock of
                      Inl e \<Rightarrow> Inl e
                    | Inr None \<Rightarrow> Inr unsupported_observation
                    | Inr (Some settlements) \<Rightarrow>
                        Inr (evmDecision ob i network latestBlock expected settlements)))"

subsection \<open>The amounts of an observation\<close>

text \<open>Evidence counts with what it settles: its amount reads back and is positive.\<close>

definition positive_evidence :: "evidence \<Rightarrow> bool" where
  "positive_evidence ev = (\<exists>v > 0. evAmountMinor ev = FormatInt v)"

lemma positive_evidence_amount: "positive_evidence ev \<Longrightarrow> 0 < evidenceAmount ev"
  by (auto simp: positive_evidence_def evidenceAmount_FormatInt)

lemma positive_evidence_amount_iff:
  "evAmountMinor ev = FormatInt v \<Longrightarrow> positive_evidence ev \<longleftrightarrow> 0 < v"
  by (metis FormatInt_inj positive_evidence_def)

lemma aggregateStep_positive:
  assumes "positive_evidence ev"
  shows "\<exists>seen'. aggregateStep cp ev (seen, c, f) =
    (seen',
     c + (if evIsCanonical ev \<and> cpEvmBusinessMin cp \<le> evConfirmations ev
          then evidenceAmount ev else 0),
     f + (if evIsCanonical ev \<and> cpEvmFinalityMin cp \<le> evConfirmations ev
          then evidenceAmount ev else 0))"
  using assms by (auto simp: aggregateStep_def positive_evidence_def evidenceAmount_FormatInt)

lemma aggregate_fold:
  assumes "list_all positive_evidence evs"
  shows "\<exists>seen. fold (aggregateStep cp) evs (0, 0, 0) =
    (seen, settledAmount (cpEvmBusinessMin cp) evs, settledAmount (cpEvmFinalityMin cp) evs)"
  using assms
proof (induction evs rule: rev_induct)
  case (snoc ev evs)
  then obtain seen where seen: "fold (aggregateStep cp) evs (0, 0, 0) =
      (seen, settledAmount (cpEvmBusinessMin cp) evs, settledAmount (cpEvmFinalityMin cp) evs)"
    by auto
  from snoc.prems have "positive_evidence ev" by simp
  from aggregateStep_positive [OF this, of cp] show ?case
    by (simp add: seen settledAmount_snoc)
qed simp

lemma ethTransaction_positive:
  "ethTransaction node url rcp latest h b i tx = Inr (Some ev) \<Longrightarrow> positive_evidence ev"
  by (auto simp: ethTransaction_def Let_def positive_evidence_amount_iff
      split: if_splits sum.splits)

lemma transferEvidence_positive:
  "transferEvidence c latest log = Inr (Some ev) \<Longrightarrow> positive_evidence ev"
  by (auto simp: transferEvidence_def Let_def positive_evidence_amount_iff
      split: if_splits sum.splits)

lemma ethTransactions_positive:
  "ethTransactions node url rcp latest h b i txs evs = Inr evs' \<Longrightarrow>
   list_all positive_evidence evs \<Longrightarrow> list_all positive_evidence evs'"
  by (induction node url rcp latest h b i txs evs rule: ethTransactions.induct)
     (simp_all add: ethTransaction_positive split: sum.splits option.splits)

lemma transferEvidences_positive:
  "transferEvidences c latest logs evs = Inr evs' \<Longrightarrow>
   list_all positive_evidence evs \<Longrightarrow> list_all positive_evidence evs'"
  by (induction c latest logs evs rule: transferEvidences.induct)
     (simp_all add: transferEvidence_positive split: sum.splits option.splits)

lemma ethBlocks_positive:
  "ethBlocks node url rcp latest h evs = Inr evs' \<Longrightarrow>
   list_all positive_evidence evs \<Longrightarrow> list_all positive_evidence evs'"
proof (induction node url rcp latest h evs rule: ethBlocks.induct)
  case (1 node url rcp latest h evs)
  show ?case
  proof (cases "h \<le> latest")
    case True
    from "1.prems" "1.IH" [OF True] ethTransactions_positive show ?thesis
      by (subst (asm) ethBlocks.simps) (simp add: True split: sum.splits option.splits)
  next
    case False
    with "1.prems" show ?thesis by (subst (asm) ethBlocks.simps) simp
  qed
qed

lemma map_sum_Some_eq: "map_sum id Some r = Inr (Some x) \<longleftrightarrow> r = Inr x"
  by (cases r) auto

lemma evmEvidence_positive:
  assumes "evmEvidence node i url latest = Inr (Some evs)"
  shows "list_all positive_evidence evs"
  using assms
  by (auto simp: evmEvidence_def observeETHTransfers_def observeERC20Transfers_def Let_def
      map_sum_Some_eq dest: ethBlocks_positive transferEvidences_positive
      split: if_splits option.splits sum.splits)

lemma evmDecision_decides:
  assumes "list_all positive_evidence evs"
  shows "decides_by (voThresholds ob) (cpEvmBusinessMin (voConfirmations ob))
    (cpEvmFinalityMin (voConfirmations ob)) expected (evmDecision ob i network latest expected evs)"
proof -
  obtain seen where "aggregateAmounts (voConfirmations ob) evs =
      (seen, settledAmount (cpEvmBusinessMin (voConfirmations ob)) evs,
       settledAmount (cpEvmFinalityMin (voConfirmations ob)) evs)"
    using aggregate_fold [OF assms] unfolding aggregateAmounts_def by blast
  then show ?thesis by (auto simp: evmDecision_def decides_by_def Let_def)
qed

lemma evmObserve_decides:
  assumes "evmObserve ob node i expected = Inr out" and "obSupported out"
  shows "decides_by (voThresholds ob) (cpEvmBusinessMin (voConfirmations ob))
    (cpEvmFinalityMin (voConfirmations ob)) expected out"
    and "list_all positive_evidence (obSettlements out)"
  using assms
  by (auto simp: evmObserve_def Let_def unsupported_observation_def evmDecision_def case_prod_beta
      intro!: evmDecision_decides [unfolded evmDecision_def Let_def case_prod_beta]
      dest: evmEvidence_positive split: option.splits if_splits sum.splits)

end
