(* ===== verification/ObserverGateway.thy ===== *)
theory ObserverGateway
  imports BitcoinObserver EvmObserver
begin

text \<open>
  The gateway of the observers (\<^verbatim>\<open>chainobserver/devtest/gateway.go\<close>): its configuration with
  the defaults, one observer per chain, and the observation of a payment request. The endpoints
  of both observers are parameters.
\<close>

record observer_config =
  ocBTCExploraBaseURL :: string
  ocEVMRPCURLs :: "(string \<times> string) list"
  ocDetectedBPS :: int
  ocConfirmedBPS :: int
  ocBTCMinConf :: int
  ocBTCFinalityMinConf :: int
  ocEVMMinConf :: int
  ocEVMFinalityMinConf :: int

text \<open>The defaults of the gateway: both thresholds at the full amount, one confirmation.\<close>

definition gatewayThresholds :: "observer_config \<Rightarrow> threshold_policy" where
  "gatewayThresholds cfg = newThresholdPolicy (ocDetectedBPS cfg) (ocConfirmedBPS cfg) 10000 10000"

definition gatewayConfirmations :: "observer_config \<Rightarrow> confirmation_policy" where
  "gatewayConfirmations cfg =
     newConfirmationPolicy (ocBTCMinConf cfg) (ocBTCFinalityMinConf cfg) (ocEVMMinConf cfg)
       (ocEVMFinalityMinConf cfg) 1 1"

record observer_endpoints =
  oeEsplora :: esplora
  oeParseError :: "string \<Rightarrow> string"
  oeNode :: evm_node

type_synonym observer_gateway =
  "observer_endpoints \<Rightarrow> string \<Rightarrow> (observe_input \<Rightarrow> int \<Rightarrow> observe_output res) option"

definition newObserverGateway :: "observer_config \<Rightarrow> observer_gateway" where
  "newObserverGateway cfg env chain =
     (if chain = ''bitcoin'' then
        Some (bitcoinObserve (newBitcoinObserver (ocBTCExploraBaseURL cfg) (gatewayThresholds cfg)
          (gatewayConfirmations cfg)) (oeEsplora env) (oeParseError env))
      else if chain = ''ethereum'' then
        Some (evmObserve (newEVMObserver (ocEVMRPCURLs cfg) (gatewayThresholds cfg)
          (gatewayConfirmations cfg)) (oeNode env))
      else None)"

definition ObservePaymentRequest ::
  "observer_gateway \<Rightarrow> observer_endpoints \<Rightarrow> observe_input \<Rightarrow> observe_output res" where
  "ObservePaymentRequest gw env i =
     (case parseExpectedThreshold (oiExpectedAmountMinor i) of
        Inl e \<Rightarrow> Inl e
      | Inr expected \<Rightarrow>
          (case gw env (ToLower (TrimSpace (oiChain i))) of
             None \<Rightarrow> Inr unsupported_observation
           | Some observer \<Rightarrow> observer i expected))"

subsection \<open>Policies\<close>

lemma finalityMin_ge: "business \<le> finalityMin raw business"
  by (simp add: finalityMin_def Let_def)

lemma confirmation_minima:
  "cpBtcBusinessMin (newConfirmationPolicy a b c d x y) \<le>
   cpBtcFinalityMin (newConfirmationPolicy a b c d x y)"
  "cpEvmBusinessMin (newConfirmationPolicy a b c d x y) \<le>
   cpEvmFinalityMin (newConfirmationPolicy a b c d x y)"
  by (simp_all add: newConfirmationPolicy_def Let_def finalityMin_ge)

interpretation btc: payment_observer
  "bitcoinObserve (newBitcoinObserver base (gatewayThresholds cfg) (gatewayConfirmations cfg)) h perr"
  "gatewayThresholds cfg" "cpBtcBusinessMin (gatewayConfirmations cfg)"
  "cpBtcFinalityMin (gatewayConfirmations cfg)"
  for base cfg h perr
  using bitcoinObserve_decides
    [of "newBitcoinObserver base (gatewayThresholds cfg) (gatewayConfirmations cfg)" h perr]
  by unfold_locales
     (simp_all add: newBitcoinObserver_def gatewayConfirmations_def confirmation_minima)

interpretation evm: payment_observer
  "evmObserve (newEVMObserver urls (gatewayThresholds cfg) (gatewayConfirmations cfg)) node"
  "gatewayThresholds cfg" "cpEvmBusinessMin (gatewayConfirmations cfg)"
  "cpEvmFinalityMin (gatewayConfirmations cfg)"
  for urls cfg node
  using evmObserve_decides(1)
    [of "newEVMObserver urls (gatewayThresholds cfg) (gatewayConfirmations cfg)" node]
  by unfold_locales
     (simp_all add: newEVMObserver_def gatewayConfirmations_def confirmation_minima)

end
