(* ===== verification/ObserverProps.thy ===== *)
theory ObserverProps
  imports ObserverGateway Reconcile ValueObjects
begin

text \<open>
  Properties of the chain observers: the thresholds, the decision through the gateway, what the
  scan for transfers of ether finds, and three behaviours at the edges.
\<close>

subsection \<open>Thresholds\<close>

lemma thresholdBPSAmount_least:
  assumes "0 \<le> expected * bps"
  shows "thresholdBPSAmount expected bps \<le> r \<longleftrightarrow> expected * bps \<le> r * 10000"
proof -
  define q m where "q = expected * bps div 10000" and "m = expected * bps mod 10000"
  have p: "expected * bps = 10000 * q + m" and m: "0 \<le> m" "m < 10000"
    by (simp_all add: q_def m_def)
  have q: "quot (expected * bps) 10000 = q"
    using assms by (simp add: quot_nonneg q_def)
  have "thresholdBPSAmount expected bps = (if m > 0 then q + 1 else q)"
    unfolding thresholdBPSAmount_def Let_def q by (simp add: p)
  then show ?thesis unfolding p using m by auto
qed

lemma thresholdBPSAmount_mono:
  assumes "0 \<le> expected" and "0 \<le> bps" and "bps \<le> bps'"
  shows "thresholdBPSAmount expected bps \<le> thresholdBPSAmount expected bps'"
proof -
  have le: "expected * bps \<le> expected * bps'" and nn: "0 \<le> expected * bps" "0 \<le> expected * bps'"
    using assms by (simp_all add: mult_left_mono)
  have "expected * bps' \<le> thresholdBPSAmount expected bps' * 10000"
    using thresholdBPSAmount_least [OF nn(2)] by blast
  with le have "expected * bps \<le> thresholdBPSAmount expected bps' * 10000" by simp
  then show ?thesis using thresholdBPSAmount_least [OF nn(1)] by blast
qed

lemma gatewayThresholds_range:
  "1 \<le> tpDetectedBPS (gatewayThresholds cfg)"
  "tpDetectedBPS (gatewayThresholds cfg) \<le> tpConfirmedBPS (gatewayThresholds cfg)"
  "tpConfirmedBPS (gatewayThresholds cfg) \<le> 10000"
  by (auto simp: gatewayThresholds_def newThresholdPolicy_def Let_def)

lemma gatewayThresholds_required:
  assumes "0 \<le> expected"
  shows "detectedRequired (gatewayThresholds cfg) expected \<le> confirmedRequired (gatewayThresholds cfg) expected"
    and "confirmedRequired (gatewayThresholds cfg) expected \<le> expected"
    and "0 < expected \<longrightarrow> 0 < detectedRequired (gatewayThresholds cfg) expected"
proof -
  let ?d = "tpDetectedBPS (gatewayThresholds cfg)" and ?c = "tpConfirmedBPS (gatewayThresholds cfg)"
  have d: "0 \<le> expected * ?d" and c: "0 \<le> expected * ?c"
    using gatewayThresholds_range [of cfg] assms by simp_all
  show "detectedRequired (gatewayThresholds cfg) expected \<le> confirmedRequired (gatewayThresholds cfg) expected"
    unfolding detectedRequired_def confirmedRequired_def
    using gatewayThresholds_range [of cfg] assms by (intro thresholdBPSAmount_mono) auto
  show "confirmedRequired (gatewayThresholds cfg) expected \<le> expected"
    unfolding confirmedRequired_def thresholdBPSAmount_least [OF c]
    using gatewayThresholds_range [of cfg] assms by (intro mult_left_mono) auto
  have "0 < expected * ?d" if "0 < expected" using gatewayThresholds_range [of cfg] that by simp
  then show "0 < expected \<longrightarrow> 0 < detectedRequired (gatewayThresholds cfg) expected"
    unfolding detectedRequired_def using thresholdBPSAmount_least [OF d, of 0] by auto
qed

text \<open>
  The thresholds of a gateway, whatever its configuration: for a non-negative expected amount,
  detecting never needs more than confirming, confirming never more than the expected amount, and
  a positive amount needs a positive payment. The amount that confirms is the least one that
  reaches the configured share of the expected amount, in 10000ths.
\<close>

theorem gateway_thresholds:
  assumes "0 \<le> expected"
  shows "detectedRequired (gatewayThresholds cfg) expected
      \<le> confirmedRequired (gatewayThresholds cfg) expected"
    and "confirmedRequired (gatewayThresholds cfg) expected \<le> expected"
    and "0 < expected \<longrightarrow> 0 < detectedRequired (gatewayThresholds cfg) expected"
    and "confirmedRequired (gatewayThresholds cfg) expected \<le> paid \<longleftrightarrow>
      expected * tpConfirmedBPS (gatewayThresholds cfg) \<le> paid * 10000"
  using gatewayThresholds_required [OF assms] gatewayThresholds_range [of cfg] assms
  by (simp_all add: confirmedRequired_def thresholdBPSAmount_least)

subsection \<open>The decision\<close>

lemma parseExpectedThreshold_nonneg:
  "parseExpectedThreshold raw = Inr v \<Longrightarrow> 0 \<le> v"
  by (auto simp: parseExpectedThreshold_def Let_def split: option.splits if_splits)

text \<open>The minima of confirmations that count for a chain: for the business, and for finality.\<close>

definition chainMinima :: "confirmation_policy \<Rightarrow> string \<Rightarrow> int \<times> int" where
  "chainMinima cp chain =
     (if ToLower (TrimSpace chain) = ''bitcoin'' then (cpBtcBusinessMin cp, cpBtcFinalityMin cp)
      else (cpEvmBusinessMin cp, cpEvmFinalityMin cp))"

lemma gateway_observer:
  assumes "ObservePaymentRequest (newObserverGateway cfg) env i = Inr ob" and "obSupported ob"
  obtains expected where "parseExpectedThreshold (oiExpectedAmountMinor i) = Inr expected"
    and "decides_by (gatewayThresholds cfg)
      (fst (chainMinima (gatewayConfirmations cfg) (oiChain i)))
      (snd (chainMinima (gatewayConfirmations cfg) (oiChain i))) expected ob"
    and "(\<forall>ev \<in> set (obSettlements ob). 0 \<le> evidenceAmount ev) \<longrightarrow>
      obFinalityReached ob \<longrightarrow> obConfirmed ob"
proof -
  from assms(1) obtain expected where e: "parseExpectedThreshold (oiExpectedAmountMinor i) = Inr expected"
    by (auto simp: ObservePaymentRequest_def split: sum.splits)
  consider (btc) "ToLower (TrimSpace (oiChain i)) = ''bitcoin''"
      "bitcoinObserve (newBitcoinObserver (ocBTCExploraBaseURL cfg) (gatewayThresholds cfg)
          (gatewayConfirmations cfg)) (oeEsplora env) (oeParseError env) i expected = Inr ob"
    | (evm) "ToLower (TrimSpace (oiChain i)) = ''ethereum''"
      "evmObserve (newEVMObserver (ocEVMRPCURLs cfg) (gatewayThresholds cfg)
          (gatewayConfirmations cfg)) (oeNode env) i expected = Inr ob"
    using assms e
    by (auto simp: ObservePaymentRequest_def newObserverGateway_def unsupported_observation_def
        split: if_splits)
  then show thesis
  proof cases
    case btc
    show thesis
      using that [OF e] btc.decision [OF btc(2) assms(2)] btc.final_is_confirmed [OF btc(2) assms(2)]
      by (auto simp: chainMinima_def btc(1))
  next
    case evm
    show thesis
      using that [OF e] evm.decision [OF evm(2) assms(2)] evm.final_is_confirmed [OF evm(2) assms(2)]
      by (auto simp: chainMinima_def evm(1))
  qed
qed

text \<open>
  C18. What an observation decides, on either chain and under any configuration: the expected
  amount parses to a non-negative number (1 when none is given), the payment is confirmed exactly
  if the canonical settlements with enough confirmations reach the confirming threshold, final
  exactly if those with the confirmations of finality do, and detected exactly if it is not
  confirmed and the amount seen reaches the detecting threshold. It is never both detected and
  confirmed, and when no settlement is negative a final payment is confirmed.
\<close>

theorem observation_decision:
  assumes "ObservePaymentRequest (newObserverGateway cfg) env i = Inr ob" and "obSupported ob"
  shows "\<exists>expected seen. parseExpectedThreshold (oiExpectedAmountMinor i) = Inr expected \<and>
    0 \<le> expected \<and> obObservedAmount ob = FormatInt seen \<and>
    (case chainMinima (gatewayConfirmations cfg) (oiChain i) of (business, finality) \<Rightarrow>
      obConfirmed ob = (confirmedRequired (gatewayThresholds cfg) expected
        \<le> settledAmount business (obSettlements ob)) \<and>
      obFinalityReached ob = (confirmedRequired (gatewayThresholds cfg) expected
        \<le> settledAmount finality (obSettlements ob))) \<and>
    obDetected ob = (\<not> obConfirmed ob \<and>
      detectedRequired (gatewayThresholds cfg) expected \<le> seen) \<and>
    \<not> (obDetected ob \<and> obConfirmed ob) \<and>
    ((\<forall>ev \<in> set (obSettlements ob). 0 \<le> evidenceAmount ev) \<longrightarrow>
      obFinalityReached ob \<longrightarrow> obConfirmed ob)"
proof -
  obtain expected where e: "parseExpectedThreshold (oiExpectedAmountMinor i) = Inr expected"
    and d: "decides_by (gatewayThresholds cfg)
      (fst (chainMinima (gatewayConfirmations cfg) (oiChain i)))
      (snd (chainMinima (gatewayConfirmations cfg) (oiChain i))) expected ob"
    and f: "(\<forall>ev \<in> set (obSettlements ob). 0 \<le> evidenceAmount ev) \<longrightarrow>
      obFinalityReached ob \<longrightarrow> obConfirmed ob"
    using gateway_observer [OF assms] .
  from d obtain seen where "obObservedAmount ob = FormatInt seen"
    and "obDetected ob = (\<not> obConfirmed ob \<and> detectedRequired (gatewayThresholds cfg) expected \<le> seen)"
    unfolding decides_by_def by blast
  then show ?thesis
    using e d f parseExpectedThreshold_nonneg [OF e]
    by (intro exI [of _ expected] exI [of _ seen]) (auto simp: decides_by_def case_prod_beta)
qed

text \<open>A bitcoin endpoint with one payment of 700 in block 9 of 10, and a request for 600.\<close>

definition demo_endpoints :: observer_endpoints where
  "demo_endpoints =
     \<lparr>oeEsplora =
        \<lparr>esStats = (\<lambda>u. Body \<lparr>asChainFunded = 700, asMempoolFunded = 0\<rparr>),
         esUTXOs = (\<lambda>u. Body [\<lparr>auTxID = ''ab'', auVout = 1, auValue = 700, auConfirmed = True,
                               auBlockHeight = 9, auBlockHash = ''cd''\<rparr>]),
         esTip = (\<lambda>u. Body ''10''), esPathEscape = (\<lambda>s. s)\<rparr>,
      oeParseError = (\<lambda>s. s),
      oeNode = \<lparr>enPost = (\<lambda>u b. NotOK 500), enText = Inl, enBlock = Inl, enReceipt = Inl,
                enLogs = Inl\<rparr>\<rparr>"

definition demo_config :: observer_config where
  "demo_config =
     \<lparr>ocBTCExploraBaseURL = ''http://x/'', ocEVMRPCURLs = [], ocDetectedBPS = 0,
      ocConfirmedBPS = 0, ocBTCMinConf = 0, ocBTCFinalityMinConf = 6, ocEVMMinConf = 0,
      ocEVMFinalityMinConf = 0\<rparr>"

definition demo_input :: observe_input where
  "demo_input =
     \<lparr>oiRequestID = ''pr'', oiChain = ''Bitcoin'', oiNetwork = ''regtest'', oiAsset = ''BTC'',
      oiExpectedAmountMinor = Some ''600'', oiAddressCanonical = ''bcrt1q'', oiChainID = None,
      oiTokenStandard = None, oiTokenContract = None, oiTokenDecimals = None\<rparr>"

lemma observed_demo:
  "case ObservePaymentRequest (newObserverGateway demo_config) demo_endpoints demo_input of
     Inl e \<Rightarrow> False
   | Inr ob \<Rightarrow> obSupported ob \<and> obConfirmed ob \<and> \<not> obFinalityReached ob \<and> \<not> obDetected ob"
  by code_simp

theorem observation_decision_witness:
  "\<exists>ob seen. ObservePaymentRequest (newObserverGateway demo_config) demo_endpoints demo_input = Inr ob \<and>
     obSupported ob \<and> obConfirmed ob \<and> obObservedAmount ob = FormatInt seen"
proof -
  obtain ob where ob: "ObservePaymentRequest (newObserverGateway demo_config) demo_endpoints demo_input
      = Inr ob" and s: "obSupported ob" "obConfirmed ob"
    using observed_demo by (auto split: sum.splits)
  from observation_decision [OF ob s(1)] ob s show ?thesis by blast
qed

subsection \<open>Transfers of ether\<close>

text \<open>
  What the scan should find: of a block, the transactions to the recipient with a positive value
  whose receipt reports success, in order.
\<close>

definition paysRecipient :: "evm_node \<Rightarrow> string \<Rightarrow> string \<Rightarrow> evm_transaction \<Rightarrow> bool" where
  "paysRecipient node url recipient tx =
     (TrimSpace (etHash tx) \<noteq> [] \<and> normalizeHexAddress (etTo tx) = recipient \<and>
      (case parseHexQuantityString (etValue tx) of Inl _ \<Rightarrow> False | Inr v \<Rightarrow> 0 < v) \<and>
      transactionSucceeded node url (ToLower (TrimSpace (etHash tx))) = Inr True)"

definition paymentEvidence :: "int \<Rightarrow> int \<Rightarrow> evm_block \<Rightarrow> nat \<Rightarrow> evidence" where
  "paymentEvidence latest height block k =
     (let tx = ebTransactions block ! k;
          v = (case parseHexQuantityString (etValue tx) of Inl _ \<Rightarrow> 0 | Inr v \<Rightarrow> v);
          n = (case parseHexQuantityString (etBlockNumber tx) of Inr n \<Rightarrow> n
               | Inl _ \<Rightarrow> (case parseHexQuantityString (ebNumber block) of Inr n \<Rightarrow> n
                           | Inl _ \<Rightarrow> height))
      in \<lparr>evRef = ToLower (TrimSpace (etHash tx)), evAmountMinor = FormatInt v,
          evConfirmations = confirmationCount latest n, evIsCanonical = True,
          evBlockHeight = int64PointerFromBigInt n, evBlockHash = blockHashFromTx tx (Some block),
          evMetadata = [(''source'', GStr ''eth_transfer''),
            (''block_tag'', GStr (blockTagFromHeight height)), (''tx_list_index'', GInt (int k))]\<rparr>)"

definition blockPayments :: "evm_node \<Rightarrow> string \<Rightarrow> string \<Rightarrow> int \<Rightarrow> int \<Rightarrow> evidence list" where
  "blockPayments node url recipient latest height =
     (case fetchBlockWithTransactions node url (blockTagFromHeight height) of
        Inr (Some block) \<Rightarrow>
          map (paymentEvidence latest height block)
            (filter (\<lambda>k. paysRecipient node url recipient (ebTransactions block ! k))
              [0..<length (ebTransactions block)])
      | _ \<Rightarrow> [])"

lemma blockNumberFromTx_total:
  "blockNumberFromTx tx (Some b) (Some h) = Inr
     (case parseHexQuantityString (etBlockNumber tx) of Inr n \<Rightarrow> n
      | Inl _ \<Rightarrow> (case parseHexQuantityString (ebNumber b) of Inr n \<Rightarrow> n | Inl _ \<Rightarrow> h))"
  by (simp add: blockNumberFromTx_def split: sum.split)

lemma ethTransaction_cases:
  "case ethTransaction node url rcp latest h b (int k) (ebTransactions b ! k) of
     Inl e \<Rightarrow> True
   | Inr None \<Rightarrow> \<not> paysRecipient node url rcp (ebTransactions b ! k)
   | Inr (Some ev) \<Rightarrow> paysRecipient node url rcp (ebTransactions b ! k) \<and>
       ev = paymentEvidence latest h b k"
  by (auto simp: ethTransaction_def Let_def paysRecipient_def paymentEvidence_def
      blockNumberFromTx_total split: sum.splits if_splits)

text \<open>A failed lookup of a transaction or a block, which ends the scan with its error.\<close>

definition transactionFails ::
  "evm_node \<Rightarrow> string \<Rightarrow> string \<Rightarrow> int \<Rightarrow> int \<Rightarrow> evm_block \<Rightarrow> app_error \<Rightarrow> bool" where
  "transactionFails node url rcp latest height block e =
     (\<exists>k < length (ebTransactions block).
        ethTransaction node url rcp latest height block (int k) (ebTransactions block ! k) = Inl e)"

lemma ethTransactions_reference:
  assumes "k \<le> length (ebTransactions b)"
  shows "case ethTransactions node url rcp latest h b (int k) (drop k (ebTransactions b)) evs of
      Inl e \<Rightarrow> transactionFails node url rcp latest h b e
    | Inr evs' \<Rightarrow> evs' = evs @ map (paymentEvidence latest h b)
        (filter (\<lambda>k. paysRecipient node url rcp (ebTransactions b ! k))
          [k..<length (ebTransactions b)])"
  using assms
proof (induction "length (ebTransactions b) - k" arbitrary: k evs)
  case 0
  then show ?case by simp
next
  case (Suc n)
  then have k: "k < length (ebTransactions b)" by simp
  let ?r = "ethTransaction node url rcp latest h b (int k) (ebTransactions b ! k)"
  note IH = Suc.hyps(1) [of "Suc k"]
  have step: "drop k (ebTransactions b) = ebTransactions b ! k # drop (Suc k) (ebTransactions b)"
    and upt: "[k..<length (ebTransactions b)] = k # [Suc k..<length (ebTransactions b)]"
    using k by (simp_all add: Cons_nth_drop_Suc upt_conv_Cons)
  have n: "n = length (ebTransactions b) - Suc k" "Suc k \<le> length (ebTransactions b)"
    using Suc.hyps(2) k by simp_all
  show ?case
  proof (cases ?r)
    case (Inl e)
    then have "transactionFails node url rcp latest h b e"
      using k by (auto simp: transactionFails_def)
    with Inl show ?thesis by (simp add: step)
  next
    case (Inr o1)
    note c = ethTransaction_cases [where node = node and url = url and rcp = rcp and latest = latest
        and h = h and b = b and k = k]
    show ?thesis
    proof (cases o1)
      case None
      with Inr c have "\<not> paysRecipient node url rcp (ebTransactions b ! k)" by simp
      with Inr None IH [OF n, of evs] show ?thesis
        by (simp add: step upt add.commute split: sum.splits)
    next
      case (Some ev)
      with Inr c have "paysRecipient node url rcp (ebTransactions b ! k)"
        and "ev = paymentEvidence latest h b k" by simp_all
      with Inr Some IH [OF n, of "evs @ [ev]"] show ?thesis
        by (simp add: step upt add.commute split: sum.splits)
    qed
  qed
qed

lemma ethBlocks_reference:
  "case ethBlocks node url rcp latest h evs of
     Inl e \<Rightarrow> \<exists>h' \<in> {h..latest}.
       fetchBlockWithTransactions node url (blockTagFromHeight h') = Inl e \<or>
       (\<exists>b. fetchBlockWithTransactions node url (blockTagFromHeight h') = Inr (Some b) \<and>
          transactionFails node url rcp latest h' b e)
   | Inr evs' \<Rightarrow> evs' = evs @ concat (map (blockPayments node url rcp latest) [h..latest])"
proof (induction node url rcp latest h evs rule: ethBlocks.induct)
  case (1 node url rcp latest h evs)
  show ?case
  proof (cases "h \<le> latest")
    case False
    then show ?thesis by (subst ethBlocks.simps) simp
  next
    case True
    let ?f = "fetchBlockWithTransactions node url (blockTagFromHeight h)"
    have upto: "[h..latest] = h # [h + 1..latest]" using True by (rule upto_rec1)
    show ?thesis
    proof (cases ?f)
      case (Inl e)
      with True show ?thesis by (subst ethBlocks.simps) auto
    next
      case (Inr ob)
      show ?thesis
      proof (cases ob)
        case None
        then have "blockPayments node url rcp latest h = []"
          using Inr by (simp add: blockPayments_def)
        with "1.IH"(1) [OF True Inr None] show ?thesis
          by (subst ethBlocks.simps) (auto simp: True Inr None upto split: sum.splits)
      next
        case (Some b)
        let ?t = "ethTransactions node url rcp latest h b 0 (ebTransactions b) evs"
        note t = ethTransactions_reference [where k = 0 and b = b and node = node and url = url
          and rcp = rcp and latest = latest and h = h and evs = evs, simplified]
        show ?thesis
        proof (cases ?t)
          case (Inl e)
          with t True Inr Some show ?thesis by (subst ethBlocks.simps) auto
        next
          case Inr2: (Inr evs2)
          with t have evs2: "evs2 = evs @ blockPayments node url rcp latest h"
            using Inr Some by (simp add: blockPayments_def)
          from "1.IH"(2) [OF True Inr Some Inr2] show ?thesis
            by (subst ethBlocks.simps)
               (auto simp: True Inr Some Inr2 upto evs2 split: sum.splits)
        qed
      qed
    qed
  qed
qed

text \<open>
  C17. The scan for transfers of ether, on every run: if it succeeds, its evidence is exactly what
  the blocks from 0 to the latest one pay to the recipient, block after block and in the order of
  the transactions, each once and with the value, block and confirmations of its transaction; if
  it fails, it is with the error of a block that could not be fetched or of a transaction in a
  block that could not be read. It never stops early and never invents a payment.
\<close>

theorem ether_scan_complete:
  "case observeETHTransfers node url recipient latest 0 of
     Inr evs \<Rightarrow> evs = concat (map (blockPayments node url recipient latest) [0..latest])
   | Inl e \<Rightarrow> \<exists>height \<in> {0..latest}.
       fetchBlockWithTransactions node url (blockTagFromHeight height) = Inl e \<or>
       (\<exists>block. fetchBlockWithTransactions node url (blockTagFromHeight height) = Inr (Some block) \<and>
          transactionFails node url recipient latest height block e)"
  unfolding observeETHTransfers_def
  using ethBlocks_reference [where node = node and url = url and rcp = recipient
    and latest = latest and h = 0 and evs = "[]"] by (simp split: sum.splits)

subsection \<open>Edges\<close>

lemma bitcoin_observation:
  assumes "ToLower (TrimSpace (oiChain i)) = ''bitcoin''"
    and "TrimRightSet (TrimSpace (ocBTCExploraBaseURL cfg)) ''/'' = base" and "base \<noteq> []"
    and "parseExpectedThreshold (oiExpectedAmountMinor i) = Inr expected"
  shows "ObservePaymentRequest (newObserverGateway cfg) env i =
    bitcoinObserve \<lparr>boBaseURL = base, boThresholds = gatewayThresholds cfg,
      boConfirmations = gatewayConfirmations cfg\<rparr> (oeEsplora env) (oeParseError env) i expected"
  using assms
  by (simp add: ObservePaymentRequest_def newObserverGateway_def newBitcoinObserver_def)

lemma confirmation_minima_pos:
  "1 \<le> cpBtcBusinessMin (gatewayConfirmations cfg)" "1 \<le> cpEvmBusinessMin (gatewayConfirmations cfg)"
  by (simp_all add: gatewayConfirmations_def newConfirmationPolicy_def businessMin_def Let_def)

text \<open>
  A request for an amount of zero, which the creation accepts, needs no payment: every supported
  observation of it whose settlements are empty is confirmed and final, and the reconciler moves
  a pending request to confirmed as soon as the wanted number of such observations is reached.
\<close>

theorem zero_amount_needs_no_payment:
  assumes "ObservePaymentRequest (newObserverGateway cfg) env i = Inr ob" and "obSupported ob"
    and "oiExpectedAmountMinor i = Some amount" and "parse_big (TrimSpace amount) = Some 0"
    and "obSettlements ob = []"
    and "cycles \<le> rsPromoteStreak (nextStabilityState state ''promote'')"
  shows "obConfirmed ob" and "obFinalityReached ob"
    and "decideTarget ''pending'' ob summary state cycles =
      (''confirmed'', ''payment_confirmed'', False)"
proof -
  obtain expected where e: "parseExpectedThreshold (oiExpectedAmountMinor i) = Inr expected"
    and d: "decides_by (gatewayThresholds cfg)
      (fst (chainMinima (gatewayConfirmations cfg) (oiChain i)))
      (snd (chainMinima (gatewayConfirmations cfg) (oiChain i))) expected ob"
    using gateway_observer [OF assms(1,2)] by metis
  have "TrimSpace amount \<noteq> []" using assms(4) by (auto simp: parse_big_def)
  with e assms(3,4) have "expected = 0" by (simp add: parseExpectedThreshold_def)
  then have "confirmedRequired (gatewayThresholds cfg) expected = 0"
    by (simp add: confirmedRequired_def thresholdBPSAmount_def quot_def)
  with d assms(5) show c: "obConfirmed ob" and "obFinalityReached ob"
    by (simp_all add: decides_by_def)
  from c assms(6) show "decideTarget ''pending'' ob summary state cycles =
      (''confirmed'', ''payment_confirmed'', False)"
    by (simp add: decideTarget_def openStatus_def Let_def)
qed

definition empty_endpoints :: observer_endpoints where
  "empty_endpoints = demo_endpoints\<lparr>oeEsplora := (oeEsplora demo_endpoints)
     \<lparr>esStats := (\<lambda>u. Body \<lparr>asChainFunded = 0, asMempoolFunded = 0\<rparr>), esUTXOs := (\<lambda>u. Body [])\<rparr>\<rparr>"

lemma observed_nothing:
  "case ObservePaymentRequest (newObserverGateway demo_config) empty_endpoints
     (demo_input\<lparr>oiExpectedAmountMinor := Some ''0''\<rparr>) of
     Inl e \<Rightarrow> False | Inr ob \<Rightarrow> obSupported ob \<and> obSettlements ob = []"
  by code_simp

theorem zero_amount_needs_no_payment_witness:
  "is_ok (NormalizeExpectedAmountMinor ''0'') \<and>
   (\<exists>ob. ObservePaymentRequest (newObserverGateway demo_config) empty_endpoints
     (demo_input\<lparr>oiExpectedAmountMinor := Some ''0''\<rparr>) = Inr ob \<and>
     decideTarget ''pending'' ob empty_sync_result (parseReconciliationState []) 1 =
       (''confirmed'', ''payment_confirmed'', False))"
proof -
  obtain ob where ob: "ObservePaymentRequest (newObserverGateway demo_config) empty_endpoints
     (demo_input\<lparr>oiExpectedAmountMinor := Some ''0''\<rparr>) = Inr ob"
    and s: "obSupported ob" "obSettlements ob = []"
    using observed_nothing by (auto split: sum.splits)
  have n: "is_ok (NormalizeExpectedAmountMinor ''0'')" by code_simp
  have a: "oiExpectedAmountMinor (demo_input\<lparr>oiExpectedAmountMinor := Some ''0''\<rparr>) = Some ''0''"
    by simp
  have z: "parse_big (TrimSpace ''0'') = Some 0" by code_simp
  have c: "1 \<le> rsPromoteStreak (nextStabilityState (parseReconciliationState []) ''promote'')"
    by code_simp
  show ?thesis using n zero_amount_needs_no_payment(3) [OF ob s(1) a z s(2) c] ob by blast
qed

text \<open>
  A bitcoin payment that the shop has already spent counts as gone: when the endpoint lists no
  unspent output of the address, the observation is supported and not confirmed whatever the
  address has received, and the reconciler moves a confirmed request to reorged - at once when the
  settlements it had recorded are orphaned by that observation, or after the wanted number of such
  observations.
\<close>

theorem spent_payment_is_reorged:
  assumes "ToLower (TrimSpace (oiChain i)) = ''bitcoin''"
    and "TrimRightSet (TrimSpace (ocBTCExploraBaseURL cfg)) ''/'' = base" and "base \<noteq> []"
    and "parseExpectedThreshold (oiExpectedAmountMinor i) = Inr expected" and "0 < expected"
    and "\<And>url. esStats (oeEsplora env) url = Body stats"
    and "\<And>url. esTip (oeEsplora env) url = Body tip"
    and "ParseInt (TrimSpace tip) = (height, False)" and "0 \<le> height"
    and "\<And>url. esUTXOs (oeEsplora env) url = Body []"
    and "0 < srNewlyOrphaned summary \<or>
      cycles \<le> rsDemoteStreak (nextStabilityState state ''demote'')"
  shows "\<exists>ob. ObservePaymentRequest (newObserverGateway cfg) env i = Inr ob \<and> obSupported ob \<and>
    \<not> obConfirmed ob \<and> obSettlements ob = [] \<and>
    decideTarget ''confirmed'' ob summary state cycles = (''reorged'', ''payment_reorged'', False)"
proof -
  let ?ob = "\<lparr>boBaseURL = base, boThresholds = gatewayThresholds cfg,
      boConfirmations = gatewayConfirmations cfg\<rparr>"
  have stats: "fetchAddressStats ?ob (oeEsplora env)
      (TrimSpace (oiAddressCanonical i)) (ToLower (TrimSpace (oiNetwork i))) = Inr stats"
    using assms(6) by (simp add: fetchAddressStats_def answerOf_def)
  have tip: "fetchTipHeight ?ob (oeEsplora env) (oeParseError env)
      (ToLower (TrimSpace (oiNetwork i))) = Inr height"
    using assms(7,8,9) by (simp add: fetchTipHeight_def answerOf_def)
  have utxos: "fetchAddressUTXOs ?ob (oeEsplora env) (TrimSpace (oiAddressCanonical i))
      (ToLower (TrimSpace (oiNetwork i))) = Inr []"
    using assms(10) by (simp add: fetchAddressUTXOs_def answerOf_def)
  have "0 < confirmedRequired (gatewayThresholds cfg) expected"
    using gatewayThresholds_required [of expected cfg] assms(5) by auto
  then show ?thesis
    using assms(3,11) unfolding bitcoin_observation [OF assms(1-4)]
    by (auto simp: bitcoinObserve_def Let_def stats tip utxos
        bitcoinDecision_def decideTarget_def)
qed

theorem spent_payment_is_reorged_witness:
  "\<exists>ob. ObservePaymentRequest (newObserverGateway demo_config)
     (demo_endpoints\<lparr>oeEsplora := (oeEsplora demo_endpoints)\<lparr>esUTXOs := (\<lambda>u. Body [])\<rparr>\<rparr>) demo_input = Inr ob \<and>
     decideTarget ''confirmed'' ob (empty_sync_result\<lparr>srNewlyOrphaned := 1\<rparr>)
       (parseReconciliationState []) 3 = (''reorged'', ''payment_reorged'', False)"
proof -
  let ?env = "demo_endpoints\<lparr>oeEsplora := (oeEsplora demo_endpoints)\<lparr>esUTXOs := (\<lambda>u. Body [])\<rparr>\<rparr>"
  have c: "ToLower (TrimSpace (oiChain demo_input)) = ''bitcoin''" by code_simp
  have b: "TrimRightSet (TrimSpace (ocBTCExploraBaseURL demo_config)) ''/'' = ''http://x''" by code_simp
  have e: "parseExpectedThreshold (oiExpectedAmountMinor demo_input) = Inr 600" by code_simp
  have h: "ParseInt (TrimSpace ''10'') = (10, False)" by code_simp
  have s: "\<And>url. esStats (oeEsplora ?env) url = Body \<lparr>asChainFunded = 700, asMempoolFunded = 0\<rparr>"
    and t: "\<And>url. esTip (oeEsplora ?env) url = Body ''10''"
    and u: "\<And>url. esUTXOs (oeEsplora ?env) url = Body []"
    by (simp_all add: demo_endpoints_def)
  have o: "0 < srNewlyOrphaned (empty_sync_result\<lparr>srNewlyOrphaned := 1\<rparr>) \<or>
      3 \<le> rsDemoteStreak (nextStabilityState (parseReconciliationState []) ''demote'')" by simp
  show ?thesis
    using spent_payment_is_reorged [OF c b _ e _ s t h _ u o] by auto
qed

text \<open>Every bitcoin observation asks for the unspent outputs, whatever the configured minima.\<close>

lemma utxo_endpoint_required:
  assumes "boBaseURL ob \<noteq> []" and "\<And>url. esUTXOs h url = NotOK 404"
  shows "\<not> is_ok (bitcoinObserve ob h perr i expected)"
  using assms
  by (auto simp: bitcoinObserve_def Let_def fetchAddressUTXOs_def answerOf_def split: sum.splits)

end
