(* ===== verification/Startup.thy ===== *)
theory Startup
  imports WalletGateway
begin

text \<open>
  What the persistence gateway checks before the server starts
  (\<^verbatim>\<open>persistence/postgresql/bootstrap/gateway.go\<close>): its rules, the errors of a key, the catalog
  rows, and the first address of a keyset (\<^verbatim>\<open>verifyIndexZeroPreflight\<close> of \<^verbatim>\<open>wallet_sync.go\<close>).
  Logging is left out.
\<close>

subsection \<open>Rules\<close>

record preflight_entry =
  peChain :: string
  peNetwork :: string
  peKeysetID :: string
  peExtendedPublicKey :: string
  peExpectedIndex0Address :: string

type_synonym key_normalizer = "string \<Rightarrow> key_error + extended_public_key \<times> string"

text \<open>
  The maps of the rules are association lists, given in the order in which the loops that copy
  them meet the entries. A \<^verbatim>\<open>nil\<close> function is \<open>None\<close>.
\<close>

record startup_rules =
  ruAllocationMode :: string
  ruDevtestAllowMainnet :: bool
  ruDevtestKeysets :: "(string \<times> string) list"
  ruDevtestKeysetPreflight :: "preflight_entry list"
  ruDevtestKeyNormalizers :: "(string \<times> key_normalizer) list"
  ruKeysetHashAlgorithm :: string
  ruKeysetHashHMACSecret :: string
  ruKeysetHashHMACLegacy :: "string list"
  ruAddressSchemeAllowList :: "(string \<times> string list) list"

text \<open>A row of the catalog joined with its wallet account, nulls as \<open>None\<close>.\<close>

record validation_row =
  vaChain :: string
  vaNetwork :: string
  vaAsset :: string
  vaWalletAccountID :: string
  vaAddressScheme :: string
  vaDefaultExpiresInSeconds :: int
  vaChainID :: "int option"
  vaTokenStandard :: "string option"
  vaTokenContract :: "string option"
  vaTokenDecimals :: "int option"
  vaWalletID :: "string option"
  vaWalletChain :: "string option"
  vaWalletNetwork :: "string option"
  vaWalletKeysetID :: "string option"
  vaWalletPathTemplate :: "string option"
  vaWalletNextIndex :: "int option"
  vaWalletIsActive :: "bool option"

type_synonym startup_validator = "startup_rules \<Rightarrow> app_error option"
type_synonym catalog_validator = "startup_rules \<Rightarrow> validation_row \<Rightarrow> details \<Rightarrow> app_error option"

record bootstrap_gateway =
  bgDatabaseTarget :: string
  bgMigrationsPath :: string
  bgRules :: startup_rules
  bgStartupValidators :: "(string \<times> startup_validator) list"
  bgCatalogValidators :: "(string \<times> catalog_validator) list"

definition invalidConfiguration :: "string \<Rightarrow> details \<Rightarrow> app_error" where
  "invalidConfiguration msg ds = NewInternal ''invalid_configuration'' msg ds"

definition mergeDetails :: "details \<Rightarrow> details \<Rightarrow> details" where
  "mergeDetails base extras = fold (\<lambda>(k, v) m. assoc_put k v m) extras base"

definition copyStringMap :: "(string \<times> string) list \<Rightarrow> (string \<times> string) list" where
  "copyStringMap input =
     fold (\<lambda>(k, v) out. assoc_put (TrimSpace k) (TrimSpace v) out) input []"

definition copyStringList :: "string list \<Rightarrow> string list" where
  "copyStringList input =
     fold (\<lambda>v out. let trimmed = TrimSpace v
                   in if trimmed = [] \<or> trimmed \<in> set out then out else out @ [trimmed]) input []"

definition normalizePreflightEntry :: "preflight_entry \<Rightarrow> preflight_entry" where
  "normalizePreflightEntry e =
     \<lparr>peChain = ToLower (TrimSpace (peChain e)), peNetwork = ToLower (TrimSpace (peNetwork e)),
      peKeysetID = TrimSpace (peKeysetID e), peExtendedPublicKey = TrimSpace (peExtendedPublicKey e),
      peExpectedIndex0Address = TrimSpace (peExpectedIndex0Address e)\<rparr>"

definition completePreflightEntry :: "preflight_entry \<Rightarrow> bool" where
  "completePreflightEntry e =
     (peChain e \<noteq> [] \<and> peNetwork e \<noteq> [] \<and> peKeysetID e \<noteq> [] \<and> peExtendedPublicKey e \<noteq> [] \<and>
      peExpectedIndex0Address e \<noteq> [])"

definition copyPreflightEntries :: "preflight_entry list \<Rightarrow> preflight_entry list" where
  "copyPreflightEntries input = filter completePreflightEntry (map normalizePreflightEntry input)"

definition copyAllowList :: "(string \<times> string list) list \<Rightarrow> (string \<times> string list) list" where
  "copyAllowList input =
     fold (\<lambda>(chain, schemes) out.
             let normalizedChain = ToLower (TrimSpace chain)
             in if normalizedChain = [] then out
                else assoc_put normalizedChain
                       (filter (\<lambda>s. s \<noteq> []) (map (\<lambda>s. ToLower (TrimSpace s)) schemes)) out)
       input []"

text \<open>The three merges of overrides into defaults.\<close>

definition mergeOverrides :: "(string \<times> 'f) list \<Rightarrow> (string \<times> 'f option) list \<Rightarrow> (string \<times> 'f) list" where
  "mergeOverrides defaults overrides =
     fold (\<lambda>(k, f) out.
             case f of
               None \<Rightarrow> out
             | Some f \<Rightarrow>
                 if ToLower (TrimSpace k) = [] then out
                 else assoc_put (ToLower (TrimSpace k)) f out) overrides defaults"

definition defaultDevtestKeyNormalizers :: "hashes \<Rightarrow> (string \<times> key_normalizer) list" where
  "defaultDevtestKeyNormalizers h =
     [(''bitcoin'', NormalizeBitcoinKeyset h), (''ethereum'', NormalizeEVMKeyset h)]"

definition allocationNotImplemented :: app_error where
  "allocationNotImplemented =
     NewInternal ''wallet_allocation_not_implemented''
       ''production wallet allocation mode is not implemented'' []"

definition defaultModeStartupValidators :: "(string \<times> startup_validator) list" where
  "defaultModeStartupValidators =
     [(''devtest'', \<lambda>_. None), (''prod'', \<lambda>_. Some allocationNotImplemented)]"

subsection \<open>Keys\<close>

definition mapWalletKeyError :: "key_error \<Rightarrow> details \<Rightarrow> app_error" where
  "mapWalletKeyError e details =
     (let merged = mergeDetails details [(''reason'', GStr (keMessage e))];
          merged = (case keCause e of None \<Rightarrow> merged
                    | Some cause \<Rightarrow> assoc_put ''cause'' (GStr cause) merged)
      in case keCode e of
           CodeInvalidKeyMaterialFormat \<Rightarrow>
             NewInternal ''invalid_key_material_format'' (keMessage e) merged
         | CodeInvalidConfiguration \<Rightarrow> NewInternal ''invalid_configuration'' (keMessage e) merged
         | CodeUnsupportedTarget \<Rightarrow> NewInternal ''invalid_configuration'' (keMessage e) merged
         | CodeDerivationFailed \<Rightarrow> NewInternal (codeString (keCode e)) (keMessage e) merged)"

definition validateDevtestKeyset ::
  "startup_rules \<Rightarrow> string \<Rightarrow> string \<Rightarrow> details \<Rightarrow> app_error option" where
  "validateDevtestKeyset g chain keysetID ds =
     (case lookup (ruDevtestKeysets g) keysetID of
        None \<Rightarrow> Some (invalidConfiguration ''devtest keyset is missing for wallet account''
          (mergeDetails ds [(''keyset_id'', GStr keysetID)]))
      | Some rawKey \<Rightarrow>
          if TrimSpace rawKey = [] then
            Some (invalidConfiguration ''devtest keyset is missing for wallet account''
              (mergeDetails ds [(''keyset_id'', GStr keysetID)]))
          else
            (case lookup (ruDevtestKeyNormalizers g) (ToLower (TrimSpace chain)) of
               None \<Rightarrow> Some (invalidConfiguration ''unsupported chain for devtest keyset validation''
                 (mergeDetails ds [(''keyset_id'', GStr keysetID), (''chain'', GStr chain)]))
             | Some normalizer \<Rightarrow>
                 (case normalizer rawKey of
                    Inl e \<Rightarrow> Some (mapWalletKeyError e
                      (mergeDetails ds [(''keyset_id'', GStr keysetID)]))
                  | Inr (key, _) \<Rightarrow>
                      (case ValidateAccountLevelPolicy key of
                         Some e \<Rightarrow> Some (mapWalletKeyError e
                           (mergeDetails ds [(''keyset_id'', GStr keysetID)]))
                       | None \<Rightarrow> None))))"

definition textOf :: "string option \<Rightarrow> string" where
  "textOf v = (case v of None \<Rightarrow> [] | Some s \<Rightarrow> s)"

definition devtestCatalogValidator :: catalog_validator where
  "devtestCatalogValidator g row ds =
     (if vaNetwork row = ''mainnet'' \<and> \<not> ruDevtestAllowMainnet g then
        Some (invalidConfiguration
          ''devtest mode blocks enabled mainnet allocator rows unless override is enabled'' ds)
      else validateDevtestKeyset g (vaChain row) (TrimSpace (textOf (vaWalletKeysetID row))) ds)"

definition defaultModeCatalogValidators :: "(string \<times> catalog_validator) list" where
  "defaultModeCatalogValidators =
     [(''devtest'', devtestCatalogValidator), (''prod'', \<lambda>_ _ _. Some allocationNotImplemented)]"

text \<open>\<^verbatim>\<open>NewGateway\<close>: the rules normalised, the overrides merged.\<close>

definition newBootstrapGateway ::
  "hashes \<Rightarrow> string \<Rightarrow> string \<Rightarrow> startup_rules \<Rightarrow> (string \<times> key_normalizer option) list \<Rightarrow>
   (string \<times> startup_validator option) list \<Rightarrow> (string \<times> catalog_validator option) list \<Rightarrow>
   bootstrap_gateway" where
  "newBootstrapGateway h target path r normalizers startupValidators catalogValidators =
     \<lparr>bgDatabaseTarget = target, bgMigrationsPath = path,
      bgRules =
        \<lparr>ruAllocationMode = ToLower (TrimSpace (ruAllocationMode r)),
         ruDevtestAllowMainnet = ruDevtestAllowMainnet r,
         ruDevtestKeysets = copyStringMap (ruDevtestKeysets r),
         ruDevtestKeysetPreflight = copyPreflightEntries (ruDevtestKeysetPreflight r),
         ruDevtestKeyNormalizers = mergeOverrides (defaultDevtestKeyNormalizers h) normalizers,
         ruKeysetHashAlgorithm = ToLower (TrimSpace (ruKeysetHashAlgorithm r)),
         ruKeysetHashHMACSecret = TrimSpace (ruKeysetHashHMACSecret r),
         ruKeysetHashHMACLegacy = copyStringList (ruKeysetHashHMACLegacy r),
         ruAddressSchemeAllowList = copyAllowList (ruAddressSchemeAllowList r)\<rparr>,
      bgStartupValidators = mergeOverrides defaultModeStartupValidators startupValidators,
      bgCatalogValidators = mergeOverrides defaultModeCatalogValidators catalogValidators\<rparr>"

subsection \<open>Catalog rows\<close>

definition isAddressSchemeAllowed :: "startup_rules \<Rightarrow> string \<Rightarrow> string \<Rightarrow> bool" where
  "isAddressSchemeAllowed g chain addressScheme =
     (case lookup (ruAddressSchemeAllowList g) (ToLower (TrimSpace chain)) of
        None \<Rightarrow> False
      | Some schemes \<Rightarrow> ToLower (TrimSpace addressScheme) \<in> set schemes)"

definition blankText :: "string option \<Rightarrow> bool" where
  "blankText v = (case v of None \<Rightarrow> True | Some s \<Rightarrow> TrimSpace s = [])"

definition validateCatalogRow :: "bootstrap_gateway \<Rightarrow> validation_row \<Rightarrow> app_error option" where
  "validateCatalogRow g row =
     (let base = [(''chain'', GStr (vaChain row)), (''network'', GStr (vaNetwork row)),
                  (''asset'', GStr (vaAsset row)),
                  (''wallet_account_id'', GStr (vaWalletAccountID row))];
          walletChain = ToLower (TrimSpace (textOf (vaWalletChain row)));
          walletNetwork = ToLower (TrimSpace (textOf (vaWalletNetwork row)))
      in if blankText (vaWalletID row) then
           Some (invalidConfiguration
             ''enabled asset catalog row references missing wallet account'' base)
         else if vaWalletIsActive row \<noteq> Some True then
           Some (invalidConfiguration
             ''enabled asset catalog row references inactive wallet account'' base)
         else if vaWalletChain row = None \<or> vaWalletNetwork row = None then
           Some (invalidConfiguration ''wallet account is missing chain/network'' base)
         else if walletChain \<noteq> vaChain row \<or> walletNetwork \<noteq> vaNetwork row then
           Some (invalidConfiguration
             ''wallet account chain/network mismatch with asset catalog row''
             (mergeDetails base [(''wallet_chain'', GStr walletChain),
                (''wallet_network'', GStr walletNetwork)]))
         else if vaDefaultExpiresInSeconds row < 60 \<or> vaDefaultExpiresInSeconds row > 2592000 then
           Some (invalidConfiguration ''default_expires_in_seconds is out of allowed range''
             (mergeDetails base
               [(''default_expires_in_seconds'', GInt (vaDefaultExpiresInSeconds row))]))
         else if \<not> isAddressSchemeAllowed (bgRules g) (vaChain row) (vaAddressScheme row) then
           Some (invalidConfiguration ''address_scheme is not allowed for chain''
             (mergeDetails base [(''address_scheme'', GStr (vaAddressScheme row))]))
         else if vaChain row = ''ethereum'' \<and> vaChainID row = None then
           Some (invalidConfiguration ''ethereum catalog row must define chain_id'' base)
         else if vaTokenStandard row \<noteq> None \<and>
                 (vaTokenContract row = None \<or> vaTokenDecimals row = None) then
           Some (invalidConfiguration ''token asset row is missing token metadata'' base)
         else if vaTokenStandard row = None \<and>
                 (vaTokenContract row \<noteq> None \<or> vaTokenDecimals row \<noteq> None) then
           Some (invalidConfiguration ''native asset row must not include token metadata'' base)
         else if (case vaWalletNextIndex row of None \<Rightarrow> True | Some n \<Rightarrow> n < 0) then
           Some (invalidConfiguration ''wallet account next_index must be non-negative'' base)
         else
           (case vaWalletPathTemplate row of
              None \<Rightarrow> Some (invalidConfiguration
                ''wallet account derivation_path_template is required'' base)
            | Some template \<Rightarrow>
                (case ValidateDerivationPathTemplate (TrimSpace template) of
                   Some e \<Rightarrow> Some (mapWalletKeyError e base)
                 | None \<Rightarrow>
                     if blankText (vaWalletKeysetID row) then
                       Some (invalidConfiguration ''wallet account keyset_id is required'' base)
                     else
                       (let mode = ToLower (TrimSpace (ruAllocationMode (bgRules g)))
                        in case lookup (bgCatalogValidators g) mode of
                             None \<Rightarrow> Some (invalidConfiguration
                               ''unsupported allocation mode for startup validation''
                               (mergeDetails base [(''allocation_mode'', GStr mode)]))
                           | Some rowValidator \<Rightarrow>
                               rowValidator (bgRules g) row (mergeDetails base
                                 [(''keyset_id'',
                                   GStr (TrimSpace (textOf (vaWalletKeysetID row))))])))))"

text \<open>
  The columns of the query: the catalog row, left-joined with its wallet account by its
  identifier. The columns of the catalog are never null, so the scan fails only if the driver
  does.
\<close>

definition validationRowOf :: "wallet_row list \<Rightarrow> catalog_row \<Rightarrow> validation_row" where
  "validationRowOf wallets r =
     (let w = find (\<lambda>w. waID w = caWalletAccountID r) wallets
      in \<lparr>vaChain = ToLower (TrimSpace (caChain r)), vaNetwork = ToLower (TrimSpace (caNetwork r)),
          vaAsset = ToUpper (TrimSpace (caAsset r)),
          vaWalletAccountID = TrimSpace (caWalletAccountID r),
          vaAddressScheme = ToLower (TrimSpace (caAddressScheme r)),
          vaDefaultExpiresInSeconds = caDefaultExpiresInSeconds r, vaChainID = caChainID r,
          vaTokenStandard = caTokenStandard r, vaTokenContract = caTokenContract r,
          vaTokenDecimals = caTokenDecimals r, vaWalletID = map_option waID w,
          vaWalletChain = map_option waChain w, vaWalletNetwork = map_option waNetwork w,
          vaWalletKeysetID = map_option waKeysetID w,
          vaWalletPathTemplate = map_option waDerivationPathTemplate w,
          vaWalletNextIndex = map_option waNextIndex w,
          vaWalletIsActive = map_option waIsActive w\<rparr>)"

fun validateCatalogRows ::
  "pg \<Rightarrow> bootstrap_gateway \<Rightarrow> wallet_row list \<Rightarrow> catalog_row list \<Rightarrow> app_error option" where
  "validateCatalogRows pg g wallets [] =
     (case pgFault pg ''validation_rows'' [] of
        Some e \<Rightarrow> Some (invalidConfiguration ''failed while iterating startup validation rows''
          [(''error'', GStr e)])
      | None \<Rightarrow> None)"
| "validateCatalogRows pg g wallets (r # rows) =
     (case pgFault pg ''validation_scan'' (caAsset r) of
        Some e \<Rightarrow> Some (invalidConfiguration ''failed to parse startup validation row''
          [(''error'', GStr e)])
      | None \<Rightarrow>
          (case validateCatalogRow g (validationRowOf wallets r) of
             Some e \<Rightarrow> Some e
           | None \<Rightarrow> validateCatalogRows pg g wallets rows))"

definition databaseOpenFailed :: "bootstrap_gateway \<Rightarrow> app_error" where
  "databaseOpenFailed g =
     NewInternal ''DB_CONNECT_INIT_FAILED'' ''failed to initialize database connection''
       [(''database_target'', GStr (bgDatabaseTarget g))]"

definition ValidateAssetCatalogIntegrity :: "pg \<Rightarrow> bootstrap_gateway \<Rightarrow> db \<Rightarrow> app_error option" where
  "ValidateAssetCatalogIntegrity pg g s =
     (let mode = ToLower (TrimSpace (ruAllocationMode (bgRules g)))
      in case lookup (bgStartupValidators g) mode of
           None \<Rightarrow> Some (invalidConfiguration ''allocation mode is invalid''
             [(''allocation_mode'', GStr (ruAllocationMode (bgRules g)))])
         | Some startupValidator \<Rightarrow>
             (case startupValidator (bgRules g) of
                Some e \<Rightarrow> Some e
              | None \<Rightarrow>
                  if pgFault pg ''open'' [] \<noteq> None then Some (databaseOpenFailed g)
                  else
                    (case pgFault pg ''validation'' [] of
                       Some e \<Rightarrow> Some (invalidConfiguration
                         ''failed to query enabled asset catalog rows during startup validation''
                         [(''error'', GStr e)])
                     | None \<Rightarrow>
                         validateCatalogRows pg g (dbWallets s)
                           (sort_key caChain (sort_key caNetwork (sort_key caAsset
                              (filter caEnabled (dbCatalog s))))))))"

end
