(* ===== verification/WalletSync.thy ===== *)
theory WalletSync
  imports Startup
begin

text \<open>
  The synchronisation of the wallet accounts with the configured keysets when the server starts
  (\<^verbatim>\<open>persistence/postgresql/bootstrap/wallet_sync.go\<close>): one transaction per enabled target
  finds or creates the account of the key, makes it the only active one and binds the catalog to
  it. A transaction runs alone on the store; it takes effect as a whole or not at all. HMAC-SHA256
  is a parameter, and so are the instants the clocks show. Logging is left out.
\<close>

subsection \<open>Targets and hashes\<close>

record sync_target =
  tgChain :: string
  tgNetwork :: string
  tgKeysetID :: string

definition targetKey :: "sync_target \<Rightarrow> string" where
  "targetKey t = tgChain t @ ''|'' @ tgNetwork t @ ''|'' @ tgKeysetID t"

definition targetDetails :: "sync_target \<Rightarrow> details" where
  "targetDetails t =
     [(''chain'', GStr (tgChain t)), (''network'', GStr (tgNetwork t)),
      (''keyset_id'', GStr (tgKeysetID t))]"

record hash_candidate =
  hcHash :: string
  hcSource :: string

record account_ref =
  arID :: string
  arHash :: string

record sync_outcome =
  soAction :: string
  soMatchSource :: string
  soWalletAccountID :: string
  soKeyHash :: string

text \<open>
  The environment: HMAC-SHA256 of \<^verbatim>\<open>crypto/hmac\<close>, the time of the server for each transaction,
  and the two readings of the clock for the identifier of a new account.
\<close>

record sync_env =
  svHMAC :: "string \<Rightarrow> string \<Rightarrow> byte list"
  svNow :: "sync_target \<Rightarrow> time"
  svClock :: "sync_target \<Rightarrow> time \<times> time"

definition computeHMACSHA256 :: "sync_env \<Rightarrow> string \<Rightarrow> string \<Rightarrow> string" where
  "computeHMACSHA256 env secret payload = hex_bytes (svHMAC env secret payload)"

definition hashPrefix :: "string \<Rightarrow> string" where
  "hashPrefix fullHash =
     (let n = ToLower (TrimSpace fullHash) in if length n < 12 then n else take 12 n)"

definition classifyHashMatch :: "string \<Rightarrow> string \<Rightarrow> string list \<Rightarrow> string option" where
  "classifyHashMatch storedHash activeHash legacyHashes =
     (let n = ToLower (TrimSpace storedHash)
      in if n = [] then Some ''unhashed''
         else if n = activeHash then Some ''active''
         else if n \<in> set legacyHashes then Some ''legacy''
         else None)"

text \<open>The legacy hashes: each once, and never the active one.\<close>

definition legacyHashesOf :: "sync_env \<Rightarrow> string list \<Rightarrow> string \<Rightarrow> string \<Rightarrow> string list" where
  "legacyHashesOf env legacySecrets activeHash keyMaterial =
     fold (\<lambda>secret hashes.
             let h = computeHMACSHA256 env secret keyMaterial
             in if h = activeHash \<or> h \<in> set hashes then hashes else hashes @ [h])
       legacySecrets []"

subsection \<open>Identifiers of new accounts\<close>

text \<open>The proleptic Gregorian date of a day counted from 1970-01-01, as year, month and day.\<close>

definition civil_date :: "int \<Rightarrow> int \<times> int \<times> int" where
  "civil_date days =
     (let z = days + 719468; era = z div 146097; doe = z mod 146097;
          yoe = (doe - doe div 1460 + doe div 36524 - doe div 146096) div 365;
          doy = doe - (365 * yoe + yoe div 4 - yoe div 100);
          mp = (5 * doy + 2) div 153;
          m = (if mp < 10 then mp + 3 else mp - 9)
      in (yoe + era * 400 + (if m \<le> 2 then 1 else 0), m, doy - (153 * mp + 2) div 5 + 1))"

definition pad_int :: "nat \<Rightarrow> int \<Rightarrow> string" where
  "pad_int w i = zero_pad w (FormatInt i)"

text \<open>\<^verbatim>\<open>Format("20060102150405")\<close>.\<close>

definition compact_time :: "time \<Rightarrow> string" where
  "compact_time t =
     (let secs = t div second; (y, m, d) = civil_date (secs div 86400); r = secs mod 86400
      in pad_int 4 y @ pad_int 2 m @ pad_int 2 d @ pad_int 2 (r div 3600) @
         pad_int 2 (r div 60 mod 60) @ pad_int 2 (r mod 60))"

definition generateWalletAccountID :: "time \<times> time \<Rightarrow> string \<Rightarrow> string \<Rightarrow> string \<Rightarrow> string" where
  "generateWalletAccountID clock chain network keyHash =
     ''wa_'' @ chain @ ''_'' @ network @ ''_'' @ hashPrefix keyHash @ ''_'' @
     pad_int 6 (snd clock - quot (snd clock) 1000000 * 1000000) @ ''_'' @ compact_time (fst clock)"

subsection \<open>Constraints\<close>

definition hexHash :: "string \<Rightarrow> bool" where
  "hexHash h = (length h = 64 \<and> list_all (\<lambda>c. is_digit c \<or> c \<in> set ''abcdef'') h)"

definition targetOf :: "wallet_row \<Rightarrow> string \<times> string \<times> string" where
  "targetOf w = (waChain w, waNetwork w, waKeysetID w)"

text \<open>
  The constraints of \<^verbatim>\<open>app.wallet_accounts\<close>: identifiers are unique, a target has at most one
  active account, indexes are not negative, and a hash comes in hexadecimal and with its
  algorithm.
\<close>

definition walletsAllowed :: "wallet_row list \<Rightarrow> bool" where
  "walletsAllowed ws =
     (distinct (map waID ws) \<and> distinct (map targetOf (filter waIsActive ws)) \<and>
      list_all (\<lambda>w. 0 \<le> waNextIndex w \<and>
        (waKeyMaterialHash w = None \<and> waKeyMaterialHashAlgo w = None \<or>
         waKeyMaterialHash w \<noteq> None \<and> waKeyMaterialHashAlgo w = Some ''hmac-sha256'') \<and>
        (case waKeyMaterialHash w of None \<Rightarrow> True | Some h \<Rightarrow> hexHash h)) ws)"

definition ofTarget :: "sync_target \<Rightarrow> wallet_row \<Rightarrow> bool" where
  "ofTarget t w = (waChain w = tgChain t \<and> waNetwork w = tgNetwork t \<and> waKeysetID w = tgKeysetID t)"

subsection \<open>Statements of the transaction\<close>

definition syncFailed :: "string \<Rightarrow> details \<Rightarrow> app_error" where
  "syncFailed msg ds = NewInternal ''wallet_account_sync_failed'' msg ds"

text \<open>\<^verbatim>\<open>ORDER BY updated_at DESC, created_at DESC LIMIT 1\<close>.\<close>

definition latestAccount :: "wallet_row list \<Rightarrow> wallet_row option" where
  "latestAccount ws =
     (case sort_key (\<lambda>w. - waUpdatedAt w) (sort_key (\<lambda>w. - waCreatedAt w) ws) of
        [] \<Rightarrow> None | w # _ \<Rightarrow> Some w)"

definition refOf :: "wallet_row \<Rightarrow> account_ref" where
  "refOf w =
     \<lparr>arID = TrimSpace (waID w), arHash = ToLower (TrimSpace (textOf (waKeyMaterialHash w)))\<rparr>"

definition getActiveWalletAccountForUpdate ::
  "pg \<Rightarrow> sync_target \<Rightarrow> wallet_row list \<Rightarrow> account_ref res" where
  "getActiveWalletAccountForUpdate pg t ws =
     (case pgFault pg ''active_account'' (targetKey t) of
        Some e \<Rightarrow> Inl (syncFailed ''failed to query active wallet account'' [(''error'', GStr e)])
      | None \<Rightarrow>
          (case latestAccount (filter (\<lambda>w. ofTarget t w \<and> waIsActive w) ws) of
             None \<Rightarrow> Inr \<lparr>arID = [], arHash = []\<rparr>
           | Some w \<Rightarrow> Inr (refOf w)))"

fun findHistoricalWalletAccountForUpdate ::
  "pg \<Rightarrow> sync_target \<Rightarrow> hash_candidate list \<Rightarrow> wallet_row list \<Rightarrow> (account_ref \<times> string) option res" where
  "findHistoricalWalletAccountForUpdate pg t [] ws = Inr None"
| "findHistoricalWalletAccountForUpdate pg t (c # cs) ws =
     (if hcHash c = [] then findHistoricalWalletAccountForUpdate pg t cs ws
      else
        (case pgFault pg ''historical_account'' (hcHash c) of
           Some e \<Rightarrow>
             Inl (syncFailed ''failed to query historical wallet account'' [(''error'', GStr e)])
         | None \<Rightarrow>
             (case latestAccount (filter (\<lambda>w. ofTarget t w \<and> \<not> waIsActive w \<and>
                     waKeyMaterialHash w = Some (hcHash c)) ws) of
                None \<Rightarrow> findHistoricalWalletAccountForUpdate pg t cs ws
              | Some w \<Rightarrow> Inr (Some (refOf w, hcSource c)))))"

definition deactivateWhere ::
  "(wallet_row \<Rightarrow> bool) \<Rightarrow> time \<Rightarrow> sync_target \<Rightarrow> wallet_row list \<Rightarrow> wallet_row list" where
  "deactivateWhere p now t ws =
     map (\<lambda>w. if ofTarget t w \<and> waIsActive w \<and> p w
              then w\<lparr>waIsActive := False, waUpdatedAt := now\<rparr> else w) ws"

definition deactivateAllActiveWallets ::
  "pg \<Rightarrow> time \<Rightarrow> sync_target \<Rightarrow> wallet_row list \<Rightarrow> wallet_row list res" where
  "deactivateAllActiveWallets pg now t ws =
     (case pgFault pg ''deactivate_all'' (targetKey t) of
        Some e \<Rightarrow> Inl (syncFailed ''failed to deactivate active wallet accounts'' [(''error'', GStr e)])
      | None \<Rightarrow> Inr (deactivateWhere (\<lambda>_. True) now t ws))"

definition deactivateOtherActiveWallets ::
  "pg \<Rightarrow> time \<Rightarrow> sync_target \<Rightarrow> string \<Rightarrow> wallet_row list \<Rightarrow> wallet_row list res" where
  "deactivateOtherActiveWallets pg now t keepID ws =
     (case pgFault pg ''deactivate_others'' (targetKey t) of
        Some e \<Rightarrow>
          Inl (syncFailed ''failed to deactivate stale active wallet accounts'' [(''error'', GStr e)])
      | None \<Rightarrow> Inr (deactivateWhere (\<lambda>w. waID w \<noteq> keepID) now t ws))"

definition upsertWalletAccountHash ::
  "pg \<Rightarrow> time \<Rightarrow> string \<Rightarrow> string \<Rightarrow> string \<Rightarrow> bool \<Rightarrow> wallet_row list \<Rightarrow> wallet_row list res" where
  "upsertWalletAccountHash pg now wid keyHash keyHashAlgo isActive ws =
     (let ws' = map (\<lambda>w. if waID w = wid
                then w\<lparr>waDerivationPathTemplate := ''0/{index}'', waKeyMaterialHash := Some keyHash,
                       waKeyMaterialHashAlgo := Some keyHashAlgo, waIsActive := isActive,
                       waUpdatedAt := now\<rparr>
                else w) ws;
          rows = length (filter (\<lambda>w. waID w = wid) ws);
          failed = (\<lambda>e. Inl (syncFailed ''failed to update wallet account hash''
            [(''error'', GStr e), (''wallet_account_id'', GStr wid)]))
      in case pgFault pg ''update_account'' wid of
           Some e \<Rightarrow> failed e
         | None \<Rightarrow>
             if rows > 0 \<and> \<not> walletsAllowed ws' then failed (pgViolation pg ''wallet_accounts'')
             else
               (case pgFault pg ''update_account_result'' wid of
                  Some e \<Rightarrow> Inl (syncFailed ''failed to read wallet-account hash update result''
                    [(''error'', GStr e), (''wallet_account_id'', GStr wid)])
                | None \<Rightarrow>
                    if rows \<noteq> 1 then
                      Inl (syncFailed ''wallet-account hash update affected unexpected rows''
                        [(''wallet_account_id'', GStr wid), (''rows'', GInt (int rows))])
                    else Inr ws'))"

definition insertWalletAccount ::
  "pg \<Rightarrow> time \<Rightarrow> string \<Rightarrow> sync_target \<Rightarrow> string \<Rightarrow> string \<Rightarrow> wallet_row list \<Rightarrow> wallet_row list res" where
  "insertWalletAccount pg now wid t keyHash keyHashAlgo ws =
     (let ws' = ws @ [\<lparr>waID = wid, waChain = tgChain t, waNetwork = tgNetwork t,
                       waKeysetID = tgKeysetID t, waDerivationPathTemplate = ''0/{index}'',
                       waNextIndex = 0, waIsActive = True, waKeyMaterialHash = Some keyHash,
                       waKeyMaterialHashAlgo = Some keyHashAlgo, waCreatedAt = now,
                       waUpdatedAt = now\<rparr>];
          failed = (\<lambda>e. Inl (syncFailed ''failed to insert rotated wallet account''
            [(''error'', GStr e), (''wallet_account_id'', GStr wid)]))
      in case pgFault pg ''insert_account'' wid of
           Some e \<Rightarrow> failed e
         | None \<Rightarrow>
             if \<not> walletsAllowed ws' then failed (pgViolation pg ''wallet_accounts'') else Inr ws')"

definition boundToTarget :: "sync_target \<Rightarrow> wallet_row list \<Rightarrow> catalog_row \<Rightarrow> bool" where
  "boundToTarget t ws r =
     (caChain r = tgChain t \<and> caNetwork r = tgNetwork t \<and>
      (\<exists>w \<in> set ws. waID w = caWalletAccountID r \<and> waKeysetID w = tgKeysetID t))"

definition bindAssetCatalogWalletAccount ::
  "pg \<Rightarrow> sync_target \<Rightarrow> string \<Rightarrow> wallet_row list \<Rightarrow> catalog_row list \<Rightarrow> catalog_row list res" where
  "bindAssetCatalogWalletAccount pg t wid ws rows =
     (let failed = (\<lambda>e. Inl (syncFailed ''failed to bind asset catalog wallet account''
            [(''error'', GStr e), (''wallet_account_id'', GStr wid)]))
      in case pgFault pg ''bind_catalog'' wid of
           Some e \<Rightarrow> failed e
         | None \<Rightarrow>
             if \<not> list_ex (boundToTarget t ws) rows then
               Inl (invalidConfiguration ''no asset catalog row found for wallet sync target''
                 (targetDetails t))
             else if \<not> list_ex (\<lambda>w. waID w = wid) ws then
               failed (pgViolation pg ''asset_catalog_wallet_account_id_fkey'')
             else
               Inr (map (\<lambda>r. if boundToTarget t ws r then r\<lparr>caWalletAccountID := wid\<rparr> else r) rows))"

definition syncEventAllowed :: "wallet_row list \<Rightarrow> sync_event_row \<Rightarrow> bool" where
  "syncEventAllowed ws e =
     (list_ex (\<lambda>w. waID w = seWalletAccountID e) ws \<and>
      seAction e \<in> {''reused'', ''reactivated'', ''rotated''} \<and>
      seMatchSource e \<in> {''active'', ''legacy'', ''unhashed''} \<and>
      seKeyMaterialHashAlgo e = ''hmac-sha256'' \<and> hexHash (seKeyMaterialHash e))"

text \<open>The details hold texts only and always encode.\<close>

definition insertWalletSyncEvent ::
  "pg \<Rightarrow> wallet_row list \<Rightarrow> sync_event_row \<Rightarrow> sync_event_row list \<Rightarrow> sync_event_row list res" where
  "insertWalletSyncEvent pg ws e events =
     (let failed = (\<lambda>err. Inl (syncFailed ''failed to insert wallet-account sync event''
            [(''error'', GStr err)]))
      in case pgFault pg ''insert_sync_event'' (seWalletAccountID e) of
           Some err \<Rightarrow> failed err
         | None \<Rightarrow>
             if \<not> syncEventAllowed ws e then failed (pgViolation pg ''wallet_account_sync_events'')
             else Inr (events @ [e]))"

subsection \<open>One target\<close>

record selection =
  slAccountID :: string
  slAction :: string
  slMatchSource :: string
  slFrom :: string
  slWallets :: "wallet_row list"

text \<open>
  The account of the key: the active one if its hash matches or it has none, else a former one
  with one of the hashes, else a new one.
\<close>

definition selectAccount ::
  "pg \<Rightarrow> sync_env \<Rightarrow> sync_target \<Rightarrow> string \<Rightarrow> string \<Rightarrow> string list \<Rightarrow> account_ref \<Rightarrow> wallet_row list \<Rightarrow>
   selection res" where
  "selectAccount pg env t algo activeHash legacyHashes activeRef ws =
     (let now = svNow env t;
          candidates = \<lparr>hcHash = activeHash, hcSource = ''active''\<rparr> #
            map (\<lambda>h. \<lparr>hcHash = h, hcSource = ''legacy''\<rparr>) legacyHashes;
          source = (if arID activeRef = [] then None
                    else classifyHashMatch (arHash activeRef) activeHash legacyHashes)
      in case source of
           Some source \<Rightarrow>
             (case upsertWalletAccountHash pg now (arID activeRef) activeHash algo True ws of
                Inl e \<Rightarrow> Inl e
              | Inr ws1 \<Rightarrow>
                  (case deactivateOtherActiveWallets pg now t (arID activeRef) ws1 of
                     Inl e \<Rightarrow> Inl e
                   | Inr ws2 \<Rightarrow>
                       Inr \<lparr>slAccountID = arID activeRef, slAction = ''reused'',
                            slMatchSource = source, slFrom = ''active'', slWallets = ws2\<rparr>))
         | None \<Rightarrow>
             (case findHistoricalWalletAccountForUpdate pg t candidates ws of
                Inl e \<Rightarrow> Inl e
              | Inr (Some (ref, source)) \<Rightarrow>
                  (case deactivateAllActiveWallets pg now t ws of
                     Inl e \<Rightarrow> Inl e
                   | Inr ws1 \<Rightarrow>
                       (case upsertWalletAccountHash pg now (arID ref) activeHash algo True ws1 of
                          Inl e \<Rightarrow> Inl e
                        | Inr ws2 \<Rightarrow>
                            Inr \<lparr>slAccountID = arID ref, slAction = ''reactivated'',
                                 slMatchSource = source, slFrom = ''historical'',
                                 slWallets = ws2\<rparr>))
              | Inr None \<Rightarrow>
                  (case deactivateAllActiveWallets pg now t ws of
                     Inl e \<Rightarrow> Inl e
                   | Inr ws1 \<Rightarrow>
                       (let wid = generateWalletAccountID (svClock env t) (tgChain t) (tgNetwork t)
                              activeHash
                        in case insertWalletAccount pg now wid t activeHash algo ws1 of
                             Inl e \<Rightarrow> Inl e
                           | Inr ws2 \<Rightarrow>
                               Inr \<lparr>slAccountID = wid, slAction = ''rotated'',
                                    slMatchSource = ''active'', slFrom = ''new'',
                                    slWallets = ws2\<rparr>))))"

definition syncWalletAccountTarget ::
  "pg \<Rightarrow> sync_env \<Rightarrow> sync_target \<Rightarrow> string \<Rightarrow> string \<Rightarrow> string \<Rightarrow> string list \<Rightarrow> db \<Rightarrow>
   sync_outcome res \<times> db" where
  "syncWalletAccountTarget pg env t keyMaterial algo activeSecret legacySecrets s =
     (let activeHash = computeHMACSHA256 env activeSecret keyMaterial;
          legacyHashes = legacyHashesOf env legacySecrets activeHash keyMaterial
      in case pgFault pg ''begin'' (targetKey t) of
           Some e \<Rightarrow> (Inl (syncFailed ''failed to begin wallet-account sync transaction''
             [(''error'', GStr e)]), s)
         | None \<Rightarrow>
             (case getActiveWalletAccountForUpdate pg t (dbWallets s) of
                Inl e \<Rightarrow> (Inl e, s)
              | Inr activeRef \<Rightarrow>
             (case selectAccount pg env t algo activeHash legacyHashes activeRef (dbWallets s) of
                Inl e \<Rightarrow> (Inl e, s)
              | Inr sel \<Rightarrow>
             (case bindAssetCatalogWalletAccount pg t (slAccountID sel) (slWallets sel) (dbCatalog s) of
                Inl e \<Rightarrow> (Inl e, s)
              | Inr catalog \<Rightarrow>
             (case insertWalletSyncEvent pg (slWallets sel)
                     \<lparr>seChain = tgChain t, seNetwork = tgNetwork t, seKeysetID = tgKeysetID t,
                      seWalletAccountID = slAccountID sel, seAction = slAction sel,
                      seMatchSource = slMatchSource sel, seKeyMaterialHash = activeHash,
                      seKeyMaterialHashAlgo = algo,
                      seDetails =
                        (if arID activeRef = [] then []
                         else [(''previous_active_wallet_account_id'', GStr (arID activeRef))]) @
                        [(''selected_from'', GStr (slFrom sel)),
                         (''hash_prefix'', GStr (hashPrefix activeHash))]\<rparr>
                     (dbSyncEvents s) of
                Inl e \<Rightarrow> (Inl e, s)
              | Inr events \<Rightarrow>
             (case pgFault pg ''commit'' (targetKey t) of
                Some e \<Rightarrow> (Inl (syncFailed ''failed to commit wallet-account sync transaction''
                  [(''error'', GStr e)]), s)
              | None \<Rightarrow>
                  (Inr \<lparr>soAction = slAction sel, soMatchSource = slMatchSource sel,
                        soWalletAccountID = slAccountID sel, soKeyHash = activeHash\<rparr>,
                   s\<lparr>dbWallets := slWallets sel, dbCatalog := catalog, dbSyncEvents := events\<rparr>)))))))"

subsection \<open>All targets\<close>

definition verifyIndexZeroPreflight ::
  "hashes \<Rightarrow> startup_rules \<Rightarrow> sync_target \<Rightarrow> string \<Rightarrow> string \<Rightarrow> app_error option" where
  "verifyIndexZeroPreflight h g t rawKey expectedAddress =
     (case lookup (ruDevtestKeyNormalizers g) (tgChain t) of
        None \<Rightarrow> Some (invalidConfiguration ''unsupported chain for keyset preflight'' (targetDetails t))
      | Some normalizer \<Rightarrow>
          (case accountKey (normalizer rawKey) of
             Inl e \<Rightarrow> Some (mapWalletKeyError e (targetDetails t))
           | Inr key \<Rightarrow>
               (let compare = (\<lambda>derived.
                      case derived of
                        Inl e \<Rightarrow> Some (mapWalletKeyError e (targetDetails t))
                      | Inr derivedAddress \<Rightarrow>
                          (let normalizedExpected = ToLower (TrimSpace expectedAddress);
                               normalizedDerived = ToLower (TrimSpace derivedAddress)
                           in if normalizedExpected \<noteq> normalizedDerived then
                                Some (invalidConfiguration ''devtest keyset preflight mismatch''
                                  (targetDetails t @
                                   [(''expected_address'', GStr normalizedExpected),
                                    (''derived_address'', GStr normalizedDerived)]))
                              else None))
                in if tgChain t = ''bitcoin'' then
                     compare (DeriveBitcoinP2WPKHAddress h key (tgNetwork t) ''0/{index}'' 0)
                   else if tgChain t = ''ethereum'' then
                     (if tgNetwork t \<noteq> ''sepolia'' \<and> tgNetwork t \<noteq> ''local'' \<and>
                         tgNetwork t \<noteq> ''mainnet'' then
                        Some (invalidConfiguration
                          ''unsupported ethereum network for keyset preflight''
                          [(''network'', GStr (tgNetwork t)), (''keyset_id'', GStr (tgKeysetID t))])
                      else compare (DeriveEVMAddress h key ''0/{index}'' 0))
                   else Some (invalidConfiguration ''unsupported chain for keyset preflight''
                     (targetDetails t)))))"

text \<open>The distinct targets of the enabled catalog, as the columns hold them, in order.\<close>

definition enabledTargets :: "db \<Rightarrow> sync_target list" where
  "enabledTargets s =
     sort_key tgChain (sort_key tgNetwork (sort_key tgKeysetID (remdups
       (concat (map (\<lambda>r. map (\<lambda>w. \<lparr>tgChain = caChain r, tgNetwork = caNetwork r,
                                   tgKeysetID = waKeysetID w\<rparr>)
                             (filter (\<lambda>w. waID w = caWalletAccountID r) (dbWallets s)))
          (filter caEnabled (dbCatalog s)))))))"

definition normalizeTarget :: "sync_target \<Rightarrow> sync_target" where
  "normalizeTarget t =
     \<lparr>tgChain = ToLower (TrimSpace (tgChain t)), tgNetwork = ToLower (TrimSpace (tgNetwork t)),
      tgKeysetID = TrimSpace (tgKeysetID t)\<rparr>"

fun scanTargets :: "pg \<Rightarrow> sync_target list \<Rightarrow> sync_target list \<Rightarrow> sync_target list res" where
  "scanTargets pg [] targets =
     (case pgFault pg ''sync_targets_rows'' [] of
        Some e \<Rightarrow> Inl (invalidConfiguration ''failed while iterating wallet sync target rows''
          [(''error'', GStr e)])
      | None \<Rightarrow> Inr targets)"
| "scanTargets pg (row # rows) targets =
     (case pgFault pg ''sync_targets_scan'' (targetKey row) of
        Some e \<Rightarrow> Inl (invalidConfiguration ''failed to parse wallet sync target row''
          [(''error'', GStr e)])
      | None \<Rightarrow>
          (let target = normalizeTarget row
           in if tgChain target = [] \<or> tgNetwork target = [] \<or> tgKeysetID target = [] then
                Inl (invalidConfiguration ''wallet sync target row is missing chain/network/keyset_id''
                  (targetDetails target))
              else scanTargets pg rows (targets @ [target])))"

definition loadEnabledCatalogSyncTargets :: "pg \<Rightarrow> db \<Rightarrow> sync_target list res" where
  "loadEnabledCatalogSyncTargets pg s =
     (case pgFault pg ''sync_targets'' [] of
        Some e \<Rightarrow> Inl (invalidConfiguration ''failed to query enabled wallet sync targets''
          [(''error'', GStr e)])
      | None \<Rightarrow> scanTargets pg (enabledTargets s) [])"

text \<open>The checks of a target before its transaction: the key material, or the error.\<close>

definition preflightTarget ::
  "hashes \<Rightarrow> startup_rules \<Rightarrow> (string \<times> preflight_entry) list \<Rightarrow> sync_target \<Rightarrow> string res" where
  "preflightTarget h g preflights t =
     (case lookup (ruDevtestKeysets g) (tgKeysetID t) of
        None \<Rightarrow> Inl (invalidConfiguration ''devtest keyset is missing for startup wallet sync''
          (targetDetails t))
      | Some keyMaterial \<Rightarrow>
          if TrimSpace keyMaterial = [] then
            Inl (invalidConfiguration ''devtest keyset is missing for startup wallet sync''
              (targetDetails t))
          else
            (case lookup preflights (targetKey t) of
               None \<Rightarrow> Inl (invalidConfiguration ''missing preflight entry for enabled wallet target''
                 (targetDetails t))
             | Some entry \<Rightarrow>
                 if peExtendedPublicKey entry \<noteq> TrimSpace keyMaterial then
                   Inl (invalidConfiguration ''preflight key material does not match keyset_id value''
                     (targetDetails t))
                 else
                   (case verifyIndexZeroPreflight h g t keyMaterial (peExpectedIndex0Address entry) of
                      Some e \<Rightarrow> Inl e
                    | None \<Rightarrow> Inr keyMaterial)))"

fun syncTargets ::
  "hashes \<Rightarrow> pg \<Rightarrow> sync_env \<Rightarrow> startup_rules \<Rightarrow> (string \<times> preflight_entry) list \<Rightarrow> string \<Rightarrow> string \<Rightarrow>
   sync_target list \<Rightarrow> db \<Rightarrow> app_error option \<times> db" where
  "syncTargets h pg env g preflights algo activeSecret [] s = (None, s)"
| "syncTargets h pg env g preflights algo activeSecret (t # ts) s =
     (case preflightTarget h g preflights t of
        Inl e \<Rightarrow> (Some e, s)
      | Inr keyMaterial \<Rightarrow>
          (case syncWalletAccountTarget pg env t keyMaterial algo activeSecret
                  (ruKeysetHashHMACLegacy g) s of
             (Inl e, s') \<Rightarrow> (Some e, s')
           | (Inr outcome, s') \<Rightarrow> syncTargets h pg env g preflights algo activeSecret ts s'))"

definition preflightsByTarget :: "preflight_entry list \<Rightarrow> (string \<times> preflight_entry) list" where
  "preflightsByTarget entries =
     fold (\<lambda>e m. assoc_put (peChain e @ ''|'' @ peNetwork e @ ''|'' @ peKeysetID e) e m)
       (filter completePreflightEntry (map normalizePreflightEntry entries)) []"

definition syncDevtestWalletAllocationState ::
  "hashes \<Rightarrow> pg \<Rightarrow> sync_env \<Rightarrow> bootstrap_gateway \<Rightarrow> db \<Rightarrow> app_error option \<times> db" where
  "syncDevtestWalletAllocationState h pg env bg s =
     (let g = bgRules bg;
          rawAlgo = ToLower (TrimSpace (ruKeysetHashAlgorithm g));
          algo = (if rawAlgo = [] then ''hmac-sha256'' else rawAlgo);
          activeSecret = TrimSpace (ruKeysetHashHMACSecret g);
          preflights = preflightsByTarget (ruDevtestKeysetPreflight g)
      in if algo \<noteq> ''hmac-sha256'' then
           (Some (invalidConfiguration ''unsupported keyset hash algorithm''
              [(''key_material_hash_algo'', GStr algo)]), s)
         else if activeSecret = [] then
           (Some (invalidConfiguration
              ''missing keyset hash hmac secret for startup wallet sync'' []), s)
         else if preflights = [] then
           (Some (invalidConfiguration
              ''devtest startup preflight requires nested keyset entries with expected_index0_address''
              []), s)
         else if pgFault pg ''open'' [] \<noteq> None then (Some (databaseOpenFailed bg), s)
         else
           (case loadEnabledCatalogSyncTargets pg s of
              Inl e \<Rightarrow> (Some e, s)
            | Inr targets \<Rightarrow> syncTargets h pg env g preflights algo activeSecret targets s))"

definition SyncWalletAllocationState ::
  "hashes \<Rightarrow> pg \<Rightarrow> sync_env \<Rightarrow> bootstrap_gateway \<Rightarrow> db \<Rightarrow> app_error option \<times> db" where
  "SyncWalletAllocationState h pg env bg s =
     (let mode = ToLower (TrimSpace (ruAllocationMode (bgRules bg)))
      in if mode = ''devtest'' then syncDevtestWalletAllocationState h pg env bg s
         else if mode = ''prod'' then (Some allocationNotImplemented, s)
         else (Some (invalidConfiguration ''allocation mode is invalid''
                 [(''allocation_mode'', GStr (ruAllocationMode (bgRules bg)))]), s))"

end
