(* ===== verification/WalletSyncLemmas.thy ===== *)
theory WalletSyncLemmas
  imports WalletSync
begin

text \<open>
  What the synchronisation does to the accounts: it keeps every account with its target and its
  next index, and it leaves the account of the key as the only active one of its target.
\<close>

subsection \<open>Accounts are kept\<close>

definition identityOf :: "wallet_row \<Rightarrow> string \<times> (string \<times> string \<times> string) \<times> int \<times> time" where
  "identityOf w = (waID w, targetOf w, waNextIndex w, waCreatedAt w)"

text \<open>Every account stays as it is, but for its hash and its activity; new ones start at 0.\<close>

definition accountsKept :: "wallet_row list \<Rightarrow> wallet_row list \<Rightarrow> bool" where
  "accountsKept ws ws' =
     (\<exists>new. map identityOf ws' = map identityOf ws @ map identityOf new \<and>
        (\<forall>w \<in> set new. waNextIndex w = 0))"

lemma accountsKeptI: "map identityOf ws' = map identityOf ws \<Longrightarrow> accountsKept ws ws'"
  by (auto simp: accountsKept_def intro: exI [of _ "[]"])

lemma accountsKept_refl [simp, intro]: "accountsKept ws ws"
  by (simp add: accountsKeptI)

lemma accountsKept_trans [trans]:
  assumes "accountsKept a b" and "accountsKept b c"
  shows "accountsKept a c"
proof -
  obtain x y where x: "map identityOf b = map identityOf a @ map identityOf x"
      "\<forall>w \<in> set x. waNextIndex w = 0"
    and y: "map identityOf c = map identityOf b @ map identityOf y" "\<forall>w \<in> set y. waNextIndex w = 0"
    using assms unfolding accountsKept_def by blast
  then have "map identityOf c = map identityOf a @ map identityOf (x @ y)" by simp
  with x(2) y(2) show ?thesis unfolding accountsKept_def by (metis UnE set_append)
qed

lemma identity_if [simp]:
  "map identityOf (map (\<lambda>w. if P w then f w else w) ws) = map identityOf ws"
  if "\<And>w. identityOf (f w) = identityOf w" for f
  by (induction ws) (simp_all add: that)

lemma identity_deactivate [simp]: "map identityOf (deactivateWhere p now t ws) = map identityOf ws"
  unfolding deactivateWhere_def by (rule identity_if) (simp add: identityOf_def targetOf_def)

lemma identity_deactivateAll:
  "deactivateAllActiveWallets pg now t ws = Inr ws' \<Longrightarrow> map identityOf ws' = map identityOf ws"
  by (auto simp: deactivateAllActiveWallets_def split: option.splits)

lemma identity_deactivateOther:
  "deactivateOtherActiveWallets pg now t k ws = Inr ws' \<Longrightarrow> map identityOf ws' = map identityOf ws"
  by (auto simp: deactivateOtherActiveWallets_def split: option.splits)

text \<open>What an update of the hash does when it succeeds.\<close>

definition setHash :: "time \<Rightarrow> string \<Rightarrow> string \<Rightarrow> wallet_row \<Rightarrow> wallet_row" where
  "setHash now keyHash algo w =
     w\<lparr>waDerivationPathTemplate := ''0/{index}'', waKeyMaterialHash := Some keyHash,
       waKeyMaterialHashAlgo := Some algo, waIsActive := True, waUpdatedAt := now\<rparr>"

lemma setHash_identity [simp]: "identityOf (setHash now h a w) = identityOf w"
  by (simp add: setHash_def identityOf_def targetOf_def)

lemma upsert_True:
  "upsertWalletAccountHash pg now wid keyHash keyHashAlgo True ws =
     (let ws' = map (\<lambda>w. if waID w = wid then setHash now keyHash keyHashAlgo w else w) ws;
          rows = length (filter (\<lambda>w. waID w = wid) ws);
          failed = (\<lambda>e. Inl (syncFailed ''failed to update wallet account hash''
            [(''error'', GStr e), (''wallet_account_id'', GStr wid)]))
      in case pgFault pg ''update_account'' wid of
           Some e \<Rightarrow> failed e
         | None \<Rightarrow>
             if rows > 0 \<and> \<not> walletsAllowed ws' then failed (pgViolation pg ''wallet_accounts'')
             else
               (case pgFault pg ''update_account_result'' wid of
                  Some e \<Rightarrow> Inl (syncFailed ''failed to read wallet-account hash update result''
                    [(''error'', GStr e), (''wallet_account_id'', GStr wid)])
                | None \<Rightarrow>
                    if rows \<noteq> 1 then
                      Inl (syncFailed ''wallet-account hash update affected unexpected rows''
                        [(''wallet_account_id'', GStr wid), (''rows'', GInt (int rows))])
                    else Inr ws'))"
  unfolding upsertWalletAccountHash_def setHash_def ..

lemma upsert_Inr:
  assumes "upsertWalletAccountHash pg now wid h algo True ws = Inr ws'"
  shows "ws' = map (\<lambda>w. if waID w = wid then setHash now h algo w else w) ws"
    and "walletsAllowed ws'" and "length (filter (\<lambda>w. waID w = wid) ws) = 1"
  using assms
  by (auto simp: upsert_True Let_def split: option.splits if_splits)

lemma identity_upsert:
  "upsertWalletAccountHash pg now wid h algo True ws = Inr ws' \<Longrightarrow>
   map identityOf ws' = map identityOf ws"
  by (drule upsert_Inr(1)) (simp del: map_map)

lemma insert_Inr:
  assumes "insertWalletAccount pg now wid t h algo ws = Inr ws'"
  shows "\<exists>w. ws' = ws @ [w] \<and> waID w = wid \<and> ofTarget t w \<and> waNextIndex w = 0 \<and> waIsActive w \<and>
      waKeyMaterialHash w = Some h \<and> waKeyMaterialHashAlgo w = Some algo \<and>
      waDerivationPathTemplate w = ''0/{index}''"
    and "walletsAllowed ws'"
  using assms
  by (auto simp: insertWalletAccount_def Let_def ofTarget_def split: option.splits if_splits)

definition candidatesOf :: "string \<Rightarrow> string list \<Rightarrow> hash_candidate list" where
  "candidatesOf h hs = \<lparr>hcHash = h, hcSource = ''active''\<rparr> #
     map (\<lambda>h. \<lparr>hcHash = h, hcSource = ''legacy''\<rparr>) hs"

text \<open>The three ways in which an account is selected.\<close>

lemma selectAccount_cases [consumes 1, case_names reused reactivated rotated]:
  assumes "selectAccount pg env t algo h hs ref ws = Inr sel"
  obtains (reused) source ws1 where "arID ref \<noteq> []"
      "classifyHashMatch (arHash ref) h hs = Some source"
      "upsertWalletAccountHash pg (svNow env t) (arID ref) h algo True ws = Inr ws1"
      "deactivateOtherActiveWallets pg (svNow env t) t (arID ref) ws1 = Inr (slWallets sel)"
      "slAccountID sel = arID ref" "slAction sel = ''reused''" "slMatchSource sel = source"
  | (reactivated) href source ws1 where
      "arID ref = [] \<or> classifyHashMatch (arHash ref) h hs = None"
      "findHistoricalWalletAccountForUpdate pg t (candidatesOf h hs) ws = Inr (Some (href, source))"
      "deactivateAllActiveWallets pg (svNow env t) t ws = Inr ws1"
      "upsertWalletAccountHash pg (svNow env t) (arID href) h algo True ws1 = Inr (slWallets sel)"
      "slAccountID sel = arID href" "slAction sel = ''reactivated''" "slMatchSource sel = source"
  | (rotated) ws1 where
      "arID ref = [] \<or> classifyHashMatch (arHash ref) h hs = None"
      "findHistoricalWalletAccountForUpdate pg t (candidatesOf h hs) ws = Inr None"
      "deactivateAllActiveWallets pg (svNow env t) t ws = Inr ws1"
      "insertWalletAccount pg (svNow env t) (slAccountID sel) t h algo ws1 = Inr (slWallets sel)"
      "slAction sel = ''rotated''" "slMatchSource sel = ''active''"
proof (cases "if arID ref = [] then None else classifyHashMatch (arHash ref) h hs")
  case (Some source)
  then have n: "arID ref \<noteq> []" "classifyHashMatch (arHash ref) h hs = Some source"
    by (auto split: if_splits)
  note def = assms [unfolded selectAccount_def Let_def Some option.case]
  from def obtain ws1 where
      ws1: "upsertWalletAccountHash pg (svNow env t) (arID ref) h algo True ws = Inr ws1"
    by (auto split: sum.splits)
  from def n ws1 show thesis by (intro reused [OF n ws1]) (auto split: sum.splits)
next
  case None
  then have n: "arID ref = [] \<or> classifyHashMatch (arHash ref) h hs = None"
    by (auto split: if_splits)
  note def = assms [unfolded selectAccount_def Let_def None option.case
      candidatesOf_def [symmetric]]
  from def obtain found where found:
      "findHistoricalWalletAccountForUpdate pg t (candidatesOf h hs) ws = Inr found"
    by (auto split: sum.splits)
  from def obtain ws1 where ws1: "deactivateAllActiveWallets pg (svNow env t) t ws = Inr ws1"
    by (auto split: sum.splits option.splits)
  show thesis
  proof (cases found)
    case None
    with def found ws1 n show thesis by (intro rotated) (auto split: sum.splits)
  next
    case (Some hf)
    obtain href source where hf: "hf = (href, source)" by force
    show thesis
      using def found ws1 n unfolding Some hf
      by (intro reactivated [of href source ws1]) (auto split: sum.splits)
  qed
qed

lemma select_kept:
  assumes "selectAccount pg env t algo h hs ref ws = Inr sel"
  shows "accountsKept ws (slWallets sel)"
  using assms
proof (cases rule: selectAccount_cases)
  case (reused source ws1)
  show ?thesis
    using identity_upsert [OF reused(3)] identity_deactivateOther [OF reused(4)]
    by (simp add: accountsKeptI)
next
  case (reactivated href source ws1)
  show ?thesis
    using identity_deactivateAll [OF reactivated(3)] identity_upsert [OF reactivated(4)]
    by (simp add: accountsKeptI)
next
  case (rotated ws1)
  obtain w where "slWallets sel = ws1 @ [w]" "waNextIndex w = 0"
    using insert_Inr(1) [OF rotated(4)] by blast
  then show ?thesis
    using identity_deactivateAll [OF rotated(3)]
    unfolding accountsKept_def by (intro exI [of _ "[w]"]) simp
qed

lemma syncTarget_kept:
  assumes "syncWalletAccountTarget pg env t k algo sec leg s = (r, s')"
  shows "accountsKept (dbWallets s) (dbWallets s')"
    and "dbRequests s' = dbRequests s" and "dbIdempotency s' = dbIdempotency s"
    and "dbSettlements s' = dbSettlements s" and "dbOutbox s' = dbOutbox s"
    and "is_ok r \<or> s' = s"
  using assms
  by (auto simp: syncWalletAccountTarget_def Let_def intro: select_kept
      split: option.splits sum.splits)

lemma syncTargets_kept:
  assumes "syncTargets h pg env g pre algo sec ts s = (r, s')"
  shows "accountsKept (dbWallets s) (dbWallets s') \<and> dbRequests s' = dbRequests s \<and>
    dbIdempotency s' = dbIdempotency s \<and> dbSettlements s' = dbSettlements s \<and>
    dbOutbox s' = dbOutbox s"
  using assms
proof (induction ts arbitrary: s)
  case (Cons t ts)
  show ?case
  proof (cases "preflightTarget h g pre t")
    case (Inl e)
    with Cons.prems show ?thesis by simp
  next
    case (Inr k)
    obtain q s1 where q: "syncWalletAccountTarget pg env t k algo sec (ruKeysetHashHMACLegacy g) s = (q, s1)"
      by force
    note kept = syncTarget_kept [OF q]
    show ?thesis
    proof (cases q)
      case (Inl e)
      with Cons.prems q Inr kept show ?thesis by simp
    next
      case Inr2: (Inr out)
      with Cons.prems q Inr have "syncTargets h pg env g pre algo sec ts s1 = (r, s')" by simp
      from Cons.IH [OF this] kept show ?thesis using accountsKept_trans by metis
    qed
  qed
qed simp

lemma sync_kept:
  assumes "SyncWalletAllocationState h pg env bg s = (r, s')"
  shows "accountsKept (dbWallets s) (dbWallets s') \<and> dbRequests s' = dbRequests s \<and>
    dbIdempotency s' = dbIdempotency s \<and> dbSettlements s' = dbSettlements s \<and>
    dbOutbox s' = dbOutbox s"
  using assms
  by (auto simp: SyncWalletAllocationState_def syncDevtestWalletAllocationState_def Let_def
      split: if_splits sum.splits dest!: syncTargets_kept)

subsection \<open>The account of the key\<close>

text \<open>Identifiers without surrounding white space, as the code and the migrations write them.\<close>

definition cleanIDs :: "wallet_row list \<Rightarrow> bool" where
  "cleanIDs ws = list_all (\<lambda>w. waID w \<noteq> [] \<and> TrimSpace (waID w) = waID w) ws"

lemma latestAccount_in: "latestAccount ws = Some w \<Longrightarrow> w \<in> set ws"
  unfolding latestAccount_def
  by (metis (no_types, lifting) list.case_eq_if list.set_sel(1) option.inject option.simps(3) set_sort)

lemma latestAccount_None: "latestAccount ws = None \<longleftrightarrow> ws = []"
  unfolding latestAccount_def
  by (metis (no_types, lifting) list.case_eq_if length_0_conv length_sort option.simps(3))

lemma active_unique:
  assumes "walletsAllowed ws" and "v \<in> set ws" and "w \<in> set ws" and "waIsActive v" and "waIsActive w"
    and "targetOf v = targetOf w"
  shows "v = w"
proof -
  have "inj_on targetOf (set (filter waIsActive ws))"
    using assms(1) by (simp add: walletsAllowed_def distinct_map)
  then show ?thesis using assms by (auto dest: inj_onD)
qed

lemma id_unique:
  "walletsAllowed ws \<Longrightarrow> v \<in> set ws \<Longrightarrow> w \<in> set ws \<Longrightarrow> waID v = waID w \<Longrightarrow> v = w"
  by (auto simp: walletsAllowed_def distinct_map dest: inj_onD)

lemma ofTarget_targetOf: "ofTarget t w \<longleftrightarrow> targetOf w = (tgChain t, tgNetwork t, tgKeysetID t)"
  by (auto simp: ofTarget_def targetOf_def)

lemma ofTarget_setHash [simp]: "ofTarget t (setHash now h a w) = ofTarget t w"
  by (simp add: ofTarget_def setHash_def)

text \<open>The account that is active for a target, given that there is one.\<close>

lemma activeRef_of:
  assumes "walletsAllowed ws" and "w \<in> set ws" and "ofTarget t w" and "waIsActive w"
    and "pgFault pg ''active_account'' (targetKey t) = None"
  shows "getActiveWalletAccountForUpdate pg t ws = Inr (refOf w)"
proof -
  let ?f = "filter (\<lambda>w. ofTarget t w \<and> waIsActive w) ws"
  have "?f \<noteq> []" using assms(2-4) by (auto simp: filter_empty_conv)
  then obtain v where v: "latestAccount ?f = Some v" using latestAccount_None by blast
  then have "v \<in> set ?f" by (rule latestAccount_in)
  then have "v = w"
    using active_unique [OF assms(1) _ assms(2) _ assms(4)] assms(3) by (auto simp: ofTarget_targetOf)
  with v assms(5) show ?thesis by (simp add: getActiveWalletAccountForUpdate_def)
qed

lemma activeRef_from:
  assumes "getActiveWalletAccountForUpdate pg t ws = Inr ref" and "arID ref \<noteq> []"
  obtains w where "w \<in> set ws" and "ofTarget t w" and "waIsActive w" and "ref = refOf w"
  using assms latestAccount_in
  by (fastforce simp: getActiveWalletAccountForUpdate_def split: option.splits)

lemma findHistorical_in:
  "findHistoricalWalletAccountForUpdate pg t cs ws = Inr (Some (ref, source)) \<Longrightarrow>
   \<exists>w \<in> set ws. ofTarget t w \<and> \<not> waIsActive w \<and> ref = refOf w"
proof (induction cs)
  case (Cons c cs)
  then show ?case
    by (auto split: if_splits option.splits dest!: latestAccount_in)
qed simp

lemma findHistorical_None:
  "findHistoricalWalletAccountForUpdate pg t cs ws = Inr None \<Longrightarrow> c \<in> set cs \<Longrightarrow> hcHash c \<noteq> [] \<Longrightarrow>
   w \<in> set ws \<Longrightarrow> ofTarget t w \<Longrightarrow> \<not> waIsActive w \<Longrightarrow> waKeyMaterialHash w \<noteq> Some (hcHash c)"
proof (induction cs)
  case (Cons d cs)
  then show ?case
    by (auto split: if_splits option.splits simp: latestAccount_None filter_empty_conv)
qed simp

lemma deactivateOther_id:
  assumes "walletsAllowed ws" and "w \<in> set ws" and "ofTarget t w" and "waIsActive w"
  shows "deactivateWhere (\<lambda>v. waID v \<noteq> waID w) now t ws = ws"
  unfolding deactivateWhere_def
proof (rule map_idI)
  fix v assume v: "v \<in> set ws"
  have "v = w" if "ofTarget t v" "waIsActive v"
    using active_unique [OF assms(1) v assms(2) that(2) assms(4)] that(1) assms(3)
    by (simp add: ofTarget_targetOf)
  then show "(if ofTarget t v \<and> waIsActive v \<and> waID v \<noteq> waID w
      then v\<lparr>waIsActive := False, waUpdatedAt := now\<rparr> else v) = v" by auto
qed

lemma refOf_clean: "cleanIDs ws \<Longrightarrow> w \<in> set ws \<Longrightarrow> arID (refOf w) = waID w \<and> waID w \<noteq> []"
  by (auto simp: refOf_def cleanIDs_def list_all_iff)

text \<open>The selected account carries the hash of the key and is active for the target.\<close>

definition holdsKey :: "sync_target \<Rightarrow> string \<Rightarrow> string \<Rightarrow> wallet_row \<Rightarrow> bool" where
  "holdsKey t h algo w =
     (ofTarget t w \<and> waIsActive w \<and> waKeyMaterialHash w = Some h \<and>
      waKeyMaterialHashAlgo w = Some algo \<and> waDerivationPathTemplate w = ''0/{index}'')"

lemma setHash_holdsKey: "ofTarget t w \<Longrightarrow> holdsKey t h algo (setHash now h algo w)"
  by (auto simp: holdsKey_def) (auto simp: setHash_def)

lemma select_holds:
  assumes "selectAccount pg env t algo h hs ref ws = Inr sel" and "walletsAllowed ws" and "cleanIDs ws"
    and "getActiveWalletAccountForUpdate pg t ws = Inr ref"
  shows "walletsAllowed (slWallets sel) \<and>
    (\<exists>w \<in> set (slWallets sel). waID w = slAccountID sel \<and> holdsKey t h algo w)"
  using assms(1)
proof (cases rule: selectAccount_cases)
  case (reused source ws1)
  obtain w where w: "w \<in> set ws" "ofTarget t w" "waIsActive w" "ref = refOf w"
    using activeRef_from [OF assms(4) reused(1)] .
  have wid: "arID ref = waID w" using refOf_clean [OF assms(3) w(1)] w(4) by simp
  let ?w = "setHash (svNow env t) h algo w"
  have ws1: "?w \<in> set ws1" "walletsAllowed ws1"
    using upsert_Inr(1,2) [OF reused(3)] w(1) wid by force+
  have key: "holdsKey t h algo ?w" using setHash_holdsKey w(2) .
  have id: "waID ?w = waID w" by (simp add: setHash_def)
  have "slWallets sel = deactivateWhere (\<lambda>v. waID v \<noteq> waID ?w) (svNow env t) t ws1"
    using reused(4) by (auto simp: deactivateOtherActiveWallets_def wid id split: option.splits)
  also have "\<dots> = ws1"
    using deactivateOther_id [OF ws1(2,1)] key by (simp add: holdsKey_def)
  finally show ?thesis using ws1 key id wid reused(5) by metis
next
  case (reactivated href source ws1)
  obtain w where w: "w \<in> set ws" "ofTarget t w" "\<not> waIsActive w" "href = refOf w"
    using findHistorical_in [OF reactivated(2)] by blast
  have "ws1 = deactivateWhere (\<lambda>_. True) (svNow env t) t ws"
    using reactivated(3) by (auto simp: deactivateAllActiveWallets_def split: option.splits)
  then have "w \<in> set ws1" using w(1,3) by (force simp: deactivateWhere_def)
  moreover have wid: "arID href = waID w" using refOf_clean [OF assms(3) w(1)] w(4) by simp
  ultimately have "setHash (svNow env t) h algo w \<in> set (slWallets sel)"
    using upsert_Inr(1) [OF reactivated(4)] by force
  moreover have "waID (setHash (svNow env t) h algo w) = slAccountID sel"
    using wid reactivated(5) by (simp add: setHash_def)
  ultimately show ?thesis
    using upsert_Inr(2) [OF reactivated(4)] setHash_holdsKey [OF w(2)] by metis
next
  case (rotated ws1)
  show ?thesis using insert_Inr [OF rotated(4)] by (auto simp: holdsKey_def)
qed

subsection \<open>A new account is a new key\<close>

lemma hexHash_chars: "hexHash h \<Longrightarrow> c \<in> set h \<Longrightarrow> visible c \<and> \<not> is_upper c"
  by (auto simp: hexHash_def list_all_iff is_digit_visible is_digit_def is_upper_def visible_def
      byte_of_def)

lemma hexHash_normal:
  assumes "hexHash h"
  shows "TrimSpace h = h" and "ToLower h = h" and "h \<noteq> []"
proof -
  have "map lower_char h = h" by (rule map_idI) (simp add: lower_char_id hexHash_chars [OF assms])
  then show "ToLower h = h" by (simp add: ToLower_def)
  show "TrimSpace h = h" using TrimSpace_visible [of h] hexHash_chars [OF assms] by simp
  show "h \<noteq> []" using assms by (auto simp: hexHash_def)
qed

lemma stored_hash: "walletsAllowed ws \<Longrightarrow> w \<in> set ws \<Longrightarrow> waKeyMaterialHash w = Some h \<Longrightarrow> hexHash h"
  by (force simp: walletsAllowed_def list_all_iff)

lemma rotated_is_new:
  assumes "selectAccount pg env t algo h hs ref ws = Inr sel" and "slAction sel = ''rotated''"
    and "walletsAllowed ws" and "cleanIDs ws"
    and "getActiveWalletAccountForUpdate pg t ws = Inr ref"
    and "w \<in> set ws" and "ofTarget t w"
    and "pgFault pg ''active_account'' (targetKey t) = None"
  shows "waKeyMaterialHash w \<notin> Some ` set (h # hs)"
  using assms(1)
proof (cases rule: selectAccount_cases)
  case (rotated ws1)
  show ?thesis
  proof
    assume "waKeyMaterialHash w \<in> Some ` set (h # hs)"
    then obtain c where c: "waKeyMaterialHash w = Some c" "c \<in> set (h # hs)" by auto
    have norm: "TrimSpace c = c" "ToLower c = c" "c \<noteq> []"
      using hexHash_normal stored_hash [OF assms(3,6) c(1)] by auto
    show False
    proof (cases "waIsActive w")
      case True
      have "ref = refOf w"
        using activeRef_of [OF assms(3,6,7) True assms(8)] assms(5) by simp
      with rotated(1) refOf_clean [OF assms(4,6)] c norm show False
        by (auto simp: classifyHashMatch_def refOf_def textOf_def Let_def split: if_splits)
    next
      case False
      have "\<exists>d \<in> set (candidatesOf h hs). hcHash d = c" using c(2) by (auto simp: candidatesOf_def)
      then show False using findHistorical_None [OF rotated(2) _ _ assms(6,7) False] c(1) norm(3) by auto
    qed
  qed
qed (use assms(2) in simp_all)

subsection \<open>Repeating the synchronisation\<close>

definition sameButTime :: "wallet_row list \<Rightarrow> wallet_row list \<Rightarrow> bool" where
  "sameButTime ws ws' = (map (waUpdatedAt_update (\<lambda>_. 0)) ws' = map (waUpdatedAt_update (\<lambda>_. 0)) ws)"

lemma sameButTime_allowed:
  assumes "sameButTime ws ws'"
  shows "walletsAllowed ws' = walletsAllowed ws"
proof -
  let ?z = "waUpdatedAt_update (\<lambda>_. 0)"
  have "walletsAllowed (map ?z xs) = walletsAllowed xs" for xs
    by (simp add: walletsAllowed_def comp_def filter_map list_all_iff targetOf_def [abs_def])
  then show ?thesis using assms unfolding sameButTime_def by metis
qed

lemma setHash_again:
  "holdsKey t h algo w \<Longrightarrow> (setHash now h algo w)\<lparr>waUpdatedAt := 0\<rparr> = w\<lparr>waUpdatedAt := 0\<rparr>"
  by (cases w) (auto simp: holdsKey_def setHash_def)

lemma upsert_again:
  assumes "walletsAllowed ws" and "w \<in> set ws" and "holdsKey t h algo w"
    and "\<And>stmt key. pgFault pg stmt key = None"
  shows "\<exists>ws'. upsertWalletAccountHash pg now (waID w) h algo True ws = Inr ws' \<and>
    sameButTime ws ws' \<and> ws' = map (\<lambda>v. if waID v = waID w then setHash now h algo v else v) ws"
proof -
  let ?ws' = "map (\<lambda>v. if waID v = waID w then setHash now h algo v else v) ws"
  have same: "sameButTime ws ?ws'"
    unfolding sameButTime_def map_map comp_def
    using id_unique [OF assms(1) _ assms(2)] setHash_again [OF assms(3)] by (intro map_cong) auto
  have "length (filter (\<lambda>v. waID v = waID w) ws) = 1"
  proof -
    have "distinct (map waID ws)" using assms(1) by (simp add: walletsAllowed_def)
    then have "distinct (map waID (filter (\<lambda>v. waID v = waID w) ws))" by (rule distinct_map_filter)
    moreover have "set (map waID (filter (\<lambda>v. waID v = waID w) ws)) = {waID w}"
      using assms(2) by auto
    ultimately show ?thesis by (metis distinct_card is_singletonI is_singleton_altdef length_map)
  qed
  then have "upsertWalletAccountHash pg now (waID w) h algo True ws = Inr ?ws'"
    using sameButTime_allowed [OF same] assms(1,4)
    by (simp add: upsert_True Let_def)
  with same show ?thesis by blast
qed

lemma sameButTime_identity: "sameButTime ws ws' \<Longrightarrow> map identityOf ws' = map identityOf ws"
proof -
  have "map identityOf xs = map identityOf (map (waUpdatedAt_update (\<lambda>_. 0)) xs)" for xs
    by (simp add: identityOf_def targetOf_def)
  then show "sameButTime ws ws' \<Longrightarrow> map identityOf ws' = map identityOf ws"
    unfolding sameButTime_def by metis
qed

lemma select_again:
  assumes "walletsAllowed ws" and "cleanIDs ws" and "w \<in> set ws" and "holdsKey t h algo w"
    and "\<And>stmt key. pgFault pg stmt key = None"
  shows "\<exists>sel. selectAccount pg env t algo h hs (refOf w) ws = Inr sel \<and> slAccountID sel = waID w \<and>
    slAction sel = ''reused'' \<and> slMatchSource sel = ''active'' \<and> sameButTime ws (slWallets sel)"
proof -
  have key: "ofTarget t w" "waIsActive w" "waKeyMaterialHash w = Some h"
    using assms(4) by (simp_all add: holdsKey_def)
  have clean: "arID (refOf w) = waID w" "waID w \<noteq> []" using refOf_clean [OF assms(2,3)] by simp_all
  have match: "classifyHashMatch (arHash (refOf w)) h hs = Some ''active''"
    using hexHash_normal [OF stored_hash [OF assms(1,3) key(3)]]
    by (simp add: classifyHashMatch_def refOf_def textOf_def key(3))
  obtain ws1 where
      ws1: "upsertWalletAccountHash pg (svNow env t) (waID w) h algo True ws = Inr ws1"
      "sameButTime ws ws1"
      "ws1 = map (\<lambda>v. if waID v = waID w then setHash (svNow env t) h algo v else v) ws"
    using upsert_again [OF assms(1,3,4,5)] by blast
  have others: "deactivateOtherActiveWallets pg (svNow env t) t (waID w) ws1 = Inr ws1"
  proof -
    let ?w = "setHash (svNow env t) h algo w"
    have "?w \<in> set ws1" using ws1(3) assms(3) by force
    moreover have "walletsAllowed ws1" using sameButTime_allowed [OF ws1(2)] assms(1) by simp
    moreover have "waID ?w = waID w" "waIsActive ?w" by (simp_all add: setHash_def)
    ultimately show ?thesis
      using deactivateOther_id [of ws1 ?w t] key(1) assms(5)
      by (simp add: deactivateOtherActiveWallets_def)
  qed
  have "(if waID w = [] then None else Some ''active'') = Some ''active''" using clean(2) by simp
  then have "selectAccount pg env t algo h hs (refOf w) ws =
      Inr \<lparr>slAccountID = waID w, slAction = ''reused'', slMatchSource = ''active'',
           slFrom = ''active'', slWallets = ws1\<rparr>"
    by (simp only: selectAccount_def Let_def clean(1) match ws1(1) others option.case sum.case)
  then show ?thesis using ws1(2) by simp
qed

text \<open>Binding the catalog twice is binding it once.\<close>

lemma boundToTarget_identity:
  assumes "map identityOf ws' = map identityOf ws"
  shows "boundToTarget t ws' = boundToTarget t ws"
proof -
  have "(\<lambda>(i, (c, n, k), x). (i, k)) ` identityOf ` set ws' = (\<lambda>(i, (c, n, k), x). (i, k)) ` identityOf ` set ws"
    using arg_cong [OF assms, of set] by simp
  then have ids: "(\<lambda>w. (waID w, waKeysetID w)) ` set ws' = (\<lambda>w. (waID w, waKeysetID w)) ` set ws"
    by (simp add: image_image identityOf_def targetOf_def)
  have mem: "boundToTarget t xs = (\<lambda>r. caChain r = tgChain t \<and> caNetwork r = tgNetwork t \<and>
      (caWalletAccountID r, tgKeysetID t) \<in> (\<lambda>w. (waID w, waKeysetID w)) ` set xs)" for xs
    by (rule ext, simp add: boundToTarget_def image_iff, metis)
  show ?thesis unfolding mem ids ..
qed

lemma bind_Inr:
  assumes "bindAssetCatalogWalletAccount pg t wid ws rows = Inr rows'"
  shows "rows' = map (\<lambda>r. if boundToTarget t ws r then r\<lparr>caWalletAccountID := wid\<rparr> else r) rows"
    and "\<exists>r \<in> set rows. boundToTarget t ws r" and "\<exists>w \<in> set ws. waID w = wid"
  using assms
  by (auto simp: bindAssetCatalogWalletAccount_def Let_def list_ex_iff split: option.splits if_splits)

lemma bind_again:
  assumes "bindAssetCatalogWalletAccount pg t wid ws rows = Inr rows'"
    and "map identityOf ws' = map identityOf ws" and "w \<in> set ws" and "waID w = wid"
    and "waKeysetID w = tgKeysetID t" and "\<And>stmt key. pgFault pg' stmt key = None"
  shows "bindAssetCatalogWalletAccount pg' t wid ws' rows' = Inr rows'"
proof -
  note rows' = bind_Inr [OF assms(1)]
  have bound: "boundToTarget t ws (r\<lparr>caWalletAccountID := wid\<rparr>)" if "boundToTarget t ws r" for r
    using that assms(3-5) by (auto simp: boundToTarget_def)
  have ex: "list_ex (boundToTarget t ws') rows'"
    unfolding boundToTarget_identity [OF assms(2)] using rows'(1,2) bound
    by (fastforce simp: list_ex_iff)
  have "\<exists>v \<in> set ws'. waID v = wid"
  proof -
    have "fst ` identityOf ` set ws' = fst ` identityOf ` set ws"
      using arg_cong [OF assms(2), of set] by simp
    then have "waID ` set ws' = waID ` set ws" by (simp add: image_image identityOf_def)
    then show ?thesis using assms(3,4) by (metis (no_types, lifting) imageE imageI)
  qed
  then have "bindAssetCatalogWalletAccount pg' t wid ws' rows' =
      Inr (map (\<lambda>r. if boundToTarget t ws r then r\<lparr>caWalletAccountID := wid\<rparr> else r) rows')"
    using ex assms(6)
    by (simp add: bindAssetCatalogWalletAccount_def Let_def list_ex_iff
        boundToTarget_identity [OF assms(2)])
  also have "map (\<lambda>r. if boundToTarget t ws r then r\<lparr>caWalletAccountID := wid\<rparr> else r) rows' = rows'"
    unfolding rows'(1) by (rule map_idI) auto
  finally show ?thesis .
qed

end
