(* ===== verification/Persistence.thy ===== *)
theory Persistence
  imports WalletSyncLemmas
begin

text \<open>
  Bringing the store up when a process starts: the use case
  (\<^verbatim>\<open>initialize_persistence_use_case.go\<close>) that waits until the database answers and then
  migrates it, synchronises the wallet accounts and validates the catalog, over the interface of
  the persistence gateway; and the gateway's own operations that only call libraries
  (\<^verbatim>\<open>CheckReadiness\<close> and \<^verbatim>\<open>RunMigrations\<close> of \<^verbatim>\<open>bootstrap/gateway.go\<close>).
\<close>

subsection \<open>The interface of the gateway\<close>

text \<open>The readiness check is numbered by its attempt, since the answer changes over time.\<close>

record 's persistence_gateway =
  pbCheckReadiness :: "nat \<Rightarrow> app_error option"
  pbRunMigrations :: "'s \<Rightarrow> app_error option \<times> 's"
  pbSyncWallets :: "'s \<Rightarrow> app_error option \<times> 's"
  pbValidate :: "'s \<Rightarrow> app_error option"

record initialize_command =
  icReadinessTimeout :: duration
  icReadinessRetryInterval :: duration

text \<open>
  What time does: when the use case starts, how long attempt \<open>n\<close> takes, by how much the retry
  timer after it is late, whether the caller cancels and when, and whether the timer wins the
  choice of a \<^verbatim>\<open>select\<close> in which the context is done too.
\<close>

record readiness_clock =
  rkStart :: time
  rkTook :: "nat \<Rightarrow> duration"
  rkLate :: "nat \<Rightarrow> duration"
  rkCancelled :: "time option"
  rkTimerWins :: "nat \<Rightarrow> bool"

definition readinessTimeout :: "duration \<Rightarrow> nat \<Rightarrow> details \<Rightarrow> app_error" where
  "readinessTimeout timeout attempts extra =
     NewInternal ''DB_READINESS_TIMEOUT'' ''database readiness check timed out''
       ([(''attempts'', GStr (FormatInt (int attempts))), (''timeout'', GStr (DurationString timeout))] @ extra)"

subsection \<open>The use case\<close>

text \<open>
  The retry loop, from the attempts made so far and the present instant; \<open>done\<close> is when the
  readiness context ends. The result is the error, if any, and the number of attempts.
\<close>

partial_function (option) readinessLoop ::
  "(nat \<Rightarrow> app_error option) \<Rightarrow> readiness_clock \<Rightarrow> duration \<Rightarrow> duration \<Rightarrow> time \<Rightarrow> nat \<Rightarrow> time \<Rightarrow>
   (app_error option \<times> nat) option" where
  "readinessLoop check k timeout interval deadline attempts t =
     (case check (attempts + 1) of
        None \<Rightarrow> Some (None, attempts + 1)
      | Some e \<Rightarrow>
          (let t1 = t + rkTook k (attempts + 1); t2 = t1 + interval + rkLate k (attempts + 1)
           in if deadline \<le> t1 then
                Some (Some (readinessTimeout timeout (attempts + 1) [(''last_code'', GStr (Code e))]),
                      attempts + 1)
              else if deadline < t1 + interval then
                Some (Some (readinessTimeout timeout (attempts + 1) []), attempts + 1)
              else if t2 < deadline \<or> rkTimerWins k (attempts + 1) then
                readinessLoop check k timeout interval deadline (attempts + 1) t2
              else Some (Some (readinessTimeout timeout (attempts + 1) []), attempts + 1)))"

definition initializePersistence ::
  "'s persistence_gateway option \<Rightarrow> readiness_clock \<Rightarrow> initialize_command \<Rightarrow> 's \<Rightarrow>
   (app_error option \<times> 's) option" where
  "initializePersistence gateway k c s =
     (case gateway of
        None \<Rightarrow> Some (Some (NewInternal ''PERSISTENCE_GATEWAY_MISSING''
          ''persistence gateway is required'' []), s)
      | Some gw \<Rightarrow>
          if icReadinessTimeout c \<le> 0 then
            Some (Some (NewValidation ''READINESS_TIMEOUT_INVALID''
              ''readiness timeout must be greater than zero'' []), s)
          else if icReadinessRetryInterval c \<le> 0 then
            Some (Some (NewValidation ''READINESS_RETRY_INTERVAL_INVALID''
              ''readiness retry interval must be greater than zero'' []), s)
          else
            (let deadline = rkStart k + icReadinessTimeout c;
                 deadline = (case rkCancelled k of None \<Rightarrow> deadline | Some c \<Rightarrow> min deadline c)
             in case readinessLoop (pbCheckReadiness gw) k (icReadinessTimeout c)
                       (icReadinessRetryInterval c) deadline 0 (rkStart k) of
                  None \<Rightarrow> None
                | Some (Some e, _) \<Rightarrow> Some (Some e, s)
                | Some (None, _) \<Rightarrow>
                    (case pbRunMigrations gw s of
                       (Some e, s1) \<Rightarrow> Some (Some e, s1)
                     | (None, s1) \<Rightarrow>
                         (case pbSyncWallets gw s1 of
                            (Some e, s2) \<Rightarrow> Some (Some e, s2)
                          | (None, s2) \<Rightarrow> Some (pbValidate gw s2, s2)))))"

subsection \<open>The loop ends\<close>

text \<open>Time does not run backwards.\<close>

definition forwardClock :: "readiness_clock \<Rightarrow> bool" where
  "forwardClock k \<longleftrightarrow> (\<forall>n. 0 \<le> rkTook k n \<and> 0 \<le> rkLate k n)"

lemma readinessLoop_returns:
  assumes "forwardClock k" and "0 < interval"
  shows "\<exists>r n. readinessLoop check k timeout interval deadline attempts t = Some (r, n) \<and>
    attempts < n \<and> int n \<le> int attempts + 1 + max 0 (deadline - t) div interval \<and>
    (r = None \<longrightarrow> check n = None) \<and> (\<forall>m. attempts < m \<and> m < n \<longrightarrow> check m \<noteq> None)"
proof (induction "nat (deadline - t)" arbitrary: attempts t rule: less_induct)
  case less
  let ?n = "attempts + 1" and ?t1 = "t + rkTook k (attempts + 1)"
  let ?t2 = "?t1 + interval + rkLate k (attempts + 1)"
  have fwd: "t \<le> ?t1" "t + interval \<le> ?t2" using assms(1) by (auto simp: forwardClock_def)
  have bound: "0 \<le> max 0 (deadline - t) div interval" using assms(2) by (simp add: div_int_pos_iff)
  show ?case
  proof (cases "check ?n")
    case None
    then show ?thesis using bound by (subst readinessLoop.simps) (auto simp: less_Suc_eq)
  next
    case (Some e)
    show ?thesis
    proof (cases "\<not> deadline \<le> ?t1 \<and> \<not> deadline < ?t1 + interval \<and>
        (?t2 < deadline \<or> rkTimerWins k ?n)")
      case False
      then show ?thesis using bound Some
        by (subst readinessLoop.simps) (auto simp: Let_def less_Suc_eq)
    next
      case True
      have dt: "interval \<le> deadline - t" using True fwd by linarith
      have "nat (deadline - ?t2) < nat (deadline - t)" using dt fwd assms(2) by linarith
      from less [OF this, of ?n] obtain r n where
          r: "readinessLoop check k timeout interval deadline ?n ?t2 = Some (r, n)" "?n < n"
          "int n \<le> int ?n + 1 + max 0 (deadline - ?t2) div interval"
          "r = None \<longrightarrow> check n = None" "\<forall>m. ?n < m \<and> m < n \<longrightarrow> check m \<noteq> None"
        by blast
      have "max 0 (deadline - ?t2) div interval \<le> (deadline - t - interval) div interval"
        using dt fwd assms(2) by (intro zdiv_mono1) auto
      also have "\<dots> = (deadline - t) div interval - 1"
        using div_add_self2 [of interval "deadline - t - interval"] assms(2) by simp
      finally have "max 0 (deadline - ?t2) div interval + 1 \<le> max 0 (deadline - t) div interval"
        using dt assms(2) by simp
      moreover have "readinessLoop check k timeout interval deadline attempts t = Some (r, n)"
        using True Some r(1) by (subst readinessLoop.simps) (simp add: Let_def)
      moreover have "\<forall>m. attempts < m \<and> m < n \<longrightarrow> check m \<noteq> None"
        using r(5) Some by (metis Suc_eq_plus1 Suc_lessI option.simps(3))
      ultimately show ?thesis using r(2,3,4) by (intro exI [of _ r] exI [of _ n]) simp
    qed
  qed
qed

subsection \<open>What the gateway promises\<close>

text \<open>
  \<open>keeps s s'\<close> is what a step may do to the store. The readiness check and the validation do not
  touch it.
\<close>

locale persistence_port =
  fixes gw :: "'s persistence_gateway"
    and keeps :: "'s \<Rightarrow> 's \<Rightarrow> bool"
  assumes keeps_refl: "keeps s s"
    and keeps_trans: "keeps s s' \<Longrightarrow> keeps s' s'' \<Longrightarrow> keeps s s''"
    and migrations_keep: "pbRunMigrations gw s = (e, s') \<Longrightarrow> keeps s s'"
    and sync_keeps: "pbSyncWallets gw s = (e, s') \<Longrightarrow> keeps s s'"
begin

lemma initialize_keeps:
  assumes "initializePersistence (Some gw) k c s = Some (r, s')"
  shows "keeps s s'"
proof -
  have m: "keeps s (snd (pbRunMigrations gw s))" for s using migrations_keep prod.collapse by metis
  have y: "keeps s (snd (pbSyncWallets gw s))" for s using sync_keeps prod.collapse by metis
  note both = keeps_trans [OF m y]
  show ?thesis
    using assms m [of s] y both [of s] keeps_refl [of s]
    unfolding initializePersistence_def Let_def
    by (simp split: if_split_asm option.split_asm prod.split_asm)
qed

lemma initialize_validated:
  assumes "initializePersistence (Some gw) k c s = Some (None, s')"
  shows "pbValidate gw s' = None"
  using assms unfolding initializePersistence_def Let_def
  by (auto split: if_splits option.splits prod.splits)

end

subsection \<open>The gateway of the bootstrap package\<close>

text \<open>
  What the driver and the migration library answer: whether opening or pinging the database fails
  at an attempt, whether the context is cancelled, the path or the runner cannot be set up, and
  what the migrations do (their error, and the store they leave); having nothing to do is no error.
\<close>

record bootstrap_env =
  beOpenFails :: "nat \<Rightarrow> bool"
  bePingFails :: "nat \<Rightarrow> bool"
  beCancelled :: bool
  bePathFails :: bool
  beRunnerFails :: bool
  beUp :: "db \<Rightarrow> bool \<times> db"

definition CheckReadiness :: "bootstrap_env \<Rightarrow> bootstrap_gateway \<Rightarrow> nat \<Rightarrow> app_error option" where
  "CheckReadiness be bg n =
     (if beOpenFails be n then Some (databaseOpenFailed bg)
      else if bePingFails be n then
        Some (NewInternal ''DB_CONNECT_FAILED'' ''failed to connect to database''
          [(''database_target'', GStr (bgDatabaseTarget bg))])
      else None)"

definition RunMigrations :: "bootstrap_env \<Rightarrow> bootstrap_gateway \<Rightarrow> db \<Rightarrow> app_error option \<times> db" where
  "RunMigrations be bg s =
     (let target = (''database_target'', GStr (bgDatabaseTarget bg));
          path = (''migrations_path'', GStr (bgMigrationsPath bg))
      in if beCancelled be then
           (Some (NewInternal ''DB_MIGRATION_CONTEXT_CANCELED'' ''migration context canceled''
              [target]), s)
         else if bePathFails be then
           (Some (NewInternal ''DB_MIGRATION_PATH_RESOLVE_FAILED''
              ''failed to resolve migration path'' [path]), s)
         else if beRunnerFails be then
           (Some (NewInternal ''DB_MIGRATION_SETUP_FAILED''
              ''failed to initialize migration runner'' [target, path]), s)
         else
           (case beUp be s of
              (True, s') \<Rightarrow> (Some (NewInternal ''DB_MIGRATION_APPLY_FAILED''
                 ''failed to apply migrations'' [target, path]), s')
            | (False, s') \<Rightarrow> (None, s')))"

definition bootstrapPort ::
  "hashes \<Rightarrow> pg \<Rightarrow> sync_env \<Rightarrow> bootstrap_env \<Rightarrow> bootstrap_gateway \<Rightarrow> db persistence_gateway" where
  "bootstrapPort h pg env be bg =
     \<lparr>pbCheckReadiness = CheckReadiness be bg, pbRunMigrations = RunMigrations be bg,
      pbSyncWallets = SyncWalletAllocationState h pg env bg,
      pbValidate = ValidateAssetCatalogIntegrity pg bg\<rparr>"

text \<open>
  The store of a running system: accounts keep their targets and indexes, and the requests, their
  settlements, the idempotency records and the outbox stay. The migrations are only additive for
  rows that exist, which \<open>migrationsKeep\<close> states of the library's run.
\<close>

definition storeKept :: "db \<Rightarrow> db \<Rightarrow> bool" where
  "storeKept s s' \<longleftrightarrow> accountsKept (dbWallets s) (dbWallets s') \<and> dbRequests s' = dbRequests s \<and>
     dbIdempotency s' = dbIdempotency s \<and> dbSettlements s' = dbSettlements s \<and>
     dbOutbox s' = dbOutbox s"

definition migrationsKeep :: "bootstrap_env \<Rightarrow> bool" where
  "migrationsKeep be \<longleftrightarrow> (\<forall>s. storeKept s (snd (beUp be s)))"

lemma RunMigrations_store:
  "RunMigrations be bg s = (e, s') \<Longrightarrow> s' = s \<or> s' = snd (beUp be s)"
  by (auto simp: RunMigrations_def Let_def split: if_splits prod.splits bool.splits)

lemma storeKept_refl: "storeKept s s"
  by (simp add: storeKept_def)

interpretation boot: persistence_port "bootstrapPort h pg env be bg"
  "\<lambda>s s'. migrationsKeep be \<longrightarrow> storeKept s s'"
  for h pg env be bg
proof unfold_locales
  fix s e s'
  show "migrationsKeep be \<longrightarrow> storeKept s s" by (simp add: storeKept_refl)
  show "migrationsKeep be \<longrightarrow> storeKept s s'"
    if "pbRunMigrations (bootstrapPort h pg env be bg) s = (e, s')"
    using RunMigrations_store [of be bg s e s'] that storeKept_refl
    by (auto simp: bootstrapPort_def migrationsKeep_def)
  show "migrationsKeep be \<longrightarrow> storeKept s s'"
    if "pbSyncWallets (bootstrapPort h pg env be bg) s = (e, s')"
    using sync_kept [of h pg env bg s e s'] that by (simp add: bootstrapPort_def storeKept_def)
next
  fix s s' s''
  assume "migrationsKeep be \<longrightarrow> storeKept s s'" and "migrationsKeep be \<longrightarrow> storeKept s' s''"
  then show "migrationsKeep be \<longrightarrow> storeKept s s''"
    using accountsKept_trans by (auto simp: storeKept_def)
qed

end
