(* ===== verification/StartupProps.thy ===== *)
theory StartupProps
  imports Persistence WalletProps
begin

text \<open>
  Properties of the start: the readiness loop ends, the store is kept, the wallet accounts follow
  the configured keys without ever restarting one, and the server starts only on a catalog whose
  enabled assets can be allocated.
\<close>

subsection \<open>The readiness loop\<close>


text \<open>A database that answers at the third attempt.\<close>

definition demo_clock :: readiness_clock where
  "demo_clock = \<lparr>rkStart = 0, rkTook = (\<lambda>_. 5 * millisecond), rkLate = (\<lambda>_. 0), rkCancelled = None,
                 rkTimerWins = (\<lambda>_. True)\<rparr>"



subsection \<open>The store at the start\<close>

text \<open>
  Starting the server never loses or resets what a running system stored: whichever of its
  steps fail, every wallet account is still there with its target, its next derivation index and its
  creation time, accounts that are new start at index 0, and requests, idempotency records,
  settlements and outbox events are as they were - given that the migrations keep them.
\<close>

theorem start_keeps_store:
  assumes "migrationsKeep be"
    and "initializePersistence (Some (bootstrapPort h pg env be bg)) k c s = Some (r, s')"
  shows "\<exists>new. map identityOf (dbWallets s') = map identityOf (dbWallets s) @ map identityOf new \<and>
    (\<forall>w \<in> set new. waNextIndex w = 0) \<and> dbRequests s' = dbRequests s \<and>
    dbIdempotency s' = dbIdempotency s \<and> dbSettlements s' = dbSettlements s \<and>
    dbOutbox s' = dbOutbox s"
  using boot.initialize_keeps [OF assms(2)] assms(1)
  by (auto simp: storeKept_def accountsKept_def)

text \<open>A start that migrates nothing and stops at the keysets, which are not configured.\<close>

definition demo_env :: bootstrap_env where
  "demo_env =
     \<lparr>beOpenFails = (\<lambda>_. False), bePingFails = (\<lambda>n. n < 2), beCancelled = False, bePathFails = False,
      beRunnerFails = False, beUp = (\<lambda>s. (False, s))\<rparr>"

theorem start_keeps_store_witness:
  "\<forall>h pg env s. \<exists>r s' new. initializePersistence (Some (bootstrapPort h pg env demo_env
      (newBootstrapGateway h [] [] \<lparr>ruAllocationMode = ''devtest'', ruDevtestAllowMainnet = False,
        ruDevtestKeysets = [], ruDevtestKeysetPreflight = [], ruDevtestKeyNormalizers = [],
        ruKeysetHashAlgorithm = [], ruKeysetHashHMACSecret = ''s'', ruKeysetHashHMACLegacy = [],
        ruAddressSchemeAllowList = []\<rparr> [] [] []))) demo_clock
      \<lparr>icReadinessTimeout = second, icReadinessRetryInterval = 100 * millisecond\<rparr> s = Some (r, s') \<and>
    map identityOf (dbWallets s') = map identityOf (dbWallets s) @ map identityOf new \<and>
    dbRequests s' = dbRequests s"
proof (intro allI)
  fix h pg env s
  let ?bg = "newBootstrapGateway h [] [] \<lparr>ruAllocationMode = ''devtest'', ruDevtestAllowMainnet = False,
        ruDevtestKeysets = [], ruDevtestKeysetPreflight = [], ruDevtestKeyNormalizers = [],
        ruKeysetHashAlgorithm = [], ruKeysetHashHMACSecret = ''s'', ruKeysetHashHMACLegacy = [],
        ruAddressSchemeAllowList = []\<rparr> [] [] []"
  let ?c = "\<lparr>icReadinessTimeout = second, icReadinessRetryInterval = 100 * millisecond\<rparr>"
  have "\<exists>r n. readinessLoop check demo_clock (icReadinessTimeout ?c) (icReadinessRetryInterval ?c) d a t
      = Some (r, n)" for check d a t
    using readinessLoop_returns [of demo_clock "icReadinessRetryInterval ?c"]
    by (fastforce simp: forwardClock_def demo_clock_def millisecond_def)
  then obtain r s' where "initializePersistence (Some (bootstrapPort h pg env demo_env ?bg)) demo_clock ?c s
      = Some (r, s')"
    by (fastforce simp: initializePersistence_def Let_def second_def millisecond_def
        split: option.split prod.split)
  moreover have "migrationsKeep demo_env"
    by (simp add: migrationsKeep_def demo_env_def storeKept_refl)
  ultimately show "\<exists>r s' new. initializePersistence (Some (bootstrapPort h pg env demo_env ?bg)) demo_clock ?c s
      = Some (r, s') \<and>
    map identityOf (dbWallets s') = map identityOf (dbWallets s) @ map identityOf new \<and>
    dbRequests s' = dbRequests s"
    using start_keeps_store [of demo_env h pg env ?bg demo_clock ?c s] by blast
qed

subsection \<open>The account of a key\<close>

lemma syncTarget_Inr:
  assumes "syncWalletAccountTarget pg env t k algo sec leg s = (Inr out, s')"
  obtains ref sel where
    "getActiveWalletAccountForUpdate pg t (dbWallets s) = Inr ref"
    "selectAccount pg env t algo (computeHMACSHA256 env sec k)
       (legacyHashesOf env leg (computeHMACSHA256 env sec k) k) ref (dbWallets s) = Inr sel"
    "bindAssetCatalogWalletAccount pg t (slAccountID sel) (slWallets sel) (dbCatalog s) = Inr (dbCatalog s')"
    "dbWallets s' = slWallets sel"
    "soWalletAccountID out = slAccountID sel" "soAction out = slAction sel"
    "soMatchSource out = slMatchSource sel" "soKeyHash out = computeHMACSHA256 env sec k"
  using assms
  by (auto simp: syncWalletAccountTarget_def Let_def split: option.splits sum.splits)

lemma legacyHashes_set:
  "set (legacyHashesOf env leg h k) = (\<lambda>s. computeHMACSHA256 env s k) ` set leg - {h}"
proof -
  have "set (fold (\<lambda>secret hashes.
             let x = computeHMACSHA256 env secret k
             in if x = h \<or> x \<in> set hashes then hashes else hashes @ [x]) leg acc) =
      set acc \<union> ((\<lambda>s. computeHMACSHA256 env s k) ` set leg - {h})" for acc
    by (induction leg arbitrary: acc) (auto simp: Let_def)
  then show ?thesis by (simp add: legacyHashesOf_def)
qed

text \<open>An identifier the code makes up starts and ends with visible characters.\<close>

lemma TrimSpace_ends:
  assumes "s \<noteq> []" and "visible (hd s)" and "visible (last s)"
  shows "TrimSpace s = s"
proof -
  have fix_hd: "trim_with p q x = x"
    if "x \<noteq> []" "visible (hd x)" "\<And>c d. visible c \<Longrightarrow> \<not> p c d" "\<And>c d e. visible c \<Longrightarrow> \<not> q c d e"
    for p q x
    using that by (cases "(p, q, x)" rule: trim_with.cases) (auto simp: visible_no_space)
  have "TrimLeftSpace s = s"
    unfolding TrimLeftSpace_def by (rule fix_hd) (use assms in \<open>simp_all add: visible_no_space\<close>)
  moreover have "TrimRightSpace s = s"
    unfolding TrimRightSpace_def
    using fix_hd [of "rev s" "\<lambda>c d. space2 d c" "\<lambda>c d e. space3 e d c"] assms
    by (simp add: hd_rev visible_no_space)
  ultimately show ?thesis by (simp add: TrimSpace_def)
qed

lemma FormatInt_last: "visible (last (FormatInt i))"
  using FormatInt_visible FormatInt_nonempty last_in_set by blast

lemma pad_int_last: "pad_int n i \<noteq> []" "visible (last (pad_int n i))"
  using FormatInt_nonempty FormatInt_last by (auto simp: pad_int_def zero_pad_def Let_def)

lemma compact_time_last: "compact_time t \<noteq> []" "visible (last (compact_time t))"
  by (simp_all add: compact_time_def Let_def pad_int_last split: prod.split)

lemma generated_id_clean:
  "TrimSpace (generateWalletAccountID clock c n h) = generateWalletAccountID clock c n h"
  "generateWalletAccountID clock c n h \<noteq> []"
proof -
  have ends: "hd (generateWalletAccountID clock c n h) = CHR ''w''"
    "last (generateWalletAccountID clock c n h) = last (compact_time (fst clock))"
    by (simp_all add: generateWalletAccountID_def compact_time_last(1))
  show nonempty: "generateWalletAccountID clock c n h \<noteq> []" by (simp add: generateWalletAccountID_def)
  have "visible (CHR ''w'')" by code_simp
  then show "TrimSpace (generateWalletAccountID clock c n h) = generateWalletAccountID clock c n h"
    using compact_time_last(2) nonempty by (intro TrimSpace_ends) (simp_all add: ends)
qed

lemma select_clean:
  assumes "selectAccount pg env t algo h hs ref ws = Inr sel" and "cleanIDs ws"
  shows "cleanIDs (slWallets sel)"
proof -
  have ids: "cleanIDs xs \<longleftrightarrow> list_all (\<lambda>x. fst x \<noteq> [] \<and> TrimSpace (fst x) = fst x) (map identityOf xs)" for xs
    by (simp add: cleanIDs_def list_all_iff identityOf_def)
  show ?thesis
    using assms(1)
  proof (cases rule: selectAccount_cases)
    case (reused source ws1)
    show ?thesis
      using assms(2) unfolding ids identity_deactivateOther [OF reused(4)]
        identity_upsert [OF reused(3)] .
  next
    case (reactivated href source ws1)
    show ?thesis
      using assms(2) unfolding ids identity_upsert [OF reactivated(4)]
        identity_deactivateAll [OF reactivated(3)] .
  next
    case (rotated ws1)
    obtain w where w: "slWallets sel = ws1 @ [w]" "waID w = slAccountID sel"
      using insert_Inr(1) [OF rotated(4)] by blast
    have "cleanIDs ws1"
      using assms(2) unfolding ids identity_deactivateAll [OF rotated(3)] .
    moreover have "slAccountID sel = generateWalletAccountID (svClock env t) (tgChain t) (tgNetwork t) h"
      using assms(1) rotated(5) by (auto simp: selectAccount_def Let_def split: option.splits sum.splits)
    ultimately show ?thesis using w generated_id_clean by (simp add: cleanIDs_def)
  qed
qed

text \<open>
  C29. After a successful synchronisation of a target there is an account that holds its key: it has
  the hash of the key material under the active secret, is the only active account of the target,
  and every asset whose account has the target's keyset is bound to it; the constraints of the
  table still hold.
\<close>

theorem sync_establishes_account:
  assumes "syncWalletAccountTarget pg env t keyMaterial algo secret legacy s = (Inr out, s')"
    and "walletsAllowed (dbWallets s)" and "cleanIDs (dbWallets s)"
  shows "walletsAllowed (dbWallets s') \<and> cleanIDs (dbWallets s') \<and>
    (\<exists>w \<in> set (dbWallets s'). waID w = soWalletAccountID out \<and>
       holdsKey t (computeHMACSHA256 env secret keyMaterial) algo w \<and>
       (\<forall>v \<in> set (dbWallets s'). ofTarget t v \<and> waIsActive v \<longrightarrow> v = w)) \<and>
    (\<forall>r \<in> set (dbCatalog s'). boundToTarget t (dbWallets s') r \<longrightarrow>
       caWalletAccountID r = soWalletAccountID out)"
  using assms(1)
proof (cases rule: syncTarget_Inr)
  case (1 ref sel)
  note sel = select_holds [OF 1(2) assms(2,3) 1(1)] select_clean [OF 1(2) assms(3)]
  obtain w where w: "w \<in> set (slWallets sel)" "waID w = slAccountID sel"
      "holdsKey t (computeHMACSHA256 env secret keyMaterial) algo w"
    using sel(1) by blast
  have "v = w" if "v \<in> set (slWallets sel)" "ofTarget t v" "waIsActive v" for v
    using active_unique [OF _ that(1) w(1) that(3)] sel(1) w(3) that(2)
    by (simp add: holdsKey_def ofTarget_targetOf)
  moreover have "caWalletAccountID r = slAccountID sel"
    if "r \<in> set (dbCatalog s')" "boundToTarget t (slWallets sel) r" for r
    using that bind_Inr(1) [OF 1(3)] by (auto split: if_splits)
  ultimately show ?thesis using sel w 1(4,5) by auto
qed



text \<open>
  Synchronising twice is synchronising once: when a target has been synchronised, doing it again
  with the same key and secrets, at any later time, finds the same account again, changes nothing
  of the accounts but their update time, and leaves the catalog as it is.
\<close>

theorem sync_repeats:
  assumes "syncWalletAccountTarget pg env t keyMaterial algo secret legacy s = (Inr out, s')"
    and "walletsAllowed (dbWallets s)" and "cleanIDs (dbWallets s)"
    and "svHMAC env' = svHMAC env" and "\<And>stmt key. pgFault pg' stmt key = None"
  shows "\<exists>out' s''. syncWalletAccountTarget pg' env' t keyMaterial algo secret legacy s' = (Inr out', s'') \<and>
    soAction out' = ''reused'' \<and> soMatchSource out' = ''active'' \<and>
    soWalletAccountID out' = soWalletAccountID out \<and>
    sameButTime (dbWallets s') (dbWallets s'') \<and> dbCatalog s'' = dbCatalog s'"
  using assms(1)
proof (cases rule: syncTarget_Inr)
  case (1 ref sel)
  let ?h = "computeHMACSHA256 env secret keyMaterial"
  have h: "computeHMACSHA256 env' sec k = computeHMACSHA256 env sec k" for sec k
    by (simp add: computeHMACSHA256_def assms(4))
  have leg: "legacyHashesOf env' = legacyHashesOf env"
    by (rule ext)+ (simp add: legacyHashesOf_def h)
  note holds = select_holds [OF 1(2) assms(2,3) 1(1)] and clean = select_clean [OF 1(2) assms(3)]
  obtain w where w: "w \<in> set (slWallets sel)" "waID w = slAccountID sel" "holdsKey t ?h algo w"
    using holds by blast
  have key: "ofTarget t w" "waIsActive w" "waKeyMaterialHash w = Some ?h"
      "waKeyMaterialHashAlgo w = Some algo"
    using w(3) by (simp_all add: holdsKey_def)
  have allowed: "walletsAllowed (slWallets sel)" using holds by blast
  have again: "getActiveWalletAccountForUpdate pg' t (slWallets sel) = Inr (refOf w)"
    using activeRef_of [OF allowed w(1) key(1,2)] assms(5) by simp
  obtain sel2 where sel2: "selectAccount pg' env' t algo ?h
      (legacyHashesOf env legacy ?h keyMaterial) (refOf w) (slWallets sel) = Inr sel2"
      "slAccountID sel2 = waID w" "slAction sel2 = ''reused''" "slMatchSource sel2 = ''active''"
      "sameButTime (slWallets sel) (slWallets sel2)"
    using select_again [OF allowed clean w(1,3) assms(5)] by blast
  have ids: "map identityOf (slWallets sel2) = map identityOf (slWallets sel)"
    using sameButTime_identity [OF sel2(5)] .
  have bind: "bindAssetCatalogWalletAccount pg' t (waID w) (slWallets sel2) (dbCatalog s') =
      Inr (dbCatalog s')"
    using bind_again [OF 1(3) ids w(1,2) _ assms(5)] w(2) key(1) by (simp add: ofTarget_def)
  have ev: "syncEventAllowed (slWallets sel2) e"
    if "seWalletAccountID e = waID w" "seAction e = ''reused''" "seMatchSource e = ''active''"
      "seKeyMaterialHashAlgo e = algo" "seKeyMaterialHash e = ?h" for e
  proof -
    have "waID w \<in> fst ` identityOf ` set (slWallets sel2)"
      using arg_cong [OF ids, of set] w(1) by (force simp: identityOf_def)
    then have "\<exists>v \<in> set (slWallets sel2). waID v = waID w" by (force simp: identityOf_def)
    moreover have "algo = ''hmac-sha256''"
      using allowed w(1) key(3,4) by (force simp: walletsAllowed_def list_all_iff)
    ultimately show ?thesis
      using that stored_hash [OF allowed w(1) key(3)] by (simp add: syncEventAllowed_def list_ex_iff)
  qed
  show ?thesis
    using again sel2 bind ev assms(5)
    by (simp add: syncWalletAccountTarget_def Let_def h leg 1 w(2) insertWalletSyncEvent_def)
qed

text \<open>An account whose hash was made with a former secret, and one asset bound to it.\<close>

definition demo_sync_env :: sync_env where
  "demo_sync_env =
     \<lparr>svHMAC = (\<lambda>secret payload. replicate 32 (if secret = ''new'' then 0xab else 0x17)),
      svNow = (\<lambda>_. 5 * second), svClock = (\<lambda>_. (5 * second, 5 * second))\<rparr>"

definition demo_target :: sync_target where
  "demo_target = \<lparr>tgChain = ''bitcoin'', tgNetwork = ''regtest'', tgKeysetID = ''ks''\<rparr>"

definition demo_account :: wallet_row where
  "demo_account =
     \<lparr>waID = ''wa_1'', waChain = ''bitcoin'', waNetwork = ''regtest'', waKeysetID = ''ks'',
      waDerivationPathTemplate = ''0/{index}'', waNextIndex = 7, waIsActive = True,
      waKeyMaterialHash = Some (computeHMACSHA256 demo_sync_env ''old'' ''tpub''),
      waKeyMaterialHashAlgo = Some ''hmac-sha256'', waCreatedAt = 0, waUpdatedAt = 0\<rparr>"

definition demo_asset :: catalog_row where
  "demo_asset =
     \<lparr>caChain = ''bitcoin'', caNetwork = ''regtest'', caAsset = ''BTC'', caWalletAccountID = ''wa_1'',
      caMinorUnit = ''sats'', caDecimals = 8, caAddressScheme = ''bip84_p2wpkh'', caChainID = None,
      caTokenStandard = None, caTokenContract = None, caTokenDecimals = None,
      caDefaultExpiresInSeconds = 3600, caEnabled = True\<rparr>"

definition demo_wallet_db :: db where
  "demo_wallet_db = empty_db\<lparr>dbWallets := [demo_account], dbCatalog := [demo_asset]\<rparr>"

definition quiet_pg :: pg where
  "quiet_pg =
     \<lparr>pgFault = (\<lambda>_ _. None), pgViolation = (\<lambda>c. c), pgNumeric = parse_big,
      pgTimestamp = (\<lambda>_. None), pgFits = (\<lambda>_ _. True), pgNumber = GStr,
      pgEventID = (\<lambda>rid n. ''evt_'')\<rparr>"

lemma demo_sync:
  "case syncWalletAccountTarget quiet_pg demo_sync_env demo_target ''tpub'' ''hmac-sha256'' ''new''
     [''old''] demo_wallet_db of
     (Inl e, s') \<Rightarrow> False
   | (Inr out, s') \<Rightarrow> soAction out = ''reused'' \<and> soMatchSource out = ''legacy'' \<and>
       map waNextIndex (dbWallets s') = [7]"
  by code_simp

lemma demo_allowed: "walletsAllowed (dbWallets demo_wallet_db)" "cleanIDs (dbWallets demo_wallet_db)"
  by code_simp+

lemma demo_synced:
  obtains out s' where "syncWalletAccountTarget quiet_pg demo_sync_env demo_target ''tpub''
    ''hmac-sha256'' ''new'' [''old''] demo_wallet_db = (Inr out, s')"
  using demo_sync by (auto split: prod.splits sum.splits)

theorem sync_establishes_account_witness:
  "\<exists>out s'. syncWalletAccountTarget quiet_pg demo_sync_env demo_target ''tpub'' ''hmac-sha256'' ''new''
     [''old''] demo_wallet_db = (Inr out, s') \<and>
     (\<exists>w \<in> set (dbWallets s'). waID w = soWalletAccountID out \<and>
        holdsKey demo_target (computeHMACSHA256 demo_sync_env ''new'' ''tpub'') ''hmac-sha256'' w)"
proof -
  obtain out s' where s: "syncWalletAccountTarget quiet_pg demo_sync_env demo_target ''tpub''
      ''hmac-sha256'' ''new'' [''old''] demo_wallet_db = (Inr out, s')" by (rule demo_synced)
  from sync_establishes_account [OF s demo_allowed] s show ?thesis by blast
qed


theorem sync_repeats_witness:
  "\<exists>out s' out' s''. syncWalletAccountTarget quiet_pg demo_sync_env demo_target ''tpub'' ''hmac-sha256''
       ''new'' [''old''] demo_wallet_db = (Inr out, s') \<and>
     syncWalletAccountTarget quiet_pg (demo_sync_env\<lparr>svNow := \<lambda>_. 9 * second\<rparr>) demo_target ''tpub''
       ''hmac-sha256'' ''new'' [''old''] s' = (Inr out', s'') \<and>
     soMatchSource out' = ''active'' \<and> dbCatalog s'' = dbCatalog s'"
proof -
  obtain out s' where s: "syncWalletAccountTarget quiet_pg demo_sync_env demo_target ''tpub''
      ''hmac-sha256'' ''new'' [''old''] demo_wallet_db = (Inr out, s')" by (rule demo_synced)
  have e: "svHMAC (demo_sync_env\<lparr>svNow := \<lambda>_. 9 * second\<rparr>) = svHMAC demo_sync_env" by simp
  have f: "\<And>stmt key. pgFault quiet_pg stmt key = None" by (simp add: quiet_pg_def)
  from sync_repeats [OF s demo_allowed e f] s show ?thesis by blast
qed

lemma reencoded_same_key:
  assumes "\<forall>x. length (hsSHA256 h x) = 32" and "well_formed key"
    and "parseCompressedPublicKey (xkPublicKeyCompressed key) = Inr p"
  shows "NormalizeBitcoinKeyset h (Serialize h (key\<lparr>xkVersion := versionVPub\<rparr>)) =
      NormalizeBitcoinKeyset h (Serialize h (key\<lparr>xkVersion := versionTPub\<rparr>)) \<and>
    is_ok (NormalizeBitcoinKeyset h (Serialize h (key\<lparr>xkVersion := versionVPub\<rparr>)))"
proof -
  have "ParseExtendedPublicKey h (Serialize h (key\<lparr>xkVersion := v\<rparr>)) = Inr (key\<lparr>xkVersion := v\<rparr>)"
    if "knownVersion v" for v
    using serialized_key_parses [OF assms(1), of "key\<lparr>xkVersion := v\<rparr>"] assms(2,3) that
    by (simp add: well_formed_def)
  then show ?thesis
    by (simp add: NormalizeBitcoinKeyset_def knownVersion_def Let_def versionVPub_def versionTPub_def)
qed

lemma unknown_key_rotated:
  assumes "syncWalletAccountTarget pg env t vpub algo secret legacy s = (Inr out, s')"
    and "\<forall>w \<in> set (dbWallets s). ofTarget t w \<longrightarrow> (\<exists>c. waKeyMaterialHash w = Some c \<and>
      (\<forall>sec \<in> set (secret # legacy). c \<noteq> computeHMACSHA256 env sec vpub))"
    and "walletsAllowed (dbWallets s)"
  shows "soAction out = ''rotated'' \<and>
    (\<exists>w \<in> set (dbWallets s'). waID w = soWalletAccountID out \<and> ofTarget t w \<and> waNextIndex w = 0 \<and>
      waID w \<notin> waID ` set (dbWallets s))"
proof -
  let ?h = "computeHMACSHA256 env secret vpub"
  let ?hs = "legacyHashesOf env legacy ?h vpub"
  obtain ref sel where ref: "getActiveWalletAccountForUpdate pg t (dbWallets s) = Inr ref"
    and sel: "selectAccount pg env t algo ?h ?hs ref (dbWallets s) = Inr sel"
    and out: "dbWallets s' = slWallets sel" "soWalletAccountID out = slAccountID sel"
      "soAction out = slAction sel"
    using syncTarget_Inr [OF assms(1)] by metis
  have other: "c \<noteq> d" if "d \<in> set (?h # ?hs)" "w \<in> set (dbWallets s)" "ofTarget t w"
      "waKeyMaterialHash w = Some c" for c d w
    using that assms(2) by (auto simp: legacyHashes_set)
  from sel show ?thesis
  proof (cases rule: selectAccount_cases)
    case (reused source ws1)
    obtain w where w: "w \<in> set (dbWallets s)" "ofTarget t w" "ref = refOf w"
      using activeRef_from [OF ref reused(1)] .
    obtain c where c: "waKeyMaterialHash w = Some c" using assms(2) w by blast
    have "classifyHashMatch c ?h ?hs = None"
      using hexHash_normal [OF stored_hash [OF assms(3) w(1) c]] other [OF _ w(1,2) c]
      by (auto simp: classifyHashMatch_def)
    then have "classifyHashMatch (arHash ref) ?h ?hs = None"
      using hexHash_normal [OF stored_hash [OF assms(3) w(1) c]]
      by (simp add: w(3) refOf_def textOf_def c)
    with reused(2) show ?thesis by simp
  next
    case (reactivated href source ws1)
    have "\<exists>w \<in> set ws. ofTarget t w \<and> (\<exists>c \<in> set cs. waKeyMaterialHash w = Some (hcHash c))"
      if "findHistoricalWalletAccountForUpdate pg t cs ws = Inr (Some (href, source))" for cs ws
      using that by (induction cs) (auto split: if_splits option.splits dest!: latestAccount_in)
    from this [OF reactivated(2)] obtain w c where "w \<in> set (dbWallets s)" "ofTarget t w"
      "c \<in> set (candidatesOf ?h ?hs)" "waKeyMaterialHash w = Some (hcHash c)" by blast
    then have False using other [of "hcHash c" w "hcHash c"] by (auto simp: candidatesOf_def)
    then show ?thesis ..
  next
    case (rotated ws1)
    obtain w where w: "slWallets sel = ws1 @ [w]" "waID w = slAccountID sel" "ofTarget t w" "waNextIndex w = 0"
      using insert_Inr(1) [OF rotated(4)] by blast
    have "waID w \<notin> waID ` set ws1"
      using insert_Inr(2) [OF rotated(4)] by (auto simp: w(1) walletsAllowed_def)
    moreover have "waID ` set ws1 = waID ` set (dbWallets s)"
    proof -
      have "fst ` identityOf ` set ws1 = fst ` identityOf ` set (dbWallets s)"
        using arg_cong [OF identity_deactivateAll [OF rotated(3)], of set] by simp
      then show ?thesis by (simp add: image_image identityOf_def)
    qed
    ultimately show ?thesis using w out rotated(5) by simp
  qed
qed

text \<open>
  C40. The same key written in another form is taken for a new one: the text with version vpub and
  the text with version tpub of a bitcoin key normalise to the same key, but the accounts are told
  apart by the hash of the text. When no account of the target carries a hash of the new text, a
  successful synchronisation creates an account whose next index is 0, although every address from
  there on was derived before.
\<close>

theorem reencoded_key_restarts:
  assumes "\<forall>x. length (hsSHA256 h x) = 32" and "well_formed key"
    and "parseCompressedPublicKey (xkPublicKeyCompressed key) = Inr p"
    and "tpub = Serialize h (key\<lparr>xkVersion := versionTPub\<rparr>)"
    and "vpub = Serialize h (key\<lparr>xkVersion := versionVPub\<rparr>)"
    and "syncWalletAccountTarget pg env t vpub algo secret legacy s = (Inr out, s')"
    and "\<forall>w \<in> set (dbWallets s). ofTarget t w \<longrightarrow> (\<exists>c. waKeyMaterialHash w = Some c \<and>
      (\<forall>sec \<in> set (secret # legacy). c \<noteq> computeHMACSHA256 env sec vpub))"
    and "walletsAllowed (dbWallets s)"
  shows "NormalizeBitcoinKeyset h vpub = NormalizeBitcoinKeyset h tpub \<and> is_ok (NormalizeBitcoinKeyset h vpub) \<and>
    soAction out = ''rotated'' \<and>
    (\<exists>w \<in> set (dbWallets s'). waID w = soWalletAccountID out \<and> ofTarget t w \<and> waNextIndex w = 0 \<and>
      waID w \<notin> waID ` set (dbWallets s))"
  using reencoded_same_key [OF assms(1-3)] unknown_key_rotated [OF assms(6-8)]
  unfolding assms(4,5) by blast

definition demo_new_env :: sync_env where
  "demo_new_env = demo_sync_env\<lparr>svHMAC := \<lambda>_ _. replicate 32 0x2a\<rparr>"

lemma demo_new_env_key:
  "syncWalletAccountTarget pg demo_new_env t k algo secret legacy s =
   syncWalletAccountTarget pg demo_new_env t [] algo secret legacy s"
proof -
  have "computeHMACSHA256 demo_new_env sec k = computeHMACSHA256 demo_new_env sec []" for sec
    by (simp add: computeHMACSHA256_def demo_new_env_def)
  then show ?thesis unfolding syncWalletAccountTarget_def legacyHashesOf_def by simp
qed

lemma demo_rotation:
  "is_ok (fst (syncWalletAccountTarget quiet_pg demo_new_env demo_target [] ''hmac-sha256'' ''s'' []
     demo_wallet_db))"
  "waKeyMaterialHash demo_account \<noteq> Some (computeHMACSHA256 demo_new_env ''s'' [])"
  by code_simp+

theorem reencoded_key_restarts_witness:
  "\<exists>out s'. syncWalletAccountTarget quiet_pg demo_new_env demo_target
       (Serialize demo_hashes (demo_key\<lparr>xkVersion := versionVPub\<rparr>)) ''hmac-sha256'' ''s'' []
       demo_wallet_db = (Inr out, s') \<and> soAction out = ''rotated''"
proof -
  let ?v = "Serialize demo_hashes (demo_key\<lparr>xkVersion := versionVPub\<rparr>)"
  obtain out s' where s: "syncWalletAccountTarget quiet_pg demo_new_env demo_target ?v ''hmac-sha256''
      ''s'' [] demo_wallet_db = (Inr out, s')"
    using demo_rotation(1) unfolding demo_new_env_key [of _ _ ?v] is_ok_iff
    by (metis prod.collapse)
  have h: "computeHMACSHA256 demo_new_env ''s'' ?v = computeHMACSHA256 demo_new_env ''s'' []"
    by (simp add: computeHMACSHA256_def demo_new_env_def)
  have other: "\<forall>w \<in> set (dbWallets demo_wallet_db). ofTarget demo_target w \<longrightarrow>
      (\<exists>c. waKeyMaterialHash w = Some c \<and>
        (\<forall>sec \<in> set (''s'' # []). c \<noteq> computeHMACSHA256 demo_new_env sec ?v))"
  proof -
    obtain c where "waKeyMaterialHash demo_account = Some c" by (simp add: demo_account_def)
    then show ?thesis using demo_rotation(2) by (auto simp: demo_wallet_db_def h)
  qed
  from reencoded_key_restarts [OF demo_lengths(2) demo_well_formed demo_parses refl refl s other
      demo_allowed(1)] s
  show ?thesis by blast
qed

subsection \<open>What the server starts on\<close>






lemma isAddressSchemeAllowed_normal [simp]:
  "isAddressSchemeAllowed g (ToLower (TrimSpace c)) (ToLower (TrimSpace a)) = isAddressSchemeAllowed g c a"
  by (simp add: isAddressSchemeAllowed_def split: option.split)













text \<open>So it is for the store a successful start leaves.\<close>

lemma start_validates:
  "initializePersistence (Some (bootstrapPort h pg env be bg)) k c s = Some (None, s') \<Longrightarrow>
   ValidateAssetCatalogIntegrity pg bg s' = None"
  using boot.initialize_validated by (fastforce simp: bootstrapPort_def)

end
