(* ===== verification/WebhookGateway.thy ===== *)
theory WebhookGateway
  imports Dispatch CreateRequest
begin

text \<open>
  The HTTP gateway that delivers webhook events
  (\<^verbatim>\<open>internal/adapters/outbound/webhook/http/gateway.go\<close>): the guards, the signatures, the
  headers and the reading of the answer. Parameters are HMAC-SHA-256, the random source, the clock,
  the verdict of \<^verbatim>\<open>http.NewRequest\<close> on the destination and the HTTP client; a body is its bytes.
\<close>

subsection \<open>Configuration\<close>

record webhook_http_config =
  whHMACSecret :: string
  whTimeout :: duration

record http_gateway =
  hgHMACSecret :: string
  hgTimeout :: duration

definition NewHTTPGateway :: "webhook_http_config \<Rightarrow> http_gateway" where
  "NewHTTPGateway cfg =
     \<lparr>hgHMACSecret = TrimSpace (whHMACSecret cfg),
      hgTimeout = (if whTimeout cfg \<le> 0 then 5 * second else whTimeout cfg)\<rparr>"

subsection \<open>Requests and answers\<close>

text \<open>
  \<^verbatim>\<open>http.Header\<close> keeps its names in canonical form: the first letter and the letters after a
  hyphen in upper case, the others in lower case. An answer is its status, the bytes of the body
  that can be read, and whether an error follows them.
\<close>

record outgoing_request =
  rqMethod :: string
  rqURL :: string
  rqHeaders :: "(string \<times> string) list"
  rqBody :: string

record endpoint_reply =
  erStatus :: int
  erBody :: string
  erReadFails :: bool

record send_world =
  swNow :: time
  swRandom :: "string + nat list"
  swHmac :: "string \<Rightarrow> string \<Rightarrow> nat list"
  swNewRequest :: "string \<Rightarrow> string option"
  swDo :: "duration \<Rightarrow> outgoing_request \<Rightarrow> string + endpoint_reply"

fun canonical_from :: "bool \<Rightarrow> string \<Rightarrow> string" where
  "canonical_from upper [] = []"
| "canonical_from upper (c # cs) =
     (if upper then upper_char c else lower_char c) # canonical_from (c = CHR ''-'') cs"

definition canonicalHeaderKey :: "string \<Rightarrow> string" where
  "canonicalHeaderKey = canonical_from True"

definition setHeader :: "string \<Rightarrow> string \<Rightarrow> (string \<times> string) list \<Rightarrow> (string \<times> string) list" where
  "setHeader name v hs = assoc_put (canonicalHeaderKey name) v hs"

text \<open>\<^verbatim>\<open>Header.Get\<close>: the empty string for a missing name.\<close>

definition getHeader :: "outgoing_request \<Rightarrow> string \<Rightarrow> string" where
  "getHeader r name = (case lookup (rqHeaders r) (canonicalHeaderKey name) of Some v \<Rightarrow> v | None \<Rightarrow> [])"

subsection \<open>Signatures\<close>

definition webhookNonce :: "send_world \<Rightarrow> string + string" where
  "webhookNonce w = (case swRandom w of Inl e \<Rightarrow> Inl e | Inr bytes \<Rightarrow> Inr (hex_string bytes))"

definition webhookLegacySignature ::
  "(string \<Rightarrow> string \<Rightarrow> nat list) \<Rightarrow> string \<Rightarrow> string \<Rightarrow> string \<Rightarrow> string" where
  "webhookLegacySignature hmac secret timestamp body =
     hex_string (hmac secret (timestamp @ ''.'' @ body))"

text \<open>The chunks written to the version 1 signature, one after the other.\<close>

definition signedText :: "string \<Rightarrow> string \<Rightarrow> string \<Rightarrow> string \<Rightarrow> string \<Rightarrow> string" where
  "signedText timestamp nonce eventID eventType body =
     timestamp @ ''.'' @ nonce @ ''.'' @ TrimSpace eventID @ ''.'' @ TrimSpace eventType @ ''.'' @ body"

definition webhookV1Signature ::
  "(string \<Rightarrow> string \<Rightarrow> nat list) \<Rightarrow> string \<Rightarrow> string \<Rightarrow> string \<Rightarrow> string \<Rightarrow> string \<Rightarrow> string \<Rightarrow> string" where
  "webhookV1Signature hmac secret timestamp nonce eventID eventType body =
     hex_string (hmac secret (signedText timestamp nonce eventID eventType body))"

definition BuildExpectedSignatureHeader ::
  "(string \<Rightarrow> string \<Rightarrow> nat list) \<Rightarrow> string \<Rightarrow> string \<Rightarrow> string \<Rightarrow> string" where
  "BuildExpectedSignatureHeader hmac secret timestamp body =
     ''sha256='' @ webhookLegacySignature hmac secret timestamp body"

definition BuildExpectedSignatureV1Header ::
  "(string \<Rightarrow> string \<Rightarrow> nat list) \<Rightarrow> string \<Rightarrow> string \<Rightarrow> string \<Rightarrow> string \<Rightarrow> string \<Rightarrow> string \<Rightarrow> string" where
  "BuildExpectedSignatureV1Header hmac secret timestamp nonce eventID eventType body =
     ''sha256='' @ webhookV1Signature hmac secret timestamp nonce eventID eventType body"

subsection \<open>Sending an event\<close>

text \<open>The headers in the order the code sets them, and the request they belong to.\<close>

definition webhookHeaders ::
  "send_world \<Rightarrow> string \<Rightarrow> string \<Rightarrow> string \<Rightarrow> string \<Rightarrow> int \<Rightarrow> string \<Rightarrow> (string \<times> string) list" where
  "webhookHeaders w secret nonce eventID eventType deliveryAttempt body =
     (let timestamp = FormatInt (swNow w div second)
      in foldl (\<lambda>hs (name, v). setHeader name v hs) []
        [(''Content-Type'', ''application/json''),
         (''X-ChainTx-Event-Id'', eventID),
         (''Idempotency-Key'', eventID),
         (''X-ChainTx-Event-Type'', eventType),
         (''X-ChainTx-Delivery-Attempt'', FormatInt deliveryAttempt),
         (''X-ChainTx-Timestamp'', timestamp),
         (''X-ChainTx-Nonce'', nonce),
         (''X-ChainTx-Signature-Version'', ''v1''),
         (''X-ChainTx-Signature-V1'',
            ''sha256='' @ webhookV1Signature (swHmac w) secret timestamp nonce eventID eventType body),
         (''X-ChainTx-Signature'', ''sha256='' @ webhookLegacySignature (swHmac w) secret timestamp body)])"

definition buildWebhookRequest ::
  "(gval \<Rightarrow> string) \<Rightarrow> http_gateway option \<Rightarrow> send_world \<Rightarrow> send_input \<Rightarrow> outgoing_request res" where
  "buildWebhookRequest bytesOf g w input =
     (case g of
        None \<Rightarrow> Inl (NewInternal ''webhook_gateway_not_configured'' ''webhook gateway is not configured'' [])
      | Some gw \<Rightarrow>
          (let secret = hgHMACSecret gw;
               body = bytesOf (siPayload input);
               eventID = TrimSpace (siEventID input);
               eventType = TrimSpace (siEventType input);
               destinationURL = TrimSpace (siDestinationURL input);
               deliveryAttempt = (if siDeliveryAttempt input \<le> 0 then 1 else siDeliveryAttempt input)
           in if secret = [] then
                Inl (NewInternal ''webhook_hmac_secret_missing'' ''webhook hmac secret is missing'' [])
              else if body = [] then
                Inl (NewValidation ''webhook_payload_missing'' ''webhook payload is required'' [])
              else if eventID = [] then
                Inl (NewValidation ''webhook_event_id_missing'' ''webhook event id is required'' [])
              else if eventType = [] then
                Inl (NewValidation ''webhook_event_type_missing'' ''webhook event type is required'' [])
              else if destinationURL = [] then
                Inl (NewValidation ''webhook_destination_missing'' ''webhook destination url is required''
                  [(''field'', GStr ''destination_url'')])
              else (case webhookNonce w of
                  Inl e \<Rightarrow> Inl (NewInternal ''webhook_nonce_generation_failed''
                    ''failed to generate webhook nonce'' [(''error'', GStr e)])
                | Inr nonce \<Rightarrow>
                    (case swNewRequest w destinationURL of
                       Some e \<Rightarrow> Inl (NewInternal ''webhook_request_build_failed''
                         ''failed to build webhook request'' [(''error'', GStr e)])
                     | None \<Rightarrow> Inr \<lparr>rqMethod = ''POST'', rqURL = destinationURL,
                         rqHeaders = webhookHeaders w secret nonce eventID eventType deliveryAttempt body,
                         rqBody = body\<rparr>))))"

text \<open>At most 1024 bytes of an error answer are quoted; nothing when reading them fails.\<close>

definition bodyPreview :: "endpoint_reply \<Rightarrow> string" where
  "bodyPreview reply =
     (if erReadFails reply \<and> length (erBody reply) < 1024 then []
      else TrimSpace (take 1024 (erBody reply)))"

definition webhookReply :: "endpoint_reply \<Rightarrow> int \<times> app_error option" where
  "webhookReply reply =
     (erStatus reply,
      if erStatus reply < 200 \<or> erStatus reply > 299 then
        Some (NewInternal ''webhook_delivery_failed'' ''webhook endpoint returned non-2xx status''
          [(''status_code'', GInt (erStatus reply)), (''body'', GStr (bodyPreview reply))])
      else None)"

definition SendWebhookEvent ::
  "(gval \<Rightarrow> string) \<Rightarrow> http_gateway option \<Rightarrow> send_world \<Rightarrow> webhook_gateway" where
  "SendWebhookEvent bytesOf g w input =
     (case buildWebhookRequest bytesOf g w input of
        Inl e \<Rightarrow> (0, Some e)
      | Inr request \<Rightarrow>
          (case swDo w (hgTimeout (the g)) request of
             Inl e \<Rightarrow> (0, Some (NewInternal ''webhook_delivery_failed'' ''failed to send webhook request''
               [(''error'', GStr e)]))
           | Inr reply \<Rightarrow> webhookReply reply))"

subsection \<open>What a request says\<close>

lemma canonical_names [simp]:
  "canonicalHeaderKey ''Content-Type'' = ''Content-Type''"
  "canonicalHeaderKey ''X-ChainTx-Event-Id'' = ''X-Chaintx-Event-Id''"
  "canonicalHeaderKey ''Idempotency-Key'' = ''Idempotency-Key''"
  "canonicalHeaderKey ''X-ChainTx-Event-Type'' = ''X-Chaintx-Event-Type''"
  "canonicalHeaderKey ''X-ChainTx-Delivery-Attempt'' = ''X-Chaintx-Delivery-Attempt''"
  "canonicalHeaderKey ''X-ChainTx-Timestamp'' = ''X-Chaintx-Timestamp''"
  "canonicalHeaderKey ''X-ChainTx-Nonce'' = ''X-Chaintx-Nonce''"
  "canonicalHeaderKey ''X-ChainTx-Signature-Version'' = ''X-Chaintx-Signature-Version''"
  "canonicalHeaderKey ''X-ChainTx-Signature-V1'' = ''X-Chaintx-Signature-V1''"
  "canonicalHeaderKey ''X-ChainTx-Signature'' = ''X-Chaintx-Signature''"
  by code_simp+

lemma webhookHeaders_lookup [simp]:
  "lookup (webhookHeaders w secret nonce eventID eventType n body) ''X-Chaintx-Event-Id'' = Some eventID"
  "lookup (webhookHeaders w secret nonce eventID eventType n body) ''Idempotency-Key'' = Some eventID"
  "lookup (webhookHeaders w secret nonce eventID eventType n body) ''X-Chaintx-Event-Type'' = Some eventType"
  "lookup (webhookHeaders w secret nonce eventID eventType n body) ''X-Chaintx-Timestamp'' =
     Some (FormatInt (swNow w div second))"
  "lookup (webhookHeaders w secret nonce eventID eventType n body) ''X-Chaintx-Nonce'' = Some nonce"
  "lookup (webhookHeaders w secret nonce eventID eventType n body) ''X-Chaintx-Signature-Version'' = Some ''v1''"
  "lookup (webhookHeaders w secret nonce eventID eventType n body) ''X-Chaintx-Signature-V1'' =
     Some (''sha256='' @ webhookV1Signature (swHmac w) secret (FormatInt (swNow w div second)) nonce
       eventID eventType body)"
  "lookup (webhookHeaders w secret nonce eventID eventType n body) ''X-Chaintx-Signature'' =
     Some (''sha256='' @ webhookLegacySignature (swHmac w) secret (FormatInt (swNow w div second)) body)"
  by (simp_all add: webhookHeaders_def Let_def setHeader_def)

end
