(* ===== verification/DeliveryProps.thy ===== *)
theory DeliveryProps
  imports WebhookGateway DispatchLemmas Examples
begin

text \<open>
  Properties of the delivery over HTTP: what the signature of a request covers, that receivers can
  recompute it from the request, and that an event is recorded as delivered only after its
  endpoint acknowledged such a request.
\<close>

subsection \<open>Signatures\<close>

lemma buildWebhookRequest_Inr:
  assumes "buildWebhookRequest bytesOf g w i = Inr r"
  obtains gw nonce where "g = Some gw" "hgHMACSecret gw \<noteq> []" "bytesOf (siPayload i) \<noteq> []"
    "TrimSpace (siEventID i) \<noteq> []" "TrimSpace (siEventType i) \<noteq> []" "webhookNonce w = Inr nonce"
    "rqURL r = TrimSpace (siDestinationURL i)" "rqURL r \<noteq> []" "rqBody r = bytesOf (siPayload i)"
    "rqHeaders r = webhookHeaders w (hgHMACSecret gw) nonce (TrimSpace (siEventID i))
       (TrimSpace (siEventType i)) (if siDeliveryAttempt i \<le> 0 then 1 else siDeliveryAttempt i) (rqBody r)"
  using assms by (auto simp: buildWebhookRequest_def Let_def split: option.splits if_splits sum.splits)

lemma built_headers:
  assumes "buildWebhookRequest bytesOf (Some gw) w i = Inr r"
  obtains nonce where "webhookNonce w = Inr nonce"
    "getHeader r ''X-ChainTx-Event-Id'' = TrimSpace (siEventID i)"
    "getHeader r ''Idempotency-Key'' = TrimSpace (siEventID i)"
    "getHeader r ''X-ChainTx-Event-Type'' = TrimSpace (siEventType i)"
    "getHeader r ''X-ChainTx-Timestamp'' = FormatInt (swNow w div second)"
    "getHeader r ''X-ChainTx-Nonce'' = nonce"
    "getHeader r ''X-ChainTx-Signature-V1'' = ''sha256='' @ webhookV1Signature (swHmac w) (hgHMACSecret gw)
       (FormatInt (swNow w div second)) nonce (TrimSpace (siEventID i)) (TrimSpace (siEventType i)) (rqBody r)"
    "getHeader r ''X-ChainTx-Signature'' = ''sha256='' @ webhookLegacySignature (swHmac w) (hgHMACSecret gw)
       (FormatInt (swNow w div second)) (rqBody r)"
  using assms by (elim buildWebhookRequest_Inr) (simp add: getHeader_def)

text \<open>
  A receiver that knows the secret recomputes both signatures from the request itself: for
  every request the gateway builds, the expected headers over its own timestamp, nonce, event id,
  event type and body are the ones it carries. The event id is also the idempotency key, so that
  retries of one event are recognised, and the body is the payload, byte for byte.
\<close>

theorem built_request_verifies:
  assumes "buildWebhookRequest bytesOf (Some (NewHTTPGateway cfg)) w i = Inr r"
  shows "getHeader r ''X-ChainTx-Signature-V1'' =
      BuildExpectedSignatureV1Header (swHmac w) (TrimSpace (whHMACSecret cfg))
        (getHeader r ''X-ChainTx-Timestamp'') (getHeader r ''X-ChainTx-Nonce'')
        (getHeader r ''X-ChainTx-Event-Id'') (getHeader r ''X-ChainTx-Event-Type'') (rqBody r) \<and>
    getHeader r ''X-ChainTx-Signature'' =
      BuildExpectedSignatureHeader (swHmac w) (TrimSpace (whHMACSecret cfg))
        (getHeader r ''X-ChainTx-Timestamp'') (rqBody r) \<and>
    getHeader r ''Idempotency-Key'' = TrimSpace (siEventID i) \<and>
    getHeader r ''X-ChainTx-Event-Id'' = TrimSpace (siEventID i) \<and>
    rqBody r = bytesOf (siPayload i)"
proof -
  have "rqBody r = bytesOf (siPayload i)" using assms by (rule buildWebhookRequest_Inr)
  with assms show ?thesis
    by (elim built_headers)
      (simp add: NewHTTPGateway_def BuildExpectedSignatureV1Header_def BuildExpectedSignatureHeader_def)
qed

definition demo_send :: send_input where
  "demo_send = \<lparr>siEventID = '' evt_1 '', siEventType = ''payment_request.status_changed'',
     siDeliveryAttempt = 0, siDestinationURL = ''https://shop.example/hook'', siPayload = GMap []\<rparr>"

definition demo_send_world :: "int \<Rightarrow> send_world" where
  "demo_send_world status =
     \<lparr>swNow = 5 * second, swRandom = Inr [1, 171], swHmac = (\<lambda>k m. map byte_of (k @ take 1 m)),
      swNewRequest = (\<lambda>_. None),
      swDo = (\<lambda>_ _. Inr \<lparr>erStatus = status, erBody = '' gone '', erReadFails = False\<rparr>)\<rparr>"

definition demo_http :: webhook_http_config where
  "demo_http = \<lparr>whHMACSecret = ''k '', whTimeout = 0\<rparr>"

abbreviation demo_request :: "outgoing_request res" where
  "demo_request \<equiv> buildWebhookRequest (\<lambda>_. ''{}'') (Some (NewHTTPGateway demo_http)) (demo_send_world 204) demo_send"

lemma demo_built:
  obtains r where "demo_request = Inr r" "getHeader r ''X-ChainTx-Nonce'' = ''01ab''"
    "getHeader r ''X-ChainTx-Timestamp'' = ''5''" "getHeader r ''X-ChainTx-Event-Id'' = ''evt_1''"
    "getHeader r ''X-ChainTx-Event-Type'' = ''payment_request.status_changed''" "rqBody r = ''{}''"
proof -
  have "map_sum id (\<lambda>r. (getHeader r ''X-ChainTx-Nonce'', getHeader r ''X-ChainTx-Timestamp'',
        getHeader r ''X-ChainTx-Event-Id'', getHeader r ''X-ChainTx-Event-Type'', rqBody r)) demo_request =
      Inr (''01ab'', ''5'', ''evt_1'', ''payment_request.status_changed'', ''{}'')" by code_simp
  then show thesis using that by (cases demo_request) simp_all
qed

theorem built_request_verifies_witness:
  "\<exists>r. demo_request = Inr r \<and> getHeader r ''Idempotency-Key'' = ''evt_1'' \<and>
     getHeader r ''X-ChainTx-Nonce'' = ''01ab'' \<and>
     getHeader r ''X-ChainTx-Signature'' =
       BuildExpectedSignatureHeader (swHmac (demo_send_world 204)) ''k'' ''5'' ''{}''"
proof -
  obtain r where r: "demo_request = Inr r" and hs: "getHeader r ''X-ChainTx-Nonce'' = ''01ab''"
    "getHeader r ''X-ChainTx-Timestamp'' = ''5''" "rqBody r = ''{}''" by (rule demo_built)
  have t: "TrimSpace (siEventID demo_send) = ''evt_1''" "TrimSpace (whHMACSecret demo_http) = ''k''"
    by code_simp+
  show ?thesis using built_request_verifies [OF r] hs by (intro exI [of _ r]) (simp add: r t)
qed

subsection \<open>What is signed\<close>

lemma append_sep_inject:
  "c \<notin> set a \<Longrightarrow> c \<notin> set a' \<Longrightarrow> a @ c # x = a' @ c # y \<longleftrightarrow> a = a' \<and> x = y"
proof (induction a arbitrary: a')
  case Nil
  then show ?case by (cases a') auto
next
  case (Cons b a)
  then show ?case by (cases a') auto
qed

lemma dot_free_int: "CHR ''.'' \<notin> set (FormatInt i)"
proof
  assume "CHR ''.'' \<in> set (FormatInt i)"
  moreover have "c \<in> set (FormatInt i) \<Longrightarrow> is_digit c \<or> c = CHR ''-''" for c
    using nat_digits_all_digits by (auto simp: FormatInt_def all_digits_def list_all_iff split: if_splits)
  ultimately have "is_digit (CHR ''.'')" by blast
  then show False by (simp add: is_digit_def byte_of_def)
qed

lemma hex_char_not_dot: "n < 16 \<Longrightarrow> hex_char n \<noteq> CHR ''.''"
proof -
  have "\<forall>n \<in> set [0..<16]. hex_char n \<noteq> CHR ''.''" by code_simp
  then show "n < 16 \<Longrightarrow> hex_char n \<noteq> CHR ''.''" by simp
qed

lemma dot_free_hex: "CHR ''.'' \<notin> set (hex_string bs)"
proof -
  have "hex_char (n mod 16) \<noteq> CHR ''.''" for n by (rule hex_char_not_dot) simp
  then show ?thesis by (auto simp: hex_string_def) (metis)+
qed

lemma dot_free_nonce: "webhookNonce w = Inr nonce \<Longrightarrow> CHR ''.'' \<notin> set nonce"
  by (auto simp: webhookNonce_def dot_free_hex split: sum.splits)

lemma signedText_inject:
  assumes "signedText t n i e b = signedText t' n' i' e' b'"
    and "CHR ''.'' \<notin> set t \<union> set n \<union> set i" "CHR ''.'' \<notin> set t' \<union> set n' \<union> set i'"
    and "CHR ''{'' \<notin> set e \<union> set e'" "b = CHR ''{'' # c" "b' = CHR ''{'' # c'"
  shows "t = t' \<and> n = n' \<and> TrimSpace i = TrimSpace i' \<and> TrimSpace e = TrimSpace e' \<and> b = b'"
proof -
  have dots: "CHR ''.'' \<notin> set (TrimSpace i)" "CHR ''.'' \<notin> set (TrimSpace i')"
    using set_TrimSpace assms(2,3) by blast+
  have braces: "CHR ''{'' \<notin> set (TrimSpace e @ ''.'')" "CHR ''{'' \<notin> set (TrimSpace e' @ ''.'')"
    using set_TrimSpace [of e] set_TrimSpace [of e'] assms(4) by auto
  have "t = t' \<and> n = n' \<and> TrimSpace i = TrimSpace i' \<and>
      (TrimSpace e @ ''.'') @ CHR ''{'' # c = (TrimSpace e' @ ''.'') @ CHR ''{'' # c'"
    using assms(1-3) dots unfolding signedText_def assms(5,6) by (simp add: append_sep_inject)
  then show ?thesis
    using append_sep_inject [OF braces, of c c'] assms(5,6) by simp
qed

text \<open>
  C27. The text under the version 1 signature determines what it speaks for: two requests whose
  signed texts agree have the same timestamp, nonce, event id, event type and body, although the
  parts are joined by dots and an event type contains dots. It needs event ids without a dot,
  event types without a brace and bodies that are JSON objects, as the events of the outbox have;
  the delivery attempt is not covered.
\<close>

theorem signature_covers_event:
  assumes "buildWebhookRequest bytesOf g w i = Inr r" "buildWebhookRequest bytesOf' g' w' i' = Inr r'"
    and "CHR ''.'' \<notin> set (siEventID i) \<union> set (siEventID i')"
    and "CHR ''{'' \<notin> set (siEventType i) \<union> set (siEventType i')"
    and "hd (rqBody r) = CHR ''{''" "hd (rqBody r') = CHR ''{''"
    and "signedText (getHeader r ''X-ChainTx-Timestamp'') (getHeader r ''X-ChainTx-Nonce'')
           (getHeader r ''X-ChainTx-Event-Id'') (getHeader r ''X-ChainTx-Event-Type'') (rqBody r) =
         signedText (getHeader r' ''X-ChainTx-Timestamp'') (getHeader r' ''X-ChainTx-Nonce'')
           (getHeader r' ''X-ChainTx-Event-Id'') (getHeader r' ''X-ChainTx-Event-Type'') (rqBody r')"
  shows "swNow w div second = swNow w' div second \<and> webhookNonce w = webhookNonce w' \<and>
    TrimSpace (siEventID i) = TrimSpace (siEventID i') \<and>
    TrimSpace (siEventType i) = TrimSpace (siEventType i') \<and> rqBody r = rqBody r'"
proof -
  obtain gw where g: "g = Some gw" "rqBody r \<noteq> []" using assms(1) by (auto elim: buildWebhookRequest_Inr)
  obtain gw' where g': "g' = Some gw'" "rqBody r' \<noteq> []" using assms(2) by (auto elim: buildWebhookRequest_Inr)
  obtain n where h: "webhookNonce w = Inr n" "getHeader r ''X-ChainTx-Nonce'' = n"
    "getHeader r ''X-ChainTx-Event-Id'' = TrimSpace (siEventID i)"
    "getHeader r ''X-ChainTx-Event-Type'' = TrimSpace (siEventType i)"
    "getHeader r ''X-ChainTx-Timestamp'' = FormatInt (swNow w div second)"
    using built_headers [OF assms(1) [unfolded g(1)]] by metis
  obtain n' where h': "webhookNonce w' = Inr n'" "getHeader r' ''X-ChainTx-Nonce'' = n'"
    "getHeader r' ''X-ChainTx-Event-Id'' = TrimSpace (siEventID i')"
    "getHeader r' ''X-ChainTx-Event-Type'' = TrimSpace (siEventType i')"
    "getHeader r' ''X-ChainTx-Timestamp'' = FormatInt (swNow w' div second)"
    using built_headers [OF assms(2) [unfolded g'(1)]] by metis
  have dots: "CHR ''.'' \<notin> set (FormatInt t) \<union> set n \<union> set (TrimSpace (siEventID i))"
    "CHR ''.'' \<notin> set (FormatInt t) \<union> set n' \<union> set (TrimSpace (siEventID i'))" for t
    using set_TrimSpace dot_free_int dot_free_nonce [OF h(1)] dot_free_nonce [OF h'(1)] assms(3) by blast+
  have braces: "CHR ''{'' \<notin> set (TrimSpace (siEventType i)) \<union> set (TrimSpace (siEventType i'))"
    using set_TrimSpace assms(4) by blast
  have b: "rqBody r = CHR ''{'' # tl (rqBody r)" "rqBody r' = CHR ''{'' # tl (rqBody r')"
    using assms(5,6) g(2) g'(2) by (metis list.collapse)+
  note same = signedText_inject [OF assms(7) [unfolded h h'] dots braces b]
  then have "FormatInt (swNow w div second) = FormatInt (swNow w' div second)" by simp
  then have "swNow w div second = swNow w' div second" by (rule FormatInt_inj)
  with same show ?thesis by (simp add: h(1) h'(1))
qed

text \<open>The second world differs in its clock, which the signed text shows.\<close>

theorem signature_covers_event_witness:
  "\<exists>r. demo_request = Inr r \<and>
     signedText ''5'' ''01ab'' ''evt_1'' ''payment_request.status_changed'' ''{}'' =
     signedText (getHeader r ''X-ChainTx-Timestamp'') (getHeader r ''X-ChainTx-Nonce'')
       (getHeader r ''X-ChainTx-Event-Id'') (getHeader r ''X-ChainTx-Event-Type'') (rqBody r) \<and>
     (\<forall>w r'. buildWebhookRequest (\<lambda>_. ''{}'') (Some (NewHTTPGateway demo_http)) w demo_send = Inr r' \<longrightarrow>
       signedText (getHeader r ''X-ChainTx-Timestamp'') (getHeader r ''X-ChainTx-Nonce'')
         (getHeader r ''X-ChainTx-Event-Id'') (getHeader r ''X-ChainTx-Event-Type'') (rqBody r) =
       signedText (getHeader r' ''X-ChainTx-Timestamp'') (getHeader r' ''X-ChainTx-Nonce'')
         (getHeader r' ''X-ChainTx-Event-Id'') (getHeader r' ''X-ChainTx-Event-Type'') (rqBody r') \<longrightarrow>
       swNow w div second = 5)"
proof -
  obtain r where r: "demo_request = Inr r" and hs: "getHeader r ''X-ChainTx-Nonce'' = ''01ab''"
    "getHeader r ''X-ChainTx-Timestamp'' = ''5''" "getHeader r ''X-ChainTx-Event-Id'' = ''evt_1''"
    "getHeader r ''X-ChainTx-Event-Type'' = ''payment_request.status_changed''" "rqBody r = ''{}''"
    by (rule demo_built)
  have covered: "signedText ''5'' ''01ab'' ''evt_1'' ''payment_request.status_changed'' ''{}'' =
     signedText (getHeader r ''X-ChainTx-Timestamp'') (getHeader r ''X-ChainTx-Nonce'')
       (getHeader r ''X-ChainTx-Event-Id'') (getHeader r ''X-ChainTx-Event-Type'') (rqBody r)"
    unfolding hs ..
  have plain: "CHR ''.'' \<notin> set (siEventID demo_send) \<union> set (siEventID demo_send)"
    "CHR ''{'' \<notin> set (siEventType demo_send) \<union> set (siEventType demo_send)"
    "swNow (demo_send_world 204) div second = 5" by code_simp+
  have body: "rqBody q = ''{}''"
    if "buildWebhookRequest (\<lambda>_. ''{}'') (Some (NewHTTPGateway demo_http)) w demo_send = Inr q" for w q
    using that by (rule buildWebhookRequest_Inr)
  show ?thesis
  proof (intro exI [of _ r] conjI allI impI)
    fix w r'
    assume r': "buildWebhookRequest (\<lambda>_. ''{}'') (Some (NewHTTPGateway demo_http)) w demo_send = Inr r'"
      and same: "signedText (getHeader r ''X-ChainTx-Timestamp'') (getHeader r ''X-ChainTx-Nonce'')
         (getHeader r ''X-ChainTx-Event-Id'') (getHeader r ''X-ChainTx-Event-Type'') (rqBody r) =
       signedText (getHeader r' ''X-ChainTx-Timestamp'') (getHeader r' ''X-ChainTx-Nonce'')
         (getHeader r' ''X-ChainTx-Event-Id'') (getHeader r' ''X-ChainTx-Event-Type'') (rqBody r')"
    have "hd (rqBody r) = CHR ''{''" "hd (rqBody r') = CHR ''{''"
      using body [OF r] body [OF r'] by simp_all
    from signature_covers_event [OF r r' plain(1,2) this same] plain(3)
    show "swNow w div second = 5" by simp
  qed (rule r, rule covered)
qed

subsection \<open>Delivered means acknowledged\<close>

definition deliveredIDs :: "db \<Rightarrow> int set" where
  "deliveredIDs s = oeID ` {r \<in> set (dbOutbox s). oeDeliveryStatus r = ''delivered''}"

definition requestFor :: "pending_event \<Rightarrow> send_input" where
  "requestFor p =
     \<lparr>siEventID = peEventID p, siEventType = peEventType p,
      siDeliveryAttempt = (if peAttempts p + 1 \<le> 0 then 1 else peAttempts p + 1),
      siDestinationURL = TrimSpace (peDestinationURL p), siPayload = pePayload p\<rparr>"

definition acknowledged :: "int \<times> app_error option \<Rightarrow> bool" where
  "acknowledged answer \<longleftrightarrow> snd answer = None \<and> 200 \<le> fst answer \<and> fst answer \<le> 299"

lemma execRowsAffected_delivered:
  assumes "execRowsAffected pg stmt k hit f s = (q, s')"
    and "\<And>r. oeID (f r) = oeID r" "\<And>r. hit r \<Longrightarrow> oeID r = k"
    and "\<And>r. hit r \<Longrightarrow> oeDeliveryStatus (f r) = ''delivered'' \<Longrightarrow> b"
  shows "deliveredIDs s' \<subseteq> deliveredIDs s \<union> (if b then {k} else {})"
  using assms(1)
proof (cases rule: execRowsAffected_cases)
  case applied
  show ?thesis
  proof
    fix i
    assume "i \<in> deliveredIDs s'"
    then obtain r where r: "r \<in> set (dbOutbox s)" "i = oeID (if hit r then f r else r)"
      "oeDeliveryStatus (if hit r then f r else r) = ''delivered''"
      by (auto simp: deliveredIDs_def applied(2))
    then show "i \<in> deliveredIDs s \<union> (if b then {k} else {})"
      using assms(2) [of r] assms(3,4) [of r]
      by (cases "hit r") (auto simp: deliveredIDs_def)
  qed
qed simp

lemma execRowsAffected_adds:
  "execRowsAffected pg stmt k hit f s = (q, s') \<Longrightarrow> (\<And>r. oeID (f r) = oeID r) \<Longrightarrow>
     (\<And>r. hit r \<Longrightarrow> oeID r = k) \<Longrightarrow> deliveredIDs s' \<subseteq> insert k (deliveredIDs s)"
  by (drule execRowsAffected_delivered [where b = True]) auto

lemma execRowsAffected_keeps:
  "execRowsAffected pg stmt k hit f s = (q, s') \<Longrightarrow> (\<And>r. oeID (f r) = oeID r) \<Longrightarrow>
     (\<And>r. hit r \<Longrightarrow> oeID r = k) \<Longrightarrow> (\<And>r. hit r \<Longrightarrow> oeDeliveryStatus (f r) \<noteq> ''delivered'') \<Longrightarrow>
     deliveredIDs s' \<subseteq> deliveredIDs s"
  by (drule execRowsAffected_delivered [where b = False]) auto

lemma mark_delivered_ids:
  "MarkDelivered pg k own at s = (q, s') \<Longrightarrow> deliveredIDs s' \<subseteq> insert k (deliveredIDs s)"
  "MarkRetry pg k own n nx err at s = (q, s') \<Longrightarrow> deliveredIDs s' \<subseteq> deliveredIDs s"
  "MarkFailed pg k own n err at s = (q, s') \<Longrightarrow> deliveredIDs s' \<subseteq> deliveredIDs s"
  "RenewLease pg k own until at s = (q, s') \<Longrightarrow> deliveredIDs s' \<subseteq> deliveredIDs s"
  unfolding MarkDelivered_def MarkRetry_def MarkFailed_def RenewLease_def
  by (erule execRowsAffected_adds execRowsAffected_keeps; simp add: ownedPending_def)+

lemma heartbeat_delivered:
  "runLeaseHeartbeat (webhookRepository pg) ev k w d bs s = (e, s') \<Longrightarrow> deliveredIDs s' \<subseteq> deliveredIDs s"
proof (induction bs arbitrary: s)
  case (Cons b bs)
  obtain e1 s1 where r: "renewWebhookLease (webhookRepository pg) ev k w d b s = (e1, s1)" by fastforce
  then obtain q where "RenewLease pg k w (b + d) b s = (q, s1)"
    by (auto simp: renewWebhookLease_def split: prod.splits sum.splits bool.splits)
  then have "deliveredIDs s1 \<subseteq> deliveredIDs s" by (rule mark_delivered_ids)
  with Cons r show ?case by (cases e1) auto
qed simp

lemma dispatchRow_delivered:
  assumes "dispatchRow (webhookRepository pg) send beats cmd now w row out s = (out', e, s')"
  shows "deliveredIDs s' \<subseteq> deliveredIDs s \<union> (if acknowledged (send (requestFor row)) then {peID row} else {})"
proof (cases "TrimSpace (peDestinationURL row) = []")
  case True
  with assms show ?thesis by (auto simp: dispatchRow_def)
next
  case False
  obtain hb s1 where h: "runLeaseHeartbeat (webhookRepository pg) (peEventID row) (peID row) w
      (dcLeaseDuration cmd) (beats row) s = (hb, s1)" by fastforce
  obtain code err where sent: "send (requestFor row) = (code, err)" by fastforce
  note run = assms [unfolded dispatchRow_def Let_def h sent [unfolded requestFor_def] webhookRepository_simps prod.case]
  have "deliveredIDs s' \<subseteq> deliveredIDs s1 \<union> (if acknowledged (code, err) then {peID row} else {})"
  proof (cases "acknowledged (code, err)")
    case True
    with run False have "\<exists>q. MarkDelivered pg (peID row) w now s1 = (q, s')"
      by (auto simp: acknowledged_def dest!: finishRow_store)
    with True show ?thesis using mark_delivered_ids(1) by fastforce
  next
    case nak: False
    then have "\<not> (err = None \<and> 200 \<le> code \<and> code \<le> 299)" by (simp add: acknowledged_def)
    note failed = run [unfolded if_not_P [OF this] if_not_P [OF False]]
    have "deliveredIDs s' \<subseteq> deliveredIDs s1"
    proof (cases "peAttempts row + 1 \<ge> webhookEffectiveMaxAttempts (peMaxAttempts row) (dcRetryBudget cmd)")
      case True
      from finishRow_store [OF failed [unfolded if_P [OF True]]] show ?thesis
        using mark_delivered_ids(3) by blast
    next
      case again: False
      from finishRow_store [OF failed [unfolded if_not_P [OF again]]] show ?thesis
        using mark_delivered_ids(2) by blast
    qed
    with nak show ?thesis by simp
  qed
  with heartbeat_delivered [OF h] show ?thesis unfolding sent by (auto split: if_splits)
qed

lemma dispatchRows_delivered:
  "dispatchRows (webhookRepository pg) send beats cmd now w rows out s = (out', e, s') \<Longrightarrow>
     deliveredIDs s' \<subseteq> deliveredIDs s \<union> peID ` {p \<in> set rows. acknowledged (send (requestFor p))}"
proof (induction rows arbitrary: out s)
  case (Cons row rows)
  obtain o1 e1 s1 where row: "dispatchRow (webhookRepository pg) send beats cmd now w row out s = (o1, e1, s1)"
    by (cases "dispatchRow (webhookRepository pg) send beats cmd now w row out s") auto
  note one = dispatchRow_delivered [OF row]
  show ?case
  proof (cases e1)
    case None
    with Cons.prems row
    have "dispatchRows (webhookRepository pg) send beats cmd now w rows o1 s1 = (out', e, s')" by simp
    from Cons.IH [OF this] one show ?thesis by (fastforce split: if_splits)
  next
    case (Some x)
    with Cons.prems row one show ?thesis by (auto split: if_splits)
  qed
qed simp

lemma deliveredIDs_list:
  "deliveredIDs s = set (map oeID (filter (\<lambda>r. oeDeliveryStatus r = ''delivered'') (dbOutbox s)))"
  by (auto simp: deliveredIDs_def)

lemma leased_delivered:
  "map oeID (filter (\<lambda>r. oeDeliveryStatus r = ''delivered'') (leaseEvents ids own until at rows)) =
     map oeID (filter (\<lambda>r. oeDeliveryStatus r = ''delivered'') rows)"
  by (induction rows) (simp_all add: leaseEvents_def)

lemma claimed_delivered:
  assumes "claimPending pg now lim own until s = (q, s')"
  shows "deliveredIDs s' = deliveredIDs s"
    and "q = Inr rows \<Longrightarrow> p \<in> set rows \<Longrightarrow>
      \<exists>r \<in> set (dbOutbox s). p = pendingEventOf r \<and> oeDeliveryStatus r = ''pending''"
proof -
  have lease: "deliveredIDs (s\<lparr>dbOutbox := leaseEvents ids own' until' at (dbOutbox s)\<rparr>) = deliveredIDs s"
    for ids own' until' at
    unfolding deliveredIDs_list using leased_delivered by simp
  from assms show "deliveredIDs s' = deliveredIDs s"
    by (cases rule: claimPending_cases) (auto simp: lease)
  show "\<exists>r \<in> set (dbOutbox s). p = pendingEventOf r \<and> oeDeliveryStatus r = ''pending''"
    if "q = Inr rows" "p \<in> set rows"
    using assms
  proof (cases rule: claimPending_cases)
    case (leased chosen)
    with that show ?thesis
      by (auto simp: dispatchCandidates_def dispatchable_def dest!: in_set_takeD)
  qed (use that in simp)
qed

lemma dispatchExecute_delivered:
  assumes "dispatchExecute (Some (webhookRepository pg)) (Some send) beats clock cmd s = (out, e, s')"
    and "k \<in> deliveredIDs s'" "k \<notin> deliveredIDs s"
  shows "\<exists>r \<in> set (dbOutbox s). oeID r = k \<and> oeDeliveryStatus r = ''pending'' \<and>
    acknowledged (send (requestFor (pendingEventOf r)))"
proof (cases "validateDispatch (Some (webhookRepository pg)) (Some send) cmd")
  case None
  let ?now = "if IsZero (dcNow cmd) then clock else dcNow cmd"
  obtain q t where c: "claimPending pg ?now (dcBatchSize cmd) (TrimSpace (dcWorkerID cmd))
      (?now + dcLeaseDuration cmd) s = (q, t)" by fastforce
  note claimed = claimed_delivered [OF c]
  show ?thesis
  proof (cases q)
    case (Inl x)
    with assms None c claimed(1) show ?thesis by (simp add: dispatchExecute_def Let_def)
  next
    case (Inr rows)
    with assms(1) None c have "dispatchRows (webhookRepository pg) send beats cmd ?now
        (TrimSpace (dcWorkerID cmd)) rows (zero_dispatch_output\<lparr>doClaimed := int (length rows)\<rparr>) t =
        (out, e, s')" by (simp add: dispatchExecute_def Let_def)
    from dispatchRows_delivered [OF this] assms(2,3) claimed(1) obtain p where
      "p \<in> set rows" "k = peID p" "acknowledged (send (requestFor p))" by blast
    with claimed(2) [OF Inr] show ?thesis by (fastforce simp: pendingEventOf_def)
  qed
qed (use assms in \<open>simp add: dispatchExecute_def\<close>)

lemma SendWebhookEvent_acknowledged:
  assumes "acknowledged (SendWebhookEvent bytesOf (Some gw) w i)"
  shows "\<exists>r reply. buildWebhookRequest bytesOf (Some gw) w i = Inr r \<and>
    swDo w (hgTimeout gw) r = Inr reply \<and> 200 \<le> erStatus reply \<and> erStatus reply \<le> 299"
  using assms
  by (auto simp: acknowledged_def SendWebhookEvent_def webhookReply_def split: sum.splits if_splits)

lemma built_request:
  assumes "buildWebhookRequest bytesOf (Some gw) w i = Inr r"
  shows "rqURL r = TrimSpace (siDestinationURL i) \<and> rqBody r = bytesOf (siPayload i) \<and>
    getHeader r ''X-ChainTx-Event-Id'' = TrimSpace (siEventID i)"
  using assms by (elim buildWebhookRequest_Inr) (simp add: getHeader_def)

lemma requestFor_row [simp]:
  "TrimSpace (siDestinationURL (requestFor (pendingEventOf r))) = TrimSpace (peDestinationURL (pendingEventOf r))"
  "siPayload (requestFor (pendingEventOf r)) = oePayload r"
  "siEventID (requestFor (pendingEventOf r)) = oeEventID r"
  by (simp_all add: requestFor_def pendingEventOf_def)

text \<open>
  C6. An event becomes delivered only after its endpoint acknowledged it: whatever a dispatch run
  marks as delivered was pending before, and a request for it, to its own destination, carrying
  its event id and its payload, was answered with a status from 200 to 299.
\<close>

theorem delivered_was_acknowledged:
  assumes "dispatchExecute (Some (webhookRepository pg))
      (Some (\<lambda>i. SendWebhookEvent bytesOf (Some (NewHTTPGateway cfg)) (world i) i)) beats clock cmd s =
      (out, e, s')"
    and "r' \<in> set (dbOutbox s')" "oeDeliveryStatus r' = ''delivered''"
  shows "(\<exists>r \<in> set (dbOutbox s). oeID r = oeID r' \<and> oeDeliveryStatus r = ''delivered'') \<or>
    (\<exists>r \<in> set (dbOutbox s). oeID r = oeID r' \<and> oeDeliveryStatus r = ''pending'' \<and>
      (\<exists>q reply. swDo (world (requestFor (pendingEventOf r))) (hgTimeout (NewHTTPGateway cfg)) q = Inr reply \<and>
        200 \<le> erStatus reply \<and> erStatus reply \<le> 299 \<and>
        rqURL q = TrimSpace (peDestinationURL (pendingEventOf r)) \<and> rqBody q = bytesOf (oePayload r) \<and>
        getHeader q ''X-ChainTx-Event-Id'' = TrimSpace (oeEventID r)))"
proof (cases "oeID r' \<in> deliveredIDs s")
  case True
  then show ?thesis by (auto simp: deliveredIDs_def)
next
  case False
  have "oeID r' \<in> deliveredIDs s'" using assms(2,3) by (auto simp: deliveredIDs_def)
  from dispatchExecute_delivered [OF assms(1) this False] obtain r where
    r: "r \<in> set (dbOutbox s)" "oeID r = oeID r'" "oeDeliveryStatus r = ''pending''"
    "acknowledged (SendWebhookEvent bytesOf (Some (NewHTTPGateway cfg))
       (world (requestFor (pendingEventOf r))) (requestFor (pendingEventOf r)))" by blast
  from SendWebhookEvent_acknowledged [OF r(4)] obtain q reply where
    q: "buildWebhookRequest bytesOf (Some (NewHTTPGateway cfg)) (world (requestFor (pendingEventOf r)))
        (requestFor (pendingEventOf r)) = Inr q"
    "swDo (world (requestFor (pendingEventOf r))) (hgTimeout (NewHTTPGateway cfg)) q = Inr reply"
    "200 \<le> erStatus reply" "erStatus reply \<le> 299" by blast
  from built_request [OF q(1)] have "rqURL q = TrimSpace (peDestinationURL (pendingEventOf r)) \<and>
      rqBody q = bytesOf (oePayload r) \<and> getHeader q ''X-ChainTx-Event-Id'' = TrimSpace (oeEventID r)"
    by simp
  with r q show ?thesis by blast
qed

definition demo_delivery :: dispatch_command where
  "demo_delivery =
     \<lparr>dcNow = 10 * second, dcBatchSize = 5, dcWorkerID = ''w1'', dcLeaseDuration = 30 * second,
      dcInitialBackoff = 5 * second, dcMaxBackoff = 300 * second, dcRetryJitterBPS = 0, dcRetryBudget = 0\<rparr>"

theorem delivered_was_acknowledged_witness:
  "\<exists>r \<in> set (dbOutbox (demo_outbox ''pending'')). oeID r = 1 \<and> oeDeliveryStatus r = ''pending'' \<and>
     (\<exists>q reply. swDo (demo_send_world 204) (5 * second) q = Inr reply \<and> erStatus reply = 204 \<and>
        rqURL q = ''https://shop.example'' \<and> rqBody q = ''{}'')"
proof -
  let ?run = "dispatchExecute (Some (webhookRepository demo_pg)) (Some (\<lambda>i. SendWebhookEvent (\<lambda>_. ''{}'')
     (Some (NewHTTPGateway demo_http)) (demo_send_world 204) i)) (\<lambda>_. []) 0 demo_delivery (demo_outbox ''pending'')"
  obtain out e s' where run: "?run = (out, e, s')" by (cases ?run)
  have st: "map (\<lambda>r. (oeID r, oeDeliveryStatus r)) (dbOutbox (snd (snd ?run))) = [(1, ''delivered'')]"
    by code_simp
  then obtain r' where r': "r' \<in> set (dbOutbox s')" "oeDeliveryStatus r' = ''delivered''" "oeID r' = 1"
    by (cases "dbOutbox s'") (auto simp: run)
  have plain: "\<not> (\<exists>r \<in> set (dbOutbox (demo_outbox ''pending'')). oeID r = oeID r' \<and> oeDeliveryStatus r = ''delivered'')"
    "hgTimeout (NewHTTPGateway demo_http) = 5 * second"
    by (simp_all add: demo_outbox_def demo_event_def NewHTTPGateway_def demo_http_def)
  have url: "TrimSpace (peDestinationURL (pendingEventOf r)) = ''https://shop.example''"
    if "r \<in> set (dbOutbox (demo_outbox ''pending''))" for r
  proof -
    have "TrimSpace (peDestinationURL (pendingEventOf (demo_event ''pending''))) = ''https://shop.example''"
      by code_simp
    with that show ?thesis by (simp add: demo_outbox_def)
  qed
  from delivered_was_acknowledged [OF run r'(1,2)] plain r'(3) url
  show ?thesis by (fastforce simp: demo_send_world_def)
qed

end
