(* ===== verification/AlertMonitor.thy ===== *)
theory AlertMonitor
  imports OutboxOps
begin

text \<open>
  The webhook alert monitor (\<^verbatim>\<open>internal/infrastructure/webhookalert/alert_monitor.go\<close>): per signal,
  a state in a map, and one evaluation of the outbox overview that raises, repeats and resolves
  alerts.
\<close>

subsection \<open>Configuration and state\<close>

record alert_config =
  acEnabled :: bool
  acCooldown :: duration
  acFailedCountThreshold :: int
  acPendingReadyThreshold :: int
  acOldestPendingAgeSecLimit :: int

record alert_signal_state =
  asActive :: bool
  asTriggeredAt :: time
  asLastNotifiedAt :: time

record alert_monitor =
  amConfig :: alert_config
  amStates :: "string \<rightharpoonup> alert_signal_state"

datatype alert_label = Triggered | Ongoing | Resolved

fun alertText :: "alert_label \<Rightarrow> string" where
  "alertText Triggered = ''triggered''"
| "alertText Ongoing = ''ongoing''"
| "alertText Resolved = ''resolved''"

record alert_event =
  aeState :: alert_label
  aeSignal :: string
  aeCurrent :: int
  aeThreshold :: int
  aeCooldown :: duration

text \<open>\<^verbatim>\<open>now.Sub(t)\<close> saturates at the ends of the 64-bit range.\<close>

definition timeSub :: "time \<Rightarrow> time \<Rightarrow> duration" where
  "timeSub t u = max min_int64 (min max_int64 (t - u))"

definition newAlertMonitor :: "alert_config \<Rightarrow> alert_monitor" where
  "newAlertMonitor cfg =
     \<lparr>amConfig = (if acCooldown cfg \<le> 0 then cfg\<lparr>acCooldown := 300 * second\<rparr> else cfg),
      amStates = Map.empty\<rparr>"

definition monitorEnabled :: "alert_monitor option \<Rightarrow> bool" where
  "monitorEnabled m = (case m of None \<Rightarrow> False | Some mon \<Rightarrow> acEnabled (amConfig mon))"

subsection \<open>One signal\<close>

text \<open>Reading a signal the map does not hold gives the zero value.\<close>

definition signalState :: "alert_monitor \<Rightarrow> string \<Rightarrow> alert_signal_state" where
  "signalState m signal =
     (case amStates m signal of
        Some st \<Rightarrow> st
      | None \<Rightarrow> \<lparr>asActive = False, asTriggeredAt = zero_time, asLastNotifiedAt = zero_time\<rparr>)"

definition evaluateSignal ::
  "time \<Rightarrow> string \<Rightarrow> int \<Rightarrow> int \<Rightarrow> bool \<Rightarrow> alert_monitor \<Rightarrow> alert_event list \<times> alert_monitor" where
  "evaluateSignal now signal current threshold breached m =
     (let state = signalState m signal;
          event = (\<lambda>label. \<lparr>aeState = label, aeSignal = signal, aeCurrent = current,
                     aeThreshold = threshold, aeCooldown = acCooldown (amConfig m)\<rparr>);
          put = (\<lambda>st. m\<lparr>amStates := (amStates m)(signal \<mapsto> st)\<rparr>)
      in if breached then
           (if \<not> asActive state then
              ([event Triggered],
               put (state\<lparr>asActive := True, asTriggeredAt := now, asLastNotifiedAt := now\<rparr>))
            else if timeSub now (asLastNotifiedAt state) < acCooldown (amConfig m) then ([], m)
            else ([event Ongoing], put (state\<lparr>asLastNotifiedAt := now\<rparr>)))
         else if asActive state then
           ([event Resolved], m\<lparr>amStates := (amStates m)(signal := None)\<rparr>)
         else ([], m))"

subsection \<open>One evaluation\<close>

text \<open>The three signals: its name, the value observed, the threshold, and whether it is breached.\<close>

definition alertSignals :: "alert_config \<Rightarrow> outbox_overview \<Rightarrow> (string \<times> int \<times> int \<times> bool) list" where
  "alertSignals cfg overview =
     [(''failed_count'', ovFailed overview, acFailedCountThreshold cfg,
         acFailedCountThreshold cfg \<le> ovFailed overview),
      (''pending_ready_count'', ovPendingReady overview, acPendingReadyThreshold cfg,
         acPendingReadyThreshold cfg \<le> ovPendingReady overview),
      (case ovOldestPendingAgeSec overview of
         None \<Rightarrow> (''oldest_pending_age_seconds'', 0, acOldestPendingAgeSecLimit cfg, False)
       | Some age \<Rightarrow> (''oldest_pending_age_seconds'', age, acOldestPendingAgeSecLimit cfg,
           acOldestPendingAgeSecLimit cfg \<le> age))]"

fun evaluateSignals ::
  "time \<Rightarrow> (string \<times> int \<times> int \<times> bool) list \<Rightarrow> alert_monitor \<Rightarrow> alert_event list \<times> alert_monitor" where
  "evaluateSignals now [] m = ([], m)"
| "evaluateSignals now ((signal, current, threshold, breached) # rest) m =
     (if threshold > 0 then
        (let (events, m') = evaluateSignal now signal current threshold breached m;
             (more_events, m'') = evaluateSignals now rest m'
         in (events @ more_events, m''))
      else evaluateSignals now rest m)"

definition evaluate :: "time \<Rightarrow> outbox_overview \<Rightarrow> alert_monitor \<Rightarrow> alert_event list \<times> alert_monitor" where
  "evaluate now overview m =
     (if \<not> monitorEnabled (Some m) then ([], m)
      else evaluateSignals now (alertSignals (amConfig m) overview) m)"

subsection \<open>The life of a signal\<close>

text \<open>
  What a signal's alerts may look like: triggered while no alert is open, then ongoing notices at
  least a cooldown apart, until it is resolved. The state is the instant of the last notice of the
  open alert.
\<close>

fun alertLife :: "duration \<Rightarrow> time option \<Rightarrow> (time \<times> alert_label) list \<Rightarrow> time option option" where
  "alertLife cooldown cur [] = Some cur"
| "alertLife cooldown None ((t, Triggered) # es) = alertLife cooldown (Some t) es"
| "alertLife cooldown (Some u) ((t, Ongoing) # es) =
     (if cooldown \<le> t - u then alertLife cooldown (Some t) es else None)"
| "alertLife cooldown (Some u) ((t, Resolved) # es) = alertLife cooldown None es"
| "alertLife cooldown cur (e # es) = None"

lemma alertLife_append:
  "alertLife c cur (xs @ ys) = Option.bind (alertLife c cur xs) (\<lambda>opened'. alertLife c opened' ys)"
  by (induction c cur xs rule: alertLife.induct) auto

definition openSince :: "alert_monitor \<Rightarrow> string \<Rightarrow> time option" where
  "openSince m signal =
     (if asActive (signalState m signal) then Some (asLastNotifiedAt (signalState m signal)) else None)"

definition noticesOf :: "string \<Rightarrow> time \<Rightarrow> alert_event list \<Rightarrow> (time \<times> alert_label) list" where
  "noticesOf signal now events =
     map (\<lambda>e. (now, aeState e)) (filter (\<lambda>e. aeSignal e = signal) events)"

text \<open>The cooldown of a configured monitor is positive and a \<^verbatim>\<open>time.Duration\<close>.\<close>

definition cooldownOK :: "duration \<Rightarrow> bool" where
  "cooldownOK c = (0 < c \<and> c \<le> max_int64)"

lemma timeSub_cooldown: "cooldownOK c \<Longrightarrow> \<not> timeSub t u < c \<Longrightarrow> c \<le> t - u"
  by (simp add: cooldownOK_def timeSub_def min_int64_def max_int64_def max_def min_def split: if_splits)

lemma evaluateSignal_life:
  assumes "cooldownOK (acCooldown (amConfig m))"
    and "evaluateSignal now signal current threshold breached m = (events, m')"
  shows "alertLife (acCooldown (amConfig m)) (openSince m signal) (noticesOf signal now events) =
           Some (openSince m' signal)"
    and "openSince m' signal \<noteq> None \<longleftrightarrow> breached"
    and "amConfig m' = amConfig m"
    and "other \<noteq> signal \<Longrightarrow> openSince m' other = openSince m other"
    and "other \<noteq> signal \<Longrightarrow> noticesOf other now events = []"
  using assms timeSub_cooldown [OF assms(1)]
  by (auto simp: evaluateSignal_def Let_def openSince_def signalState_def noticesOf_def
      split: if_splits option.splits)

lemma noticesOf_append: "noticesOf s now (xs @ ys) = noticesOf s now xs @ noticesOf s now ys"
  by (simp add: noticesOf_def)

lemma evaluateSignals_life:
  assumes "cooldownOK (acCooldown (amConfig m))" "evaluateSignals now sigs m = (events, m')"
  shows "alertLife (acCooldown (amConfig m)) (openSince m s) (noticesOf s now events) =
           Some (openSince m' s) \<and> amConfig m' = amConfig m"
  using assms
proof (induction now sigs m arbitrary: events m' rule: evaluateSignals.induct)
  case (2 now signal current threshold breached rest m)
  show ?case
  proof (cases "threshold > 0")
    case True
    obtain ev1 m1 where one: "evaluateSignal now signal current threshold breached m = (ev1, m1)"
      by (cases "evaluateSignal now signal current threshold breached m")
    obtain ev2 m2 where two: "evaluateSignals now rest m1 = (ev2, m2)"
      by (cases "evaluateSignals now rest m1")
    note life = evaluateSignal_life [OF 2(3) one]
    have split: "events = ev1 @ ev2" "m' = m2" using 2(4) True one two by auto
    have rest: "alertLife (acCooldown (amConfig m)) (openSince m1 s) (noticesOf s now ev2) =
        Some (openSince m2 s) \<and> amConfig m2 = amConfig m"
      using 2(1) [OF True one [symmetric] refl _ two] 2(3) life(3) by simp
    have "alertLife (acCooldown (amConfig m)) (openSince m s) (noticesOf s now ev1) =
        Some (openSince m1 s)"
      using life(1) life(4,5) [of s] by (cases "s = signal") simp_all
    with rest show ?thesis by (simp add: split noticesOf_append alertLife_append)
  qed (use 2 in simp)
qed (simp add: noticesOf_def)

lemma evaluateSignals_others:
  assumes "cooldownOK (acCooldown (amConfig m))" "evaluateSignals now sigs m = (events, m')"
    and "\<forall>sig \<in> set sigs. fst sig \<noteq> s"
  shows "openSince m' s = openSince m s"
  using assms
proof (induction now sigs m arbitrary: events m' rule: evaluateSignals.induct)
  case (2 now signal current threshold breached rest m)
  obtain ev1 m1 where one: "evaluateSignal now signal current threshold breached m = (ev1, m1)"
    by (cases "evaluateSignal now signal current threshold breached m")
  obtain ev2 m2 where two: "evaluateSignals now rest m1 = (ev2, m2)"
    by (cases "evaluateSignals now rest m1")
  note life = evaluateSignal_life [OF 2(3) one]
  show ?case
  proof (cases "threshold > 0")
    case True
    have "openSince m2 s = openSince m1 s"
      using 2(1) [OF True one [symmetric] refl _ two] 2(3,5) life(3) by simp
    moreover have "openSince m1 s = openSince m s" using life(4) [of s] 2(5) by auto
    ultimately show ?thesis using 2(4) True one two by auto
  qed (use 2 in simp)
qed simp

end
