(* ===== verification/Workers.thy ===== *)
theory Workers
  imports AlertMonitor Reconcile Dispatch
begin

text \<open>
  The background workers (\<^verbatim>\<open>internal/infrastructure/reconciler/worker.go\<close>,
  \<^verbatim>\<open>internal/infrastructure/webhook/worker.go\<close> and
  \<^verbatim>\<open>internal/infrastructure/webhookalert/worker.go\<close>): each runs a cycle at once and then one for
  every tick until its context ends. A cycle reports its outcome to the log; what it logs is what
  the model returns.
\<close>

subsection \<open>Cycles and ticks\<close>

text \<open>
  \<open>TickerPanic\<close>: \<^verbatim>\<open>time.NewTicker\<close> panics for an interval that is not positive. A tick is the
  instant of a cycle and what the rest of the system did to the store since the cycle before.
\<close>

datatype worker_end = NotStarted | StoppedByContext | TickerPanic

type_synonym 's tick = "time \<times> ('s \<Rightarrow> 's)"

fun runCycles :: "(time \<Rightarrow> 's \<Rightarrow> 'o \<times> 's) \<Rightarrow> 's tick list \<Rightarrow> 's \<Rightarrow> 'o list \<times> 's" where
  "runCycles cycle [] s = ([], s)"
| "runCycles cycle ((now, meanwhile) # ticks) s =
     (let (out, s') = cycle now (meanwhile s);
          (outs, s'') = runCycles cycle ticks s'
      in (out # outs, s''))"

definition startWorker ::
  "bool \<Rightarrow> duration \<Rightarrow> (time \<Rightarrow> 's \<Rightarrow> 'o \<times> 's) \<Rightarrow> time \<Rightarrow> 's tick list \<Rightarrow> 's \<Rightarrow>
   worker_end \<times> 'o list \<times> 's" where
  "startWorker startable pollInterval cycle now ticks s =
     (if \<not> startable then (NotStarted, [], s)
      else (let (out, s') = cycle now s
            in if pollInterval \<le> 0 then (TickerPanic, [out], s')
               else (let (outs, s'') = runCycles cycle ticks s'
                     in (StoppedByContext, out # outs, s''))))"

subsection \<open>The reconciler's worker\<close>

type_synonym 's reconcile_use_case = "time \<Rightarrow> reconcile_command \<Rightarrow> 's \<Rightarrow> 's row_result"

record 's reconcile_worker =
  rwEnabled :: bool
  rwPollInterval :: duration
  rwBatchSize :: int
  rwWorkerID :: string
  rwLeaseDuration :: duration
  rwReorgObserveWindow :: duration
  rwStabilityCycles :: int
  rwUseCase :: "'s reconcile_use_case option"

definition reconcileCommand :: "'s reconcile_worker \<Rightarrow> time \<Rightarrow> reconcile_command" where
  "reconcileCommand w startedAt =
     \<lparr>rcNow = startedAt, rcBatchSize = rwBatchSize w, rcWorkerID = rwWorkerID w,
      rcLeaseDuration = rwLeaseDuration w, rcReorgObserveWindow = rwReorgObserveWindow w,
      rcStabilityCycles = rwStabilityCycles w\<rparr>"

definition reconcileCycle ::
  "'s reconcile_worker \<Rightarrow> time \<Rightarrow> 's \<Rightarrow> (reconcile_output \<times> app_error option) \<times> 's" where
  "reconcileCycle w startedAt s =
     (let (out, e, s') = the (rwUseCase w) startedAt (reconcileCommand w startedAt) s
      in ((out, e), s'))"

definition startReconcileWorker ::
  "'s reconcile_worker option \<Rightarrow> time \<Rightarrow> 's tick list \<Rightarrow> 's \<Rightarrow>
   worker_end \<times> (reconcile_output \<times> app_error option) list \<times> 's" where
  "startReconcileWorker worker now ticks s =
     (case worker of
        None \<Rightarrow> (NotStarted, [], s)
      | Some w \<Rightarrow> startWorker (rwEnabled w \<and> rwUseCase w \<noteq> None) (rwPollInterval w)
                    (reconcileCycle w) now ticks s)"

subsection \<open>The webhook dispatcher's worker\<close>

type_synonym 's dispatch_use_case = "time \<Rightarrow> dispatch_command \<Rightarrow> 's \<Rightarrow> 's dispatch_result"

record 's dispatch_worker =
  dwEnabled :: bool
  dwPollInterval :: duration
  dwBatchSize :: int
  dwWorkerID :: string
  dwLeaseDuration :: duration
  dwInitialBackoff :: duration
  dwMaxBackoff :: duration
  dwRetryJitterBPS :: int
  dwRetryBudget :: int
  dwUseCase :: "'s dispatch_use_case option"

definition dispatchCommand :: "'s dispatch_worker \<Rightarrow> time \<Rightarrow> dispatch_command" where
  "dispatchCommand w startedAt =
     \<lparr>dcNow = startedAt, dcBatchSize = dwBatchSize w, dcWorkerID = dwWorkerID w,
      dcLeaseDuration = dwLeaseDuration w, dcInitialBackoff = dwInitialBackoff w,
      dcMaxBackoff = dwMaxBackoff w, dcRetryJitterBPS = dwRetryJitterBPS w,
      dcRetryBudget = dwRetryBudget w\<rparr>"

definition dispatchCycle ::
  "'s dispatch_worker \<Rightarrow> time \<Rightarrow> 's \<Rightarrow> (dispatch_output \<times> app_error option) \<times> 's" where
  "dispatchCycle w startedAt s =
     (let (out, e, s') = the (dwUseCase w) startedAt (dispatchCommand w startedAt) s
      in ((out, e), s'))"

definition startDispatchWorker ::
  "'s dispatch_worker option \<Rightarrow> time \<Rightarrow> 's tick list \<Rightarrow> 's \<Rightarrow>
   worker_end \<times> (dispatch_output \<times> app_error option) list \<times> 's" where
  "startDispatchWorker worker now ticks s =
     (case worker of
        None \<Rightarrow> (NotStarted, [], s)
      | Some w \<Rightarrow> startWorker (dwEnabled w \<and> dwUseCase w \<noteq> None) (dwPollInterval w)
                    (dispatchCycle w) now ticks s)"

subsection \<open>The alert worker\<close>

text \<open>
  The store is only read here: the state of the worker is its monitor, and the overview use case
  answers for the instant of the cycle. A cycle logs the error of the overview or the events of
  the monitor.
\<close>

type_synonym overview_use_case = "time \<Rightarrow> outbox_overview res"

record alert_worker =
  awEnabled :: bool
  awPollInterval :: duration
  awWorkerID :: string
  awOverview :: "overview_use_case option"
  awMonitor :: alert_monitor

definition newAlertWorker ::
  "bool \<Rightarrow> duration \<Rightarrow> string \<Rightarrow> overview_use_case option \<Rightarrow> alert_config \<Rightarrow> alert_worker" where
  "newAlertWorker enabled pollInterval workerID overview cfg =
     \<lparr>awEnabled = enabled, awPollInterval = (if pollInterval \<le> 0 then 10 * second else pollInterval),
      awWorkerID = workerID, awOverview = overview, awMonitor = newAlertMonitor cfg\<rparr>"

definition alertCycle ::
  "overview_use_case \<Rightarrow> time \<Rightarrow> alert_monitor \<Rightarrow> (time \<times> (app_error + alert_event list)) \<times> alert_monitor" where
  "alertCycle overview now m =
     (case overview now of
        Inl e \<Rightarrow> ((now, Inl e), m)
      | Inr current \<Rightarrow> (let (events, m') = evaluate now current m in ((now, Inr events), m')))"

definition startAlertWorker ::
  "alert_worker option \<Rightarrow> time \<Rightarrow> time list \<Rightarrow>
   worker_end \<times> (time \<times> (app_error + alert_event list)) list" where
  "startAlertWorker worker now ticks =
     (case worker of
        None \<Rightarrow> (NotStarted, [])
      | Some w \<Rightarrow>
          (let (fin, logged, m) =
             startWorker (awEnabled w \<and> awOverview w \<noteq> None \<and> monitorEnabled (Some (awMonitor w)))
               (awPollInterval w) (alertCycle (the (awOverview w))) now
               (map (\<lambda>t. (t, id)) ticks) (awMonitor w)
           in (fin, logged)))"

subsection \<open>What holds across cycles\<close>

text \<open>A step that every cycle and every interference keeps is kept by the worker.\<close>

lemma runCycles_keeps:
  assumes step: "\<And>t s q s'. cycle t s = (q, s') \<Longrightarrow> I s \<Longrightarrow> I s'"
    and "\<forall>(t, meanwhile) \<in> set ticks. \<forall>s. I s \<longrightarrow> I (meanwhile s)"
    and "runCycles cycle ticks s = (outs, s')" and "I s"
  shows "I s'"
  using assms(2-4)
proof (induction ticks arbitrary: s outs s')
  case (Cons tick ticks)
  obtain t meanwhile where tick: "tick = (t, meanwhile)" by fastforce
  obtain out s1 where one: "cycle t (meanwhile s) = (out, s1)" by fastforce
  obtain outs' s2 where rest: "runCycles cycle ticks s1 = (outs', s2)" by fastforce
  have "I s1" using step [OF one] Cons.prems(1,3) by (auto simp: tick)
  with Cons.IH [OF _ rest] Cons.prems(1) have "I s2" by simp
  then show ?case using Cons.prems(2) by (simp add: tick one rest)
qed simp

lemma startWorker_keeps:
  assumes step: "\<And>t s q s'. cycle t s = (q, s') \<Longrightarrow> I s \<Longrightarrow> I s'"
    and ticks: "\<forall>(t, meanwhile) \<in> set ticks. \<forall>s. I s \<longrightarrow> I (meanwhile s)"
    and run: "startWorker b poll cycle now ticks s = (fin, outs, s')" and "I s"
  shows "I s'"
proof -
  obtain out s1 where one: "cycle now s = (out, s1)" by fastforce
  obtain outs' s2 where rest: "runCycles cycle ticks s1 = (outs', s2)" by fastforce
  have "I s1" using step [OF one \<open>I s\<close>] .
  moreover have "I s2"
    by (rule runCycles_keeps [of cycle I, OF _ ticks rest \<open>I s1\<close>]) (rule step)
  ultimately show ?thesis using run \<open>I s\<close> one rest by (auto simp: startWorker_def split: if_splits)
qed

lemma startWorker_ends:
  assumes "startWorker b poll cycle now ticks s = (fin, outs, s')"
  shows "fin = TickerPanic \<longleftrightarrow> b \<and> poll \<le> 0"
    and "fin = StoppedByContext \<Longrightarrow> length outs = Suc (length ticks)"
proof -
  have "length (fst (runCycles cycle ticks s)) = length ticks" for s
    by (induction cycle ticks s rule: runCycles.induct) (auto split: prod.splits)
  then show "fin = StoppedByContext \<Longrightarrow> length outs = Suc (length ticks)"
    using assms by (auto simp: startWorker_def split: prod.splits if_splits) (metis fst_conv)
  show "fin = TickerPanic \<longleftrightarrow> b \<and> poll \<le> 0"
    using assms by (auto simp: startWorker_def split: prod.splits if_splits)
qed

end
