(* ===== verification/WorkerProps.thy ===== *)
theory WorkerProps
  imports Workers Examples
begin

text \<open>
  Properties of the alert worker: the life of every alert it logs, and when an alert is open.
\<close>

subsection \<open>One evaluation\<close>

lemma evaluateSignals_breached:
  assumes "cooldownOK (acCooldown (amConfig m))" "evaluateSignals now sigs m = (events, m')"
    and "distinct (map fst sigs)" "(s, current, threshold, breached) \<in> set sigs" "0 < threshold"
  shows "openSince m' s \<noteq> None \<longleftrightarrow> breached"
  using assms
proof (induction now sigs m arbitrary: events m' rule: evaluateSignals.induct)
  case (2 now signal cur thr br rest m)
  obtain ev1 m1 where one: "evaluateSignal now signal cur thr br m = (ev1, m1)"
    by (cases "evaluateSignal now signal cur thr br m")
  obtain ev2 m2 where two: "evaluateSignals now rest m1 = (ev2, m2)"
    by (cases "evaluateSignals now rest m1")
  note life = evaluateSignal_life [OF 2(3) one]
  have cd: "cooldownOK (acCooldown (amConfig m1))" using 2(3) life(3) by simp
  show ?case
  proof (cases "s = signal")
    case True
    have "(s, current, threshold, breached) \<notin> set rest" using 2(5) True by (force simp: rev_image_eqI)
    then have "thr = threshold" "br = breached" using 2(6) True by auto
    moreover have "\<forall>sig \<in> set rest. fst sig \<noteq> s" using 2(5) True by auto
    ultimately show ?thesis
      using evaluateSignals_others [OF cd two] life(2) 2(4,7) one two True by auto
  next
    case other: False
    then have mem: "(s, current, threshold, breached) \<in> set rest" "distinct (map fst rest)"
      using 2(5,6) by auto
    show ?thesis
    proof (cases "0 < thr")
      case True
      have "m' = m2" using 2(4) True one two by auto
      with 2(1) [OF True one [symmetric] refl cd two mem(2,1) 2(7)] show ?thesis by simp
    next
      case False
      with 2(2) [OF False 2(3) _ mem(2,1) 2(7)] 2(4) show ?thesis by simp
    qed
  qed
qed simp

definition breaches :: "alert_config \<Rightarrow> string \<Rightarrow> outbox_overview \<Rightarrow> bool" where
  "breaches cfg s overview \<longleftrightarrow>
     (\<exists>current threshold. (s, current, threshold, True) \<in> set (alertSignals cfg overview))"

lemma alertSignals_names:
  "map fst (alertSignals cfg overview) =
     [''failed_count'', ''pending_ready_count'', ''oldest_pending_age_seconds'']"
  by (simp add: alertSignals_def split: option.splits)

definition thresholdOf :: "alert_config \<Rightarrow> string \<Rightarrow> int" where
  "thresholdOf cfg s =
     (if s = ''failed_count'' then acFailedCountThreshold cfg
      else if s = ''pending_ready_count'' then acPendingReadyThreshold cfg
      else if s = ''oldest_pending_age_seconds'' then acOldestPendingAgeSecLimit cfg else 0)"

lemma alertSignals_member:
  assumes "0 < thresholdOf cfg s"
  shows "\<exists>current. (s, current, thresholdOf cfg s, breaches cfg s overview) \<in> set (alertSignals cfg overview)"
  using assms
  by (auto simp: thresholdOf_def breaches_def alertSignals_def split: if_splits option.splits)

lemma evaluate_life:
  assumes "cooldownOK (acCooldown (amConfig m))" "evaluate now overview m = (events, m')"
    and "acEnabled (amConfig m)"
  shows "alertLife (acCooldown (amConfig m)) (openSince m s) (noticesOf s now events) = Some (openSince m' s)"
    and "amConfig m' = amConfig m"
    and "0 < thresholdOf (amConfig m) s \<Longrightarrow> openSince m' s \<noteq> None \<longleftrightarrow> breaches (amConfig m) s overview"
proof -
  have run: "evaluateSignals now (alertSignals (amConfig m) overview) m = (events, m')"
    using assms(2,3) by (simp add: evaluate_def monitorEnabled_def)
  show "alertLife (acCooldown (amConfig m)) (openSince m s) (noticesOf s now events) = Some (openSince m' s)"
    "amConfig m' = amConfig m"
    using evaluateSignals_life [OF assms(1) run, of s] by simp_all
  assume "0 < thresholdOf (amConfig m) s"
  from alertSignals_member [OF this, of overview] obtain current where
    "(s, current, thresholdOf (amConfig m) s, breaches (amConfig m) s overview)
       \<in> set (alertSignals (amConfig m) overview)" by blast
  from evaluateSignals_breached [OF assms(1) run _ this \<open>0 < _\<close>] alertSignals_names
  show "openSince m' s \<noteq> None \<longleftrightarrow> breaches (amConfig m) s overview" by simp
qed

subsection \<open>The cycles\<close>

type_synonym alert_log = "(time \<times> (app_error + alert_event list)) list"

definition loggedNotices :: "string \<Rightarrow> alert_log \<Rightarrow> (time \<times> alert_label) list" where
  "loggedNotices s logged =
     concat (map (\<lambda>(t, r). case r of Inl e \<Rightarrow> [] | Inr events \<Rightarrow> noticesOf s t events) logged)"

text \<open>Whether the last overview that could be read breaches the signal, \<open>b\<close> if none could.\<close>

fun lastBreach :: "overview_use_case \<Rightarrow> alert_config \<Rightarrow> string \<Rightarrow> time list \<Rightarrow> bool \<Rightarrow> bool" where
  "lastBreach overview cfg s [] b = b"
| "lastBreach overview cfg s (t # ts) b =
     lastBreach overview cfg s ts (case overview t of Inl e \<Rightarrow> b | Inr ov \<Rightarrow> breaches cfg s ov)"

lemma alertCycle_life:
  assumes "cooldownOK (acCooldown (amConfig m))" "alertCycle overview now m = (entry, m')"
    and "acEnabled (amConfig m)"
  shows "alertLife (acCooldown (amConfig m)) (openSince m s) (loggedNotices s [entry]) = Some (openSince m' s)"
    and "amConfig m' = amConfig m"
    and "0 < thresholdOf (amConfig m) s \<Longrightarrow>
      openSince m' s \<noteq> None \<longleftrightarrow> lastBreach overview (amConfig m) s [now] (openSince m s \<noteq> None)"
  using assms(2) evaluate_life [OF assms(1) _ assms(3)]
  by (auto simp: alertCycle_def loggedNotices_def split: sum.splits prod.splits)

lemma runCycles_life:
  assumes "runCycles (alertCycle overview) (map (\<lambda>t. (t, id)) ticks) m = (logged, m')"
    and "cooldownOK (acCooldown (amConfig m))" "acEnabled (amConfig m)"
  shows "alertLife (acCooldown (amConfig m)) (openSince m s) (loggedNotices s logged) = Some (openSince m' s) \<and>
    amConfig m' = amConfig m \<and>
    (0 < thresholdOf (amConfig m) s \<longrightarrow>
      (openSince m' s \<noteq> None \<longleftrightarrow> lastBreach overview (amConfig m) s ticks (openSince m s \<noteq> None)))"
  using assms
proof (induction ticks arbitrary: m logged m')
  case (Cons t ticks)
  obtain entry m1 where one: "alertCycle overview t m = (entry, m1)" by fastforce
  obtain logged2 m2 where two: "runCycles (alertCycle overview) (map (\<lambda>t. (t, id)) ticks) m1 = (logged2, m2)"
    by fastforce
  note life = alertCycle_life [OF Cons.prems(2) one Cons.prems(3)]
  have out: "logged = entry # logged2" "m' = m2" using Cons.prems(1) by (simp_all add: one two [unfolded id_def] id_def)
  have split: "loggedNotices s logged = loggedNotices s [entry] @ loggedNotices s logged2"
    by (simp add: loggedNotices_def out(1))
  show ?case
    using Cons.IH [OF two] Cons.prems(2,3) life(2) life(1,3) [of s]
    by (simp add: split alertLife_append out(2))
qed (simp add: loggedNotices_def)

text \<open>
  C32. Every alert the worker logs has a proper life: it is triggered while it is not open, ongoing
  notices follow each other only after the cooldown, and it is resolved once. After the last cycle
  an alert is open exactly if the last overview that could be read breaches its threshold. The
  worker never fails to start its ticker.
\<close>

theorem alert_life_cycle:
  assumes "startAlertWorker (Some (newAlertWorker True poll wid (Some overview) cfg)) now ticks = (fin, logged)"
    and "acEnabled cfg" "acCooldown cfg \<le> max_int64"
  shows "fin = StoppedByContext \<and>
    (\<exists>since. alertLife (if acCooldown cfg \<le> 0 then 300 * second else acCooldown cfg) None
        (loggedNotices s logged) = Some since \<and>
      (0 < thresholdOf cfg s \<longrightarrow> (since \<noteq> None \<longleftrightarrow> lastBreach overview cfg s (now # ticks) False)))"
proof -
  define m where "m = newAlertMonitor cfg"
  have cfg': "amConfig m = (if acCooldown cfg \<le> 0 then cfg\<lparr>acCooldown := 300 * second\<rparr> else cfg)"
    by (simp add: m_def newAlertMonitor_def)
  have cool: "acCooldown (amConfig m) = (if acCooldown cfg \<le> 0 then 300 * second else acCooldown cfg)"
    "acEnabled (amConfig m)" using assms(2) by (simp_all add: cfg')
  have ok: "cooldownOK (acCooldown (amConfig m))"
    using assms(3) by (simp add: cool cooldownOK_def max_int64_def second_def)
  have same: "thresholdOf (amConfig m) s = thresholdOf cfg s"
    "lastBreach overview (amConfig m) s ts b = lastBreach overview cfg s ts b" for ts b
  proof -
    show "thresholdOf (amConfig m) s = thresholdOf cfg s" by (simp add: cfg' thresholdOf_def)
    have "breaches (amConfig m) s ov = breaches cfg s ov" for ov
      by (simp add: cfg' breaches_def alertSignals_def split: option.split)
    then show "lastBreach overview (amConfig m) s ts b = lastBreach overview cfg s ts b"
      by (induction ts arbitrary: b) (simp_all split: sum.split)
  qed
  have fresh: "openSince m s = None"
    by (simp add: m_def newAlertMonitor_def openSince_def signalState_def)
  obtain entry m1 where one: "alertCycle overview now m = (entry, m1)" by fastforce
  obtain logged2 m2 where two: "runCycles (alertCycle overview) (map (\<lambda>t. (t, id)) ticks) m1 = (logged2, m2)"
    by fastforce
  have poll: "\<not> (if poll \<le> 0 then 10 * second else poll) \<le> 0" by (simp add: second_def)
  have out: "fin = StoppedByContext" "logged = entry # logged2"
    using assms(1) poll one two [unfolded id_def] cool(2)
    by (auto simp: startAlertWorker_def newAlertWorker_def startWorker_def monitorEnabled_def m_def [symmetric] id_def)
  have "runCycles (alertCycle overview) (map (\<lambda>t. (t, id)) (now # ticks)) m = (logged, m2)"
    using one two out(2) by simp
  from runCycles_life [OF this ok cool(2), of s] show ?thesis
    unfolding cool(1) same fresh out(1) by auto
qed

text \<open>Failures above two at each ten seconds, repeated after the cooldown, then gone.\<close>

definition demo_overview :: overview_use_case where
  "demo_overview t = Inr
     \<lparr>ovPending = 0, ovPendingReady = 0, ovRetrying = 0,
      ovFailed = (if t < 90 * second then 3 else 0), ovDelivered = 0,
      ovOldestPendingCreatedAt = None, ovOldestPendingAgeSec = None\<rparr>"

definition demo_alerts :: alert_config where
  "demo_alerts = \<lparr>acEnabled = True, acCooldown = 60 * second, acFailedCountThreshold = 2,
     acPendingReadyThreshold = 0, acOldestPendingAgeSecLimit = 0\<rparr>"

theorem alert_life_cycle_witness:
  "\<exists>logged. startAlertWorker (Some (newAlertWorker True 0 ''w'' (Some demo_overview) demo_alerts)) 0
      [30 * second, 61 * second, 91 * second] = (StoppedByContext, logged) \<and>
    loggedNotices ''failed_count'' logged =
      [(0, Triggered), (61 * second, Ongoing), (91 * second, Resolved)] \<and>
    alertLife (60 * second) None (loggedNotices ''failed_count'' logged) = Some None"
proof -
  let ?run = "startAlertWorker (Some (newAlertWorker True 0 ''w'' (Some demo_overview) demo_alerts)) 0
      [30 * second, 61 * second, 91 * second]"
  obtain fin logged where run: "?run = (fin, logged)" by fastforce
  have "loggedNotices ''failed_count'' (snd ?run) =
      [(0, Triggered), (61 * second, Ongoing), (91 * second, Resolved)]" by code_simp
  then have notices: "loggedNotices ''failed_count'' logged =
      [(0, Triggered), (61 * second, Ongoing), (91 * second, Resolved)]" by (simp add: run)
  have plain: "acEnabled demo_alerts" "acCooldown demo_alerts \<le> max_int64"
    "thresholdOf demo_alerts ''failed_count'' = 2" "acCooldown demo_alerts = 60 * second" by code_simp+
  have last: "\<not> lastBreach demo_overview demo_alerts ''failed_count'' [0, 30 * second, 61 * second, 91 * second] False"
    by (simp add: demo_overview_def breaches_def alertSignals_def demo_alerts_def second_def)
  have cool: "\<not> 60 * second \<le> (0::int)" by (simp add: second_def)
  from alert_life_cycle [OF run plain(1,2), of "''failed_count''"] last
  have "fin = StoppedByContext" "alertLife (60 * second) None (loggedNotices ''failed_count'' logged) = Some None"
    unfolding plain(3,4) if_not_P [OF cool] by auto
  with run notices show ?thesis by blast
qed

end
