(* ===== verification/Config.thy ===== *)
theory Config
  imports Startup CreateRequest
begin

text \<open>
  Loading the configuration from the environment
  (\<^verbatim>\<open>internal/infrastructure/config/config.go\<close>): the parsers of single settings, of the
  reconciler and webhook groups, of the JSON settings, and \<^verbatim>\<open>LoadConfig\<close>, which runs them in
  order and stops at the first error.
\<close>

subsection \<open>The outside world\<close>

text \<open>
  \<open>cwEnv\<close> is \<^verbatim>\<open>os.Getenv\<close>, \<open>cwURL\<close> is \<^verbatim>\<open>url.Parse\<close>, \<open>cwJSON\<close> the syntax of
  \<^verbatim>\<open>encoding/json\<close> (every JSON string as \<open>GStr\<close>, an object with its members in the order of the
  text), \<open>cwOrder\<close> the order in which \<^verbatim>\<open>range\<close> visits the keys of a map.
\<close>

record config_world =
  cwEnv :: "string \<Rightarrow> string"
  cwURL :: "string \<Rightarrow> url option"
  cwJSON :: "string \<Rightarrow> gval option"
  cwOrder :: "string list \<Rightarrow> string list"
  cwHostname :: "string option"
  cwPid :: int

record config_error =
  ceCode :: string
  ceMessage :: string
  ceMetadata :: "(string \<times> string) list"

type_synonym 'a config_result = "config_error + 'a"

definition configError :: "string \<Rightarrow> string \<Rightarrow> (string \<times> string) list \<Rightarrow> config_error + 'a" where
  "configError code msg meta = Inl \<lparr>ceCode = code, ceMessage = msg, ceMetadata = meta\<rparr>"

lemma configError_not_Inr [simp]: "configError c m d \<noteq> Inr x"
  by (simp add: configError_def)

text \<open>Going on with the value of a step, or returning its error.\<close>

definition andThen :: "'e + 'a \<Rightarrow> ('a \<Rightarrow> 'e + 'b) \<Rightarrow> 'e + 'b" where
  "andThen r f = (case r of Inl e \<Rightarrow> Inl e | Inr x \<Rightarrow> f x)"

lemma andThen_simps [simp]: "andThen (Inr x) f = f x" "andThen (Inl e) f = Inl e"
  by (simp_all add: andThen_def)

lemma andThen_Inr [simp]: "andThen r f = Inr y \<longleftrightarrow> (\<exists>x. r = Inr x \<and> f x = Inr y)"
  by (cases r) simp_all

definition setting :: "config_world \<Rightarrow> string \<Rightarrow> string" where
  "setting w key = TrimSpace (cwEnv w key)"

subsection \<open>Single settings\<close>

text \<open>Evaluating a numeral: the digits are summed up as an integer.\<close>

definition digits_int :: "string \<Rightarrow> int" where
  "digits_int s = foldl (\<lambda>n c. 10 * n + int (digit_val c)) 0 s"

lemma int_digits_val: "int (digits_val s) = digits_int s"
proof -
  have "int (foldl (\<lambda>n c. 10 * n + digit_val c) a s) = foldl (\<lambda>n c. 10 * n + int (digit_val c)) (int a) s" for a
    by (induction s arbitrary: a) simp_all
  from this [of 0] show ?thesis by (simp add: digits_val_def digits_int_def)
qed

lemmas parse_big_code [code] = parse_big_def [unfolded int_digits_val]

text \<open>\<^verbatim>\<open>strconv.Atoi\<close> and \<^verbatim>\<open>strconv.ParseBool\<close>, with \<open>None\<close> for an error.\<close>

definition Atoi :: "string \<Rightarrow> int option" where
  "Atoi s = (case ParseInt s of (v, failed) \<Rightarrow> if failed then None else Some v)"

definition ParseBool :: "string \<Rightarrow> bool option" where
  "ParseBool s =
     (if s \<in> {''1'', ''t'', ''T'', ''true'', ''TRUE'', ''True''} then Some True
      else if s \<in> {''0'', ''f'', ''F'', ''false'', ''FALSE'', ''False''} then Some False
      else None)"

definition parseBoolean :: "config_world \<Rightarrow> string \<Rightarrow> string \<Rightarrow> bool config_result" where
  "parseBoolean w key code =
     (let raw = setting w key
      in if raw = [] then Inr False
         else (case ParseBool raw of
             None \<Rightarrow> configError code (key @ '' must be a boolean'') []
           | Some b \<Rightarrow> Inr b))"

definition parsePositiveInt ::
  "config_world \<Rightarrow> string \<Rightarrow> string \<Rightarrow> string \<Rightarrow> int \<Rightarrow> int config_result" where
  "parsePositiveInt w key code msg defaultValue =
     (let raw = setting w key
      in if raw = [] then Inr defaultValue
         else (case Atoi raw of
             None \<Rightarrow> configError code (key @ msg) []
           | Some parsed \<Rightarrow> if parsed \<le> 0 then configError code (key @ msg) [] else Inr parsed))"

definition parseNonNegativeInt64 ::
  "config_world \<Rightarrow> string \<Rightarrow> string \<Rightarrow> string \<Rightarrow> int \<Rightarrow> int config_result" where
  "parseNonNegativeInt64 w key code msg defaultValue =
     (let raw = setting w key
      in if raw = [] then Inr defaultValue
         else (case Atoi raw of
             None \<Rightarrow> configError code (key @ msg) []
           | Some parsed \<Rightarrow> if parsed < 0 then configError code (key @ msg) [] else Inr parsed))"

text \<open>\<^verbatim>\<open>time.Duration(parsed) * time.Second\<close> is a product of 64-bit integers.\<close>

definition parsePositiveSeconds ::
  "config_world \<Rightarrow> string \<Rightarrow> string \<Rightarrow> string \<Rightarrow> duration \<Rightarrow> duration config_result" where
  "parsePositiveSeconds w key code msg defaultValue =
     (let raw = setting w key
      in if raw = [] then Inr defaultValue
         else (case Atoi raw of
             None \<Rightarrow> configError code (key @ msg) []
           | Some parsed \<Rightarrow> if parsed \<le> 0 then configError code (key @ msg) []
               else Inr (wrap64 (parsed * second))))"

definition parseInteger :: "config_world \<Rightarrow> string \<Rightarrow> string \<Rightarrow> int \<Rightarrow> int config_result" where
  "parseInteger w key code defaultValue =
     (let raw = setting w key
      in if raw = [] then Inr defaultValue
         else (case Atoi raw of
             None \<Rightarrow> configError code (key @ '' must be an integer'') []
           | Some parsed \<Rightarrow> Inr parsed))"

subsection \<open>The reconciler's settings\<close>

record reconciler_config =
  rgEnabled :: bool
  rgPollInterval :: duration
  rgBatchSize :: int
  rgLeaseDuration :: duration
  rgDetectedBPS :: int
  rgConfirmedBPS :: int
  rgBTCMinConfirmations :: int
  rgBTCFinalityMinConfirmations :: int
  rgEVMMinConfirmations :: int
  rgEVMFinalityMinConfirmations :: int
  rgReorgObserveWindow :: duration
  rgStabilityCycles :: int

abbreviation (input) inSeconds :: string where
  "inSeconds \<equiv> '' must be a positive integer in seconds''"

abbreviation (input) positiveInteger :: string where
  "positiveInteger \<equiv> '' must be a positive integer''"

definition parseThresholds :: "config_world \<Rightarrow> (int \<times> int) config_result" where
  "parseThresholds w =
     (let detectedKey = ''PAYMENT_REQUEST_RECONCILER_DETECTED_THRESHOLD_BPS'';
          confirmedKey = ''PAYMENT_REQUEST_RECONCILER_CONFIRMED_THRESHOLD_BPS'';
          detectedCode = ''CONFIG_RECONCILER_DETECTED_THRESHOLD_BPS_INVALID'';
          confirmedCode = ''CONFIG_RECONCILER_CONFIRMED_THRESHOLD_BPS_INVALID''
      in andThen (parseInteger w detectedKey detectedCode 10000) (\<lambda>detected.
         andThen (parseInteger w confirmedKey confirmedCode 10000) (\<lambda>confirmed.
           if confirmed < 1 \<or> confirmed > 10000 then
             configError confirmedCode (confirmedKey @ '' must be between 1 and 10000'') []
           else if detected < 1 \<or> detected > confirmed then
             configError detectedCode
               (detectedKey @ '' must be between 1 and '' @ FormatInt confirmed) []
           else Inr (detected, confirmed))))"

text \<open>
  The confirmations of one chain: the finality minimum defaults to the business minimum and may
  not be below it.
\<close>

definition parseConfirmations ::
  "config_world \<Rightarrow> string \<Rightarrow> string \<Rightarrow> string \<Rightarrow> string \<Rightarrow> (int \<times> int) config_result" where
  "parseConfirmations w minKey minCode finalityKey finalityCode =
     andThen (parsePositiveInt w minKey minCode positiveInteger 1) (\<lambda>minimum.
     andThen (parsePositiveInt w finalityKey finalityCode positiveInteger minimum) (\<lambda>finality.
       if finality < minimum then
         configError finalityCode
           (finalityKey @ '' must be greater than or equal to '' @ minKey) []
       else Inr (minimum, finality)))"

definition parseReconcilerConfig :: "config_world \<Rightarrow> reconciler_config config_result" where
  "parseReconcilerConfig w =
     andThen (parseBoolean w ''PAYMENT_REQUEST_RECONCILER_ENABLED''
       ''CONFIG_RECONCILER_ENABLED_INVALID'') (\<lambda>enabled.
     andThen (parsePositiveSeconds w ''PAYMENT_REQUEST_RECONCILER_POLL_INTERVAL_SECONDS''
       ''CONFIG_RECONCILER_POLL_INTERVAL_INVALID'' inSeconds (15 * second)) (\<lambda>pollInterval.
     andThen (parsePositiveInt w ''PAYMENT_REQUEST_RECONCILER_BATCH_SIZE''
       ''CONFIG_RECONCILER_BATCH_SIZE_INVALID'' positiveInteger 100) (\<lambda>batchSize.
     andThen (parsePositiveSeconds w ''PAYMENT_REQUEST_RECONCILER_LEASE_SECONDS''
       ''CONFIG_RECONCILER_LEASE_SECONDS_INVALID'' inSeconds (30 * second)) (\<lambda>leaseDuration.
     andThen (parseThresholds w) (\<lambda>(detectedBPS, confirmedBPS).
     andThen (parseConfirmations w ''PAYMENT_REQUEST_RECONCILER_BTC_MIN_CONFIRMATIONS''
       ''CONFIG_RECONCILER_BTC_MIN_CONFIRMATIONS_INVALID''
       ''PAYMENT_REQUEST_RECONCILER_BTC_FINALITY_MIN_CONFIRMATIONS''
       ''CONFIG_RECONCILER_BTC_FINALITY_MIN_CONFIRMATIONS_INVALID'') (\<lambda>(btcMin, btcFinality).
     andThen (parseConfirmations w ''PAYMENT_REQUEST_RECONCILER_EVM_MIN_CONFIRMATIONS''
       ''CONFIG_RECONCILER_EVM_MIN_CONFIRMATIONS_INVALID''
       ''PAYMENT_REQUEST_RECONCILER_EVM_FINALITY_MIN_CONFIRMATIONS''
       ''CONFIG_RECONCILER_EVM_FINALITY_MIN_CONFIRMATIONS_INVALID'') (\<lambda>(evmMin, evmFinality).
     andThen (parsePositiveSeconds w ''PAYMENT_REQUEST_RECONCILER_REORG_OBSERVE_WINDOW_SECONDS''
       ''CONFIG_RECONCILER_REORG_OBSERVE_WINDOW_SECONDS_INVALID'' inSeconds (24 * hour)) (\<lambda>window.
     andThen (parsePositiveInt w ''PAYMENT_REQUEST_RECONCILER_STABILITY_CYCLES''
       ''CONFIG_RECONCILER_STABILITY_CYCLES_INVALID'' positiveInteger 1) (\<lambda>stabilityCycles.
       Inr \<lparr>rgEnabled = enabled, rgPollInterval = pollInterval, rgBatchSize = batchSize,
            rgLeaseDuration = leaseDuration, rgDetectedBPS = detectedBPS,
            rgConfirmedBPS = confirmedBPS, rgBTCMinConfirmations = btcMin,
            rgBTCFinalityMinConfirmations = btcFinality, rgEVMMinConfirmations = evmMin,
            rgEVMFinalityMinConfirmations = evmFinality, rgReorgObserveWindow = window,
            rgStabilityCycles = stabilityCycles\<rparr>)))))))))"

subsection \<open>The webhook's settings\<close>

record webhook_config =
  wgEnabled :: bool
  wgHMACSecret :: string
  wgPollInterval :: duration
  wgBatchSize :: int
  wgLeaseDuration :: duration
  wgTimeout :: duration
  wgMaxAttempts :: int
  wgInitialBackoff :: duration
  wgMaxBackoff :: duration
  wgRetryJitterBPS :: int
  wgRetryBudget :: int
  wgAlertEnabled :: bool
  wgAlertCooldown :: duration
  wgAlertFailedCount :: int
  wgAlertPendingReady :: int
  wgAlertOldestAgeSec :: int

definition parseBackoff :: "config_world \<Rightarrow> (duration \<times> duration) config_result" where
  "parseBackoff w =
     (let initialKey = ''PAYMENT_REQUEST_WEBHOOK_INITIAL_BACKOFF_SECONDS'';
          maxKey = ''PAYMENT_REQUEST_WEBHOOK_MAX_BACKOFF_SECONDS'';
          maxCode = ''CONFIG_WEBHOOK_MAX_BACKOFF_INVALID''
      in andThen (parsePositiveSeconds w initialKey ''CONFIG_WEBHOOK_INITIAL_BACKOFF_INVALID''
           inSeconds (5 * second)) (\<lambda>initial.
         andThen (parsePositiveSeconds w maxKey maxCode inSeconds (300 * second)) (\<lambda>maximum.
           if maximum < initial then configError maxCode (maxKey @ '' must be >= '' @ initialKey) []
           else Inr (initial, maximum))))"

definition parseRetry :: "config_world \<Rightarrow> (int \<times> int) config_result" where
  "parseRetry w =
     (let jitterKey = ''PAYMENT_REQUEST_WEBHOOK_RETRY_JITTER_BPS'';
          rawJitter = setting w jitterKey;
          badJitter = configError ''CONFIG_WEBHOOK_RETRY_JITTER_BPS_INVALID''
            (jitterKey @ '' must be an integer between 0 and 10000'') []
      in andThen (if rawJitter = [] then Inr 0
                  else (case Atoi rawJitter of
                      None \<Rightarrow> badJitter
                    | Some v \<Rightarrow> if v < 0 \<or> v > 10000 then badJitter else Inr v)) (\<lambda>jitter.
         andThen (parseNonNegativeInt64 w ''PAYMENT_REQUEST_WEBHOOK_RETRY_BUDGET''
           ''CONFIG_WEBHOOK_RETRY_BUDGET_INVALID'' '' must be a non-negative integer'' 0) (\<lambda>budget.
           Inr (jitter, budget))))"

record alert_settings =
  atEnabled :: bool
  atCooldown :: duration
  atFailedCount :: int
  atPendingReady :: int
  atOldestAgeSec :: int

definition parseAlerts :: "config_world \<Rightarrow> alert_settings config_result" where
  "parseAlerts w =
     (let threshold = (\<lambda>key code. parseNonNegativeInt64 w key code '' must be a non-negative integer'' 0)
      in andThen (parseBoolean w ''PAYMENT_REQUEST_WEBHOOK_ALERT_ENABLED''
           ''CONFIG_WEBHOOK_ALERT_ENABLED_INVALID'') (\<lambda>enabled.
         andThen (parsePositiveSeconds w ''PAYMENT_REQUEST_WEBHOOK_ALERT_COOLDOWN_SECONDS''
           ''CONFIG_WEBHOOK_ALERT_COOLDOWN_SECONDS_INVALID'' inSeconds (300 * second)) (\<lambda>cooldown.
         andThen (threshold ''PAYMENT_REQUEST_WEBHOOK_ALERT_FAILED_COUNT_THRESHOLD''
           ''CONFIG_WEBHOOK_ALERT_FAILED_COUNT_THRESHOLD_INVALID'') (\<lambda>failed.
         andThen (threshold ''PAYMENT_REQUEST_WEBHOOK_ALERT_PENDING_READY_THRESHOLD''
           ''CONFIG_WEBHOOK_ALERT_PENDING_READY_THRESHOLD_INVALID'') (\<lambda>pending.
         andThen (threshold ''PAYMENT_REQUEST_WEBHOOK_ALERT_OLDEST_PENDING_AGE_SECONDS''
           ''CONFIG_WEBHOOK_ALERT_OLDEST_PENDING_AGE_SECONDS_INVALID'') (\<lambda>oldest.
           if enabled \<and> failed = 0 \<and> pending = 0 \<and> oldest = 0 then
             configError ''CONFIG_WEBHOOK_ALERT_THRESHOLD_REQUIRED''
               ''at least one webhook alert threshold must be > 0 when webhook alert is enabled'' []
           else Inr \<lparr>atEnabled = enabled, atCooldown = cooldown, atFailedCount = failed,
                     atPendingReady = pending, atOldestAgeSec = oldest\<rparr>))))))"

definition parseWebhookConfig :: "config_world \<Rightarrow> webhook_config config_result" where
  "parseWebhookConfig w =
     andThen (parseBoolean w ''PAYMENT_REQUEST_WEBHOOK_ENABLED''
       ''CONFIG_WEBHOOK_ENABLED_INVALID'') (\<lambda>enabled.
     andThen (parsePositiveSeconds w ''PAYMENT_REQUEST_WEBHOOK_POLL_INTERVAL_SECONDS''
       ''CONFIG_WEBHOOK_POLL_INTERVAL_INVALID'' inSeconds (10 * second)) (\<lambda>pollInterval.
     andThen (parsePositiveInt w ''PAYMENT_REQUEST_WEBHOOK_BATCH_SIZE''
       ''CONFIG_WEBHOOK_BATCH_SIZE_INVALID'' positiveInteger 100) (\<lambda>batchSize.
     andThen (parsePositiveSeconds w ''PAYMENT_REQUEST_WEBHOOK_LEASE_SECONDS''
       ''CONFIG_WEBHOOK_LEASE_SECONDS_INVALID'' inSeconds (30 * second)) (\<lambda>leaseDuration.
     andThen (parsePositiveSeconds w ''PAYMENT_REQUEST_WEBHOOK_TIMEOUT_SECONDS''
       ''CONFIG_WEBHOOK_TIMEOUT_SECONDS_INVALID'' inSeconds (5 * second)) (\<lambda>timeout.
     andThen (parsePositiveInt w ''PAYMENT_REQUEST_WEBHOOK_MAX_ATTEMPTS''
       ''CONFIG_WEBHOOK_MAX_ATTEMPTS_INVALID'' positiveInteger 8) (\<lambda>maxAttempts.
     andThen (parseBackoff w) (\<lambda>(initialBackoff, maxBackoff).
     andThen (parseRetry w) (\<lambda>(retryJitter, retryBudget).
     andThen (parseAlerts w) (\<lambda>alerts.
       Inr \<lparr>wgEnabled = enabled,
            wgHMACSecret = setting w ''PAYMENT_REQUEST_WEBHOOK_HMAC_SECRET'',
            wgPollInterval = pollInterval, wgBatchSize = batchSize,
            wgLeaseDuration = leaseDuration, wgTimeout = timeout, wgMaxAttempts = maxAttempts,
            wgInitialBackoff = initialBackoff, wgMaxBackoff = maxBackoff,
            wgRetryJitterBPS = retryJitter, wgRetryBudget = retryBudget,
            wgAlertEnabled = atEnabled alerts, wgAlertCooldown = atCooldown alerts,
            wgAlertFailedCount = atFailedCount alerts, wgAlertPendingReady = atPendingReady alerts,
            wgAlertOldestAgeSec = atOldestAgeSec alerts\<rparr>)))))))))"

end
