(* ===== verification/ConfigLoad.thy ===== *)
theory ConfigLoad
  imports Config
begin

text \<open>
  The JSON settings of \<^verbatim>\<open>internal/infrastructure/config/config.go\<close> (key sets in their flat and
  nested form, secrets, admin keys, host patterns, RPC URLs, address schemes) and
  \<^verbatim>\<open>LoadConfig\<close>.
\<close>

subsection \<open>Decoding JSON values\<close>

text \<open>
  Decoding into a \<^verbatim>\<open>string\<close>, a \<^verbatim>\<open>[]string\<close> and a \<^verbatim>\<open>map[string]T\<close>: a JSON \<^verbatim>\<open>null\<close> leaves the
  zero value, another kind is an error, and of two members with one name the last counts.
\<close>

definition decodeText :: "gval \<Rightarrow> string option" where
  "decodeText v = (case v of GStr t \<Rightarrow> Some t | GNil \<Rightarrow> Some [] | _ \<Rightarrow> None)"

fun decodeAll :: "('a \<Rightarrow> 'b option) \<Rightarrow> 'a list \<Rightarrow> 'b list option" where
  "decodeAll f [] = Some []"
| "decodeAll f (x # xs) =
     (case (f x, decodeAll f xs) of (Some y, Some ys) \<Rightarrow> Some (y # ys) | _ \<Rightarrow> None)"

definition decodeTexts :: "gval \<Rightarrow> string list option" where
  "decodeTexts v = (case v of GArr vs \<Rightarrow> decodeAll decodeText vs | GNil \<Rightarrow> Some [] | _ \<Rightarrow> None)"

definition goMap :: "(string \<times> 'v) list \<Rightarrow> (string \<times> 'v) list" where
  "goMap members = fold (\<lambda>(k, v) m. assoc_put k v m) members []"

definition decodeMap :: "(gval \<Rightarrow> 'v option) \<Rightarrow> gval \<Rightarrow> (string \<times> 'v) list option" where
  "decodeMap f v =
     (case v of
        GMap members \<Rightarrow>
          map_option goMap (decodeAll (\<lambda>(k, x). map_option (Pair k) (f x)) members)
      | GNil \<Rightarrow> Some []
      | _ \<Rightarrow> None)"

text \<open>The entries of a map as \<^verbatim>\<open>range\<close> meets them.\<close>

definition ranged :: "(string list \<Rightarrow> string list) \<Rightarrow> (string \<times> 'v) list \<Rightarrow> (string \<times> 'v) list" where
  "ranged order m = map (\<lambda>k. (k, the (lookup m k))) (order (map fst m))"

text \<open>
  A text field of a struct: the members whose name equals the tag up to case are read in turn, a
  \<^verbatim>\<open>null\<close> leaves what was read before.
\<close>

fun structText :: "string \<Rightarrow> (string \<times> gval) list \<Rightarrow> string \<Rightarrow> string option" where
  "structText tag [] t = Some t"
| "structText tag ((k, v) # members) t =
     (if EqualFold k tag then
        (case v of GStr u \<Rightarrow> structText tag members u | GNil \<Rightarrow> structText tag members t | _ \<Rightarrow> None)
      else structText tag members t)"

definition structMembers :: "gval \<Rightarrow> (string \<times> gval) list option" where
  "structMembers v = (case v of GMap members \<Rightarrow> Some members | GNil \<Rightarrow> Some [] | _ \<Rightarrow> None)"

record scoped_envelope =
  skKeysetID :: string
  skExtendedPublicKey :: string
  skKeyMaterial :: string
  skXPub :: string
  skExpectedAddress :: string

text \<open>\<^verbatim>\<open>devtestKeysetEnvelope\<close> has the three key fields only, so it may decode where the other fails.\<close>

definition decodeEnvelope :: "gval \<Rightarrow> (string \<times> string \<times> string) option" where
  "decodeEnvelope v =
     Option.bind (structMembers v) (\<lambda>ms.
       (case (structText ''extended_public_key'' ms [], structText ''key_material'' ms [],
              structText ''xpub'' ms []) of
          (Some e, Some k, Some x) \<Rightarrow> Some (e, k, x)
        | _ \<Rightarrow> None))"

definition decodeScopedEnvelope :: "gval \<Rightarrow> scoped_envelope option" where
  "decodeScopedEnvelope v =
     Option.bind (structMembers v) (\<lambda>ms.
       (case (decodeEnvelope v, structText ''keyset_id'' ms [],
              structText ''expected_index0_address'' ms []) of
          (Some (e, k, x), Some i, Some a) \<Rightarrow>
            Some \<lparr>skKeysetID = i, skExtendedPublicKey = e, skKeyMaterial = k, skXPub = x,
                  skExpectedAddress = a\<rparr>
        | _ \<Rightarrow> None))"

definition resolveEnvelopeKeyMaterial :: "string \<Rightarrow> string \<Rightarrow> string \<Rightarrow> string" where
  "resolveEnvelopeKeyMaterial extendedPublicKey keyMaterial xpub =
     (let resolved = TrimSpace extendedPublicKey;
          resolved = (if resolved = [] then TrimSpace keyMaterial else resolved)
      in if resolved = [] then TrimSpace xpub else resolved)"

subsection \<open>Key sets\<close>

abbreviation (input) keysetsEnv :: string where
  "keysetsEnv \<equiv> ''PAYMENT_REQUEST_DEVTEST_KEYSETS_JSON''"

definition keysetsInvalid :: "string \<Rightarrow> (string \<times> string) list \<Rightarrow> config_error + 'a" where
  "keysetsInvalid msg meta = configError ''CONFIG_DEVTEST_KEYSETS_INVALID'' (keysetsEnv @ msg) meta"

text \<open>The flat form: \<open>None\<close> when an entry shows that the form is not flat.\<close>

fun parseFlatDevtestKeysets ::
  "(string \<times> gval) list \<Rightarrow> (string \<times> string) list \<Rightarrow> (string \<times> string) list option config_result" where
  "parseFlatDevtestKeysets [] keysets = Inr (Some keysets)"
| "parseFlatDevtestKeysets ((keysetID, payload) # entries) keysets =
     (let normalizedKeysetID = TrimSpace keysetID
      in if normalizedKeysetID = [] then parseFlatDevtestKeysets entries keysets
         else (case decodeText payload of
             Some keyAsString \<Rightarrow>
               (let trimmed = TrimSpace keyAsString
                in if trimmed = [] then
                     keysetsInvalid '' contains empty key material'' [(''keyset_id'', normalizedKeysetID)]
                   else parseFlatDevtestKeysets entries (assoc_put normalizedKeysetID trimmed keysets))
           | None \<Rightarrow>
               (case decodeEnvelope payload of
                  None \<Rightarrow> Inr None
                | Some (e, k, x) \<Rightarrow>
                    (let resolvedKey = resolveEnvelopeKeyMaterial e k x
                     in if resolvedKey = [] then Inr None
                        else parseFlatDevtestKeysets entries
                               (assoc_put normalizedKeysetID resolvedKey keysets)))))"

type_synonym keyset_tables = "(string \<times> string) list \<times> preflight_entry list"

definition parseNestedEntry ::
  "string \<Rightarrow> string \<Rightarrow> gval \<Rightarrow> keyset_tables \<Rightarrow> keyset_tables config_result" where
  "parseNestedEntry chain network payload = (\<lambda>(keysets, preflights).
     (let scope = [(''chain'', chain), (''network'', network)]
      in case decodeScopedEnvelope payload of
           None \<Rightarrow> keysetsInvalid
             '' nested entries must be objects with keyset_id and extended_public_key'' scope
         | Some env \<Rightarrow>
             (let keysetID = TrimSpace (skKeysetID env);
                  keyMaterial = resolveEnvelopeKeyMaterial (skExtendedPublicKey env)
                    (skKeyMaterial env) (skXPub env);
                  expectedAddress = TrimSpace (skExpectedAddress env)
              in if keysetID = [] then keysetsInvalid '' nested entry is missing keyset_id'' scope
                 else if keyMaterial = [] then
                   keysetsInvalid '' nested entry is missing extended_public_key''
                     (scope @ [(''keyset_id'', keysetID)])
                 else if expectedAddress = [] then
                   keysetsInvalid '' nested entry is missing expected_index0_address''
                     (scope @ [(''keyset_id'', keysetID)])
                 else if lookup keysets keysetID \<notin> {None, Some keyMaterial} then
                   keysetsInvalid '' defines conflicting key material for keyset_id''
                     [(''keyset_id'', keysetID)]
                 else Inr (assoc_put keysetID keyMaterial keysets,
                   preflights @ [\<lparr>peChain = chain, peNetwork = network, peKeysetID = keysetID,
                     peExtendedPublicKey = keyMaterial, peExpectedIndex0Address = expectedAddress\<rparr>]))))"

fun parseNestedNetworks ::
  "string \<Rightarrow> (string \<times> gval) list \<Rightarrow> keyset_tables \<Rightarrow> keyset_tables config_result" where
  "parseNestedNetworks chain [] tables = Inr tables"
| "parseNestedNetworks chain ((network, payload) # entries) tables =
     (let normalizedNetwork = ToLower (TrimSpace network)
      in if normalizedNetwork = [] then parseNestedNetworks chain entries tables
         else andThen (parseNestedEntry chain normalizedNetwork payload tables)
                (parseNestedNetworks chain entries))"

fun parseNestedDevtestKeysets ::
  "(string list \<Rightarrow> string list) \<Rightarrow> (string \<times> gval) list \<Rightarrow> keyset_tables \<Rightarrow> keyset_tables config_result" where
  "parseNestedDevtestKeysets order [] tables = Inr tables"
| "parseNestedDevtestKeysets order ((chain, payload) # entries) tables =
     (let normalizedChain = ToLower (TrimSpace chain)
      in if normalizedChain = [] then parseNestedDevtestKeysets order entries tables
         else (case decodeMap Some payload of
             None \<Rightarrow> keysetsInvalid '' nested format must be chain->network objects''
                       [(''chain'', normalizedChain)]
           | Some networks \<Rightarrow>
               andThen (parseNestedNetworks normalizedChain (ranged order networks) tables)
                 (parseNestedDevtestKeysets order entries)))"

definition parseDevtestKeysets :: "config_world \<Rightarrow> string \<Rightarrow> keyset_tables config_result" where
  "parseDevtestKeysets w raw =
     (if raw = [] then Inr ([], [])
      else (case Option.bind (cwJSON w raw) (decodeMap Some) of
          None \<Rightarrow> keysetsInvalid '' must be a JSON object'' []
        | Some decoded \<Rightarrow>
            (let entries = ranged (cwOrder w) decoded
             in andThen (parseFlatDevtestKeysets entries []) (\<lambda>flat.
                  case flat of
                    Some keysets \<Rightarrow> Inr (keysets, [])
                  | None \<Rightarrow> parseNestedDevtestKeysets (cwOrder w) entries ([], [])))))"

subsection \<open>Secrets, admin keys, hosts and endpoints\<close>

text \<open>The trimmed texts without blanks and repetitions, each where it first occurs.\<close>

fun uniqueTrimmed :: "string list \<Rightarrow> string list \<Rightarrow> string list" where
  "uniqueTrimmed [] out = out"
| "uniqueTrimmed (t # ts) out =
     (let trimmed = TrimSpace t
      in if trimmed = [] \<or> trimmed \<in> set out then uniqueTrimmed ts out
         else uniqueTrimmed ts (out @ [trimmed]))"

definition parseLegacyHMACSecrets :: "config_world \<Rightarrow> string \<Rightarrow> string list config_result" where
  "parseLegacyHMACSecrets w raw =
     (if raw = [] then Inr []
      else (case Option.bind (cwJSON w raw) decodeTexts of
          None \<Rightarrow> configError ''CONFIG_KEYSET_HASH_HMAC_PREVIOUS_SECRETS_INVALID''
            ''PAYMENT_REQUEST_KEYSET_HASH_HMAC_PREVIOUS_SECRETS_JSON must be a JSON array of strings'' []
        | Some secrets \<Rightarrow> Inr (uniqueTrimmed secrets [])))"

definition parseWebhookOpsAdminKeys :: "config_world \<Rightarrow> string \<Rightarrow> string list config_result" where
  "parseWebhookOpsAdminKeys w raw =
     (if raw = [] then Inr []
      else (case Option.bind (cwJSON w raw) decodeTexts of
          None \<Rightarrow> configError ''CONFIG_WEBHOOK_OPS_ADMIN_KEYS_INVALID''
            ''PAYMENT_REQUEST_WEBHOOK_OPS_ADMIN_KEYS_JSON must be a JSON array of strings'' []
        | Some keys \<Rightarrow> Inr (uniqueTrimmed keys [])))"

abbreviation (input) allowListEnv :: string where
  "allowListEnv \<equiv> ''PAYMENT_REQUEST_WEBHOOK_URL_ALLOWLIST_JSON''"

definition allowListInvalid :: "string \<Rightarrow> config_error + 'a" where
  "allowListInvalid msg = configError ''CONFIG_WEBHOOK_URL_ALLOWLIST_INVALID'' (allowListEnv @ msg) []"

fun normalizePatterns :: "string list \<Rightarrow> string list \<Rightarrow> string list config_result" where
  "normalizePatterns [] allowlist = Inr allowlist"
| "normalizePatterns (pattern # patterns) allowlist =
     (case NormalizeWebhookHostPattern pattern of
        Inl e \<Rightarrow> allowListInvalid '' must contain valid host patterns''
      | Inr p \<Rightarrow>
          normalizePatterns patterns (if p \<in> set allowlist then allowlist else allowlist @ [p]))"

definition defaultWebhookURLAllowList :: "string list" where
  "defaultWebhookURLAllowList = [''localhost'', ''127.0.0.1'', ''::1'']"

definition parseWebhookURLAllowList :: "config_world \<Rightarrow> string list config_result" where
  "parseWebhookURLAllowList w =
     (let raw = setting w allowListEnv
      in if raw = [] then Inr defaultWebhookURLAllowList
         else (case Option.bind (cwJSON w raw) decodeTexts of
             None \<Rightarrow> allowListInvalid '' must be a JSON array of host patterns''
           | Some patterns \<Rightarrow>
               andThen (normalizePatterns patterns []) (\<lambda>allowlist.
                 if allowlist = [] then allowListInvalid '' must contain at least one host pattern''
                 else Inr allowlist)))"

definition defaultRuntimeWorkerID :: "config_world \<Rightarrow> string" where
  "defaultRuntimeWorkerID w =
     (let hostname = TrimSpace (case cwHostname w of None \<Rightarrow> ''unknown'' | Some h \<Rightarrow> h);
          hostname = (if hostname = [] then ''unknown'' else hostname)
      in hostname @ '':'' @ FormatInt (cwPid w))"

fun collectRPCURLs :: "(string \<times> string) list \<Rightarrow> (string \<times> string) list \<Rightarrow> (string \<times> string) list" where
  "collectRPCURLs [] out = out"
| "collectRPCURLs ((network, rpcURL) # entries) out =
     (let n = ToLower (TrimSpace network); u = TrimSpace rpcURL
      in if n = [] \<or> u = [] then collectRPCURLs entries out
         else collectRPCURLs entries (assoc_put n u out))"

definition parseEVMRPCURLs :: "config_world \<Rightarrow> string \<Rightarrow> (string \<times> string) list config_result" where
  "parseEVMRPCURLs w raw =
     (if raw = [] then Inr []
      else (case Option.bind (cwJSON w raw) (decodeMap decodeText) of
          None \<Rightarrow> configError ''CONFIG_EVM_RPC_URLS_INVALID''
            ''PAYMENT_REQUEST_EVM_RPC_URLS_JSON must be a JSON object'' []
        | Some decoded \<Rightarrow> Inr (collectRPCURLs (ranged (cwOrder w) decoded) [])))"

subsection \<open>Address schemes\<close>

text \<open>The sets of the Go map as lists, in the order of insertion.\<close>

fun insertSchemes :: "string list \<Rightarrow> string list \<Rightarrow> string list" where
  "insertSchemes [] known = known"
| "insertSchemes (scheme # schemes) known =
     (let s = ToLower (TrimSpace scheme)
      in insertSchemes schemes (if s = [] \<or> s \<in> set known then known else known @ [s]))"

fun collectSchemes ::
  "(string \<times> string list) list \<Rightarrow> (string \<times> string list) list \<Rightarrow> (string \<times> string list) list" where
  "collectSchemes [] allowList = allowList"
| "collectSchemes ((chain, schemes) # entries) allowList =
     (let c = ToLower (TrimSpace chain);
          known = (case lookup allowList c of None \<Rightarrow> [] | Some k \<Rightarrow> k)
      in if c = [] then collectSchemes entries allowList
         else collectSchemes entries (assoc_put c (insertSchemes schemes known) allowList))"

definition defaultAddressSchemeAllowList :: "(string \<times> string list) list" where
  "defaultAddressSchemeAllowList =
     [(''bitcoin'', [''bip84_p2wpkh'']), (''ethereum'', [''evm_bip44''])]"

definition loadAddressSchemeAllowList :: "config_world \<Rightarrow> (string \<times> string list) list config_result" where
  "loadAddressSchemeAllowList w =
     (let raw = setting w ''PAYMENT_REQUEST_ADDRESS_SCHEME_ALLOW_LIST_JSON''
      in if raw = [] then Inr defaultAddressSchemeAllowList
         else (case Option.bind (cwJSON w raw) (decodeMap decodeTexts) of
             None \<Rightarrow> configError ''CONFIG_ADDRESS_SCHEME_ALLOW_LIST_INVALID''
               ''PAYMENT_REQUEST_ADDRESS_SCHEME_ALLOW_LIST_JSON must be a JSON object of string arrays'' []
           | Some decoded \<Rightarrow>
               (let allowList = collectSchemes (ranged (cwOrder w) decoded) []
                in if allowList = [] then
                     configError ''CONFIG_ADDRESS_SCHEME_ALLOW_LIST_EMPTY''
                       ''PAYMENT_REQUEST_ADDRESS_SCHEME_ALLOW_LIST_JSON must define at least one chain/scheme pair'' []
                   else Inr allowList)))"

definition parseDatabaseTarget :: "config_world \<Rightarrow> string \<Rightarrow> string config_result" where
  "parseDatabaseTarget w databaseURL =
     (case cwURL w databaseURL of
        None \<Rightarrow> configError ''CONFIG_DATABASE_URL_INVALID'' ''DATABASE_URL is invalid'' []
      | Some parsed \<Rightarrow>
          (let databaseName = TrimPrefix (urlPath parsed) ''/''
           in if urlScheme parsed \<noteq> ''postgres'' \<and> urlScheme parsed \<noteq> ''postgresql'' then
                configError ''CONFIG_DATABASE_URL_SCHEME_INVALID''
                  ''DATABASE_URL must use postgres or postgresql scheme'' []
              else if urlHost parsed = [] then
                configError ''CONFIG_DATABASE_URL_HOST_MISSING'' ''DATABASE_URL host is required'' []
              else if databaseName = [] then
                configError ''CONFIG_DATABASE_NAME_MISSING'' ''DATABASE_URL database name is required'' []
              else Inr (urlHost parsed @ ''/'' @ databaseName)))"

subsection \<open>LoadConfig\<close>

text \<open>
  The loaded configuration: the reconciler's and the webhook's groups are kept as the records
  their parsers return, of which the code copies every field.
\<close>

record config =
  cfPort :: string
  cfOpenAPISpecPath :: string
  cfShutdownTimeout :: duration
  cfDatabaseURL :: string
  cfDatabaseTarget :: string
  cfDBReadinessTimeout :: duration
  cfDBReadinessRetryInterval :: duration
  cfMigrationsPath :: string
  cfAllocationMode :: string
  cfDevtestAllowMainnet :: bool
  cfDevtestKeysets :: "(string \<times> string) list"
  cfDevtestKeysetPreflights :: "preflight_entry list"
  cfKeysetHashAlgorithm :: string
  cfKeysetHashHMACSecret :: string
  cfKeysetHashHMACLegacyKeys :: "string list"
  cfReconciler :: reconciler_config
  cfReconcilerWorkerID :: string
  cfWebhook :: webhook_config
  cfWebhookURLAllowList :: "string list"
  cfWebhookWorkerID :: string
  cfWebhookOpsAdminKeys :: "string list"
  cfBTCExploraBaseURL :: string
  cfEVMRPCURLs :: "(string \<times> string) list"
  cfAddressSchemeAllowList :: "(string \<times> string list) list"

definition orDefault :: "string \<Rightarrow> string \<Rightarrow> string" where
  "orDefault v d = (if v = [] then d else v)"

definition workerID :: "config_world \<Rightarrow> string \<Rightarrow> string" where
  "workerID w key = orDefault (setting w key) (defaultRuntimeWorkerID w)"

definition requireDevtest ::
  "string \<Rightarrow> bool \<Rightarrow> string \<Rightarrow> string \<Rightarrow> unit config_result" where
  "requireDevtest allocationMode missing code msg =
     (if allocationMode = ''devtest'' \<and> missing
      then configError code (msg @ '' is required for devtest allocation mode'') [] else Inr ())"

definition LoadConfig :: "config_world \<Rightarrow> config config_result" where
  "LoadConfig w =
     (let databaseURL = setting w ''DATABASE_URL'';
          allocationMode = orDefault (ToLower (setting w ''PAYMENT_REQUEST_ALLOCATION_MODE'')) ''devtest'';
          hmacSecret = setting w ''PAYMENT_REQUEST_KEYSET_HASH_HMAC_SECRET'';
          exploraURL = TrimRightSet (setting w ''PAYMENT_REQUEST_BTC_ESPLORA_BASE_URL'') ''/''
      in if databaseURL = [] then
           configError ''CONFIG_DATABASE_URL_REQUIRED'' ''DATABASE_URL is required'' []
         else
     andThen (parseDatabaseTarget w databaseURL) (\<lambda>databaseTarget.
     andThen (parseBoolean w ''PAYMENT_REQUEST_DEVTEST_ALLOW_MAINNET''
       ''CONFIG_DEVTEST_ALLOW_MAINNET_INVALID'') (\<lambda>allowMainnet.
     andThen (parseDevtestKeysets w (setting w keysetsEnv)) (\<lambda>(keysets, preflights).
     andThen (requireDevtest allocationMode (keysets = []) ''CONFIG_DEVTEST_KEYSETS_REQUIRED''
       keysetsEnv) (\<lambda>_.
     andThen (requireDevtest allocationMode (hmacSecret = [])
       ''CONFIG_KEYSET_HASH_HMAC_SECRET_REQUIRED'' ''PAYMENT_REQUEST_KEYSET_HASH_HMAC_SECRET'') (\<lambda>_.
     andThen (parseLegacyHMACSecrets w
       (setting w ''PAYMENT_REQUEST_KEYSET_HASH_HMAC_PREVIOUS_SECRETS_JSON'')) (\<lambda>legacy.
     andThen (parseWebhookOpsAdminKeys w
       (setting w ''PAYMENT_REQUEST_WEBHOOK_OPS_ADMIN_KEYS_JSON'')) (\<lambda>adminKeys.
     andThen (parseReconcilerConfig w) (\<lambda>reconcilerCfg.
     andThen (parseWebhookConfig w) (\<lambda>webhookCfg.
     andThen (parseWebhookURLAllowList w) (\<lambda>allowlist.
     andThen (parseEVMRPCURLs w (setting w ''PAYMENT_REQUEST_EVM_RPC_URLS_JSON'')) (\<lambda>rpcURLs.
     if rgEnabled reconcilerCfg \<and> exploraURL = [] \<and> rpcURLs = [] then
       configError ''CONFIG_RECONCILER_ENDPOINTS_REQUIRED''
         ''at least one observer endpoint is required when reconciler is enabled'' []
     else
     andThen (loadAddressSchemeAllowList w) (\<lambda>schemes.
       Inr \<lparr>cfPort = orDefault (cwEnv w ''PORT'') ''8080'',
            cfOpenAPISpecPath = orDefault (cwEnv w ''OPENAPI_SPEC_PATH'') ''api/openapi.yaml'',
            cfShutdownTimeout = 10 * second, cfDatabaseURL = databaseURL,
            cfDatabaseTarget = databaseTarget, cfDBReadinessTimeout = 30 * second,
            cfDBReadinessRetryInterval = 2 * second,
            cfMigrationsPath = ''internal/adapters/outbound/persistence/postgresql/migrations'',
            cfAllocationMode = allocationMode, cfDevtestAllowMainnet = allowMainnet,
            cfDevtestKeysets = keysets, cfDevtestKeysetPreflights = preflights,
            cfKeysetHashAlgorithm = ''hmac-sha256'', cfKeysetHashHMACSecret = hmacSecret,
            cfKeysetHashHMACLegacyKeys = legacy, cfReconciler = reconcilerCfg,
            cfReconcilerWorkerID = workerID w ''PAYMENT_REQUEST_RECONCILER_WORKER_ID'',
            cfWebhook = webhookCfg, cfWebhookURLAllowList = allowlist,
            cfWebhookWorkerID = workerID w ''PAYMENT_REQUEST_WEBHOOK_WORKER_ID'',
            cfWebhookOpsAdminKeys = adminKeys, cfBTCExploraBaseURL = exploraURL,
            cfEVMRPCURLs = rpcURLs, cfAddressSchemeAllowList = schemes\<rparr>)))))))))))))"

definition Address :: "config \<Rightarrow> string" where
  "Address c = '':'' @ cfPort c"

end
