(* ===== verification/HttpServer.thy ===== *)
theory HttpServer
  imports CreateRequest OutboxOps ObserverPolicies
begin

text \<open>
  The HTTP side of the server: the router (\<^verbatim>\<open>adapters/inbound/http/router/router.go\<close>) with the
  matching of \<^verbatim>\<open>net/http.ServeMux\<close>, the remaining handlers (health, OpenAPI document, assets,
  settlements) and the answer to one request. The handlers of payment requests and of the webhook
  outbox are those of \<open>CreateRequest\<close> and \<open>OutboxOps\<close>. Left out are the bytes on the wire: a body
  is a JSON value, or the text of a plain one.
\<close>

subsection \<open>Paths\<close>

text \<open>\<^verbatim>\<open>url.PathUnescape\<close>; the multiplexer keeps a segment it cannot decode.\<close>

fun percentDecode :: "string \<Rightarrow> string option" where
  "percentDecode [] = Some []"
| "percentDecode (c # cs) =
     (if c = CHR ''%'' then
        (case cs of
           a # b # rest \<Rightarrow>
             (case (hex_val a, hex_val b) of
                (Some x, Some y) \<Rightarrow> map_option (Cons (char_of (16 * x + y))) (percentDecode rest)
              | _ \<Rightarrow> None)
         | _ \<Rightarrow> None)
      else map_option (Cons c) (percentDecode cs))"

definition pathUnescape :: "string \<Rightarrow> string" where
  "pathUnescape s = (case percentDecode s of Some t \<Rightarrow> t | None \<Rightarrow> s)"

text \<open>The path a request is redirected to unless it has it already: rooted, and without dots and double slashes.\<close>

definition cleanPath :: "string \<Rightarrow> string" where
  "cleanPath p =
     (let rooted = (if HasPrefix p ''/'' then p else CHR ''/'' # p);
          np = path_clean rooted
      in if p = [] then ''/''
         else if HasSuffix rooted ''/'' \<and> np \<noteq> ''/'' then np @ ''/'' else np)"

text \<open>The segments of a rooted path, unescaped one by one; a trailing slash is a segment.\<close>

definition pathSegments :: "string \<Rightarrow> string list" where
  "pathSegments path =
     (let parts = split_slash (drop 1 path)
      in map pathUnescape (butlast parts) @
         [if last parts = [] then ''/'' else pathUnescape (last parts)])"

subsection \<open>The router\<close>

datatype route =
    RouteHealth | RouteSwagger | RouteSpec | RouteSwaggerUI | RouteAssets
  | RouteCreate | RouteGet | RouteSettlements
  | RouteOverview | RouteDLQ | RouteRequeue | RouteCancel

text \<open>\<open>Subtree\<close> is the trailing slash of a pattern, which matches the rest of the path.\<close>

datatype segment_pattern = Literal string | Wildcard | Subtree

definition routes :: "(string \<times> segment_pattern list \<times> route) list" where
  "routes =
     [(''GET'', [Literal ''healthz''], RouteHealth),
      (''GET'', [Literal ''swagger''], RouteSwagger),
      (''GET'', [Literal ''swagger'', Literal ''openapi.yaml''], RouteSpec),
      (''GET'', [Literal ''swagger'', Subtree], RouteSwaggerUI),
      (''GET'', [Literal ''v1'', Literal ''assets''], RouteAssets),
      (''POST'', [Literal ''v1'', Literal ''payment-requests''], RouteCreate),
      (''GET'', [Literal ''v1'', Literal ''payment-requests'', Wildcard], RouteGet),
      (''GET'', [Literal ''v1'', Literal ''payment-requests'', Wildcard, Literal ''settlements''],
         RouteSettlements),
      (''GET'', [Literal ''v1'', Literal ''webhook-outbox'', Literal ''overview''], RouteOverview),
      (''GET'', [Literal ''v1'', Literal ''webhook-outbox'', Literal ''dlq''], RouteDLQ),
      (''POST'', [Literal ''v1'', Literal ''webhook-outbox'', Literal ''dlq'', Wildcard, Literal ''requeue''],
         RouteRequeue),
      (''POST'', [Literal ''v1'', Literal ''webhook-outbox'', Literal ''events'', Wildcard, Literal ''cancel''],
         RouteCancel)]"

text \<open>
  The routing tree is walked segment by segment: the literal child first, then the wildcard one
  (which a trailing slash never matches), then the subtree. A node is the list of the patterns that
  are left below it.
\<close>

definition childrenBy :: "segment_pattern \<Rightarrow> (segment_pattern list \<times> route) list \<Rightarrow> (segment_pattern list \<times> route) list" where
  "childrenBy p node = map (\<lambda>(ps, r). (tl ps, r)) (filter (\<lambda>(ps, r). ps \<noteq> [] \<and> hd ps = p) node)"

definition leafOf :: "segment_pattern list \<Rightarrow> (segment_pattern list \<times> route) list \<Rightarrow> route option" where
  "leafOf ps node = map_option snd (find (\<lambda>(qs, r). qs = ps) node)"

fun matchPath ::
  "(segment_pattern list \<times> route) list \<Rightarrow> string list \<Rightarrow> string list \<Rightarrow> (route \<times> string list) option" where
  "matchPath node [] matches = map_option (\<lambda>r. (r, matches)) (leafOf [] node)"
| "matchPath node (seg # rest) matches =
     (case matchPath (childrenBy (Literal seg) node) rest matches of
        Some found \<Rightarrow> Some found
      | None \<Rightarrow>
          (case (if seg = ''/'' then None
                 else matchPath (childrenBy Wildcard node) rest (matches @ [seg])) of
             Some found \<Rightarrow> Some found
           | None \<Rightarrow> map_option (\<lambda>r. (r, matches)) (leafOf [Subtree] node)))"

definition patternsOf :: "string \<Rightarrow> (segment_pattern list \<times> route) list" where
  "patternsOf httpMethod = map snd (filter (\<lambda>(m, p). m = httpMethod) routes)"

text \<open>A pattern for GET serves HEAD as well.\<close>

definition matchMethod :: "string \<Rightarrow> string list \<Rightarrow> (route \<times> string list) option" where
  "matchMethod httpMethod segs =
     (case matchPath (patternsOf httpMethod) segs [] of
        Some found \<Rightarrow> Some found
      | None \<Rightarrow> if httpMethod = ''HEAD'' then matchPath (patternsOf ''GET'') segs [] else None)"

definition allowedMethods :: "string \<Rightarrow> string list" where
  "allowedMethods path =
     filter (\<lambda>m. \<exists>p \<in> {path, path @ ''/''}. matchMethod m (pathSegments p) \<noteq> None)
       [''GET'', ''HEAD'', ''POST'']"

subsection \<open>Requests\<close>

text \<open>
  A request with the path as it is escaped, its headers and query, what the JSON decoders make of
  its body, and the instant and the randomness its handler meets.
\<close>

record http_request =
  hqMethod :: string
  hqPath :: string
  hqHeader :: "string \<Rightarrow> string"
  hqLimit :: string
  hqCreateBody :: "string + create_payload \<times> bool"
  hqCancelBody :: "(string + string \<times> bool) option"
  hqNow :: time
  hqRandom :: "string \<Rightarrow> string + nat list"

datatype routing =
    Handled route "string list"
  | MovedTo string
  | NotAllowed "string list"
  | NoPage

text \<open>
  No pattern but \<^verbatim>\<open>/swagger/\<close> ends with a slash, and \<^verbatim>\<open>/swagger\<close> is a pattern of its own, so the
  multiplexer never redirects to a path with a slash added.
\<close>

definition findHandler :: "string \<Rightarrow> string \<Rightarrow> routing" where
  "findHandler httpMethod escapedPath =
     (let path = (if httpMethod = ''CONNECT'' then escapedPath else cleanPath escapedPath)
      in if path \<noteq> escapedPath then MovedTo path
         else (case matchMethod httpMethod (pathSegments path) of
             Some (r, matches) \<Rightarrow> Handled r matches
           | None \<Rightarrow> if allowedMethods path = [] then NoPage else NotAllowed (allowedMethods path)))"

subsection \<open>Health, the document and the queries\<close>

definition getHealth :: string where
  "getHealth = ''ok''"

definition GetHealthHandler :: http_response where
  "GetHealthHandler = okResponse (GMap [(''status'', GStr getHealth)])"

definition readSpec :: "(string \<Rightarrow> string option) \<Rightarrow> string \<Rightarrow> (string \<times> string) res" where
  "readSpec readFile path =
     (case readFile path of
        None \<Rightarrow> Inl (NewInternal ''OPENAPI_FILE_READ_FAILED'' ''failed to read OpenAPI spec file''
          [(''path'', GStr path)])
      | Some content \<Rightarrow> Inr (content, ''application/yaml; charset=utf-8''))"

definition GetOpenAPISpecHandler :: "(string \<times> string) res \<Rightarrow> http_response" where
  "GetOpenAPISpecHandler spec =
     (case spec of
        Inl e \<Rightarrow> writeAppError e
      | Inr (content, contentType) \<Rightarrow>
          \<lparr>hrStatus = 200, hrHeaders = [(''Content-Type'', contentType)], hrBody = GStr content\<rparr>)"

definition RedirectToIndex :: http_response where
  "RedirectToIndex = \<lparr>hrStatus = 307, hrHeaders = [(''Location'', ''/swagger/index.html'')], hrBody = GNil\<rparr>"

definition encodeCatalogEntry :: "catalog_entry \<Rightarrow> gval" where
  "encodeCatalogEntry e =
     GMap ([(''chain'', GStr (ceChain e)), (''network'', GStr (ceNetwork e)), (''asset'', GStr (ceAsset e)),
            (''minor_unit'', GStr (ceMinorUnit e)), (''decimals'', GInt (ceDecimals e)),
            (''address_scheme'', GStr (ceAddressScheme e)),
            (''default_expires_in_seconds'', GInt (ceDefaultExpiresInSeconds e))] @
           optional ''chain_id'' GInt (ceChainID e) @
           optional ''token_standard'' GStr (ceTokenStandard e) @
           optional ''token_contract'' GStr (ceTokenContract e) @
           optional ''token_decimals'' GInt (ceTokenDecimals e))"

definition ListAssetsHandler :: "catalog_entry list res \<Rightarrow> http_response" where
  "ListAssetsHandler r =
     (case r of
        Inl e \<Rightarrow> writeAppError e
      | Inr entries \<Rightarrow> okResponse (GMap [(''assets'', GArr (map encodeCatalogEntry entries))]))"

definition encodeSettlement :: "settlement_resource \<Rightarrow> gval" where
  "encodeSettlement r =
     GMap ([(''evidence_ref'', GStr (srEvidenceRef r)), (''amount_minor'', GStr (srAmountMinor r)),
            (''confirmations'', GInt (srConfirmations r))] @
           optional ''block_height'' GInt (srBlockHeight r) @
           optional ''block_hash'' GStr (srBlockHash r) @
           [(''is_canonical'', GBool (srIsCanonical r)), (''metadata'', GMap (srMetadata r)),
            (''first_seen_at'', GTime (srFirstSeenAt r)), (''last_seen_at'', GTime (srLastSeenAt r)),
            (''updated_at'', GTime (srUpdatedAt r))])"

definition GetSettlementsHandler :: "(string \<times> settlement_resource list) res \<Rightarrow> http_response" where
  "GetSettlementsHandler r =
     (case r of
        Inl e \<Rightarrow> writeAppError e
      | Inr (requestID, settlements) \<Rightarrow>
          okResponse (GMap [(''payment_request_id'', GStr requestID),
            (''settlements'', GArr (map encodeSettlement settlements))]))"

subsection \<open>Serving a request\<close>

text \<open>The dependencies of the router, and what the handlers take from outside.\<close>

record http_deps =
  hdSpecPath :: string
  hdAssets :: "db \<Rightarrow> catalog_entry list res"
  hdCreate :: create_env
  hdGet :: "string \<Rightarrow> db \<Rightarrow> resource res"
  hdSettlements :: "string \<Rightarrow> db \<Rightarrow> (string \<times> settlement_resource list) res"
  hdOutbox :: "time \<Rightarrow> db outbox_controller"

record http_world =
  hwReadFile :: "string \<Rightarrow> string option"
  hwSwaggerUI :: "http_request \<Rightarrow> http_response"
  hwRenderURL :: "string \<Rightarrow> string"

definition createFor :: "http_deps \<Rightarrow> http_request \<Rightarrow> create_command \<Rightarrow> db \<Rightarrow> create_result res \<times> db" where
  "createFor d r = createExecute ((hdCreate d)\<lparr>enNow := hqNow r, enRandom := hqRandom r\<rparr>)"

definition handle ::
  "http_world \<Rightarrow> http_deps \<Rightarrow> http_request \<Rightarrow> route \<Rightarrow> string list \<Rightarrow> db \<Rightarrow> http_response \<times> db" where
  "handle w d r target values s =
     (let outbox = hdOutbox d (hqNow r);
          auth = hqHeader r ''Authorization'';
          principalID = hqHeader r ''X-Principal-ID''
      in case target of
           RouteHealth \<Rightarrow> (GetHealthHandler, s)
         | RouteSwagger \<Rightarrow> (RedirectToIndex, s)
         | RouteSpec \<Rightarrow> (GetOpenAPISpecHandler (readSpec (hwReadFile w) (hdSpecPath d)), s)
         | RouteSwaggerUI \<Rightarrow> (hwSwaggerUI w r, s)
         | RouteAssets \<Rightarrow> (ListAssetsHandler (hdAssets d s), s)
         | RouteCreate \<Rightarrow>
             CreatePaymentRequest (createFor d r) principalID (hqMethod r)
               (hqHeader r ''Idempotency-Key'') (hqCreateBody r) s
         | RouteGet \<Rightarrow> (GetPaymentRequestHandler (hdGet d) (hd values) s, s)
         | RouteSettlements \<Rightarrow> (GetSettlementsHandler (hdSettlements d (hd values) s), s)
         | RouteOverview \<Rightarrow> (OverviewHandler outbox auth (hqNow r) s, s)
         | RouteDLQ \<Rightarrow> (ListDLQHandler outbox auth (hqLimit r) s, s)
         | RouteRequeue \<Rightarrow> RequeueHandler outbox auth principalID (hd values) (hqNow r) s
         | RouteCancel \<Rightarrow>
             CancelHandler outbox auth principalID (hd values) (hqCancelBody r) (hqNow r) s)"

definition joinComma :: "string list \<Rightarrow> string" where
  "joinComma ms = (case ms of [] \<Rightarrow> [] | m # rest \<Rightarrow> m @ concat (map (\<lambda>x. '', '' @ x) rest))"

definition serve :: "http_world \<Rightarrow> http_deps \<Rightarrow> http_request \<Rightarrow> db \<Rightarrow> http_response \<times> db" where
  "serve w d r s =
     (case findHandler (hqMethod r) (hqPath r) of
        Handled target values \<Rightarrow> handle w d r target values s
      | MovedTo path \<Rightarrow>
          (\<lparr>hrStatus = 301, hrHeaders = [(''Location'', hwRenderURL w path)], hrBody = GNil\<rparr>, s)
      | NotAllowed methods \<Rightarrow>
          (\<lparr>hrStatus = 405, hrHeaders = [(''Allow'', joinComma methods)],
            hrBody = GStr ''Method Not Allowed''\<rparr>, s)
      | NoPage \<Rightarrow> (\<lparr>hrStatus = 404, hrHeaders = [], hrBody = GStr ''404 page not found''\<rparr>, s))"

text \<open>Requests one after the other.\<close>

definition serveAll :: "http_world \<Rightarrow> http_deps \<Rightarrow> http_request list \<Rightarrow> db \<Rightarrow> db" where
  "serveAll w d rs s = fold (\<lambda>r s. snd (serve w d r s)) rs s"

subsection \<open>What a route needs\<close>

lemma leafOf_route: "leafOf ps node = Some r \<Longrightarrow> r \<in> snd ` set node"
  by (auto simp: leafOf_def find_Some_iff) (metis image_iff nth_mem snd_conv)

lemma matchPath_route:
  "matchPath node segs ms = Some (r, ms') \<Longrightarrow> r \<in> snd ` set node"
proof (induction node segs ms rule: matchPath.induct)
  case (2 node seg rest matches)
  have child: "snd ` set (childrenBy p node) \<subseteq> snd ` set node" for p
    by (force simp: childrenBy_def)
  consider "matchPath (childrenBy (Literal seg) node) rest matches = Some (r, ms')"
    | "matchPath (childrenBy (Literal seg) node) rest matches = None" "seg \<noteq> ''/''"
      "matchPath (childrenBy Wildcard node) rest (matches @ [seg]) = Some (r, ms')"
    | "leafOf [Subtree] node = Some r"
    using "2.prems" by (auto split: option.split_asm if_split_asm)
  then show ?case
  proof cases
    case 1
    from "2.IH"(1) [OF 1] child show ?thesis by blast
  next
    case 2
    from "2.IH"(2) [OF 2] child show ?thesis by blast
  qed (rule leafOf_route)
qed (auto dest: leafOf_route)

text \<open>The routes that change something are reached by POST only.\<close>

lemma changing_routes:
  "(m, ps, r) \<in> set routes \<Longrightarrow> r \<in> {RouteCreate, RouteRequeue, RouteCancel} \<Longrightarrow> m = ''POST''"
  by (auto simp: routes_def)

lemma patternsOf_route:
  "matchPath (patternsOf m) segs ms = Some (r, v) \<Longrightarrow> \<exists>ps. (m, ps, r) \<in> set routes"
  by (drule matchPath_route) (auto simp: patternsOf_def)

lemma matchMethod_route:
  assumes "matchMethod m segs = Some (r, v)" "r \<in> {RouteCreate, RouteRequeue, RouteCancel}"
  shows "m = ''POST''"
proof -
  have "matchPath (patternsOf m) segs [] = Some (r, v) \<or> matchPath (patternsOf ''GET'') segs [] = Some (r, v)"
    using assms(1) by (simp add: matchMethod_def split: option.split_asm if_split_asm)
  then obtain ps where "(m, ps, r) \<in> set routes \<or> (''GET'', ps, r) \<in> set routes"
    using patternsOf_route by blast
  then have "m = ''POST'' \<or> ''GET'' = ''POST''" using changing_routes [OF _ assms(2)] by blast
  then show ?thesis by simp
qed

lemma findHandler_post:
  "findHandler m path = Handled r ids \<Longrightarrow> r \<in> {RouteCreate, RouteRequeue, RouteCancel} \<Longrightarrow> m = ''POST''"
  unfolding findHandler_def Let_def
  by (rule matchMethod_route [of _ _ r ids]) (simp_all split: if_split_asm option.split_asm prod.split_asm)

end
