(* ===== verification/Runtime.thy ===== *)
theory Runtime
  imports Workers ConfigLoad WebhookGateway ObserverGateway Persistence HttpServer
begin

text \<open>
  The four processes: what \<^verbatim>\<open>internal/infrastructure/di/container.go\<close> builds from a configuration,
  and the programs \<^verbatim>\<open>cmd/reconciler\<close>, \<^verbatim>\<open>cmd/webhook-dispatcher\<close>,
  \<^verbatim>\<open>cmd/webhook-alert-worker\<close> and \<^verbatim>\<open>cmd/server\<close> up to the running worker.
\<close>

subsection \<open>The world of a process\<close>

text \<open>
  The parameters of the components, with the answers of the outside world at the instant of each
  cycle. \<open>rtCreate\<close> is what a creation takes from outside; the container sets its ports.
\<close>

record runtime_world =
  rtConfig :: config_world
  rtPG :: pg
  rtHashes :: hashes
  rtSync :: sync_env
  rtBootstrap :: bootstrap_env
  rtClock :: readiness_clock
  rtChain :: "time \<Rightarrow> observer_endpoints"
  rtSend :: "time \<Rightarrow> send_input \<Rightarrow> send_world"
  rtBeats :: "time \<Rightarrow> pending_event \<Rightarrow> time list"
  rtPayload :: "gval \<Rightarrow> string"
  rtCreate :: create_env
  rtInterleave :: "nat \<Rightarrow> db \<Rightarrow> db"

subsection \<open>The container\<close>

definition validationRules :: "config \<Rightarrow> startup_rules" where
  "validationRules cfg =
     \<lparr>ruAllocationMode = cfAllocationMode cfg, ruDevtestAllowMainnet = cfDevtestAllowMainnet cfg,
      ruDevtestKeysets = cfDevtestKeysets cfg,
      ruDevtestKeysetPreflight = cfDevtestKeysetPreflights cfg, ruDevtestKeyNormalizers = [],
      ruKeysetHashAlgorithm = cfKeysetHashAlgorithm cfg,
      ruKeysetHashHMACSecret = cfKeysetHashHMACSecret cfg,
      ruKeysetHashHMACLegacy = cfKeysetHashHMACLegacyKeys cfg,
      ruAddressSchemeAllowList = cfAddressSchemeAllowList cfg\<rparr>"

definition buildRuntimeDependencies :: "runtime_world \<Rightarrow> config \<Rightarrow> db persistence_gateway" where
  "buildRuntimeDependencies w cfg =
     bootstrapPort (rtHashes w) (rtPG w) (rtSync w) (rtBootstrap w)
       (newBootstrapGateway (rtHashes w) (cfDatabaseTarget cfg) (cfMigrationsPath cfg)
          (validationRules cfg) [] [] [])"

definition buildChainObserverGateway :: "config \<Rightarrow> observer_gateway" where
  "buildChainObserverGateway cfg =
     (let r = cfReconciler cfg
      in newObserverGateway
        \<lparr>ocBTCExploraBaseURL = cfBTCExploraBaseURL cfg, ocEVMRPCURLs = cfEVMRPCURLs cfg,
         ocDetectedBPS = rgDetectedBPS r, ocConfirmedBPS = rgConfirmedBPS r,
         ocBTCMinConf = rgBTCMinConfirmations r,
         ocBTCFinalityMinConf = rgBTCFinalityMinConfirmations r,
         ocEVMMinConf = rgEVMMinConfirmations r,
         ocEVMFinalityMinConf = rgEVMFinalityMinConfirmations r\<rparr>)"

definition newPaymentRequestRepository ::
  "runtime_world \<Rightarrow> config \<Rightarrow> db reconciliation_repository" where
  "newPaymentRequestRepository w cfg =
     paymentRepository (rtPG w)
       (newRepositoryConfig (wgEnabled (cfWebhook cfg)) (wgMaxAttempts (cfWebhook cfg)))"

definition reconcileUseCase :: "runtime_world \<Rightarrow> config \<Rightarrow> db reconcile_use_case" where
  "reconcileUseCase w cfg now =
     reconcileExecute (Some (newPaymentRequestRepository w cfg))
       (Some (ObservePaymentRequest (buildChainObserverGateway cfg) (rtChain w now))) now"

definition buildReconcilerWorker :: "config \<Rightarrow> 's reconcile_use_case \<Rightarrow> 's reconcile_worker" where
  "buildReconcilerWorker cfg useCase =
     (let r = cfReconciler cfg
      in \<lparr>rwEnabled = rgEnabled r, rwPollInterval = rgPollInterval r, rwBatchSize = rgBatchSize r,
          rwWorkerID = cfReconcilerWorkerID cfg, rwLeaseDuration = rgLeaseDuration r,
          rwReorgObserveWindow = rgReorgObserveWindow r,
          rwStabilityCycles = rgStabilityCycles r, rwUseCase = Some useCase\<rparr>)"

definition webhookEventGateway :: "config \<Rightarrow> http_gateway" where
  "webhookEventGateway cfg =
     NewHTTPGateway \<lparr>whHMACSecret = wgHMACSecret (cfWebhook cfg), whTimeout = wgTimeout (cfWebhook cfg)\<rparr>"

definition sendEvent :: "runtime_world \<Rightarrow> config \<Rightarrow> time \<Rightarrow> webhook_gateway" where
  "sendEvent w cfg now input =
     SendWebhookEvent (rtPayload w) (Some (webhookEventGateway cfg)) (rtSend w now input) input"

definition dispatchUseCase :: "runtime_world \<Rightarrow> config \<Rightarrow> db dispatch_use_case" where
  "dispatchUseCase w cfg now =
     dispatchExecute (Some (webhookRepository (rtPG w))) (Some (sendEvent w cfg now)) (rtBeats w now) now"

definition buildDispatchWorker :: "config \<Rightarrow> 's dispatch_use_case \<Rightarrow> 's dispatch_worker" where
  "buildDispatchWorker cfg useCase =
     (let h = cfWebhook cfg
      in \<lparr>dwEnabled = wgEnabled h, dwPollInterval = wgPollInterval h, dwBatchSize = wgBatchSize h,
          dwWorkerID = cfWebhookWorkerID cfg, dwLeaseDuration = wgLeaseDuration h,
          dwInitialBackoff = wgInitialBackoff h, dwMaxBackoff = wgMaxBackoff h,
          dwRetryJitterBPS = wgRetryJitterBPS h, dwRetryBudget = wgRetryBudget h,
          dwUseCase = Some useCase\<rparr>)"

definition buildAlertWorker :: "config \<Rightarrow> overview_use_case \<Rightarrow> alert_worker" where
  "buildAlertWorker cfg useCase =
     (let h = cfWebhook cfg
      in newAlertWorker (wgAlertEnabled h) (wgPollInterval h) (cfWebhookWorkerID cfg) (Some useCase)
        \<lparr>acEnabled = wgAlertEnabled h, acCooldown = wgAlertCooldown h,
         acFailedCountThreshold = wgAlertFailedCount h,
         acPendingReadyThreshold = wgAlertPendingReady h,
         acOldestPendingAgeSecLimit = wgAlertOldestAgeSec h\<rparr>)"

text \<open>The registry of gateway builders, as it is when nothing else is registered.\<close>

type_synonym wallet_builder = "config \<Rightarrow> wallet_gateway"

definition walletGatewayBuilders :: "hashes \<Rightarrow> (string \<times> wallet_builder) list" where
  "walletGatewayBuilders h =
     [(''devtest'', \<lambda>cfg. devtestGateway h (NewGateway (cfDevtestAllowMainnet cfg) (cfDevtestKeysets cfg))),
      (''prod'', \<lambda>_. prodGateway)]"

definition RegisterWalletGatewayBuilder ::
  "string \<Rightarrow> wallet_builder option \<Rightarrow> (string \<times> wallet_builder) list \<Rightarrow> (string \<times> wallet_builder) list" where
  "RegisterWalletGatewayBuilder mode builder builders =
     (let normalizedMode = ToLower (TrimSpace mode)
      in case builder of
           None \<Rightarrow> builders
         | Some b \<Rightarrow> if normalizedMode = [] then builders else assoc_put normalizedMode b builders)"

definition buildWalletGateway ::
  "(string \<times> wallet_builder) list \<Rightarrow> config \<Rightarrow> string + wallet_gateway" where
  "buildWalletGateway builders cfg =
     (case lookup builders (ToLower (TrimSpace (cfAllocationMode cfg))) of
        None \<Rightarrow> Inl (''unsupported allocation mode: '' @ cfAllocationMode cfg)
      | Some builder \<Rightarrow> Inr (builder cfg))"

text \<open>The router with its controllers, and what the program reads beside it.\<close>

record server_container =
  scRouter :: http_deps
  scAddress :: string
  scPersistence :: "db persistence_gateway"
  scReconciler :: "db reconcile_worker"

definition serverRouter :: "runtime_world \<Rightarrow> config \<Rightarrow> wallet_gateway \<Rightarrow> http_deps" where
  "serverRouter w cfg wallet =
     (let pg = rtPG w; catalog = ListEnabled pg
      in \<lparr>hdSpecPath = cfOpenAPISpecPath cfg, hdAssets = listAssets (Some catalog),
          hdCreate = (rtCreate w)\<lparr>enCatalog := Some catalog,
            enRepository := Some (Create pg (rtInterleave w)), enWallet := Some wallet,
            enAllowList := cfWebhookURLAllowList cfg\<rparr>,
          hdGet = getPaymentRequest (Some (GetByID pg (enKeccak (rtCreate w)))),
          hdSettlements = getPaymentRequestSettlements (Some (ListSettlements pg)),
          hdOutbox = (\<lambda>now. outboxController pg now (cfWebhookOpsAdminKeys cfg))\<rparr>)"

definition buildServer :: "runtime_world \<Rightarrow> config \<Rightarrow> string + server_container" where
  "buildServer w cfg =
     (case buildWalletGateway (walletGatewayBuilders (rtHashes w)) cfg of
        Inl e \<Rightarrow> Inl e
      | Inr wallet \<Rightarrow> Inr
          \<lparr>scRouter = serverRouter w cfg wallet, scAddress = Address cfg,
           scPersistence = buildRuntimeDependencies w cfg,
           scReconciler = buildReconcilerWorker cfg (reconcileUseCase w cfg)\<rparr>)"

subsection \<open>The programs\<close>

datatype 'o process =
    ExitConfig config_error
  | ExitWiring string
  | ExitPersistence app_error
  | ExitNotEnabled string
  | Ran worker_end 'o

text \<open>The persistence is initialised before a worker runs; \<open>None\<close> would be a start that never returns.\<close>

definition initialized ::
  "runtime_world \<Rightarrow> config \<Rightarrow> db \<Rightarrow> (db \<Rightarrow> 'o process \<times> db) \<Rightarrow> ('o process \<times> db) option" where
  "initialized w cfg s k =
     (case initializePersistence (Some (buildRuntimeDependencies w cfg)) (rtClock w)
             \<lparr>icReadinessTimeout = cfDBReadinessTimeout cfg,
              icReadinessRetryInterval = cfDBReadinessRetryInterval cfg\<rparr> s of
        None \<Rightarrow> None
      | Some (Some e, s') \<Rightarrow> Some (ExitPersistence e, s')
      | Some (None, s') \<Rightarrow> Some (k s'))"

definition ranWorker :: "worker_end \<times> 'o \<times> 's \<Rightarrow> 'o process \<times> 's" where
  "ranWorker r = (case r of (fin, outs, s) \<Rightarrow> (Ran fin outs, s))"

definition reconcilerMain ::
  "runtime_world \<Rightarrow> time \<Rightarrow> db tick list \<Rightarrow> db \<Rightarrow>
   ((reconcile_output \<times> app_error option) list process \<times> db) option" where
  "reconcilerMain w now ticks s =
     (case LoadConfig (rtConfig w) of
        Inl e \<Rightarrow> Some (ExitConfig e, s)
      | Inr cfg \<Rightarrow>
          if \<not> rgEnabled (cfReconciler cfg) then Some (ExitNotEnabled ''CONFIG_RECONCILER_DISABLED'', s)
          else initialized w cfg s (\<lambda>s'.
            let worker = buildReconcilerWorker cfg (reconcileUseCase w cfg)
            in if \<not> rwEnabled worker then (ExitNotEnabled ''RECONCILER_WORKER_NOT_ENABLED'', s')
               else ranWorker (startReconcileWorker (Some worker) now ticks s')))"

definition validateWebhookDispatcherConfig :: "config \<Rightarrow> config_error option" where
  "validateWebhookDispatcherConfig cfg =
     (if \<not> wgEnabled (cfWebhook cfg) then
        Some \<lparr>ceCode = ''CONFIG_WEBHOOK_DISABLED'', ceMessage =
          ''PAYMENT_REQUEST_WEBHOOK_ENABLED must be true for webhook dispatcher runtime'', ceMetadata = []\<rparr>
      else if TrimSpace (wgHMACSecret (cfWebhook cfg)) = [] then
        Some \<lparr>ceCode = ''CONFIG_WEBHOOK_HMAC_SECRET_REQUIRED'', ceMessage =
          ''PAYMENT_REQUEST_WEBHOOK_HMAC_SECRET is required when webhook dispatcher runtime is enabled'',
          ceMetadata = []\<rparr>
      else None)"

definition dispatcherMain ::
  "runtime_world \<Rightarrow> time \<Rightarrow> db tick list \<Rightarrow> db \<Rightarrow>
   ((dispatch_output \<times> app_error option) list process \<times> db) option" where
  "dispatcherMain w now ticks s =
     (case LoadConfig (rtConfig w) of
        Inl e \<Rightarrow> Some (ExitConfig e, s)
      | Inr cfg \<Rightarrow>
          (case validateWebhookDispatcherConfig cfg of
             Some e \<Rightarrow> Some (ExitConfig e, s)
           | None \<Rightarrow> initialized w cfg s (\<lambda>s'.
               let worker = buildDispatchWorker cfg (dispatchUseCase w cfg)
               in if \<not> dwEnabled worker then (ExitNotEnabled ''WEBHOOK_WORKER_NOT_ENABLED'', s')
                  else ranWorker (startDispatchWorker (Some worker) now ticks s'))))"

definition validateWebhookAlertWorkerConfig :: "config \<Rightarrow> config_error option" where
  "validateWebhookAlertWorkerConfig cfg =
     (if \<not> wgAlertEnabled (cfWebhook cfg) then
        Some \<lparr>ceCode = ''CONFIG_WEBHOOK_ALERT_DISABLED'', ceMessage =
          ''PAYMENT_REQUEST_WEBHOOK_ALERT_ENABLED must be true for webhook alert worker runtime'',
          ceMetadata = []\<rparr>
      else None)"

text \<open>The alert worker only reads the store, which \<open>stores\<close> gives at each instant.\<close>

definition alertMain ::
  "runtime_world \<Rightarrow> time \<Rightarrow> time list \<Rightarrow> (time \<Rightarrow> db) \<Rightarrow> db \<Rightarrow>
   ((time \<times> (app_error + alert_event list)) list process \<times> db) option" where
  "alertMain w now ticks stores s =
     (case LoadConfig (rtConfig w) of
        Inl e \<Rightarrow> Some (ExitConfig e, s)
      | Inr cfg \<Rightarrow>
          (case validateWebhookAlertWorkerConfig cfg of
             Some e \<Rightarrow> Some (ExitConfig e, s)
           | None \<Rightarrow> initialized w cfg s (\<lambda>s'.
               let worker = buildAlertWorker cfg
                     (\<lambda>t. overviewExecute (Some (GetOverview (rtPG w))) t t (stores t))
               in if \<not> awEnabled worker then (ExitNotEnabled ''WEBHOOK_ALERT_WORKER_NOT_ENABLED'', s')
                  else (let (fin, logged) = startAlertWorker (Some worker) now ticks
                        in (Ran fin logged, s')))))"

text \<open>
  The server starts the reconciler's worker, when it is enabled, beside the HTTP server; the store
  then changes with the requests, which are the interference of the ticks.
\<close>

definition serverMain ::
  "runtime_world \<Rightarrow> time \<Rightarrow> db tick list \<Rightarrow> db \<Rightarrow>
   ((reconcile_output \<times> app_error option) list process \<times> db) option" where
  "serverMain w now ticks s =
     (case LoadConfig (rtConfig w) of
        Inl e \<Rightarrow> Some (ExitConfig e, s)
      | Inr cfg \<Rightarrow>
          (case buildServer w cfg of
             Inl e \<Rightarrow> Some (ExitWiring e, s)
           | Inr server \<Rightarrow> initialized w cfg s (\<lambda>s'.
               ranWorker (startReconcileWorker (Some (scReconciler server)) now ticks s'))))"

end
