(* ===== verification/RuntimeProps.thy ===== *)
theory RuntimeProps
  imports Runtime DispatchLemmas Examples
begin

text \<open>
  Properties of the loaded configuration and of the processes built from it: what the guards of
  the use cases find, what an overflowing number of seconds does, the statuses over the life of a
  reconciler, and where the result of the JSON settings depends on the order of a Go map.
\<close>

subsection \<open>Single settings\<close>













subsection \<open>A world\<close>

definition demo_networks :: gval where
  "demo_networks = GMap [(''regtest'', GMap [(''keyset_id'', GStr ''ks''),
     (''extended_public_key'', GStr ''tpub''), (''expected_index0_address'', GStr ''bcrt1'')])]"

definition demo_settings :: "(string \<times> string) list \<Rightarrow> config_world" where
  "demo_settings extra =
     \<lparr>cwEnv = (\<lambda>k. case lookup (extra @ [(''DATABASE_URL'', ''postgres://db/chaintx''),
          (''PAYMENT_REQUEST_DEVTEST_KEYSETS_JSON'', ''K''),
          (''PAYMENT_REQUEST_KEYSET_HASH_HMAC_SECRET'', ''s''),
          (''PAYMENT_REQUEST_RECONCILER_ENABLED'', ''true''),
          (''PAYMENT_REQUEST_BTC_ESPLORA_BASE_URL'', ''http://e/'')]) k of None \<Rightarrow> [] | Some v \<Rightarrow> v),
      cwURL = (\<lambda>_. Some \<lparr>urlScheme = ''postgres'', urlUser = None, urlHost = ''db'', urlHostname = ''db'',
        urlPort = [], urlPath = ''/chaintx'', urlRawQuery = [], urlFragment = []\<rparr>),
      cwJSON = (\<lambda>t. if t = ''K'' then Some (GMap [(''bitcoin'', demo_networks)])
         else if t = ''F'' then Some (GMap [(''ks'', GStr '' tpub '')])
         else if t = ''N'' then Some (GMap [(''bitcoin'', demo_networks), (''ethereum'', GNil)]) else None),
      cwOrder = id, cwHostname = None, cwPid = 7\<rparr>"

subsection \<open>The groups\<close>








lemma LoadConfig_groups:
  assumes "LoadConfig w = Inr cfg"
  shows "parseReconcilerConfig w = Inr (cfReconciler cfg)" "parseWebhookConfig w = Inr (cfWebhook cfg)"
    "cfReconcilerWorkerID cfg = workerID w ''PAYMENT_REQUEST_RECONCILER_WORKER_ID''"
    "cfWebhookWorkerID cfg = workerID w ''PAYMENT_REQUEST_WEBHOOK_WORKER_ID''"
  using assms by (auto simp: LoadConfig_def Let_def split: prod.splits if_splits)




subsection \<open>Overflowing seconds\<close>

lemma Atoi_Nil: "Atoi [] = None"
  by (simp add: Atoi_def ParseInt_def parse_big_def)

lemma wrap64_overflow:
  assumes "9223372037 \<le> n" "n \<le> 18446744073"
  shows "wrap64 (n * second) < 0"
proof -
  have "n * second + 2 ^ 63 = (n * second - 2 ^ 63) + 1 * 2 ^ 64" by simp
  then have "(n * second + 2 ^ 63) mod 2 ^ 64 = (n * second - 2 ^ 63) mod 2 ^ 64"
    by (metis mod_mult_self1)
  also have "\<dots> = n * second - 2 ^ 63" using assms by (intro mod_pos_pos_trivial) (simp_all add: second_def)
  finally show ?thesis using assms by (simp add: wrap64_def second_def)
qed

lemma poll_interval:
  "parseReconcilerConfig w = Inr r \<Longrightarrow>
     parsePositiveSeconds w ''PAYMENT_REQUEST_RECONCILER_POLL_INTERVAL_SECONDS''
       ''CONFIG_RECONCILER_POLL_INTERVAL_INVALID'' inSeconds (15 * second) = Inr (rgPollInterval r)"
  by (auto simp: parseReconcilerConfig_def split: prod.splits)

lemma initialized_Some:
  assumes "initialized w cfg s k = Some (p, s')"
  obtains (failed) e where "p = ExitPersistence e"
      "initializePersistence (Some (buildRuntimeDependencies w cfg)) (rtClock w)
         \<lparr>icReadinessTimeout = cfDBReadinessTimeout cfg,
          icReadinessRetryInterval = cfDBReadinessRetryInterval cfg\<rparr> s = Some (Some e, s')"
  | (ready) t where "k t = (p, s')"
      "initializePersistence (Some (buildRuntimeDependencies w cfg)) (rtClock w)
         \<lparr>icReadinessTimeout = cfDBReadinessTimeout cfg,
          icReadinessRetryInterval = cfDBReadinessRetryInterval cfg\<rparr> s = Some (None, t)"
  using assms by (auto simp: initialized_def split: option.splits)

lemma reconcilerMain_ran:
  assumes "reconcilerMain w now ticks s = Some (Ran fin outs, s')"
  obtains cfg t where "LoadConfig (rtConfig w) = Inr cfg" "rgEnabled (cfReconciler cfg)"
    "initializePersistence (Some (buildRuntimeDependencies w cfg)) (rtClock w)
       \<lparr>icReadinessTimeout = cfDBReadinessTimeout cfg,
        icReadinessRetryInterval = cfDBReadinessRetryInterval cfg\<rparr> s = Some (None, t)"
    "startWorker True (rgPollInterval (cfReconciler cfg))
       (reconcileCycle (buildReconcilerWorker cfg (reconcileUseCase w cfg))) now ticks t = (fin, outs, s')"
  using assms
  by (auto simp: reconcilerMain_def startReconcileWorker_def buildReconcilerWorker_def ranWorker_def Let_def
      split: sum.splits if_splits prod.splits elim!: initialized_Some)

text \<open>
  C39. A polling interval of 9223372037 to 18446744073 seconds passes the check that it is a
  positive integer, but the product with \<^verbatim>\<open>time.Second\<close> wraps around to a negative duration: the
  reconciler's process starts, runs one cycle and then panics when it creates its ticker.
\<close>

theorem overflowing_interval_panics:
  assumes "Atoi (setting (rtConfig w) ''PAYMENT_REQUEST_RECONCILER_POLL_INTERVAL_SECONDS'') = Some n"
    and "9223372037 \<le> n" "n \<le> 18446744073"
    and "reconcilerMain w now ticks s = Some (Ran fin outs, s')"
  shows "fin = TickerPanic \<and> length outs = 1"
  using assms(4)
proof (rule reconcilerMain_ran)
  fix cfg t
  assume cfg: "LoadConfig (rtConfig w) = Inr cfg"
    and run: "startWorker True (rgPollInterval (cfReconciler cfg))
      (reconcileCycle (buildReconcilerWorker cfg (reconcileUseCase w cfg))) now ticks t = (fin, outs, s')"
  have "parsePositiveSeconds (rtConfig w) ''PAYMENT_REQUEST_RECONCILER_POLL_INTERVAL_SECONDS''
      ''CONFIG_RECONCILER_POLL_INTERVAL_INVALID'' inSeconds (15 * second) =
      Inr (rgPollInterval (cfReconciler cfg))"
    using LoadConfig_groups(1) [OF cfg] by (rule poll_interval)
  then have "rgPollInterval (cfReconciler cfg) = wrap64 (n * second)"
    using assms(1) Atoi_Nil by (auto simp: parsePositiveSeconds_def Let_def split: if_splits)
  with wrap64_overflow [OF assms(2,3)] run show ?thesis
    by (auto simp: startWorker_def split: prod.splits)
qed

subsection \<open>The reconciler's process and the store\<close>

text \<open>What exists keeps existing, with its status moved along the edges only; requests may be added.\<close>

definition movesOn :: "db \<Rightarrow> db \<Rightarrow> bool" where
  "movesOn s s' \<longleftrightarrow>
     (\<forall>k a. request_status s k = Some a \<longrightarrow> (\<exists>b. request_status s' k = Some b \<and> edge\<^sup>*\<^sup>* a b))"

lemma movesOn_refl [simp]: "movesOn s s"
  by (simp add: movesOn_def)

lemma movesOn_trans: "movesOn s t \<Longrightarrow> movesOn t u \<Longrightarrow> movesOn s u"
  unfolding movesOn_def by (meson rtranclp_trans)

lemma status_moves_movesOn:
  "status_moves (request_status s) (request_status s') \<Longrightarrow> movesOn s s'"
  unfolding status_moves_def movesOn_def by (metis option_rel_Some1)

lemma reconcileCycle_moves:
  assumes "reconcileCycle (buildReconcilerWorker cfg (reconcileUseCase w cfg)) t s = (q, s')"
  shows "movesOn s s'"
proof -
  obtain out e where "reconcileExecute (Some (newPaymentRequestRepository w cfg))
      (Some (ObservePaymentRequest (buildChainObserverGateway cfg) (rtChain w t))) t
      (reconcileCommand (buildReconcilerWorker cfg (reconcileUseCase w cfg)) t) s = (out, e, s')"
    using assms by (auto simp: reconcileCycle_def buildReconcilerWorker_def reconcileUseCase_def Let_def
        split: prod.splits)
  then show ?thesis
    unfolding newPaymentRequestRepository_def
    by (rule status_moves_movesOn [OF store.reconcileExecute_moves])
qed

lemma start_moves:
  assumes "initializePersistence (Some (buildRuntimeDependencies w cfg)) k c s = Some (e, t)"
    and "migrationsKeep (rtBootstrap w)"
  shows "movesOn s t"
proof -
  have "storeKept s t"
    using boot.initialize_keeps [OF assms(1) [unfolded buildRuntimeDependencies_def]] assms(2) by simp
  then have "request_status t = request_status s" by (simp add: storeKept_def request_status_def fun_eq_iff)
  then show ?thesis by (auto simp: movesOn_def)
qed

lemma worker_moves:
  assumes "startWorker b poll (reconcileCycle (buildReconcilerWorker cfg (reconcileUseCase w cfg))) now ticks s =
      (fin, outs, s')"
    and "\<forall>(t, meanwhile) \<in> set ticks. \<forall>s. movesOn s (meanwhile s)"
  shows "movesOn s s'"
proof (rule startWorker_keeps [OF _ _ assms(1), where I = "movesOn s"])
  show "movesOn s x'"
    if "reconcileCycle (buildReconcilerWorker cfg (reconcileUseCase w cfg)) u x = (q, x')" "movesOn s x"
    for u x q x'
    using that(2) reconcileCycle_moves [OF that(1)] by (rule movesOn_trans)
  show "\<forall>(u, meanwhile) \<in> set ticks. \<forall>x. movesOn s x \<longrightarrow> movesOn s (meanwhile x)"
    using assms(2) movesOn_trans by blast
qed simp

text \<open>
  Over the whole life of a reconciler process, the migration and wallet synchronisation of its
  start included, no payment request disappears and every status moves along the edges of the life
  cycle only, whatever happens at each observation, provided that the rest of the system does the
  same between the cycles.
\<close>

theorem process_moves_along_edges:
  assumes "reconcilerMain w now ticks s = Some (Ran fin outs, s')" "migrationsKeep (rtBootstrap w)"
    and "\<forall>(t, meanwhile) \<in> set ticks. \<forall>s. movesOn s (meanwhile s)"
    and "request_status s k = Some a"
  shows "\<exists>b. request_status s' k = Some b \<and> edge\<^sup>*\<^sup>* a b"
proof -
  from assms(1) have "movesOn s s'"
    by (rule reconcilerMain_ran) (meson movesOn_trans start_moves worker_moves assms(2,3))
  with assms(4) show ?thesis by (simp add: movesOn_def)
qed

subsection \<open>Key sets\<close>

definition tablesOK :: "keyset_tables \<Rightarrow> bool" where
  "tablesOK tables \<longleftrightarrow>
     (\<forall>p \<in> set (snd tables). completePreflightEntry p \<and> normalizePreflightEntry p = p \<and>
       lookup (fst tables) (peKeysetID p) = Some (peExtendedPublicKey p))"

lemma resolve_trimmed: "TrimSpace (resolveEnvelopeKeyMaterial a b c) = resolveEnvelopeKeyMaterial a b c"
  by (simp add: resolveEnvelopeKeyMaterial_def Let_def)

lemma parseNestedEntry_ok:
  assumes "parseNestedEntry (ToLower (TrimSpace chain)) (ToLower (TrimSpace network)) payload tables = Inr tables'"
    and "tablesOK tables" "ToLower (TrimSpace chain) \<noteq> []" "ToLower (TrimSpace network) \<noteq> []"
  shows "tablesOK tables'"
proof -
  obtain keysets preflights where tables: "tables = (keysets, preflights)" by fastforce
  obtain env where dec: "decodeScopedEnvelope payload = Some env"
    using assms(1) by (cases "decodeScopedEnvelope payload") (simp_all add: parseNestedEntry_def tables keysetsInvalid_def)
  define key where "key = resolveEnvelopeKeyMaterial (skExtendedPublicKey env) (skKeyMaterial env) (skXPub env)"
  have env: "TrimSpace (skKeysetID env) \<noteq> []" "TrimSpace (skExpectedAddress env) \<noteq> []" "key \<noteq> []"
    "lookup keysets (TrimSpace (skKeysetID env)) \<in> {None, Some key}"
    "tables' = (assoc_put (TrimSpace (skKeysetID env)) key keysets,
      preflights @ [\<lparr>peChain = ToLower (TrimSpace chain), peNetwork = ToLower (TrimSpace network),
        peKeysetID = TrimSpace (skKeysetID env), peExtendedPublicKey = key,
        peExpectedIndex0Address = TrimSpace (skExpectedAddress env)\<rparr>])"
    using assms(1) unfolding parseNestedEntry_def tables Let_def dec option.case prod.case key_def
    by (auto simp: keysetsInvalid_def split: if_splits)
  have trim: "TrimSpace key = key" by (simp add: key_def resolve_trimmed)
  show ?thesis
    using assms(2-4) env(1-4)
    by (auto simp: tablesOK_def env(5) tables completePreflightEntry_def normalizePreflightEntry_def
        trim)
qed

lemma parseNestedNetworks_ok:
  "parseNestedNetworks (ToLower (TrimSpace chain)) entries tables = Inr tables' \<Longrightarrow> tablesOK tables \<Longrightarrow>
     ToLower (TrimSpace chain) \<noteq> [] \<Longrightarrow> tablesOK tables'"
proof (induction entries arbitrary: tables)
  case (Cons entry entries)
  obtain network payload where e: "entry = (network, payload)" by fastforce
  show ?case
  proof (cases "ToLower (TrimSpace network) = []")
    case True
    with Cons show ?thesis by (simp add: e)
  next
    case False
    with Cons.prems(1) obtain t where
      "parseNestedEntry (ToLower (TrimSpace chain)) (ToLower (TrimSpace network)) payload tables = Inr t"
      "parseNestedNetworks (ToLower (TrimSpace chain)) entries t = Inr tables'"
      by (auto simp: e)
    with Cons False parseNestedEntry_ok show ?thesis by blast
  qed
qed simp

lemma parseNestedDevtestKeysets_ok:
  "parseNestedDevtestKeysets order entries tables = Inr tables' \<Longrightarrow> tablesOK tables \<Longrightarrow> tablesOK tables'"
proof (induction entries arbitrary: tables)
  case (Cons entry entries)
  obtain chain payload where e: "entry = (chain, payload)" by fastforce
  show ?case
  proof (cases "ToLower (TrimSpace chain) = []")
    case True
    with Cons show ?thesis by (simp add: e)
  next
    case False
    with Cons.prems(1) obtain networks t where
      "parseNestedNetworks (ToLower (TrimSpace chain)) networks tables = Inr t"
      "parseNestedDevtestKeysets order entries t = Inr tables'"
      by (cases "decodeMap Some payload") (auto simp: e keysetsInvalid_def Let_def)
    with Cons False parseNestedNetworks_ok show ?thesis by blast
  qed
qed simp

lemma parseDevtestKeysets_ok:
  assumes "parseDevtestKeysets w raw = Inr tables"
  shows "tablesOK tables"
proof -
  have none: "tablesOK (ks, [])" for ks by (simp add: tablesOK_def)
  with assms show ?thesis
    by (auto simp: parseDevtestKeysets_def Let_def keysetsInvalid_def split: if_splits option.splits
        intro: parseNestedDevtestKeysets_ok)
qed

text \<open>
  The key sets a configuration loads are consistent: every preflight entry names a key set of
  the table with exactly its extended public key, so entries that share a key set agree on the key,
  and every entry is complete and normal, so the persistence gateway keeps all of them.
\<close>

theorem preflights_match_keysets:
  assumes "LoadConfig w = Inr cfg"
  shows "(\<forall>p \<in> set (cfDevtestKeysetPreflights cfg).
      lookup (cfDevtestKeysets cfg) (peKeysetID p) = Some (peExtendedPublicKey p)) \<and>
    copyPreflightEntries (ruDevtestKeysetPreflight (validationRules cfg)) = cfDevtestKeysetPreflights cfg"
proof -
  from assms obtain tables where "parseDevtestKeysets w (setting w keysetsEnv) = Inr tables"
    "cfDevtestKeysets cfg = fst tables" "cfDevtestKeysetPreflights cfg = snd tables"
    by (auto simp: LoadConfig_def Let_def split: prod.splits if_splits)
  then have ok: "tablesOK (cfDevtestKeysets cfg, cfDevtestKeysetPreflights cfg)"
    using parseDevtestKeysets_ok by simp
  then have "map normalizePreflightEntry (cfDevtestKeysetPreflights cfg) = cfDevtestKeysetPreflights cfg"
    by (intro map_idI) (simp add: tablesOK_def)
  moreover have "filter completePreflightEntry (cfDevtestKeysetPreflights cfg) = cfDevtestKeysetPreflights cfg"
    using ok by (intro filter_True) (simp add: tablesOK_def)
  ultimately show ?thesis
    using ok by (simp add: tablesOK_def copyPreflightEntries_def validationRules_def)
qed

text \<open>
  Whether a configuration loads can depend on the order in which Go visits a map: with a
  nested chain next to a chain that is \<^verbatim>\<open>null\<close>, visiting the nested chain first recognises the
  nested form and accepts, visiting the \<^verbatim>\<open>null\<close> first reports empty key material.
\<close>

theorem null_chain_depends_on_order:
  assumes "raw \<noteq> []" "cwJSON w raw = Some (GMap [(c, v), (d, GNil)])" "c \<noteq> d"
    and "TrimSpace d \<noteq> []" "parseFlatDevtestKeysets [(c, v)] [] = Inr None"
    and "parseNestedDevtestKeysets id [(c, v)] ([], []) = Inr tables"
  shows "parseDevtestKeysets (w\<lparr>cwOrder := id\<rparr>) raw = Inr tables \<and>
    parseDevtestKeysets (w\<lparr>cwOrder := rev\<rparr>) raw =
      keysetsInvalid '' contains empty key material'' [(''keyset_id'', TrimSpace d)]"
proof -
  have decoded: "decodeMap Some (GMap [(c, v), (d, GNil)]) = Some [(c, v), (d, GNil)]"
    using assms(3) by (simp add: decodeMap_def goMap_def)
  have orders: "ranged id [(c, v), (d, GNil)] = [(c, v), (d, GNil)]"
    "ranged rev [(c, v), (d, GNil)] = [(d, GNil), (c, v)]"
    using assms(3) by (simp_all add: ranged_def)
  have blank: "TrimSpace c \<noteq> []" using assms(5) by auto
  have flat: "parseFlatDevtestKeysets ((c, v) # rest) [] = Inr None" for rest
  proof (cases "decodeText v")
    case None
    with assms(5) blank show ?thesis
      by (cases "decodeEnvelope v") (auto simp: Let_def split: if_splits)
  next
    case (Some key)
    with assms(5) blank show ?thesis
      by (cases "TrimSpace key = []") (simp_all add: Let_def keysetsInvalid_def configError_def)
  qed
  have first: "parseNestedDevtestKeysets id ((c, v) # rest) t =
      andThen (parseNestedDevtestKeysets id [(c, v)] t) (parseNestedDevtestKeysets id rest)" for rest t
  proof (cases "decodeMap Some v")
    case (Some networks)
    then show ?thesis
      by (cases "parseNestedNetworks (ToLower (TrimSpace c)) (ranged id networks) t") (simp_all add: Let_def)
  qed (simp add: Let_def keysetsInvalid_def configError_def)
  have last: "parseNestedDevtestKeysets id [(d, GNil)] t = Inr t" for t
    by (simp add: Let_def decodeMap_def ranged_def)
  have "parseDevtestKeysets (w\<lparr>cwOrder := id\<rparr>) raw = Inr tables"
    using assms(1,2,6)
    by (simp add: parseDevtestKeysets_def decoded orders flat first [of "[(d, GNil)]"] last
        del: parseNestedDevtestKeysets.simps parseFlatDevtestKeysets.simps)
  moreover have "parseDevtestKeysets (w\<lparr>cwOrder := rev\<rparr>) raw =
      keysetsInvalid '' contains empty key material'' [(''keyset_id'', TrimSpace d)]"
    using assms(1,2,4)
    by (simp add: parseDevtestKeysets_def decoded orders Let_def decodeText_def keysetsInvalid_def configError_def)
  ultimately show ?thesis ..
qed

theorem null_chain_depends_on_order_witness:
  "is_ok (parseDevtestKeysets ((demo_settings [])\<lparr>cwOrder := id\<rparr>) ''N'') \<and>
   \<not> is_ok (parseDevtestKeysets ((demo_settings [])\<lparr>cwOrder := rev\<rparr>) ''N'')"
proof -
  have json: "cwJSON (demo_settings []) ''N'' = Some (GMap [(''bitcoin'', demo_networks), (''ethereum'', GNil)])"
    by (simp add: demo_settings_def)
  have plain: "TrimSpace ''ethereum'' \<noteq> []" by code_simp
  have flat: "parseFlatDevtestKeysets [(''bitcoin'', demo_networks)] [] = Inr None" by code_simp
  have "is_ok (parseNestedDevtestKeysets id [(''bitcoin'', demo_networks)] ([], []))" by code_simp
  then obtain tables where nested: "parseNestedDevtestKeysets id [(''bitcoin'', demo_networks)] ([], []) = Inr tables"
    by (auto simp: is_ok_iff)
  show ?thesis
    using null_chain_depends_on_order [OF _ json _ plain flat nested]
    by (simp add: keysetsInvalid_def configError_def)
qed

theorem preflights_match_keysets_witness:
  "\<exists>cfg. LoadConfig (demo_settings []) = Inr cfg \<and> length (cfDevtestKeysetPreflights cfg) = 1 \<and>
     length (copyPreflightEntries (ruDevtestKeysetPreflight (validationRules cfg))) = 1"
proof -
  have n: "map_sum id (\<lambda>c. length (cfDevtestKeysetPreflights c)) (LoadConfig (demo_settings [])) = Inr 1"
    by code_simp
  then obtain cfg where cfg: "LoadConfig (demo_settings []) = Inr cfg"
    by (cases "LoadConfig (demo_settings [])") auto
  with n preflights_match_keysets [OF cfg] show ?thesis by simp
qed

subsection \<open>Key sets in the flat form\<close>

lemma no_preflight_no_start:
  assumes "cfDevtestKeysetPreflights cfg = []"
  shows "\<exists>e. pbSyncWallets (buildRuntimeDependencies w cfg) s = (Some e, s)"
  using assms
  by (auto simp: buildRuntimeDependencies_def bootstrapPort_def SyncWalletAllocationState_def Let_def
      syncDevtestWalletAllocationState_def newBootstrapGateway_def validationRules_def
      copyPreflightEntries_def preflightsByTarget_def)

lemma no_preflight_not_initialized:
  assumes "cfDevtestKeysetPreflights cfg = []" "initialized w cfg s k = Some (p, s')"
  shows "\<exists>e. p = ExitPersistence e"
  using assms(2)
proof (cases rule: initialized_Some)
  case (ready t)
  from ready(2) show ?thesis
    using no_preflight_no_start [OF assms(1), of w]
    by (auto simp: initializePersistence_def Let_def split: if_splits option.splits prod.splits)
      (metis fst_conv option.distinct(1))+
qed blast

text \<open>
  Key sets in the flat form load, but no process starts with them: the form gives no preflight
  entry, and the wallet synchronisation of the start refuses a configuration without any. So every
  program ends with an error of the persistence, unless it ends before.
\<close>

theorem flat_keysets_never_start:
  assumes "LoadConfig (rtConfig w) = Inr cfg" "cfDevtestKeysetPreflights cfg = []"
  shows "reconcilerMain w now ticks s \<noteq> Some (Ran fin outs, s') \<and>
    dispatcherMain w now ticks s \<noteq> Some (Ran fin outs', s') \<and>
    alertMain w now instants stores s \<noteq> Some (Ran fin outs'', s') \<and>
    serverMain w now ticks s \<noteq> Some (Ran fin outs, s')"
proof -
  have no: "initialized w cfg s k \<noteq> Some (Ran fin q, s')" for fin q s' and k :: "db \<Rightarrow> 'o process \<times> db"
    using no_preflight_not_initialized [OF assms(2), of w s k] by blast
  show ?thesis
    by (simp add: reconcilerMain_def dispatcherMain_def alertMain_def serverMain_def assms(1) no
        split: option.split sum.split)
qed

theorem flat_keysets_never_start_witness:
  "\<exists>cfg. LoadConfig (demo_settings [(''PAYMENT_REQUEST_DEVTEST_KEYSETS_JSON'', ''F'')]) = Inr cfg \<and>
     cfDevtestKeysets cfg = [(''ks'', ''tpub'')] \<and>
     (\<forall>w now ticks s fin outs s'. rtConfig w = demo_settings [(''PAYMENT_REQUEST_DEVTEST_KEYSETS_JSON'', ''F'')] \<longrightarrow>
        serverMain w now ticks s \<noteq> Some (Ran fin outs, s'))"
proof -
  let ?w = "demo_settings [(''PAYMENT_REQUEST_DEVTEST_KEYSETS_JSON'', ''F'')]"
  have n: "map_sum id (\<lambda>c. (cfDevtestKeysets c, cfDevtestKeysetPreflights c)) (LoadConfig ?w) =
      Inr ([(''ks'', ''tpub'')], [])" by code_simp
  then obtain cfg where cfg: "LoadConfig ?w = Inr cfg" by (cases "LoadConfig ?w") auto
  with n have "cfDevtestKeysets cfg = [(''ks'', ''tpub'')]" "cfDevtestKeysetPreflights cfg = []" by simp_all
  with cfg flat_keysets_never_start show ?thesis by metis
qed

subsection \<open>A reconciler's process\<close>

definition demo_runtime :: "(string \<times> string) list \<Rightarrow> runtime_world" where
  "demo_runtime extra =
     \<lparr>rtConfig = demo_settings extra, rtPG = demo_pg,
      rtHashes = \<lparr>hsSHA256 = id, hsHMACSHA512 = (\<lambda>k x. x), hsKeccak256 = id\<rparr>,
      rtSync = \<lparr>svHMAC = (\<lambda>_ _. []), svNow = (\<lambda>_. 0), svClock = (\<lambda>_. (0, 0))\<rparr>,
      rtBootstrap = \<lparr>beOpenFails = (\<lambda>_. False), bePingFails = (\<lambda>_. False), beCancelled = False,
        bePathFails = False, beRunnerFails = False, beUp = (\<lambda>s. (False, s))\<rparr>,
      rtClock = \<lparr>rkStart = 0, rkTook = (\<lambda>_. 0), rkLate = (\<lambda>_. 0), rkCancelled = None,
        rkTimerWins = (\<lambda>_. True)\<rparr>,
      rtChain = (\<lambda>_. \<lparr>oeEsplora = \<lparr>esStats = (\<lambda>_. Body \<lparr>asChainFunded = 0, asMempoolFunded = 0\<rparr>),
          esUTXOs = (\<lambda>_. Body []), esTip = (\<lambda>_. Body ''7''), esPathEscape = (\<lambda>u. u)\<rparr>,
        oeParseError = (\<lambda>t. t),
        oeNode = \<lparr>enPost = (\<lambda>_ _. TransportError ''down''), enText = Inl, enBlock = Inl, enReceipt = Inl, enLogs = Inl\<rparr>\<rparr>),
      rtSend = (\<lambda>_ _. \<lparr>swNow = 0, swRandom = Inr [], swHmac = (\<lambda>_ _. []), swNewRequest = (\<lambda>_. None),
        swDo = (\<lambda>_ _. Inl ''down'')\<rparr>),
      rtBeats = (\<lambda>_ _. []), rtPayload = (\<lambda>_. ''{}''), rtCreate = \<lparr>enCatalog = None, enRepository = None, enWallet = None, enAllowList = [],
        enParse = (\<lambda>_. None), enRender = urlHost, enKeccak = (\<lambda>_. []), enDigest = id, enLeaf = (\<lambda>_. []),
        enRandom = (\<lambda>_. Inr []), enNow = 0\<rparr>,
      rtInterleave = (\<lambda>_ s. s)\<rparr>"

text \<open>A start that has nothing to synchronise.\<close>

lemma quiet_start:
  assumes "cfAllocationMode cfg = ''devtest''" "cfKeysetHashAlgorithm cfg = ''hmac-sha256''"
    and "cfKeysetHashHMACSecret cfg = ''s''" "cfDBReadinessTimeout cfg = 30 * second"
    and "cfDBReadinessRetryInterval cfg = 2 * second"
    and "preflightsByTarget (copyPreflightEntries (cfDevtestKeysetPreflights cfg)) \<noteq> []" "dbCatalog s = []"
  shows "initializePersistence (Some (buildRuntimeDependencies (demo_runtime extra) cfg)) (rtClock (demo_runtime extra))
    \<lparr>icReadinessTimeout = cfDBReadinessTimeout cfg,
     icReadinessRetryInterval = cfDBReadinessRetryInterval cfg\<rparr> s = Some (None, s)"
proof -
  let ?gw = "buildRuntimeDependencies (demo_runtime extra) cfg"
  have t: "ToLower (TrimSpace ''devtest'') = ''devtest''" "ToLower (TrimSpace ''hmac-sha256'') = ''hmac-sha256''"
    "TrimSpace ''s'' = ''s''" by code_simp+
  have ready: "readinessLoop (pbCheckReadiness ?gw) k tm iv dl 0 u = Some (None, 1)" for k tm iv dl u
    by (subst readinessLoop.simps)
      (simp add: buildRuntimeDependencies_def bootstrapPort_def CheckReadiness_def demo_runtime_def)
  have up: "pbRunMigrations ?gw s = (None, s)"
    by (simp add: buildRuntimeDependencies_def bootstrapPort_def RunMigrations_def demo_runtime_def)
  have targets: "loadEnabledCatalogSyncTargets demo_pg s = Inr []"
    using assms(7) by (simp add: loadEnabledCatalogSyncTargets_def enabledTargets_def demo_pg_def)
  have sync: "pbSyncWallets ?gw s = (None, s)"
    using assms(1-3,6) targets t
    by (simp add: buildRuntimeDependencies_def bootstrapPort_def SyncWalletAllocationState_def Let_def
        syncDevtestWalletAllocationState_def newBootstrapGateway_def validationRules_def demo_runtime_def demo_pg_def)
  have valid: "pbValidate ?gw s = None"
    using assms(1,7) t
    by (simp add: buildRuntimeDependencies_def bootstrapPort_def ValidateAssetCatalogIntegrity_def Let_def
        newBootstrapGateway_def validationRules_def demo_runtime_def demo_pg_def mergeOverrides_def
        defaultModeStartupValidators_def)
  show ?thesis
    by (simp add: initializePersistence_def Let_def assms(4,5) ready up sync valid second_def)
qed

abbreviation demo_facts :: "config \<Rightarrow> bool" where
  "demo_facts c \<equiv> cfAllocationMode c = ''devtest'' \<and> cfKeysetHashAlgorithm c = ''hmac-sha256'' \<and>
     cfKeysetHashHMACSecret c = ''s'' \<and> cfDBReadinessTimeout c = 30 * second \<and>
     cfDBReadinessRetryInterval c = 2 * second \<and>
     preflightsByTarget (copyPreflightEntries (cfDevtestKeysetPreflights c)) \<noteq> [] \<and> rgEnabled (cfReconciler c)"

lemma demo_main:
  assumes "LoadConfig (demo_settings extra) = Inr cfg" "demo_facts cfg" "dbCatalog s = []"
  shows "reconcilerMain (demo_runtime extra) now ticks s =
    Some (ranWorker (startReconcileWorker
      (Some (buildReconcilerWorker cfg (reconcileUseCase (demo_runtime extra) cfg))) now ticks s))"
proof -
  have "rtConfig (demo_runtime extra) = demo_settings extra" by (simp add: demo_runtime_def)
  then show ?thesis
    using assms quiet_start [of cfg s extra]
    by (simp add: reconcilerMain_def initialized_def Let_def buildReconcilerWorker_def)
qed

lemma demo_runs:
  assumes "LoadConfig (demo_settings extra) = Inr cfg" "demo_facts cfg" "dbCatalog s = []"
  shows "\<exists>fin outs s'. reconcilerMain (demo_runtime extra) now ticks s = Some (Ran fin outs, s')"
proof -
  have some: "\<exists>fin outs s'. Some (ranWorker r) = Some (Ran fin outs, s')" for r :: "worker_end \<times> 'o \<times> 's"
    by (cases r) (simp add: ranWorker_def)
  show ?thesis unfolding demo_main [OF assms] by (rule some)
qed

lemma loaded_with:
  assumes "map_sum id P x = Inr True"
  obtains c where "x = Inr c" "P c"
  using assms by (cases x) auto

abbreviation overflowing :: "(string \<times> string) list" where
  "overflowing \<equiv> [(''PAYMENT_REQUEST_RECONCILER_POLL_INTERVAL_SECONDS'', ''9223372037'')]"

theorem overflowing_interval_panics_witness:
  "\<exists>fin outs s'. reconcilerMain (demo_runtime overflowing) (5 * second) [(20 * second, id)] (demo_db ''pending'' []) =
      Some (Ran fin outs, s') \<and> fin = TickerPanic \<and> length outs = 1"
proof -
  have ok: "map_sum id (\<lambda>c. demo_facts c) (LoadConfig (demo_settings overflowing)) = Inr True" by code_simp
  from loaded_with [OF ok] obtain cfg where cfg: "LoadConfig (demo_settings overflowing) = Inr cfg"
    and facts: "demo_facts cfg" .
  have empty: "dbCatalog (demo_db ''pending'' []) = []" by (simp add: demo_db_def empty_db_def)
  obtain fin outs s' where run: "reconcilerMain (demo_runtime overflowing) (5 * second) [(20 * second, id)]
      (demo_db ''pending'' []) = Some (Ran fin outs, s')"
    using demo_runs [OF cfg facts empty] by blast
  have key: "Atoi (setting (rtConfig (demo_runtime overflowing)) ''PAYMENT_REQUEST_RECONCILER_POLL_INTERVAL_SECONDS'') =
      Some 9223372037" by code_simp
  show ?thesis using overflowing_interval_panics [OF key _ _ run] run by simp
qed

theorem process_moves_along_edges_witness:
  "\<exists>fin outs s' b. reconcilerMain (demo_runtime []) (5 * second) [(20 * second, \<lambda>s. s)] (demo_db ''pending'' []) =
      Some (Ran fin outs, s') \<and> request_status s' ''pr_1'' = Some b \<and> edge\<^sup>*\<^sup>* ''pending'' b"
proof -
  have ok: "map_sum id (\<lambda>c. demo_facts c) (LoadConfig (demo_settings [])) = Inr True" by code_simp
  from loaded_with [OF ok] obtain cfg where cfg: "LoadConfig (demo_settings []) = Inr cfg"
    and facts: "demo_facts cfg" .
  have empty: "dbCatalog (demo_db ''pending'' []) = []" by (simp add: demo_db_def empty_db_def)
  obtain fin outs s' where run: "reconcilerMain (demo_runtime []) (5 * second) [(20 * second, \<lambda>s. s)]
      (demo_db ''pending'' []) = Some (Ran fin outs, s')"
    using demo_runs [OF cfg facts empty] by blast
  have keep: "migrationsKeep (rtBootstrap (demo_runtime []))"
    by (simp add: migrationsKeep_def demo_runtime_def storeKept_refl)
  have st: "request_status (demo_db ''pending'' []) ''pr_1'' = Some ''pending''"
    by (simp add: request_status_def demo_db_def demo_request_def)
  from process_moves_along_edges [OF run keep _ st] run show ?thesis by auto
qed

end
