(* ===== verification/ServerProps.thy ===== *)
theory ServerProps
  imports RuntimeProps CreationProps OutboxOpsProps
begin

text \<open>
  Properties of the running server: what a single HTTP request can change, and the statuses over
  the life of a server whose worker runs beside the requests.
\<close>

subsection \<open>The effect of a creation\<close>

lemma Create_effect:
  "\<exists>k. snd (Create pg world resolver c s) = seen world k s \<or>
     (\<exists>row record ws. snd (Create pg world resolver c s) = stored (seen world k s) row record ws)"
proof -
  obtain r s' where run: "Create pg world resolver c s = (r, s')" by (rule prod.exhaust)
  have "noTrace world s s' \<or> (\<exists>w al q. created pg world c w al s q s')"
    using Create_outcome [OF run] by (fastforce split: sum.split_asm if_split_asm)
  then show ?thesis unfolding run noTrace_def created_def by auto
qed

lemma createExecute_effect:
  assumes "enRepository u = Some repository"
  shows "snd (createExecute u c s) = s \<or>
    (\<exists>resolver command. snd (createExecute u c s) = snd (repository resolver command s))"
  using assms by (auto simp: createExecute_def split: option.splits sum.splits)

lemma CreatePaymentRequest_effect:
  "snd (CreatePaymentRequest execute p m k body s) = s \<or>
   (\<exists>c. snd (CreatePaymentRequest execute p m k body s) = snd (execute c s))"
proof (cases "parseCreatePaymentRequestPayload body")
  case (Inr payload)
  obtain r s' where "execute (createCommandOf p m k payload) s = (r, s')" by (rule prod.exhaust)
  then show ?thesis by (cases r) (auto simp: CreatePaymentRequest_def Inr intro!: exI [of _ "createCommandOf p m k payload"])
qed (simp add: CreatePaymentRequest_def)

subsection \<open>The effect of an operator\<close>

definition outboxOnly :: "db \<Rightarrow> db \<Rightarrow> bool" where
  "outboxOnly s s' \<longleftrightarrow> (\<exists>rows. s' = s\<lparr>dbOutbox := rows\<rparr>)"

lemma outboxOnly_refl [simp]: "outboxOnly s s"
  unfolding outboxOnly_def by (rule exI [of _ "dbOutbox s"]) simp

lemma act_effect: "outboxOnly s (snd (act pg stmt code msg eid ok change out s))"
proof -
  obtain q s' where run: "mutationWithStatus pg stmt eid ok change s = (q, s')" by (rule prod.exhaust)
  then have "outboxOnly s s'" by (rule mutation_cases) (auto simp: outboxOnly_def)
  then show ?thesis by (simp add: act_def run split: sum.split option.split)
qed

lemma operator_effect:
  "outboxOnly s (snd (requeueExecute (Some (RequeueFailedByEventID pg)) clock eid who now s))"
  "outboxOnly s (snd (cancelExecute (Some (CancelByEventID pg)) clock eid who reason now s))"
  unfolding requeueExecute_act cancelExecute_act by (simp_all add: act_effect split: option.split)

lemma RequeueHandler_effect:
  "snd (RequeueHandler (outboxController pg clock keys) auth who eid now s) = s \<or>
   (requireAdminAuth (cloneNonEmptyStrings keys) auth = None \<and>
    outboxOnly s (snd (RequeueHandler (outboxController pg clock keys) auth who eid now s)))"
proof (cases "requireAdminAuth (cloneNonEmptyStrings keys) auth")
  case None
  then show ?thesis using RequeueHandler_open [OF None] operator_effect(1) by simp
qed (simp add: RequeueHandler_def controller_simps)

lemma CancelHandler_effect:
  "snd (CancelHandler (outboxController pg clock keys) auth who eid body now s) = s \<or>
   (requireAdminAuth (cloneNonEmptyStrings keys) auth = None \<and>
    outboxOnly s (snd (CancelHandler (outboxController pg clock keys) auth who eid body now s)))"
proof (cases "requireAdminAuth (cloneNonEmptyStrings keys) auth")
  case None
  show ?thesis
  proof (cases "parseWebhookCancelPayload body")
    case (Inr reason)
    then show ?thesis using None CancelHandler_open [OF None Inr] operator_effect(2) by simp
  qed (simp add: CancelHandler_def controller_simps None)
qed (simp add: CancelHandler_def controller_simps)

subsection \<open>The effect of a request\<close>

lemma serverRouter_simps [simp]:
  "hdOutbox (serverRouter w cfg wallet) now = outboxController (rtPG w) now (cfWebhookOpsAdminKeys cfg)"
  "enRepository (hdCreate (serverRouter w cfg wallet)) = Some (Create (rtPG w) (rtInterleave w))"
  by (simp_all add: serverRouter_def Let_def)

lemma createFor_effect:
  "snd (createFor (serverRouter w cfg wallet) r c s) = s \<or>
   (\<exists>resolver command. snd (createFor (serverRouter w cfg wallet) r c s) =
      snd (Create (rtPG w) (rtInterleave w) resolver command s))"
  unfolding createFor_def by (rule createExecute_effect) simp

lemma serve_effect:
  assumes "serve hw (serverRouter w cfg wallet) r s = (answer, s')"
  obtains (idle) "s' = s"
  | (created) resolver command where "hqMethod r = ''POST''"
      "s' = snd (Create (rtPG w) (rtInterleave w) resolver command s)"
  | (operated) "hqMethod r = ''POST''" "outboxOnly s s'"
      "requireAdminAuth (cloneNonEmptyStrings (cfWebhookOpsAdminKeys cfg)) (hqHeader r ''Authorization'') = None"
proof (cases "findHandler (hqMethod r) (hqPath r)")
  case (Handled target ids)
  have s': "s' = snd (handle hw (serverRouter w cfg wallet) r target ids s)"
    using assms by (simp add: serve_def Handled)
  show thesis
  proof (cases "target \<in> {RouteCreate, RouteRequeue, RouteCancel}")
    case True
    then have post: "hqMethod r = ''POST''" using findHandler_post [OF Handled] by blast
    consider "target = RouteCreate" | "target = RouteRequeue" | "target = RouteCancel" using True by blast
    then show thesis
    proof cases
      case 1
      with s' CreatePaymentRequest_effect createFor_effect show thesis
        unfolding handle_def Let_def by (metis (no_types) idle created post route.case(6))
    next
      case 2
      with s' RequeueHandler_effect show thesis
        unfolding handle_def Let_def serverRouter_simps by (metis (no_types) idle operated post route.case(11))
    next
      case 3
      with s' CancelHandler_effect show thesis
        unfolding handle_def Let_def serverRouter_simps by (metis (no_types) idle operated post route.case(12))
    qed
  next
    case False
    then show thesis using s' by (intro idle) (cases target; simp add: handle_def)
  qed
qed (use assms in \<open>auto simp: serve_def intro: idle\<close>)

lemma buildServer_router:
  assumes "buildServer w cfg = Inr srv"
  obtains wallet where "scRouter srv = serverRouter w cfg wallet"
    "scReconciler srv = buildReconcilerWorker cfg (reconcileUseCase w cfg)"
  using assms by (auto simp: buildServer_def split: sum.split_asm)

lemma admin_key:
  "requireAdminAuth (cloneNonEmptyStrings keys) auth = None \<longleftrightarrow>
     extractAdminToken auth \<noteq> [] \<and> (\<exists>key \<in> set keys. TrimSpace key = extractAdminToken auth)"
  unfolding auth_cases by (auto simp: cloneNonEmptyStrings_def list_ex_iff filter_empty_conv)

lemma seen_idle: "seen (\<lambda>_ s. s) k s = s"
  by (induction k) (simp_all add: seen.simps)

text \<open>
  C15. What a request to the server can do: a request that is not a POST changes nothing, whatever
  its path, headers and body; the outbox changes only for a request that carries one of the
  configured admin keys; a request adds at most one payment request and changes none that is there,
  and it never touches settlements or the asset catalog.
\<close>

theorem requests_are_confined:
  assumes "buildServer w cfg = Inr srv" "rtInterleave w = (\<lambda>_ s. s)"
    and "serve hw (scRouter srv) r s = (answer, s')"
  shows "(hqMethod r \<noteq> ''POST'' \<longrightarrow> s' = s) \<and>
    (dbOutbox s' \<noteq> dbOutbox s \<longrightarrow> extractAdminToken (hqHeader r ''Authorization'') \<noteq> [] \<and>
      (\<exists>key \<in> set (cfWebhookOpsAdminKeys cfg). TrimSpace key = extractAdminToken (hqHeader r ''Authorization''))) \<and>
    (\<exists>new. dbRequests s' = dbRequests s @ new \<and> length new \<le> 1) \<and>
    dbSettlements s' = dbSettlements s \<and> dbCatalog s' = dbCatalog s"
proof -
  obtain wallet where router: "scRouter srv = serverRouter w cfg wallet"
    using buildServer_router [OF assms(1)] by blast
  from assms(3) [unfolded router] show ?thesis
  proof (cases rule: serve_effect)
    case (created resolver command)
    then show ?thesis
      using Create_effect [of "rtPG w" "\<lambda>_ s. s" resolver command s]
      by (auto simp: assms(2) seen_idle stored_def)
  next
    case operated
    then show ?thesis by (auto simp: outboxOnly_def admin_key)
  qed simp
qed

subsection \<open>The statuses under a running server\<close>







subsection \<open>A server\<close>

definition demo_http_world :: http_world where
  "demo_http_world = \<lparr>hwReadFile = (\<lambda>_. None), hwSwaggerUI = (\<lambda>_. okResponse GNil), hwRenderURL = id\<rparr>"

definition demo_requeue :: http_request where
  "demo_requeue =
     \<lparr>hqMethod = ''POST'', hqPath = ''/v1/webhook-outbox/dlq/e1/requeue'', hqHeader = (\<lambda>_. ''Bearer key''),
      hqLimit = [], hqCreateBody = Inl ''EOF'', hqCancelBody = None, hqNow = 5 * second,
      hqRandom = (\<lambda>_. Inr [])\<rparr>"

lemma demo_builds:
  assumes "cfAllocationMode cfg = ''devtest''"
  obtains srv where "buildServer w cfg = Inr srv"
proof -
  have "ToLower (TrimSpace ''devtest'') = ''devtest''" by code_simp
  then have "is_ok (buildServer w cfg)"
    by (simp add: buildServer_def buildWalletGateway_def walletGatewayBuilders_def assms is_ok_def)
  then show thesis using that by (auto simp: is_ok_iff)
qed

theorem requests_are_confined_witness:
  "\<exists>cfg srv answer s'. LoadConfig (demo_settings []) = Inr cfg \<and> buildServer (demo_runtime []) cfg = Inr srv \<and>
     serve demo_http_world (scRouter srv) demo_requeue (demo_db ''pending'' []) = (answer, s') \<and>
     dbOutbox s' = dbOutbox (demo_db ''pending'' [])"
proof -
  have "map_sum id (\<lambda>c. cfAllocationMode c = ''devtest'' \<and> cfWebhookOpsAdminKeys c = [])
      (LoadConfig (demo_settings [])) = Inr True" by code_simp
  from loaded_with [OF this] obtain cfg where cfg: "LoadConfig (demo_settings []) = Inr cfg"
    and facts: "cfAllocationMode cfg = ''devtest'' \<and> cfWebhookOpsAdminKeys cfg = []" .
  from demo_builds [OF facts [THEN conjunct1]] obtain srv where srv: "buildServer (demo_runtime []) cfg = Inr srv" .
  obtain answer s' where run: "serve demo_http_world (scRouter srv) demo_requeue (demo_db ''pending'' []) = (answer, s')"
    by (rule prod.exhaust)
  have "rtInterleave (demo_runtime []) = (\<lambda>_ s. s)" by (simp add: demo_runtime_def)
  from requests_are_confined [OF srv this run] have "dbOutbox s' = dbOutbox (demo_db ''pending'' [])"
    unfolding facts [THEN conjunct2] by auto
  with cfg srv run show ?thesis by blast
qed



end
